(* ===== verification/Prelude.thy ===== *)
theory Prelude
  imports Main
begin

text \<open>
  What every component shares: the failures of the code as values, the programs of the model
  (functions from a state to a result or a failure and the state left behind, which is how a
  JavaScript call that may throw behaves), loops over lists, and the rules by which the later
  theories run such programs symbolically and show that they keep an invariant.

  JavaScript strings are \<^typ>\<open>string\<close> (one character per code unit, restricted to Latin-1),
  numbers that hold counters, versions or milliseconds and all bigints are \<^typ>\<open>int\<close>,
  \<open>undefined\<close> and \<open>null\<close> are \<open>None\<close>. Byte buffers are also \<^typ>\<open>string\<close>: a character is
  a byte.
\<close>

type_synonym bytes = string

section \<open>Failures\<close>

text \<open>The codes of @connectrpc/connect that the sources name.\<close>

datatype connect_code =
    CInvalidArgument | CUnauthenticated | CPermissionDenied | CNotFound | CFailedPrecondition
  | CAlreadyExists | CResourceExhausted | COutOfRange | CCanceled | CUnavailable | CInternal

text \<open>
  What a call can throw: the application's own error (its code and HTTP status, the localized
  message left out), a protocol error (message and code), a failed input validation, an error of
  the SQL driver (a violated constraint), an error of Node or SQLite that is told by its code, and any
  other exception.
\<close>

datatype failure =
    AppError string int
  | ConnectError string connect_code
  | ZodError
  | SqlError
  | NodeError string
  | JsError

section \<open>Programs\<close>

named_theorems prog_run \<open>equations that run a program\<close>
named_theorems prog_ok \<open>when a program returns, and in which state\<close>
named_theorems prog_fail \<open>when a program throws, and in which state\<close>
named_theorems keeps_rules \<open>rules that show that a program keeps an invariant\<close>

type_synonym ('s, 'a) prog = "'s \<Rightarrow> (failure + 'a) \<times> 's"

definition return :: "'a \<Rightarrow> ('s, 'a) prog" where
  "return a s = (Inr a, s)"

definition throw :: "failure \<Rightarrow> ('s, 'a) prog" where
  "throw e s = (Inl e, s)"

definition bind :: "('s, 'a) prog \<Rightarrow> ('a \<Rightarrow> ('s, 'b) prog) \<Rightarrow> ('s, 'b) prog" where
  "bind p f s = (case p s of (Inl e, t) \<Rightarrow> (Inl e, t) | (Inr a, t) \<Rightarrow> f a t)"

definition gets :: "('s \<Rightarrow> 'a) \<Rightarrow> ('s, 'a) prog" where
  "gets f s = (Inr (f s), s)"

definition modify :: "('s \<Rightarrow> 's) \<Rightarrow> ('s, unit) prog" where
  "modify f s = (Inr (), f s)"

definition require :: "bool \<Rightarrow> failure \<Rightarrow> ('s, unit) prog" where
  "require b e = (if b then return () else throw e)"

definition the_or :: "'a option \<Rightarrow> failure \<Rightarrow> ('s, 'a) prog" where
  "the_or x e = (case x of None \<Rightarrow> throw e | Some a \<Rightarrow> return a)"

definition lift_sum :: "failure + 'a \<Rightarrow> ('s, 'a) prog" where
  "lift_sum r s = (r, s)"

definition attempt :: "('s, 'a) prog \<Rightarrow> (failure \<Rightarrow> ('s, 'a) prog) \<Rightarrow> ('s, 'a) prog" where
  "attempt p h s = (case p s of (Inl e, t) \<Rightarrow> h e t | (Inr a, t) \<Rightarrow> (Inr a, t))"

text \<open>A \<open>for .. of\<close> loop, and one that threads a local variable through its body.\<close>

primrec for_each :: "'a list \<Rightarrow> ('a \<Rightarrow> ('s, unit) prog) \<Rightarrow> ('s, unit) prog" where
  "for_each [] f = return ()"
| "for_each (x # xs) f = bind (f x) (\<lambda>_. for_each xs f)"

primrec fold_each :: "'a list \<Rightarrow> 'b \<Rightarrow> ('a \<Rightarrow> 'b \<Rightarrow> ('s, 'b) prog) \<Rightarrow> ('s, 'b) prog" where
  "fold_each [] b f = return b"
| "fold_each (x # xs) b f = bind (f x b) (\<lambda>c. fold_each xs c f)"

lemma return_run [prog_run, simp]: "return a s = (Inr a, s)"
  by (simp add: return_def)

lemma throw_run [prog_run, simp]: "throw e s = (Inl e, s)"
  by (simp add: throw_def)

lemma gets_run [prog_run, simp]: "gets f s = (Inr (f s), s)"
  by (simp add: gets_def)

lemma modify_run [prog_run, simp]: "modify f s = (Inr (), f s)"
  by (simp add: modify_def)

lemma lift_sum_run [prog_run, simp]: "lift_sum r s = (r, s)"
  by (simp add: lift_sum_def)

lemma require_run [prog_run]: "require b e s = (if b then (Inr (), s) else (Inl e, s))"
  by (simp add: require_def)

lemma the_or_run [prog_run]:
  "the_or x e s = (case x of None \<Rightarrow> (Inl e, s) | Some a \<Rightarrow> (Inr a, s))"
  by (simp add: the_or_def split: option.split)

lemma the_or_simps [simp]: "the_or (Some a) e = return a" "the_or None e = throw e"
  by (simp_all add: the_or_def)

lemma require_simps [simp]: "require True e = return ()" "require False e = throw e"
  by (simp_all add: require_def)

lemma bind_run [prog_run]:
  "bind p f s = (case fst (p s) of Inl e \<Rightarrow> (Inl e, snd (p s)) | Inr a \<Rightarrow> f a (snd (p s)))"
  by (simp add: bind_def split: prod.split sum.split)

lemma attempt_run [prog_run]:
  "attempt p h s = (case fst (p s) of Inl e \<Rightarrow> h e (snd (p s)) | Inr a \<Rightarrow> (Inr a, snd (p s)))"
  by (simp add: attempt_def split: prod.split sum.split)

text \<open>Running a program on a given state, one statement after the other.\<close>

named_theorems steps_run \<open>conditional equations that run a program on a concrete state\<close>

lemma bind_Inr [steps_run]: "p s = (Inr a, t) \<Longrightarrow> bind p f s = f a t"
  by (simp add: bind_def)

lemma bind_Inl [steps_run]: "p s = (Inl e, t) \<Longrightarrow> bind p f s = (Inl e, t)"
  by (simp add: bind_def)

lemma bind_return [simp]: "bind (return a) f = f a"
  by (rule ext) (simp add: bind_def)

lemma bind_throw [simp]: "bind (throw e) f = throw e"
  by (rule ext) (simp add: bind_def)

lemma bind_gets [simp]: "bind (gets g) f s = f (g s) s"
  by (simp add: bind_def)

lemma bind_modify [simp]: "bind (modify g) f s = f () (g s)"
  by (simp add: bind_def)

section \<open>When a program returns, and when it throws\<close>

lemma return_ok [prog_ok]: "return a s = (Inr b, t) \<longleftrightarrow> b = a \<and> t = s"
  by auto

lemma throw_ok [prog_ok]: "throw e s = (Inr b, t) \<longleftrightarrow> False"
  by simp

lemma gets_ok [prog_ok]: "gets f s = (Inr b, t) \<longleftrightarrow> b = f s \<and> t = s"
  by auto

lemma modify_ok [prog_ok]: "modify f s = (Inr b, t) \<longleftrightarrow> t = f s"
  by auto

lemma require_ok [prog_ok]: "require c e s = (Inr b, t) \<longleftrightarrow> c \<and> t = s"
  by (auto simp: require_run split: if_splits)

lemma the_or_ok [prog_ok]: "the_or x e s = (Inr b, t) \<longleftrightarrow> x = Some b \<and> t = s"
  by (auto simp: the_or_run split: option.splits)

lemma lift_sum_ok [prog_ok]: "lift_sum r s = (Inr b, t) \<longleftrightarrow> r = Inr b \<and> t = s"
  by auto

lemma bind_ok [prog_ok]:
  "bind p f s = (Inr b, t) \<longleftrightarrow> (\<exists>a u. p s = (Inr a, u) \<and> f a u = (Inr b, t))"
  by (auto simp: bind_def split: prod.splits sum.splits)

lemma return_fail [prog_fail]: "return a s = (Inl e, t) \<longleftrightarrow> False"
  by simp

lemma throw_fail [prog_fail]: "throw e s = (Inl e', t) \<longleftrightarrow> e' = e \<and> t = s"
  by auto

lemma gets_fail [prog_fail]: "gets f s = (Inl e, t) \<longleftrightarrow> False"
  by simp

lemma modify_fail [prog_fail]: "modify f s = (Inl e, t) \<longleftrightarrow> False"
  by simp

lemma require_fail [prog_fail]: "require c e s = (Inl e', t) \<longleftrightarrow> \<not> c \<and> e' = e \<and> t = s"
  by (auto simp: require_run split: if_splits)

lemma the_or_fail [prog_fail]: "the_or x e s = (Inl e', t) \<longleftrightarrow> x = None \<and> e' = e \<and> t = s"
  by (auto simp: the_or_run split: option.splits)

lemma lift_sum_fail [prog_fail]: "lift_sum r s = (Inl e, t) \<longleftrightarrow> r = Inl e \<and> t = s"
  by auto

lemma bind_fail [prog_fail]:
  "bind p f s = (Inl e, t) \<longleftrightarrow>
     p s = (Inl e, t) \<or> (\<exists>a u. p s = (Inr a, u) \<and> f a u = (Inl e, t))"
  by (auto simp: bind_def split: prod.splits sum.splits)

section \<open>Keeping an invariant\<close>

text \<open>
  \<open>keeps I p\<close>: whatever \<open>p\<close> does, returning or throwing, \<open>I\<close> still holds of the state it
  leaves behind.
\<close>

definition keeps :: "('s \<Rightarrow> bool) \<Rightarrow> ('s, 'a) prog \<Rightarrow> bool" where
  "keeps I p \<longleftrightarrow> (\<forall>s. I s \<longrightarrow> I (snd (p s)))"

lemma keepsI: "(\<And>s. I s \<Longrightarrow> I (snd (p s))) \<Longrightarrow> keeps I p"
  by (simp add: keeps_def)

lemma keepsD: "keeps I p \<Longrightarrow> I s \<Longrightarrow> p s = (r, t) \<Longrightarrow> I t"
  by (auto simp: keeps_def dest: spec [of _ s])

lemma keeps_return [keeps_rules]: "keeps I (return a)"
  by (simp add: keeps_def)

lemma keeps_throw [keeps_rules]: "keeps I (throw e)"
  by (simp add: keeps_def)

lemma keeps_gets [keeps_rules]: "keeps I (gets f)"
  by (simp add: keeps_def)

lemma keeps_lift_sum [keeps_rules]: "keeps I (lift_sum r)"
  by (simp add: keeps_def)

lemma keeps_require [keeps_rules]: "keeps I (require b e)"
  by (simp add: keeps_def require_run)

lemma keeps_the_or [keeps_rules]: "keeps I (the_or x e)"
  by (simp add: keeps_def the_or_run split: option.split)

lemma keeps_modify [keeps_rules]: "(\<And>s. I s \<Longrightarrow> I (f s)) \<Longrightarrow> keeps I (modify f)"
  by (simp add: keeps_def)

lemma keeps_bind [keeps_rules]:
  assumes "keeps I p" and "\<And>a. keeps I (f a)"
  shows "keeps I (bind p f)"
  using assms by (auto simp: keeps_def bind_run split: sum.split)

lemma keeps_if [keeps_rules]: "keeps I p \<Longrightarrow> keeps I q \<Longrightarrow> keeps I (if b then p else q)"
  by simp

lemma keeps_option [keeps_rules]:
  "keeps I p \<Longrightarrow> (\<And>a. keeps I (f a)) \<Longrightarrow> keeps I (case x of None \<Rightarrow> p | Some a \<Rightarrow> f a)"
  by (simp split: option.split)

lemma keeps_attempt [keeps_rules]:
  assumes "keeps I p" and "\<And>e. keeps I (h e)"
  shows "keeps I (attempt p h)"
  using assms by (auto simp: keeps_def attempt_run split: sum.split)

lemma keeps_for_each [keeps_rules]: "(\<And>x. keeps I (f x)) \<Longrightarrow> keeps I (for_each xs f)"
  by (induction xs) (simp_all add: keeps_return keeps_bind)

lemma keeps_fold_each [keeps_rules]:
  "(\<And>x b. keeps I (f x b)) \<Longrightarrow> keeps I (fold_each xs b f)"
  by (induction xs arbitrary: b) (simp_all add: keeps_return keeps_bind)

section \<open>Transition systems\<close>

text \<open>
  The interface of a component seen as a state machine: a start state, a step relation and a
  property that holds at the start and that every step keeps. Its client fact: the property holds
  in every state that can be reached.
\<close>

inductive reach :: "('s \<Rightarrow> bool) \<Rightarrow> ('s \<Rightarrow> 's \<Rightarrow> bool) \<Rightarrow> 's \<Rightarrow> bool"
  for init :: "'s \<Rightarrow> bool" and step :: "'s \<Rightarrow> 's \<Rightarrow> bool" where
  reach_init: "init s \<Longrightarrow> reach init step s"
| reach_step: "reach init step s \<Longrightarrow> step s t \<Longrightarrow> reach init step t"

locale transition_system =
  fixes init :: "'s \<Rightarrow> bool"
    and step :: "'s \<Rightarrow> 's \<Rightarrow> bool"
    and inv :: "'s \<Rightarrow> bool"
  assumes init_inv: "init s \<Longrightarrow> inv s"
    and step_inv: "inv s \<Longrightarrow> step s t \<Longrightarrow> inv t"
begin

lemma reach_inv: "reach init step s \<Longrightarrow> inv s"
  by (induction rule: reach.induct) (auto intro: init_inv step_inv)

lemma steps_inv: "step\<^sup>*\<^sup>* s t \<Longrightarrow> inv s \<Longrightarrow> inv t"
  by (induction rule: rtranclp_induct) (auto intro: step_inv)

end

section \<open>Lists and options\<close>

lemma find_Some_mem: "find P xs = Some x \<Longrightarrow> x \<in> set xs \<and> P x"
  by (induction xs) (auto split: if_splits)

lemma find_None_all: "find P xs = None \<longleftrightarrow> (\<forall>x \<in> set xs. \<not> P x)"
  by (induction xs) auto

lemma sum_list_map_add:
  "(\<Sum>x\<leftarrow>xs. f x + g x) = (\<Sum>x\<leftarrow>xs. f x) + (\<Sum>x\<leftarrow>xs. g x :: int)"
  by (induction xs) auto

lemma sum_list_nonneg_int: "(\<And>x. x \<in> set xs \<Longrightarrow> 0 \<le> f x) \<Longrightarrow> 0 \<le> (\<Sum>x\<leftarrow>xs. f x :: int)"
  by (induction xs) auto

end
