(* ===== verification/Text.thy ===== *)
theory Text
  imports Prelude
begin

text \<open>
  The text functions of the JavaScript standard library that the sources call: decimal rendering
  and parsing of integers (\<open>String(n)\<close>, \<open>bigint.toString()\<close>, \<open>BigInt(text)\<close>), \<open>padStart\<close>,
  \<open>startsWith\<close>, \<open>split\<close> and \<open>join\<close>, and the character classes of the regular expressions. The
  round trip of the decimal rendering is what lets the tables hold a TEXT column of decimal digits
  as the integer it denotes.
\<close>

section \<open>Character classes and anchored patterns\<close>

definition is_digit :: "char \<Rightarrow> bool" where
  "is_digit c \<longleftrightarrow> c \<in> set ''0123456789''"

definition is_lower :: "char \<Rightarrow> bool" where
  "is_lower c \<longleftrightarrow> c \<in> set ''abcdefghijklmnopqrstuvwxyz''"

definition is_upper :: "char \<Rightarrow> bool" where
  "is_upper c \<longleftrightarrow> c \<in> set ''ABCDEFGHIJKLMNOPQRSTUVWXYZ''"

definition is_alnum :: "char \<Rightarrow> bool" where
  "is_alnum c \<longleftrightarrow> is_digit c \<or> is_lower c \<or> is_upper c"

text \<open>\<open>[A-Za-z0-9_-]\<close>, \<open>[a-f0-9]\<close> and \<open>[a-fA-F0-9]\<close>\<close>

definition is_token_char :: "char \<Rightarrow> bool" where
  "is_token_char c \<longleftrightarrow> is_alnum c \<or> c = CHR ''_'' \<or> c = CHR ''-''"

definition is_hex_lower :: "char \<Rightarrow> bool" where
  "is_hex_lower c \<longleftrightarrow> is_digit c \<or> c \<in> set ''abcdef''"

text \<open>\<open>/^[class]{lo,hi}$/.test(s)\<close>\<close>

definition matches :: "(char \<Rightarrow> bool) \<Rightarrow> nat \<Rightarrow> nat \<Rightarrow> string \<Rightarrow> bool" where
  "matches cls lo hi s \<longleftrightarrow> lo \<le> length s \<and> length s \<le> hi \<and> list_all cls s"

text \<open>The SHA-256 digests in hexadecimal: \<open>/^[a-f0-9]{64}$/\<close>\<close>

definition is_sha256_hex :: "string \<Rightarrow> bool" where
  "is_sha256_hex s \<longleftrightarrow> matches is_hex_lower 64 64 s"

section \<open>startsWith, split, join, padStart\<close>

definition startsWith :: "string \<Rightarrow> string \<Rightarrow> bool" where
  "startsWith s p \<longleftrightarrow> take (length p) s = p"

fun split_on :: "char \<Rightarrow> string \<Rightarrow> string list" where
  "split_on c [] = [[]]"
| "split_on c (x # xs) =
     (if x = c then [] # split_on c xs
      else (case split_on c xs of [] \<Rightarrow> [[x]] | w # ws \<Rightarrow> (x # w) # ws))"

fun join_with :: "char \<Rightarrow> string list \<Rightarrow> string" where
  "join_with c [] = []"
| "join_with c [w] = w"
| "join_with c (w # v # ws) = w @ [c] @ join_with c (v # ws)"

definition padStart :: "string \<Rightarrow> nat \<Rightarrow> char \<Rightarrow> string" where
  "padStart s n c = replicate (n - length s) c @ s"

lemma startsWith_append [simp]: "startsWith (p @ s) p"
  by (simp add: startsWith_def)

lemma split_on_nonempty [simp]: "split_on c s \<noteq> []"
  by (induction s) (auto split: list.split)

lemma split_on_word: "c \<notin> set w \<Longrightarrow> split_on c w = [w]"
  by (induction w) auto

lemma split_on_append: "c \<notin> set w \<Longrightarrow> split_on c (w @ c # s) = w # split_on c s"
  by (induction w) auto

text \<open>Splitting undoes joining when no word holds the separator.\<close>

lemma split_join:
  "ws \<noteq> [] \<Longrightarrow> (\<And>w. w \<in> set ws \<Longrightarrow> c \<notin> set w) \<Longrightarrow> split_on c (join_with c ws) = ws"
  by (induction c ws rule: join_with.induct) (auto simp: split_on_word split_on_append)

section \<open>Decimal integers\<close>

definition digit_char :: "nat \<Rightarrow> char" where
  "digit_char d = char_of (48 + d)"

definition char_digit :: "char \<Rightarrow> nat option" where
  "char_digit c = (if is_digit c then Some (of_char c - 48) else None)"

fun decimal_nat :: "nat \<Rightarrow> string" where
  "decimal_nat n =
     (if n < 10 then [digit_char n] else decimal_nat (n div 10) @ [digit_char (n mod 10)])"

declare decimal_nat.simps [simp del]

definition decimal :: "int \<Rightarrow> string" where
  "decimal i = (if i < 0 then CHR ''-'' # decimal_nat (nat (- i)) else decimal_nat (nat i))"

text \<open>Digits read from the left; \<open>None\<close> is the exception of \<open>BigInt\<close> on other text.\<close>

fun parse_digits :: "nat \<Rightarrow> string \<Rightarrow> nat option" where
  "parse_digits acc [] = Some acc"
| "parse_digits acc (c # cs) =
     (case char_digit c of None \<Rightarrow> None | Some d \<Rightarrow> parse_digits (10 * acc + d) cs)"

definition parse_bigint :: "string \<Rightarrow> int option" where
  "parse_bigint s =
     (case s of [] \<Rightarrow> Some 0
      | c # cs \<Rightarrow> (if c = CHR ''-'' \<and> cs \<noteq> [] then map_option (\<lambda>n. - int n) (parse_digits 0 cs)
                  else map_option int (parse_digits 0 s)))"

lemma digit_char_cases:
  assumes "d < 10"
  shows "char_digit (digit_char d) = Some d \<and> digit_char d \<noteq> CHR ''-'' \<and> is_digit (digit_char d)"
proof -
  have "\<forall>d \<in> set [0..<10]. char_digit (digit_char d) = Some d \<and> digit_char d \<noteq> CHR ''-''
    \<and> is_digit (digit_char d)"
    by code_simp
  with assms show ?thesis by simp
qed

lemma parse_digits_append:
  "parse_digits acc (s @ t) = Option.bind (parse_digits acc s) (\<lambda>a. parse_digits a t)"
  by (induction s arbitrary: acc) (auto split: option.split)

lemma parse_decimal_nat: "\<exists>k. \<forall>acc. parse_digits acc (decimal_nat n) = Some (acc * 10 ^ k + n)"
proof (induction n rule: decimal_nat.induct)
  case (1 n)
  show ?case
  proof (cases "n < 10")
    case True
    then have "\<forall>acc. parse_digits acc (decimal_nat n) = Some (acc * 10 ^ 1 + n)"
      by (subst decimal_nat.simps) (simp add: digit_char_cases)
    then show ?thesis by blast
  next
    case False
    with "1.IH" obtain k where
      k: "\<And>acc. parse_digits acc (decimal_nat (n div 10)) = Some (acc * 10 ^ k + n div 10)"
      by blast
    have "parse_digits acc (decimal_nat n) = Some (acc * 10 ^ Suc k + n)" for acc
      using False
      by (subst decimal_nat.simps) (simp add: parse_digits_append k digit_char_cases algebra_simps)
    then show ?thesis by blast
  qed
qed

lemma decimal_nat_Cons: "\<exists>c cs. decimal_nat n = c # cs \<and> c \<noteq> CHR ''-''"
proof (induction n rule: decimal_nat.induct)
  case (1 n)
  show ?case
  proof (cases "n < 10")
    case True
    then show ?thesis by (subst decimal_nat.simps) (simp add: digit_char_cases)
  next
    case False
    with "1.IH" obtain c cs where "decimal_nat (n div 10) = c # cs" "c \<noteq> CHR ''-''" by blast
    with False show ?thesis by (subst decimal_nat.simps) simp
  qed
qed

lemma parse_digits_decimal: "parse_digits 0 (decimal_nat n) = Some n"
proof -
  obtain k where "\<forall>acc. parse_digits acc (decimal_nat n) = Some (acc * 10 ^ k + n)"
    using parse_decimal_nat by blast
  then have "parse_digits 0 (decimal_nat n) = Some (0 * 10 ^ k + n)" by blast
  then show ?thesis by simp
qed

text \<open>The decimal rendering of an integer reads back as that integer.\<close>

lemma parse_decimal: "parse_bigint (decimal i) = Some i"
proof (cases "i < 0")
  case True
  obtain c cs where "decimal_nat (nat (- i)) = c # cs" using decimal_nat_Cons by blast
  with True parse_digits_decimal [of "nat (- i)"] show ?thesis
    by (simp add: parse_bigint_def decimal_def)
next
  case False
  obtain c cs where "decimal_nat (nat i) = c # cs" "c \<noteq> CHR ''-''"
    using decimal_nat_Cons by blast
  with False parse_digits_decimal [of "nat i"] show ?thesis
    by (simp add: parse_bigint_def decimal_def)
qed

lemma decimal_inj: "decimal i = decimal j \<longleftrightarrow> i = j"
  by (metis parse_decimal option.inject)

section \<open>Integer division of bigints\<close>

text \<open>\<open>/\<close> on bigints truncates towards zero; a zero divisor is a RangeError.\<close>

definition bigint_div :: "int \<Rightarrow> int \<Rightarrow> int" where
  "bigint_div a b = sgn a * sgn b * (\<bar>a\<bar> div \<bar>b\<bar>)"

lemma bigint_div_nonneg: "0 \<le> a \<Longrightarrow> 0 < b \<Longrightarrow> bigint_div a b = a div b"
  by (cases "a = 0") (simp_all add: bigint_div_def)

end
