(* ===== verification/Messages.thy ===== *)
theory Messages
  imports Complex_Main Text
begin

text \<open>
  The messages of \<open>bifurcation.v1\<close> (\<open>packages/rpc/src/gen/bifurcation/v1/machine_pb.ts\<close>) that the
  panel and the daemons exchange, as records, and their enumerations. Protobuf enumerations are open:
  a number the panel does not know arrives as that number, here under an extra constructor. 64-bit
  fields are bigints in JavaScript, hence \<^typ>\<open>int\<close>; a \<open>double\<close> is finite (a rational) or not. The
  binary and JSON encodings are the library's (@bufbuild/protobuf) and are parameters of the
  components that use them.
\<close>

section \<open>Enumerations\<close>

datatype task_kind =
  KIND_UNSPECIFIED | INSPECT | APPLY_CONFIG | UPGRADE_DAEMON | UNINSTALL | KIND_UNRECOGNIZED int

datatype core_health =
  HEALTH_UNSPECIFIED | NOT_CONFIGURED | STOPPED | HEALTHY | UNHEALTHY | HEALTH_UNRECOGNIZED int

datatype maintenance_status =
  MS_UNSPECIFIED | AVAILABLE | CONTAINER | UNSUPPORTED_OS | NONSTANDARD_BINARY
| INVALID_STATE_DIRECTORY | INVALID_PATHS | UNMANAGED_SERVICE | MS_UNRECOGNIZED int

datatype report_state =
  STATE_UNSPECIFIED | RUNNING | SUCCEEDED | FAILED | STATE_UNRECOGNIZED int

datatype rollback_state =
  ROLLBACK_UNSPECIFIED | NOT_NEEDED | ROLLBACK_SUCCEEDED | ROLLBACK_FAILED | ROLLBACK_UNRECOGNIZED int

datatype double = Finite rat | NonFinite

section \<open>Messages\<close>

record installation =
  i_installationId :: string
  i_bindingEpoch :: int

record watch_tasks_request =
  wt_installation :: "installation option"
  wt_daemonVersion :: string
  wt_protocolVersion :: int
  wt_supportedTasks :: "task_kind list"
  wt_os :: string
  wt_arch :: string

record session_opened =
  so_machineId :: string
  so_bindingEpoch :: int
  so_sessionEpoch :: int
  so_heartbeatSeconds :: int
  so_statusIntervalSeconds :: int

record task_available =
  ta_taskId :: string
  ta_payloadSha256 :: string
  ta_kind :: task_kind

datatype watch_event = Session session_opened | Task task_available | Heartbeat int

record accept_task_request =
  at_installation :: "installation option"
  at_sessionEpoch :: int
  at_taskId :: string
  at_payloadSha256 :: string

record accept_task_response =
  ar_taskId :: string
  ar_bindingEpoch :: int
  ar_kind :: task_kind
  ar_payload :: bytes
  ar_payloadSha256 :: string

record artifact =
  a_id :: string
  a_version :: string
  a_url :: string
  a_sha256 :: string
  a_sizeBytes :: int
  a_os :: string
  a_arch :: string

record inspect_task =
  it_includeLogs :: bool
  it_maxLogLines :: int
  it_maxBytes :: int

record apply_config_task =
  ac_revisionId :: string
  ac_policyRevision :: int

text \<open>The \<open>operation\<close> of a \<open>TaskSpec\<close>; \<open>NoOperation\<close> is the oneof left unset.\<close>

datatype task_spec =
    NoOperation
  | Inspect inspect_task
  | ApplyConfig apply_config_task
  | UpgradeDaemon "artifact option"
  | Uninstall

record get_config_request =
  gc_installation :: "installation option"
  gc_revisionId :: string
  gc_authorizationOnly :: bool

record get_config_response =
  gr_revisionId :: string
  gr_configJson :: bytes
  gr_configSha256 :: string
  gr_policyRevision :: int
  gr_latestAuthorizationJson :: bytes
  gr_latestPolicyRevision :: int

record machine_status =
  s_observedAtUnixMs :: int
  s_daemonVersion :: string
  s_coreVersion :: string
  s_coreRuntimeId :: string
  s_coreHealth :: core_health
  s_appliedRevisionId :: string
  s_appliedPolicyRevision :: int
  s_cpuUsagePercent :: "double option"
  s_memoryUsedBytes :: "int option"
  s_memoryTotalBytes :: "int option"
  s_diskFreeBytes :: "int option"
  s_connections :: "int option"
  s_networkRxBytes :: "int option"
  s_networkTxBytes :: "int option"
  s_usageIncomplete :: bool
  s_issue :: string
  s_networkInterface :: string
  s_appliedConfigSha256 :: string
  s_maintenanceStatus :: maintenance_status

record report_status_request =
  rs_installation :: "installation option"
  rs_sessionEpoch :: int
  rs_sequence :: int
  rs_status :: "machine_status option"

record usage_delta =
  d_userId :: string
  d_startUnixMs :: int
  d_endUnixMs :: int
  d_uploadBytes :: int
  d_downloadBytes :: int
  d_estimated :: bool
  d_incomplete :: bool

record usage_batch =
  b_deltas :: "usage_delta list"
  b_coreRuntimeId :: string

record report_usage_request =
  ru_installation :: "installation option"
  ru_streamId :: string
  ru_sequence :: int
  ru_payload :: bytes
  ru_payloadSha256 :: string

record report_usage_response =
  rr_committedSequence :: int
  rr_expectedSequence :: int

record report_task_request =
  rt_installation :: "installation option"
  rt_taskId :: string
  rt_payloadSha256 :: string
  rt_sequence :: int
  rt_state :: report_state
  rt_phase :: string
  rt_progressPercent :: "int option"
  rt_errorCode :: string
  rt_message :: string
  rt_rollback :: rollback_state
  rt_actualStatus :: "machine_status option"
  rt_diagnosticJson :: bytes

record report_task_response =
  rp_committedSequence :: int
  rp_terminal :: bool

end
