(* ===== verification/Tables.thy ===== *)
theory Tables
  imports Prelude
begin

text \<open>
  A database table as the code sees it through Drizzle: the list of its rows in insertion (rowid)
  order, with the statements the sources issue. \<open>get\<close> after a \<open>select\<close> is \<^const>\<open>find\<close>, \<open>all\<close> is
  \<^const>\<open>filter\<close>; \<open>update_where\<close>, \<open>delete_where\<close>, \<open>upsert\<close> and \<open>insert_new\<close> are defined
  here, with the locale that states what a table with a unique key promises to the components.
\<close>

definition update_where :: "('r \<Rightarrow> bool) \<Rightarrow> ('r \<Rightarrow> 'r) \<Rightarrow> 'r list \<Rightarrow> 'r list" where
  "update_where P f t = map (\<lambda>r. if P r then f r else r) t"

definition delete_where :: "('r \<Rightarrow> bool) \<Rightarrow> 'r list \<Rightarrow> 'r list" where
  "delete_where P t = filter (\<lambda>r. \<not> P r) t"

definition has_row :: "('r \<Rightarrow> bool) \<Rightarrow> 'r list \<Rightarrow> bool" where
  "has_row P t \<longleftrightarrow> find P t \<noteq> None"

text \<open>\<open>INSERT .. ON CONFLICT (key) DO UPDATE\<close> and \<open>INSERT .. ON CONFLICT DO NOTHING\<close>.\<close>

definition upsert :: "('r \<Rightarrow> bool) \<Rightarrow> ('r \<Rightarrow> 'r) \<Rightarrow> 'r \<Rightarrow> 'r list \<Rightarrow> 'r list" where
  "upsert same f r t = (if has_row same t then update_where same f t else t @ [r])"

definition insert_new :: "('r \<Rightarrow> bool) \<Rightarrow> 'r \<Rightarrow> 'r list \<Rightarrow> 'r list" where
  "insert_new same r t = (if has_row same t then t else t @ [r])"

lemma has_row_iff: "has_row P t \<longleftrightarrow> (\<exists>r \<in> set t. P r)"
  unfolding has_row_def by (simp add: find_None_all)

lemma has_row_code: "has_row P t \<longleftrightarrow> list_ex P t"
  by (simp add: has_row_iff list_ex_iff)

lemma set_update_where:
  "set (update_where P f t) = {r \<in> set t. \<not> P r} \<union> f ` {r \<in> set t. P r}"
  by (auto simp: update_where_def)

lemma set_delete_where [simp]: "set (delete_where P t) = {r \<in> set t. \<not> P r}"
  by (auto simp: delete_where_def)

lemma length_update_where [simp]: "length (update_where P f t) = length t"
  by (simp add: update_where_def)

lemma update_where_Nil [simp]: "update_where P f [] = []"
  by (simp add: update_where_def)

lemma update_where_Cons [simp]:
  "update_where P f (r # t) = (if P r then f r else r) # update_where P f t"
  by (simp add: update_where_def)

lemma update_where_append [simp]:
  "update_where P f (t @ u) = update_where P f t @ update_where P f u"
  by (simp add: update_where_def)

lemma update_where_none: "(\<And>r. r \<in> set t \<Longrightarrow> \<not> P r) \<Longrightarrow> update_where P f t = t"
  by (induction t) auto

lemma update_where_memE:
  assumes "r \<in> set (update_where P f t)"
  obtains "r \<in> set t" and "\<not> P r"
  | q where "q \<in> set t" and "P q" and "r = f q"
  using assms by (auto simp: set_update_where)

lemma map_update_where:
  "(\<And>r. r \<in> set t \<Longrightarrow> P r \<Longrightarrow> k (f r) = k r) \<Longrightarrow> map k (update_where P f t) = map k t"
  by (induction t) auto

lemma has_row_update_where:
  "(\<And>r. P r \<Longrightarrow> Q (f r) = Q r) \<Longrightarrow> has_row Q (update_where P f t) = has_row Q t"
  unfolding has_row_code by (induction t) auto

text \<open>Rows of an updated table that a filter sees, when the update does not move rows across it.\<close>

lemma filter_update_where_out:
  "(\<And>r. r \<in> set t \<Longrightarrow> P r \<Longrightarrow> \<not> Q r) \<Longrightarrow> (\<And>r. r \<in> set t \<Longrightarrow> P r \<Longrightarrow> \<not> Q (f r))
   \<Longrightarrow> filter Q (update_where P f t) = filter Q t"
  by (induction t) auto

lemma sum_update_where:
  assumes "r \<in> set t" and "P r" and "distinct (map k t)"
    and "\<And>q. q \<in> set t \<Longrightarrow> P q \<Longrightarrow> k q = k r"
  shows "(\<Sum>q\<leftarrow>update_where P f t. g q) = (\<Sum>q\<leftarrow>t. g q) + (g (f r) - g r :: int)"
  using assms
proof (induction t)
  case Nil
  then show ?case by simp
next
  case (Cons a t)
  show ?case
  proof (cases "P a")
    case True
    then have "k a = k r" using Cons.prems(4) [of a] by simp
    have "a = r"
    proof (rule ccontr)
      assume "a \<noteq> r"
      with Cons.prems(1) have "r \<in> set t" by simp
      then have "k r \<in> k ` set t" by simp
      with Cons.prems(3) \<open>k a = k r\<close> show False by simp
    qed
    have "\<not> P q" if "q \<in> set t" for q
    proof
      assume "P q"
      with Cons.prems(4) that have "k q = k a" using \<open>k a = k r\<close> by simp
      with that have "k a \<in> k ` set t" by (simp add: rev_image_eqI)
      with Cons.prems(3) show False by simp
    qed
    then have "update_where P f t = t" by (rule update_where_none)
    with True \<open>a = r\<close> show ?thesis by simp
  next
    case False
    with Cons.prems(1,2) have r: "r \<in> set t" by auto
    have "(\<Sum>q\<leftarrow>update_where P f t. g q) = (\<Sum>q\<leftarrow>t. g q) + (g (f r) - g r)"
      using Cons.IH [OF r Cons.prems(2)] Cons.prems(3,4) by simp
    with False show ?thesis by simp
  qed
qed

section \<open>Tables with a unique key\<close>

text \<open>
  The interface of a table inside a larger state: how to read it, how to rewrite it, and the
  column (or columns) its unique index covers. What a client may rely on: lookups by key are
  unambiguous, and the statements of the sources keep the key unique.
\<close>

locale keyed_table =
  fixes tbl :: "'d \<Rightarrow> 'r list"
    and put :: "('r list \<Rightarrow> 'r list) \<Rightarrow> 'd \<Rightarrow> 'd"
    and key :: "'r \<Rightarrow> 'k"
  assumes tbl_put: "tbl (put f d) = f (tbl d)"
begin

lemma unique_lookup:
  assumes "distinct (map key (tbl d))" and "r \<in> set (tbl d)"
  shows "find (\<lambda>q. key q = key r) (tbl d) = Some r"
proof -
  have "find (\<lambda>q. key q = key r) t = Some r" if "distinct (map key t)" "r \<in> set t" for t
    using that by (induction t) (auto simp: rev_image_eqI)
  with assms show ?thesis by blast
qed

lemma same_key_same_row:
  assumes "distinct (map key (tbl d))" and "r \<in> set (tbl d)" and "q \<in> set (tbl d)"
    and "key r = key q"
  shows "r = q"
  using assms by (metis unique_lookup option.inject)

lemma update_keeps_key:
  assumes "\<And>r. P r \<Longrightarrow> key (f r) = key r"
  shows "map key (tbl (put (update_where P f) d)) = map key (tbl d)"
  using assms by (simp add: tbl_put map_update_where)

lemma delete_keeps_key:
  "distinct (map key (tbl d)) \<Longrightarrow> distinct (map key (tbl (put (delete_where P) d)))"
  by (simp add: tbl_put delete_where_def distinct_map_filter)

lemma append_keeps_key:
  assumes "distinct (map key (tbl d))" and "\<not> has_row (\<lambda>q. key q = key r) (tbl d)"
  shows "distinct (map key (tbl (put (\<lambda>t. t @ [r]) d)))"
  using assms by (auto simp: tbl_put has_row_iff)

lemma upsert_keeps_key:
  assumes "distinct (map key (tbl d))" and "\<And>q. key q = key r \<Longrightarrow> key (f q) = key q"
  shows "distinct (map key (tbl (put (upsert (\<lambda>q. key q = key r) f r) d)))"
proof (cases "has_row (\<lambda>q. key q = key r) (tbl d)")
  case True
  have "map key (update_where (\<lambda>q. key q = key r) f (tbl d)) = map key (tbl d)"
    by (rule map_update_where) (simp add: assms(2))
  with True assms(1) show ?thesis by (simp add: tbl_put upsert_def)
next
  case False
  with assms(1) show ?thesis by (auto simp: tbl_put upsert_def has_row_iff)
qed

lemma insert_new_keeps_key:
  assumes "distinct (map key (tbl d))"
  shows "distinct (map key (tbl (put (insert_new (\<lambda>q. key q = key r) r) d)))"
  using assms by (auto simp: tbl_put insert_new_def has_row_iff)

text \<open>A lookup after an upsert finds the updated row, or the inserted one.\<close>

lemma lookup_after_upsert:
  assumes "\<And>q. key q = key r \<Longrightarrow> key (f q) = key q"
  shows "find (\<lambda>q. key q = key r) (tbl (put (upsert (\<lambda>q. key q = key r) f r) d)) =
    Some (case find (\<lambda>q. key q = key r) (tbl d) of None \<Rightarrow> r | Some q \<Rightarrow> f q)"
proof -
  have "find (\<lambda>q. key q = key r) (update_where (\<lambda>q. key q = key r) f t) =
    map_option f (find (\<lambda>q. key q = key r) t)" for t
    using assms by (induction t) auto
  moreover have "find (\<lambda>q. key q = key r) (t @ [r]) = Some r"
    if "find (\<lambda>q. key q = key r) t = None" for t
    using that by (induction t) (auto split: if_splits)
  ultimately show ?thesis
    by (auto simp: tbl_put upsert_def has_row_def split: option.split)
qed

lemma lookup_other_after_upsert:
  assumes "k \<noteq> key r" and "\<And>q. key q = key r \<Longrightarrow> key (f q) = key q"
  shows "find (\<lambda>q. key q = k) (tbl (put (upsert (\<lambda>q. key q = key r) f r) d)) =
    find (\<lambda>q. key q = k) (tbl d)"
proof -
  have "find (\<lambda>q. key q = k) (update_where (\<lambda>q. key q = key r) f t) = find (\<lambda>q. key q = k) t" for t
    using assms by (induction t) auto
  moreover have "find (\<lambda>q. key q = k) (t @ [r]) = find (\<lambda>q. key q = k) t" for t
    using assms(1) by (induction t) auto
  ultimately show ?thesis
    by (simp add: tbl_put upsert_def)
qed

end

end
