(* ===== verification/Task_Hub.thy ===== *)
theory Task_Hub
  imports Prelude
begin

text \<open>
  \<open>server/rpc/task-hub.ts\<close>: the in-memory table of the daemons' open task streams. Subscriptions are
  objects with an identity (\<open>release\<close> compares it), so the model keeps them in a heap, here the list
  \<open>hub_objects\<close>, and a reference is an index of it. The field \<open>sub_notify\<close> is set while a call of
  \<open>wait\<close> is parked on the subscription; the promise of \<open>wait\<close> is split into its synchronous start
  and the two ways it settles. The main facts: at most one live stream per machine, a stream in the
  table is never aborted, a stale \<open>release\<close> does not touch its successor, and no wake-up is lost.
\<close>

record subscription =
  sub_dirty :: bool
  sub_notify :: bool
  sub_aborted :: "failure option"  \<comment> \<open>the reason the controller was aborted with\<close>

record hub =
  hub_objects :: "subscription list"
  hub_subs :: "(string \<times> nat) list"  \<comment> \<open>the Map from machine to subscription\<close>
  hub_stopping :: bool

definition new_hub :: hub where
  "new_hub = \<lparr>hub_objects = [], hub_subs = [], hub_stopping = False\<rparr>"

section \<open>TaskSubscription\<close>

text \<open>\<open>wake\<close> marks the subscription; a parked \<open>wait\<close> finishes at once, which unmarks it.\<close>

definition sub_wake :: "subscription \<Rightarrow> subscription" where
  "sub_wake s =
     (let s' = s\<lparr>sub_dirty := True\<rparr>
      in if sub_notify s' then s'\<lparr>sub_notify := False, sub_dirty := False\<rparr> else s')"

datatype wait_start = Rejected failure | Returned | Parked

text \<open>
  The synchronous part of \<open>wait(signal, ms)\<close>: it throws when the request or the subscription is
  aborted, returns when the subscription is marked, and parks otherwise.
\<close>

definition sub_wait :: "failure option \<Rightarrow> subscription \<Rightarrow> wait_start \<times> subscription" where
  "sub_wait signal s =
     (case (signal, sub_aborted s) of
        (Some e, _) \<Rightarrow> (Rejected e, s)
      | (None, Some e) \<Rightarrow> (Rejected e, s)
      | (None, None) \<Rightarrow>
          if sub_dirty s then (Returned, s\<lparr>sub_dirty := False\<rparr>)
          else (Parked, s\<lparr>sub_notify := True\<rparr>))"

text \<open>A parked \<open>wait\<close> settles by \<open>finish\<close> (the timer, or \<open>wake\<close>) or by \<open>abort\<close>.\<close>

definition sub_finish :: "subscription \<Rightarrow> subscription" where
  "sub_finish s = s\<lparr>sub_notify := False, sub_dirty := False\<rparr>"

definition sub_abort :: "failure \<Rightarrow> subscription \<Rightarrow> subscription" where
  "sub_abort e s =
     (if sub_aborted s = None then s\<lparr>sub_aborted := Some e, sub_notify := False\<rparr> else s)"

section \<open>TaskHub\<close>

definition hub_lookup :: "string \<Rightarrow> hub \<Rightarrow> nat option" where
  "hub_lookup machineId h = map_of (hub_subs h) machineId"

definition hub_update :: "nat \<Rightarrow> (subscription \<Rightarrow> subscription) \<Rightarrow> hub \<Rightarrow> hub" where
  "hub_update r f h =
     h\<lparr>hub_objects := (if r < length (hub_objects h)
        then (hub_objects h)[r := f (hub_objects h ! r)] else hub_objects h)\<rparr>"

definition hub_delete :: "string \<Rightarrow> hub \<Rightarrow> hub" where
  "hub_delete machineId h = h\<lparr>hub_subs := filter (\<lambda>(k, _). k \<noteq> machineId) (hub_subs h)\<rparr>"

definition assertRunning :: "(hub, unit) prog" where
  "assertRunning = (\<lambda>h. if hub_stopping h
     then (Inl (ConnectError ''panel shutting down'' CUnavailable), h) else (Inr (), h))"

definition hub_close :: "string \<Rightarrow> failure \<Rightarrow> hub \<Rightarrow> hub" where
  "hub_close machineId reason h =
     hub_delete machineId
       (case hub_lookup machineId h of None \<Rightarrow> h | Some r \<Rightarrow> hub_update r (sub_abort reason) h)"

definition revoked :: failure where
  "revoked = ConnectError ''machine credential revoked'' CUnauthenticated"

definition hub_open :: "string \<Rightarrow> (hub, nat) prog" where
  "hub_open machineId =
     bind assertRunning (\<lambda>_ h.
       let h = hub_close machineId (ConnectError ''connection replaced'' CCanceled) h;
           r = length (hub_objects h)
       in (Inr r, h\<lparr>hub_objects := hub_objects h @ [\<lparr>sub_dirty = False, sub_notify = False,
                                                   sub_aborted = None\<rparr>],
                    hub_subs := hub_subs h @ [(machineId, r)]\<rparr>))"

definition hub_wake :: "string \<Rightarrow> hub \<Rightarrow> hub" where
  "hub_wake machineId h =
     (case hub_lookup machineId h of None \<Rightarrow> h | Some r \<Rightarrow> hub_update r sub_wake h)"

definition hub_release :: "string \<Rightarrow> nat \<Rightarrow> hub \<Rightarrow> hub" where
  "hub_release machineId r h =
     hub_update r (sub_abort (ConnectError ''connection closed'' CCanceled))
       (if hub_lookup machineId h = Some r then hub_delete machineId h else h)"

definition hub_shutdown :: "hub \<Rightarrow> hub" where
  "hub_shutdown h =
     foldl (\<lambda>h machineId. hub_close machineId (ConnectError ''panel shutting down'' CUnavailable) h)
       (h\<lparr>hub_stopping := True\<rparr>) (map fst (hub_subs h))"

definition hub_size :: "hub \<Rightarrow> nat" where
  "hub_size h = length (hub_subs h)"

definition hub_connected :: "string \<Rightarrow> hub \<Rightarrow> bool" where
  "hub_connected machineId h =
     (case hub_lookup machineId h of None \<Rightarrow> False
      | Some r \<Rightarrow> r < length (hub_objects h) \<and> sub_aborted (hub_objects h ! r) = None)"

section \<open>The invariant\<close>

text \<open>
  The references of the table exist, no machine and no subscription appears twice, no subscription in
  the table is aborted, and nothing is left in the table once the hub stops.
\<close>

definition hub_inv :: "hub \<Rightarrow> bool" where
  "hub_inv h \<longleftrightarrow>
     distinct (map fst (hub_subs h)) \<and> distinct (map snd (hub_subs h)) \<and>
     (\<forall>(k, r) \<in> set (hub_subs h).
        r < length (hub_objects h) \<and> sub_aborted (hub_objects h ! r) = None) \<and>
     (hub_stopping h \<longrightarrow> hub_subs h = [])"

lemma hub_inv_new: "hub_inv new_hub"
  by (simp add: hub_inv_def new_hub_def)

lemma hub_lookup_mem: "hub_lookup k h = Some r \<Longrightarrow> (k, r) \<in> set (hub_subs h)"
  by (simp add: hub_lookup_def map_of_SomeD)

lemma hub_lookup_iff: "hub_inv h \<Longrightarrow> hub_lookup k h = Some r \<longleftrightarrow> (k, r) \<in> set (hub_subs h)"
  by (simp add: hub_lookup_def hub_inv_def)

lemma hub_lookup_none: "hub_lookup k h = None \<longleftrightarrow> k \<notin> fst ` set (hub_subs h)"
  by (simp add: hub_lookup_def map_of_eq_None_iff)

text \<open>Two machines never share a subscription.\<close>

lemma hub_refs_distinct:
  assumes "hub_inv h" "(k, r) \<in> set (hub_subs h)" "(k', r) \<in> set (hub_subs h)"
  shows "k = k'"
proof -
  have "inj_on snd (set (hub_subs h))" using assms(1) by (simp add: hub_inv_def distinct_map)
  from inj_onD [OF this, of "(k, r)" "(k', r)"] assms(2,3) show ?thesis by simp
qed

lemma hub_update_fields [simp]:
  "hub_subs (hub_update r f h) = hub_subs h"
  "hub_stopping (hub_update r f h) = hub_stopping h"
  "length (hub_objects (hub_update r f h)) = length (hub_objects h)"
  by (simp_all add: hub_update_def)

lemma hub_update_nth:
  "r' < length (hub_objects h) \<Longrightarrow>
    hub_objects (hub_update r f h) ! r' =
      (if r = r' then f (hub_objects h ! r') else hub_objects h ! r')"
  by (auto simp: hub_update_def)

lemma hub_delete_fields [simp]:
  "hub_objects (hub_delete k h) = hub_objects h"
  "hub_stopping (hub_delete k h) = hub_stopping h"
  "set (hub_subs (hub_delete k h)) = {p \<in> set (hub_subs h). fst p \<noteq> k}"
  by (auto simp: hub_delete_def)

lemma hub_inv_delete: "hub_inv h \<Longrightarrow> hub_inv (hub_delete k h)"
  by (auto simp: hub_inv_def hub_delete_def distinct_map_filter)

text \<open>An update that aborts nothing, or that touches only an object outside the table.\<close>

lemma hub_inv_update:
  assumes "hub_inv h" and "\<And>s. sub_aborted (f s) = sub_aborted s \<or> r \<notin> snd ` set (hub_subs h)"
  shows "hub_inv (hub_update r f h)"
  unfolding hub_inv_def
proof (intro conjI ballI)
  fix p assume p: "p \<in> set (hub_subs (hub_update r f h))"
  moreover obtain k r' where "p = (k, r')" by (cases p)
  ultimately have kr: "p = (k, r')" "(k, r') \<in> set (hub_subs h)" by simp_all
  then have "r' < length (hub_objects h)" "sub_aborted (hub_objects h ! r') = None"
    using assms(1) by (auto simp: hub_inv_def)
  moreover have "sub_aborted (f (hub_objects h ! r)) = sub_aborted (hub_objects h ! r)" if "r = r'"
    using assms(2) [of "hub_objects h ! r"] kr that by force
  ultimately show "case p of (k, r') \<Rightarrow> r' < length (hub_objects (hub_update r f h)) \<and>
      sub_aborted (hub_objects (hub_update r f h) ! r') = None"
    using kr(1) by (auto simp: hub_update_nth)
qed (use assms(1) in \<open>auto simp: hub_inv_def\<close>)

lemma hub_close_eq:
  "hub_close k e h =
    (case hub_lookup k h of None \<Rightarrow> hub_delete k h
     | Some r \<Rightarrow> hub_update r (sub_abort e) (hub_delete k h))"
  by (simp add: hub_close_def hub_delete_def hub_update_def split: option.split)

lemma hub_inv_close: "hub_inv h \<Longrightarrow> hub_inv (hub_close k e h)"
proof (cases "hub_lookup k h")
  case None
  assume "hub_inv h"
  with None show ?thesis by (simp add: hub_close_eq hub_inv_delete)
next
  case (Some r)
  assume h: "hub_inv h"
  have "r \<notin> snd ` set (hub_subs (hub_delete k h))"
    using hub_refs_distinct [OF h hub_lookup_mem [OF Some]] by auto
  then show ?thesis
    using h Some by (auto simp: hub_close_eq intro!: hub_inv_update hub_inv_delete)
qed

lemma hub_close_gone: "k \<notin> fst ` set (hub_subs (hub_close k e h))"
  by (auto simp: hub_close_eq split: option.split)

lemma hub_close_subs: "set (hub_subs (hub_close k e h)) = {p \<in> set (hub_subs h). fst p \<noteq> k}"
  by (auto simp: hub_close_eq split: option.split)

lemma hub_close_stopping [simp]: "hub_stopping (hub_close k e h) = hub_stopping h"
  by (simp add: hub_close_eq split: option.split)

lemma hub_inv_open:
  assumes "hub_inv h"
  shows "hub_inv (snd (hub_open k h))"
proof (cases "hub_stopping h")
  case True
  with assms show ?thesis by (simp add: hub_open_def assertRunning_def bind_def)
next
  case False
  let ?c = "hub_close k (ConnectError ''connection replaced'' CCanceled) h"
  have c: "hub_inv ?c" using assms by (rule hub_inv_close)
  have "length (hub_objects ?c) \<notin> snd ` set (hub_subs ?c)"
    using c by (force simp: hub_inv_def)
  with c hub_close_gone [of k _ h] False show ?thesis
    by (force simp: hub_open_def assertRunning_def bind_def Let_def hub_inv_def nth_append)
qed

lemma sub_wake_aborted [simp]: "sub_aborted (sub_wake s) = sub_aborted s"
  by (simp add: sub_wake_def Let_def)

lemma hub_inv_wake: "hub_inv h \<Longrightarrow> hub_inv (hub_wake k h)"
  by (auto simp: hub_wake_def intro!: hub_inv_update split: option.split)

text \<open>
  A stream releases the subscription it opened: the reference is in the table under its own machine
  or not at all (a later stream has replaced it).
\<close>

definition owns_sub :: "string \<Rightarrow> nat \<Rightarrow> hub \<Rightarrow> bool" where
  "owns_sub k r h \<longleftrightarrow> (\<forall>(k', r') \<in> set (hub_subs h). r' = r \<longrightarrow> k' = k)"

lemma hub_inv_release:
  assumes "hub_inv h" and "owns_sub k r h"
  shows "hub_inv (hub_release k r h)"
proof (cases "hub_lookup k h = Some r")
  case True
  have "r \<notin> snd ` set (hub_subs (hub_delete k h))"
    using hub_refs_distinct [OF assms(1) hub_lookup_mem [OF True]] by auto
  with True assms(1) show ?thesis
    by (auto simp: hub_release_def intro!: hub_inv_update hub_inv_delete)
next
  case False
  then have "r \<notin> snd ` set (hub_subs h)"
    using assms by (auto simp: owns_sub_def hub_lookup_iff)
  with False assms(1) show ?thesis
    by (auto simp: hub_release_def intro!: hub_inv_update)
qed

lemma close_all:
  "hub_inv h \<Longrightarrow> hub_inv (foldl (\<lambda>h k. hub_close k e h) h ks) \<and>
    set (hub_subs (foldl (\<lambda>h k. hub_close k e h) h ks)) = {p \<in> set (hub_subs h). fst p \<notin> set ks}"
  by (induction ks arbitrary: h) (auto simp: hub_inv_close hub_close_subs)

lemma close_all_stopping:
  "hub_stopping (foldl (\<lambda>h k. hub_close k e h) h ks) = hub_stopping h"
  by (induction ks arbitrary: h) auto

text \<open>\<open>hub_shutdown\<close> runs over the machines while it deletes them; the invariant without its last
  conjunct is what its loop keeps.\<close>

definition table_inv :: "hub \<Rightarrow> bool" where
  "table_inv h \<longleftrightarrow> hub_inv (h\<lparr>hub_stopping := False\<rparr>)"

lemma close_all_running:
  "foldl (\<lambda>h k. hub_close k e h) (h\<lparr>hub_stopping := b\<rparr>) ks =
    (foldl (\<lambda>h k. hub_close k e h) h ks)\<lparr>hub_stopping := b\<rparr>"
proof (induction ks arbitrary: h)
  case Nil
  then show ?case by simp
next
  case (Cons k ks)
  have "hub_close k e (h\<lparr>hub_stopping := b\<rparr>) = (hub_close k e h)\<lparr>hub_stopping := b\<rparr>"
    by (simp add: hub_close_def hub_lookup_def hub_update_def hub_delete_def split: option.split)
  with Cons show ?case by simp
qed

lemma hub_shutdown_empty:
  assumes "hub_inv h"
  shows "hub_subs (hub_shutdown h) = []" "hub_stopping (hub_shutdown h)"
proof -
  let ?e = "ConnectError ''panel shutting down'' CUnavailable"
  have "set (hub_subs (foldl (\<lambda>h k. hub_close k ?e h) h (map fst (hub_subs h)))) = {}"
    using close_all [OF assms, of ?e "map fst (hub_subs h)"] by auto
  then show "hub_subs (hub_shutdown h) = []" by (simp add: hub_shutdown_def close_all_running)
  show "hub_stopping (hub_shutdown h)" by (simp add: hub_shutdown_def close_all_running)
qed

lemma hub_inv_shutdown: "hub_inv h \<Longrightarrow> hub_inv (hub_shutdown h)"
  using hub_shutdown_empty [of h] by (simp add: hub_inv_def)

section \<open>The hub as a state machine\<close>

text \<open>
  Everything that happens to the hub: the operations, and the start and the end of a \<open>wait\<close> on any
  subscription.
\<close>

inductive hub_step :: "hub \<Rightarrow> hub \<Rightarrow> bool" where
  step_open: "hub_step h (snd (hub_open k h))"
| step_wake: "hub_step h (hub_wake k h)"
| step_release: "owns_sub k r h \<Longrightarrow> hub_step h (hub_release k r h)"
| step_close: "hub_step h (hub_close k e h)"
| step_shutdown: "hub_step h (hub_shutdown h)"
| step_wait: "hub_step h (hub_update r (\<lambda>s. snd (sub_wait sig s)) h)"
| step_finish: "hub_step h (hub_update r sub_finish h)"

inductive_cases hub_stepE: "hub_step h h'"

lemma sub_wait_aborted [simp]: "sub_aborted (snd (sub_wait sig s)) = sub_aborted s"
  by (auto simp: sub_wait_def split: option.split)

lemma hub_step_inv:
  assumes "hub_inv h" and "hub_step h h'"
  shows "hub_inv h'"
  using assms(2,1)
  by cases (auto simp: hub_inv_open hub_inv_wake hub_inv_release hub_inv_close hub_inv_shutdown
      sub_finish_def intro!: hub_inv_update)

interpretation hub: transition_system "\<lambda>h. h = new_hub" hub_step hub_inv
  by unfold_locales (auto simp: hub_inv_new dest: hub_step_inv)

lemma connected_iff: "hub_inv h \<Longrightarrow> hub_connected k h \<longleftrightarrow> k \<in> fst ` set (hub_subs h)"
proof (cases "hub_lookup k h")
  case None
  then have "k \<notin> fst ` set (hub_subs h)" by (simp add: hub_lookup_none)
  with None show ?thesis by (simp add: hub_connected_def)
next
  case (Some r)
  assume h: "hub_inv h"
  from hub_lookup_mem [OF Some] have m: "(k, r) \<in> set (hub_subs h)" .
  with h have "r < length (hub_objects h) \<and> sub_aborted (hub_objects h ! r) = None"
    by (auto simp: hub_inv_def)
  with Some m show ?thesis by (force simp: hub_connected_def)
qed

text \<open>A subscription that has been replaced stays aborted, and releasing it leaves the table alone.\<close>

lemma stale_release:
  assumes "hub_lookup k h \<noteq> Some r"
  shows "hub_subs (hub_release k r h) = hub_subs h"
  using assms by (simp add: hub_release_def)

text \<open>No wake-up is lost: a wake before a wait makes it return, one during it ends it.\<close>

lemma wake_then_wait:
  "sub_aborted s = None \<Longrightarrow> \<not> sub_notify s \<Longrightarrow>
    fst (sub_wait None (sub_wake s)) = Returned \<and> \<not> sub_dirty (snd (sub_wait None (sub_wake s)))"
  by (simp add: sub_wait_def sub_wake_def Let_def)

lemma wake_ends_wait:
  "sub_wait None s = (Parked, s') \<Longrightarrow> \<not> sub_notify (sub_wake s')"
  by (auto simp: sub_wait_def sub_wake_def Let_def split: option.splits if_splits)

end
