(* ===== verification/Calendar.thy ===== *)
theory Calendar
  imports Text
begin

text \<open>
  \<open>server/usage/time.ts\<close>: the buckets of the traffic ledger. Times are UTC milliseconds, the
  buckets are minutes, days and months of Asia/Shanghai (a fixed offset of eight hours). The part of
  \<open>Date\<close> the file uses (\<open>getUTCFullYear\<close>, \<open>getUTCMonth\<close> and \<open>Date.UTC\<close> with its rule for years
  0 to 99) is written out as ECMAScript defines it. The range checks of \<open>Date\<close> (NaN beyond 8.64e15
  ms) are left out: every time the sources pass in has been compared with the clock first.
  The laws of the buckets are the assumptions of the locale \<open>bucketing\<close>; \<open>splitBytes\<close> is proved
  over those laws.
\<close>

section \<open>The Gregorian calendar of ECMAScript\<close>

definition MS_PER_DAY :: int where "MS_PER_DAY = 86400000"

definition DayFromYear :: "int \<Rightarrow> int" where
  "DayFromYear y = 365 * (y - 1970) + (y - 1969) div 4 - (y - 1901) div 100 + (y - 1601) div 400"

definition leap_day :: "int \<Rightarrow> int" where
  "leap_day y = (if y mod 4 = 0 \<and> (y mod 100 \<noteq> 0 \<or> y mod 400 = 0) then 1 else 0)"

text \<open>Days of the year before month \<open>m\<close> (0 is January, 12 the next January).\<close>

definition days_before :: "int \<Rightarrow> int \<Rightarrow> int" where
  "days_before y m =
     (if m \<le> 0 then 0 else if m = 1 then 31 else leap_day y +
      (if m = 2 then 59 else if m = 3 then 90 else if m = 4 then 120 else if m = 5 then 151
       else if m = 6 then 181 else if m = 7 then 212 else if m = 8 then 243 else if m = 9 then 273
       else if m = 10 then 304 else if m = 11 then 334 else 365))"

lemma div_add_one:
  assumes "0 < (n :: int)"
  shows "(a + 1) div n = a div n + (if n dvd a + 1 then 1 else 0)"
proof (cases "n dvd a + 1")
  case True
  then obtain k where k: "a + 1 = n * k" by blast
  have "a div n = k - 1"
    by (rule int_div_pos_eq [where r = "n - 1"]) (use k assms in \<open>simp_all add: algebra_simps\<close>)
  with True k assms show ?thesis by simp
next
  case False
  have "a mod n + 1 \<noteq> n"
  proof
    assume "a mod n + 1 = n"
    moreover have "n * (a div n + 1) = n * (a div n) + n" by (simp add: distrib_left)
    ultimately have "a + 1 = n * (a div n + 1)" using mult_div_mod_eq [of n a] by linarith
    then have "n dvd a + 1" by (metis dvd_triv_left)
    with False show False by simp
  qed
  with pos_mod_bound [OF assms, of a] have "a mod n + 1 < n" by linarith
  have "(a + 1) div n = a div n"
    by (rule int_div_pos_eq [where r = "a mod n + 1"])
      (use \<open>a mod n + 1 < n\<close> pos_mod_sign [OF assms, of a] in \<open>simp_all\<close>)
  with False show ?thesis by simp
qed

lemma leap_count_step:
  assumes "a' = a + (if p then 1 else 0 :: int)" and "b' = b + (if q then 1 else 0)"
    and "c' = c + (if r then 1 else 0)" and "q \<longrightarrow> p" and "r \<longrightarrow> q"
  shows "x + 365 + a' - b' + c' = x + a - b + c + 365 + (if p \<and> (\<not> q \<or> r) then 1 else 0)"
  using assms(4,5) by (cases p; cases q; cases r) (simp_all add: assms(1,2,3))

lemma mod_zero_trans: "y mod n = 0 \<Longrightarrow> m dvd n \<Longrightarrow> y mod m = (0 :: int)"
  unfolding dvd_eq_mod_eq_0 [symmetric] by (rule dvd_trans)

lemma DayFromYear_Suc: "DayFromYear (y + 1) = DayFromYear y + 365 + leap_day y"
proof -
  have shift: "n dvd y + c \<longleftrightarrow> y mod n = 0" if "n dvd c" for n c :: int
    unfolding dvd_eq_mod_eq_0 [symmetric] using that by (rule dvd_add_left_iff)
  have step: "(y + c + 1) div n = (y + c) div n + (if y mod n = 0 then 1 else 0)"
    if "0 < n" "n dvd c + 1" for n c :: int
    using div_add_one [OF that(1), of "y + c"] shift [OF that(2)] by (simp only: add.assoc)
  have four: "(y + - 1969 + 1) div 4 = (y + - 1969) div 4 + (if y mod 4 = 0 then 1 else 0)"
    by (rule step) simp_all
  have hundred: "(y + - 1901 + 1) div 100 = (y + - 1901) div 100 + (if y mod 100 = 0 then 1 else 0)"
    by (rule step) simp_all
  have fourh: "(y + - 1601 + 1) div 400 = (y + - 1601) div 400 + (if y mod 400 = 0 then 1 else 0)"
    by (rule step) simp_all
  have "DayFromYear (y + 1) = 365 * (y - 1970) + 365 + (y + - 1969 + 1) div 4
      - (y + - 1901 + 1) div 100 + (y + - 1601 + 1) div 400"
    by (simp add: DayFromYear_def)
  also have "\<dots> = 365 * (y - 1970) + (y + - 1969) div 4 - (y + - 1901) div 100
      + (y + - 1601) div 400 + 365
      + (if y mod 4 = 0 \<and> (\<not> y mod 100 = 0 \<or> y mod 400 = 0) then 1 else 0)"
    by (rule leap_count_step [OF four hundred fourh]) (auto elim: mod_zero_trans)
  also have "\<dots> = DayFromYear y + 365 + leap_day y"
    by (simp only: DayFromYear_def leap_day_def diff_conv_add_uminus)
  finally show ?thesis .
qed

lemma leap_day_bounds: "0 \<le> leap_day y" "leap_day y \<le> 1"
  by (simp_all add: leap_day_def)

lemma DayFromYear_step: "DayFromYear y + 365 \<le> DayFromYear (y + 1)"
  using leap_day_bounds [of y] by (simp add: DayFromYear_Suc)

lemma DayFromYear_add: "DayFromYear y + 365 * int n \<le> DayFromYear (y + int n)"
proof (induction n)
  case 0
  then show ?case by simp
next
  case (Suc n)
  have "DayFromYear (y + int n) + 365 \<le> DayFromYear (y + int n + 1)" by (rule DayFromYear_step)
  with Suc show ?case by (simp add: ac_simps)
qed

lemma DayFromYear_less: "x < y \<Longrightarrow> DayFromYear x + 365 \<le> DayFromYear y"
  using DayFromYear_add [of x "nat (y - x)"] by (simp add: of_nat_diff)

lemma DayFromYear_less_iff: "DayFromYear x < DayFromYear y \<longleftrightarrow> x < y"
  using DayFromYear_less [of x y] DayFromYear_less [of y x] by (cases x y rule: linorder_cases) auto

text \<open>The year of a day: a search from an estimate, which ends because years have days.\<close>

function year_search :: "int \<Rightarrow> int \<Rightarrow> int" where
  "year_search d y =
     (if d < DayFromYear y then year_search d (y - 1)
      else if DayFromYear (y + 1) \<le> d then year_search d (y + 1) else y)"
  by pat_completeness auto
termination
proof (relation "measure (\<lambda>(d, y). nat \<bar>d - DayFromYear y\<bar> +
    (if d < DayFromYear y then 366 else 0))", goal_cases)
  case 1
  then show ?case by simp
next
  case (2 d y)
  have s: "DayFromYear y = DayFromYear (y - 1) + 365 + leap_day (y - 1)"
    using DayFromYear_Suc [of "y - 1"] by simp
  with 2 leap_day_bounds [of "y - 1"] show ?case by auto
next
  case (3 d y)
  with DayFromYear_step [of y] show ?case by auto
qed

declare year_search.simps [simp del]

lemma year_search_correct:
  "DayFromYear (year_search d y) \<le> d \<and> d < DayFromYear (year_search d y + 1)"
proof (induction d y rule: year_search.induct)
  case (1 d y)
  then show ?case by (subst (1 2) year_search.simps) auto
qed

definition day_of :: "int \<Rightarrow> int" where
  "day_of t = t div MS_PER_DAY"

definition YearFromDay :: "int \<Rightarrow> int" where
  "YearFromDay d = year_search d (1970 + d div 366)"

definition MonthFromDay :: "int \<Rightarrow> int" where
  "MonthFromDay d =
     (let y = YearFromDay d; k = d - DayFromYear y in
      if k < days_before y 1 then 0 else if k < days_before y 2 then 1
      else if k < days_before y 3 then 2 else if k < days_before y 4 then 3
      else if k < days_before y 5 then 4 else if k < days_before y 6 then 5
      else if k < days_before y 7 then 6 else if k < days_before y 8 then 7
      else if k < days_before y 9 then 8 else if k < days_before y 10 then 9
      else if k < days_before y 11 then 10 else 11)"

definition getUTCFullYear :: "int \<Rightarrow> int" where
  "getUTCFullYear t = YearFromDay (day_of t)"

definition getUTCMonth :: "int \<Rightarrow> int" where
  "getUTCMonth t = MonthFromDay (day_of t)"

text \<open>\<open>Date.UTC(year, month, 1)\<close>: years 0 to 99 mean 1900 to 1999, a month past 11 carries.\<close>

definition Date_UTC :: "int \<Rightarrow> int \<Rightarrow> int" where
  "Date_UTC year month =
     (let yr = (if 0 \<le> year \<and> year \<le> 99 then 1900 + year else year);
          y = yr + month div 12; m = month mod 12
      in (DayFromYear y + days_before y m) * MS_PER_DAY)"

lemma YearFromDay_correct: "DayFromYear (YearFromDay d) \<le> d \<and> d < DayFromYear (YearFromDay d + 1)"
  unfolding YearFromDay_def by (rule year_search_correct)

lemma YearFromDay_unique: "DayFromYear y \<le> d \<Longrightarrow> d < DayFromYear (y + 1) \<Longrightarrow> YearFromDay d = y"
  using YearFromDay_correct [of d] DayFromYear_less_iff [of y "YearFromDay d + 1"]
    DayFromYear_less_iff [of "YearFromDay d" "y + 1"] by linarith

lemma days_before_12: "DayFromYear y + days_before y 12 = DayFromYear (y + 1)"
  by (simp add: days_before_def DayFromYear_Suc)

lemma days_before_less:
  assumes "0 \<le> m" "m < 12"
  shows "days_before y m < days_before y (m + 1)"
proof -
  from assms have "m = 0 \<or> m = 1 \<or> m = 2 \<or> m = 3 \<or> m = 4 \<or> m = 5 \<or> m = 6 \<or> m = 7 \<or>
    m = 8 \<or> m = 9 \<or> m = 10 \<or> m = 11"
    by presburger
  with leap_day_bounds [of y] show ?thesis by (elim disjE) (simp_all add: days_before_def)
qed

lemma days_before_step: "days_before y m \<le> days_before y (m + 1)"
proof -
  consider "m < 0" | "0 \<le> m" "m < 12" | "12 \<le> m" by linarith
  then show ?thesis by cases (use days_before_less in \<open>auto simp: days_before_def less_imp_le\<close>)
qed

lemma days_before_mono:
  assumes "m \<le> n"
  shows "days_before y m \<le> days_before y n"
  using assms
proof (induction n rule: int_ge_induct)
  case base
  then show ?case by simp
next
  case (step n)
  with days_before_step [of y n] show ?case by linarith
qed

lemma MonthFromDay_range: "0 \<le> MonthFromDay d \<and> MonthFromDay d \<le> 11"
  by (auto simp: MonthFromDay_def Let_def)

lemma MonthFromDay_correct:
  "DayFromYear (YearFromDay d) + days_before (YearFromDay d) (MonthFromDay d) \<le> d \<and>
   d < DayFromYear (YearFromDay d) + days_before (YearFromDay d) (MonthFromDay d + 1)"
proof -
  have "0 \<le> d - DayFromYear (YearFromDay d)"
    "d - DayFromYear (YearFromDay d) < days_before (YearFromDay d) 12"
    using YearFromDay_correct [of d] days_before_12 [of "YearFromDay d"] by linarith+
  then show ?thesis by (auto simp: MonthFromDay_def Let_def days_before_def [of _ 0])
qed

lemma MonthFromDay_unique:
  assumes "0 \<le> m" "m \<le> 11" and "DayFromYear y + days_before y m \<le> d"
    and "d < DayFromYear y + days_before y (m + 1)"
  shows "YearFromDay d = y \<and> MonthFromDay d = m"
proof -
  have "days_before y (m + 1) \<le> days_before y 12" using assms(2) by (intro days_before_mono) simp
  moreover have "0 \<le> days_before y m"
    using days_before_mono [of 0 m y] assms(1) by (simp add: days_before_def)
  ultimately have y: "YearFromDay d = y"
    using assms days_before_12 [of y] by (intro YearFromDay_unique) linarith+
  have "\<not> MonthFromDay d < m"
    using MonthFromDay_correct [of d] days_before_mono [of "MonthFromDay d + 1" m y] assms y by auto
  moreover have "\<not> m < MonthFromDay d"
    using MonthFromDay_correct [of d] days_before_mono [of "m + 1" "MonthFromDay d" y] assms y by auto
  ultimately show ?thesis using y by simp
qed

end
