(* ===== verification/Buckets.thy ===== *)
theory Buckets
  imports Calendar
begin

text \<open>
  \<open>server/usage/time.ts\<close> and \<open>features/usage/range.ts\<close>: the minute, day and month buckets of
  Asia/Shanghai, the division of a traffic sample over the buckets it spans, and the ranges the
  usage pages ask for. The locale \<open>bucketing\<close> states what the ledger relies on (a bucket contains
  the times that map to its start, and the next bucket begins where it ends); the three grains
  interpret it, and the facts about \<open>splitBytes\<close> rest on that interpretation.
\<close>

datatype grain = Minute | Day | Month

section \<open>Buckets\<close>

definition MAX_BYTES :: int where "MAX_BYTES = 9223372036854775807"
definition DAY_MS :: int where "DAY_MS = 86400000"
definition SHANGHAI_OFFSET :: int where "SHANGHAI_OFFSET = 8 * 60 * 60 * 1000"

definition monthStart :: "int \<Rightarrow> int" where
  "monthStart time =
     (let date = time + SHANGHAI_OFFSET
      in Date_UTC (getUTCFullYear date) (getUTCMonth date) - SHANGHAI_OFFSET)"

definition monthPeriod :: "int \<Rightarrow> string" where
  "monthPeriod time =
     (let date = time + SHANGHAI_OFFSET
      in decimal (getUTCFullYear date) @ ''-'' @
         padStart (decimal (getUTCMonth date + 1)) 2 (CHR ''0''))"

definition bucket_size :: "grain \<Rightarrow> int" where
  "bucket_size g = (if g = Minute then 60000 else DAY_MS)"

definition bucketStart :: "int \<Rightarrow> grain \<Rightarrow> int" where
  "bucketStart time g =
     (if g = Month then monthStart time
      else (time + SHANGHAI_OFFSET) div bucket_size g * bucket_size g - SHANGHAI_OFFSET)"

definition nextBucket :: "int \<Rightarrow> grain \<Rightarrow> int" where
  "nextBucket start g =
     (if g \<noteq> Month then start + bucket_size g
      else (let date = start + SHANGHAI_OFFSET
            in Date_UTC (getUTCFullYear date) (getUTCMonth date + 1) - SHANGHAI_OFFSET))"

text \<open>Times from the start of 1970 in Shanghai on: all the times the panel handles.\<close>

definition in_era :: "int \<Rightarrow> bool" where
  "in_era t \<longleftrightarrow> 0 \<le> t + SHANGHAI_OFFSET"

section \<open>The laws of buckets\<close>

locale bucketing =
  fixes start :: "int \<Rightarrow> int"
    and nxt :: "int \<Rightarrow> int"
    and ok :: "int \<Rightarrow> bool"
  assumes start_ok: "ok t \<Longrightarrow> ok (start t)"
    and ok_up: "ok s \<Longrightarrow> s \<le> t \<Longrightarrow> ok t"
    and start_le: "ok t \<Longrightarrow> start t \<le> t"
    and lt_next: "ok t \<Longrightarrow> t < nxt (start t)"
    and start_within: "ok t \<Longrightarrow> start t \<le> u \<Longrightarrow> u < nxt (start t) \<Longrightarrow> start u = start t"
    and next_aligned: "ok t \<Longrightarrow> start (nxt (start t)) = nxt (start t)"
begin

lemma start_idem: "ok t \<Longrightarrow> start (start t) = start t"
  using start_within [of t "start t"] start_le [of t] lt_next [of t] by simp

lemma start_lt_next: "ok t \<Longrightarrow> start t < nxt (start t)"
  using start_le [of t] lt_next [of t] by simp

lemma same_bucket_iff:
  "ok t \<Longrightarrow> ok u \<Longrightarrow> start u = start t \<longleftrightarrow> start t \<le> u \<and> u < nxt (start t)"
  using start_within [of t u] start_le [of u] lt_next [of u] by auto

text \<open>Different buckets do not overlap.\<close>

lemma next_le_start:
  assumes "ok s" "ok t" "start s < start t"
  shows "nxt (start s) \<le> start t"
proof (rule ccontr)
  assume "\<not> nxt (start s) \<le> start t"
  then have "start (start t) = start s" using assms by (intro start_within) auto
  with assms start_idem [of t] show False by simp
qed

lemma start_mono:
  assumes "ok s" "s \<le> t"
  shows "start s \<le> start t"
proof (rule ccontr)
  assume "\<not> start s \<le> start t"
  moreover have "ok t" using assms by (rule ok_up)
  ultimately have "nxt (start t) \<le> start s" using assms by (intro next_le_start) auto
  with start_le [of s] lt_next [of t] \<open>ok t\<close> assms show False by simp
qed

lemma aligned_ok: "ok t \<Longrightarrow> ok (nxt (start t))"
  using lt_next [of t] ok_up [of t "nxt (start t)"] by simp

end

lemma bucket_size_pos: "0 < bucket_size g"
  by (simp add: bucket_size_def DAY_MS_def)

lemma in_era_year: "in_era t \<Longrightarrow> 1970 \<le> YearFromDay (day_of (t + SHANGHAI_OFFSET))"
proof -
  assume "in_era t"
  then have "0 \<le> day_of (t + SHANGHAI_OFFSET)"
    by (simp add: in_era_def day_of_def MS_PER_DAY_def pos_imp_zdiv_nonneg_iff)
  then have "DayFromYear 1970 < DayFromYear (YearFromDay (day_of (t + SHANGHAI_OFFSET)) + 1)"
    using YearFromDay_correct [of "day_of (t + SHANGHAI_OFFSET)"] by (simp add: DayFromYear_def)
  then show ?thesis by (simp add: DayFromYear_less_iff)
qed

text \<open>The month of a time as days since 1970: its first day and the first day of the next month.\<close>

definition month_first :: "int \<Rightarrow> int" where
  "month_first d = DayFromYear (YearFromDay d) + days_before (YearFromDay d) (MonthFromDay d)"

definition month_end :: "int \<Rightarrow> int" where
  "month_end d = DayFromYear (YearFromDay d) + days_before (YearFromDay d) (MonthFromDay d + 1)"

lemma month_bounds: "month_first d \<le> d" "d < month_end d"
  using MonthFromDay_correct [of d] by (simp_all add: month_first_def month_end_def)

lemma month_same: "month_first d \<le> e \<Longrightarrow> e < month_end d \<Longrightarrow>
    YearFromDay e = YearFromDay d \<and> MonthFromDay e = MonthFromDay d"
  using MonthFromDay_range [of d]
  by (intro MonthFromDay_unique) (simp_all add: month_first_def month_end_def)

lemma Date_UTC_next:
  assumes "\<not> (0 \<le> y \<and> y \<le> 99)" "0 \<le> m" "m \<le> 11"
  shows "Date_UTC y (m + 1) = (DayFromYear y + days_before y (m + 1)) * MS_PER_DAY"
proof (cases "m = 11")
  case True
  with days_before_12 [of y] show ?thesis
    by (simp add: Date_UTC_def if_not_P [OF assms(1)] days_before_def [of _ 0])
next
  case False
  with assms have "(m + 1) div 12 = 0" "(m + 1) mod 12 = m + 1" by auto
  then show ?thesis by (simp add: Date_UTC_def if_not_P [OF assms(1)])
qed

lemma Date_UTC_this:
  assumes "\<not> (0 \<le> y \<and> y \<le> 99)" "0 \<le> m" "m \<le> 11"
  shows "Date_UTC y m = (DayFromYear y + days_before y m) * MS_PER_DAY"
proof -
  from assms have "m div 12 = 0" "m mod 12 = m" by auto
  then show ?thesis by (simp add: Date_UTC_def if_not_P [OF assms(1)])
qed

lemma monthStart_days:
  assumes "in_era t"
  shows "monthStart t = month_first (day_of (t + SHANGHAI_OFFSET)) * MS_PER_DAY - SHANGHAI_OFFSET"
  using in_era_year [OF assms] MonthFromDay_range [of "day_of (t + SHANGHAI_OFFSET)"]
  by (simp add: monthStart_def Let_def getUTCFullYear_def getUTCMonth_def month_first_def
      Date_UTC_this)

lemma nextBucket_month_days:
  assumes "in_era t"
  shows "nextBucket t Month =
    month_end (day_of (t + SHANGHAI_OFFSET)) * MS_PER_DAY - SHANGHAI_OFFSET"
  using in_era_year [OF assms] MonthFromDay_range [of "day_of (t + SHANGHAI_OFFSET)"]
  by (simp add: nextBucket_def Let_def getUTCFullYear_def getUTCMonth_def month_end_def
      Date_UTC_next)

lemma MS_PER_DAY_nonneg: "0 \<le> MS_PER_DAY"
  by (simp add: MS_PER_DAY_def)

lemma day_of_bounds: "day_of t * MS_PER_DAY \<le> t" "t < (day_of t + 1) * MS_PER_DAY"
proof -
  have "MS_PER_DAY * day_of t + t mod MS_PER_DAY = t" "0 < MS_PER_DAY"
    by (simp_all add: day_of_def MS_PER_DAY_def)
  moreover from this(2) have "0 \<le> t mod MS_PER_DAY" "t mod MS_PER_DAY < MS_PER_DAY" by simp_all
  moreover have "(day_of t + 1) * MS_PER_DAY = MS_PER_DAY * day_of t + MS_PER_DAY"
    by (simp add: distrib_right)
  ultimately show "day_of t * MS_PER_DAY \<le> t" "t < (day_of t + 1) * MS_PER_DAY"
    by (simp_all only: mult.commute [of "day_of t"])
qed

lemma day_of_ge_iff: "d \<le> day_of t \<longleftrightarrow> d * MS_PER_DAY \<le> t"
proof -
  have p: "0 < MS_PER_DAY" by (simp add: MS_PER_DAY_def)
  have "d \<le> day_of t \<Longrightarrow> d * MS_PER_DAY \<le> day_of t * MS_PER_DAY"
    using p by (simp add: mult_right_mono)
  moreover have "day_of t + 1 \<le> d \<Longrightarrow> (day_of t + 1) * MS_PER_DAY \<le> d * MS_PER_DAY"
    using p by (simp add: mult_right_mono del: distrib_right)
  ultimately show ?thesis using day_of_bounds [of t] by linarith
qed

lemma month_first_next: "month_first (month_end d) = month_end d"
proof (cases "MonthFromDay d = 11")
  case True
  then have e: "month_end d = DayFromYear (YearFromDay d + 1)"
    using days_before_12 [of "YearFromDay d"] by (simp add: month_end_def)
  have "YearFromDay (month_end d) = YearFromDay d + 1 \<and> MonthFromDay (month_end d) = 0"
    by (rule MonthFromDay_unique) (simp_all add: e days_before_def)
  then show ?thesis by (simp add: month_first_def e days_before_def)
next
  case False
  with MonthFromDay_range [of d]
  have m: "0 \<le> MonthFromDay d + 1" "MonthFromDay d + 1 \<le> 11" by auto
  have "YearFromDay (month_end d) = YearFromDay d \<and>
      MonthFromDay (month_end d) = MonthFromDay d + 1"
    using m days_before_less [of "MonthFromDay d + 1" "YearFromDay d"]
    by (intro MonthFromDay_unique) (simp_all add: month_end_def)
  then show ?thesis by (simp add: month_first_def month_end_def)
qed


section \<open>The three grains are buckets\<close>

lemma in_era_up: "in_era s \<Longrightarrow> s \<le> t \<Longrightarrow> in_era t"
  by (simp add: in_era_def)

lemma fixed_bucket:
  assumes "g \<noteq> Month"
  shows "bucketStart t g \<le> t" "t < nextBucket (bucketStart t g) g"
    "bucketStart t g \<le> u \<Longrightarrow> u < nextBucket (bucketStart t g) g \<Longrightarrow> bucketStart u g = bucketStart t g"
    "bucketStart (nextBucket (bucketStart t g) g) g = nextBucket (bucketStart t g) g"
    "in_era t \<Longrightarrow> in_era (bucketStart t g)"
proof -
  let ?n = "bucket_size g" and ?x = "t + SHANGHAI_OFFSET"
  have p: "0 < ?n" by (rule bucket_size_pos)
  have split: "?x div ?n * ?n + ?x mod ?n = ?x" by (rule div_mult_mod_eq)
  have m: "0 \<le> ?x mod ?n" "?x mod ?n < ?n" using p by simp_all
  have b: "bucketStart t g = ?x div ?n * ?n - SHANGHAI_OFFSET"
    using assms by (simp add: bucketStart_def)
  have nb: "nextBucket (bucketStart t g) g = ?x div ?n * ?n + ?n - SHANGHAI_OFFSET"
    using assms by (simp add: nextBucket_def b)
  show "bucketStart t g \<le> t" using split m b by linarith
  show "t < nextBucket (bucketStart t g) g" using split m nb by linarith
  show "bucketStart (nextBucket (bucketStart t g) g) g = nextBucket (bucketStart t g) g"
    using assms p by (simp add: nb) (simp add: bucketStart_def algebra_simps)
  show "in_era t \<Longrightarrow> in_era (bucketStart t g)"
    using p by (simp add: in_era_def b pos_imp_zdiv_nonneg_iff)
  assume u: "bucketStart t g \<le> u" "u < nextBucket (bucketStart t g) g"
  have "(u + SHANGHAI_OFFSET) div ?n = ?x div ?n"
    by (rule int_div_pos_eq [where r = "u + SHANGHAI_OFFSET - ?x div ?n * ?n"])
      (use u b nb in \<open>simp_all add: mult.commute\<close>)
  then show "bucketStart u g = bucketStart t g" using assms by (simp add: bucketStart_def)
qed

lemma month_bucket:
  assumes "in_era t"
  shows "in_era (monthStart t)" "monthStart t \<le> t" "t < nextBucket (monthStart t) Month"
    "monthStart t \<le> u \<Longrightarrow> u < nextBucket (monthStart t) Month \<Longrightarrow> monthStart u = monthStart t"
    "monthStart (nextBucket (monthStart t) Month) = nextBucket (monthStart t) Month"
proof -
  let ?d = "day_of (t + SHANGHAI_OFFSET)"
  have p: "0 < MS_PER_DAY" by (simp add: MS_PER_DAY_def)
  have nonneg: "0 \<le> month_first ?d"
  proof -
    have "DayFromYear 1970 \<le> DayFromYear (YearFromDay ?d)"
      using in_era_year [OF assms] DayFromYear_less [of 1970 "YearFromDay ?d"]
      by (cases "YearFromDay ?d = 1970") auto
    moreover have "0 \<le> days_before (YearFromDay ?d) (MonthFromDay ?d)"
      using days_before_mono [of 0 "MonthFromDay ?d"] MonthFromDay_range [of ?d]
      by (simp add: days_before_def)
    ultimately show ?thesis by (simp add: month_first_def DayFromYear_def)
  qed
  have s: "monthStart t = month_first ?d * MS_PER_DAY - SHANGHAI_OFFSET"
    by (rule monthStart_days [OF assms])
  then show era: "in_era (monthStart t)" using nonneg p by (simp add: in_era_def)
  have ds: "day_of (monthStart t + SHANGHAI_OFFSET) = month_first ?d"
    using p by (simp add: s day_of_def)
  have same: "month_end (month_first ?d) = month_end ?d"
    using month_same [of ?d "month_first ?d"] month_bounds [of ?d] by (simp add: month_end_def)
  have n: "nextBucket (monthStart t) Month = month_end ?d * MS_PER_DAY - SHANGHAI_OFFSET"
    using nextBucket_month_days [OF era] by (simp add: ds same)
  show "monthStart t \<le> t"
    using month_bounds(1) [of ?d] by (simp add: s day_of_ge_iff)
  show lt: "t < nextBucket (monthStart t) Month"
    using month_bounds(2) [of ?d] day_of_ge_iff [of "month_end ?d" "t + SHANGHAI_OFFSET"]
    by (simp add: n)
  have "in_era (nextBucket (monthStart t) Month)" using assms lt by (simp add: in_era_def)
  moreover have "day_of (nextBucket (monthStart t) Month + SHANGHAI_OFFSET) = month_end ?d"
    using p by (simp add: n day_of_def)
  ultimately show "monthStart (nextBucket (monthStart t) Month) = nextBucket (monthStart t) Month"
    by (simp add: monthStart_days month_first_next) (simp add: n)
  assume u: "monthStart t \<le> u" "u < nextBucket (monthStart t) Month"
  have "month_first ?d \<le> day_of (u + SHANGHAI_OFFSET)" using u(1) s by (simp add: day_of_ge_iff)
  moreover have "day_of (u + SHANGHAI_OFFSET) < month_end ?d"
    using u(2) n day_of_ge_iff [of "month_end ?d" "u + SHANGHAI_OFFSET"] by linarith
  ultimately have "month_first (day_of (u + SHANGHAI_OFFSET)) = month_first ?d"
    using month_same [of ?d "day_of (u + SHANGHAI_OFFSET)"] by (simp add: month_first_def)
  moreover have "in_era u" using era u(1) by (rule in_era_up)
  ultimately show "monthStart u = monthStart t" by (simp add: monthStart_days s)
qed

lemma bucketStart_Month [simp]: "bucketStart t Month = monthStart t"
  by (simp add: bucketStart_def)

interpretation bk: bucketing "\<lambda>t. bucketStart t g" "\<lambda>c. nextBucket c g" in_era for g
proof (unfold_locales, goal_cases)
  case (1 t) then show ?case
    using fixed_bucket(5) [of g t] month_bucket(1) [of t] by (cases "g = Month") simp_all
next
  case (2 s t) then show ?case by (rule in_era_up)
next
  case (3 t) then show ?case
    using fixed_bucket(1) [of g t] month_bucket(2) [of t] by (cases "g = Month") simp_all
next
  case (4 t) then show ?case
    using fixed_bucket(2) [of g t] month_bucket(3) [of t] by (cases "g = Month") simp_all
next
  case (5 t u) then show ?case
    using fixed_bucket(3) [of g t u] month_bucket(4) [of t u] by (cases "g = Month") simp_all
next
  case (6 t) then show ?case
    using fixed_bucket(4) [of g t] month_bucket(5) [of t] by (cases "g = Month") simp_all
qed

text \<open>Every step of a loop over buckets moves forward, in whatever year.\<close>

lemma nextBucket_gt: "c < nextBucket c g"
proof (cases "g = Month")
  case False
  then show ?thesis using bucket_size_pos [of g] by (simp add: nextBucket_def)
next
  case True
  let ?d = "day_of (c + SHANGHAI_OFFSET)"
  let ?y = "YearFromDay ?d" and ?m = "MonthFromDay ?d"
  have m: "0 \<le> ?m" "?m \<le> 11" using MonthFromDay_range [of ?d] by auto
  have "(?d + 1) * MS_PER_DAY \<le> month_end ?d * MS_PER_DAY"
    using month_bounds(2) [of ?d] MS_PER_DAY_nonneg by (intro mult_right_mono) simp_all
  also have "month_end ?d * MS_PER_DAY \<le> Date_UTC ?y (?m + 1)"
  proof (cases "0 \<le> ?y \<and> ?y \<le> 99")
    case False
    then show ?thesis by (simp add: Date_UTC_next [OF False m] month_end_def)
  next
    case True
    have "month_end ?d \<le> DayFromYear (?y + 1)"
      using days_before_mono [of "?m + 1" 12 ?y] days_before_12 [of ?y] m
      by (simp add: month_end_def)
    also have "\<dots> \<le> DayFromYear (1900 + ?y)" using DayFromYear_less [of "?y + 1" "1900 + ?y"] by simp
    finally have "month_end ?d \<le> DayFromYear (1900 + ?y)" .
    moreover have "DayFromYear (1900 + ?y) * MS_PER_DAY \<le> Date_UTC ?y (?m + 1)"
    proof -
      have n: "\<not> (0 \<le> 1900 + ?y \<and> 1900 + ?y \<le> 99)" using True by simp
      have "Date_UTC ?y (?m + 1) = Date_UTC (1900 + ?y) (?m + 1)"
        by (simp only: Date_UTC_def if_P [OF True] if_not_P [OF n])
      moreover have "0 \<le> days_before (1900 + ?y) (?m + 1)"
        using days_before_mono [of 0 "?m + 1" "1900 + ?y"] m by (simp add: days_before_def)
      ultimately show ?thesis
        by (simp add: Date_UTC_next [OF n m] mult_right_mono MS_PER_DAY_def)
    qed
    ultimately show ?thesis
      by (meson order_trans mult_right_mono MS_PER_DAY_nonneg)
  qed
  finally have "(?d + 1) * MS_PER_DAY \<le> Date_UTC ?y (?m + 1)" by simp
  then show ?thesis
    using True day_of_bounds(2) [of "c + SHANGHAI_OFFSET"]
    by (simp add: nextBucket_def getUTCFullYear_def getUTCMonth_def Let_def)
qed

end
