(* ===== verification/Splitting.thy ===== *)
theory Splitting
  imports Buckets
begin

text \<open>
  \<open>splitBytes\<close> of \<open>server/usage/time.ts\<close> and \<open>rollupMinutes\<close> of \<open>server/usage/store.ts\<close>: a
  traffic sample of \<open>bytes\<close> between two times is divided over the buckets it spans, in proportion to
  the overlap, and the remainder of the integer divisions is handed out one byte at a time from the
  first bucket on; day and month parts are sums of the minute parts. No byte is lost or invented.
\<close>

type_synonym part = "int \<times> int"  \<comment> \<open>bucket start and bytes\<close>

definition part_sum :: "part list \<Rightarrow> int" where
  "part_sum ps = (\<Sum>p\<leftarrow>ps. snd p)"

text \<open>The \<open>for\<close> loop over the buckets, from \<open>current\<close> on.\<close>

function split_loop :: "int \<Rightarrow> int \<Rightarrow> int \<Rightarrow> grain \<Rightarrow> int \<Rightarrow> part list" where
  "split_loop start end bytes g current =
     (if current < end
      then let overlap = min end (nextBucket current g) - max start current;
               part = bigint_div (bytes * overlap) (end - start)
           in (current, part) # split_loop start end bytes g (nextBucket current g)
      else [])"
  by pat_completeness auto
termination
proof (relation "measure (\<lambda>(start, end, bytes, g, current). nat (end - current))", goal_cases)
  case 1
  then show ?case by simp
next
  case (2 start "end" bytes g current)
  then show ?case using nextBucket_gt [of current g] by simp
qed

declare split_loop.simps [simp del]

text \<open>The loop that hands out the remainder, stopping when none is left.\<close>

fun distribute :: "int \<Rightarrow> part list \<Rightarrow> part list" where
  "distribute remainder [] = []"
| "distribute remainder ((s, b) # ps) =
     (if remainder = 0 then (s, b) # ps else (s, b + 1) # distribute (remainder - 1) ps)"

definition splitBytes :: "int \<Rightarrow> int \<Rightarrow> int \<Rightarrow> grain \<Rightarrow> part list" where
  "splitBytes start end bytes g =
     (let buckets = split_loop start end bytes g (bucketStart start g);
          allocated = part_sum buckets
      in distribute (bytes - allocated) buckets)"

text \<open>
  \<open>rollupMinutes\<close>: a JavaScript \<open>Map\<close> keeps its keys in the order they were first set, here an
  association list.
\<close>

fun add_part :: "int \<Rightarrow> int \<Rightarrow> part list \<Rightarrow> part list" where
  "add_part s b [] = [(s, b)]"
| "add_part s b ((s', b') # ps) =
     (if s' = s then (s', b' + b) # ps else (s', b') # add_part s b ps)"

definition rollupMinutes :: "part list \<Rightarrow> grain \<Rightarrow> part list" where
  "rollupMinutes minutes g =
     (if g = Minute then minutes
      else foldl (\<lambda>buckets (s, b). add_part (bucketStart s g) b buckets) [] minutes)"

section \<open>The loop covers the sample\<close>

text \<open>The overlaps the loop computes.\<close>

function overlaps :: "int \<Rightarrow> int \<Rightarrow> grain \<Rightarrow> int \<Rightarrow> part list" where
  "overlaps start end g current =
     (if current < end
      then (current, min end (nextBucket current g) - max start current) #
           overlaps start end g (nextBucket current g)
      else [])"
  by pat_completeness auto
termination
proof (relation "measure (\<lambda>(start, end, g, current). nat (end - current))", goal_cases)
  case 1
  then show ?case by simp
next
  case (2 start "end" g current)
  then show ?case using nextBucket_gt [of current g] by simp
qed

declare overlaps.simps [simp del]

lemma split_loop_overlaps:
  "split_loop start end bytes g c =
    map (\<lambda>(s, o'). (s, bigint_div (bytes * o') (end - start))) (overlaps start end g c)"
proof (induction start "end" g c rule: overlaps.induct)
  case (1 start "end" g c)
  then show ?case
    by (subst split_loop.simps, subst overlaps.simps) (simp add: Let_def)
qed

lemma overlaps_sum:
  "start < end \<Longrightarrow> c < end \<Longrightarrow> start < nextBucket c g \<Longrightarrow>
    part_sum (overlaps start end g c) = end - max start c"
proof (induction start "end" g c rule: overlaps.induct)
  case (1 start "end" g c)
  let ?n = "nextBucket c g"
  have step: "part_sum (overlaps start end g c) =
      min end ?n - max start c + part_sum (overlaps start end g ?n)"
    using 1 by (subst overlaps.simps) (simp add: part_sum_def)
  show ?case
  proof (cases "?n < end")
    case True
    with 1 nextBucket_gt [of ?n g] have "part_sum (overlaps start end g ?n) = end - max start ?n"
      by simp
    with True 1 step show ?thesis by simp
  next
    case False
    then have "overlaps start end g ?n = []" by (subst overlaps.simps) simp
    with False step show ?thesis by (simp add: part_sum_def)
  qed
qed

lemma overlaps_pos:
  "start < end \<Longrightarrow> start < nextBucket c g \<Longrightarrow> p \<in> set (overlaps start end g c) \<Longrightarrow> 0 < snd p"
proof (induction start "end" g c rule: overlaps.induct)
  case (1 start "end" g c)
  from "1.prems"(3) have c: "c < end" by (subst (asm) overlaps.simps) (simp split: if_splits)
  from "1.prems"(3) c consider "p = (c, min end (nextBucket c g) - max start c)"
    | "p \<in> set (overlaps start end g (nextBucket c g))"
    by (subst (asm) overlaps.simps) auto
  then show ?case
  proof cases
    case 1
    with "1.prems" c nextBucket_gt [of c g] show ?thesis by simp
  next
    case 2
    with "1.prems" have "start < nextBucket (nextBucket c g) g"
      using nextBucket_gt [of "nextBucket c g" g] by linarith
    with "1.IH" [OF c] "1.prems"(1) 2 show ?thesis by blast
  qed
qed

section \<open>The remainder fits\<close>

lemma mod_sum:
  "b * (\<Sum>p\<leftarrow>ps. snd p) = L * (\<Sum>p\<leftarrow>ps. b * snd p div L) + (\<Sum>p\<leftarrow>ps. b * snd p mod (L :: int))"
proof (induction ps)
  case Nil
  then show ?case by simp
next
  case (Cons p ps)
  have "b * snd p = L * (b * snd p div L) + b * snd p mod L" by simp
  moreover have "b * (snd p + (\<Sum>p\<leftarrow>ps. snd p)) = b * snd p + b * (\<Sum>p\<leftarrow>ps. snd p)"
    by (rule distrib_left)
  moreover have "L * (b * snd p div L + (\<Sum>p\<leftarrow>ps. b * snd p div L)) =
      L * (b * snd p div L) + L * (\<Sum>p\<leftarrow>ps. b * snd p div L)"
    by (rule distrib_left)
  ultimately show ?case using Cons.IH by (simp del: mult_div_mod_eq)
qed

lemma mods_bound:
  "0 < L \<Longrightarrow> (\<Sum>p\<leftarrow>ps. f p mod L) \<le> int (length ps) * (L - 1) \<and> 0 \<le> (\<Sum>p\<leftarrow>ps. f p mod (L :: int))"
proof (induction ps)
  case Nil
  then show ?case by simp
next
  case (Cons p ps)
  have "f p mod L \<le> L - 1" "0 \<le> f p mod L" using Cons.prems by simp_all
  with Cons show ?case by (simp add: algebra_simps)
qed

lemma remainder_bounds:
  fixes L :: int
  assumes "0 < L" and "(\<Sum>p\<leftarrow>ps. snd p) = L"
  shows "0 \<le> b - (\<Sum>p\<leftarrow>ps. b * snd p div L)"
    and "b - (\<Sum>p\<leftarrow>ps. b * snd p div L) < int (length ps)"
proof -
  let ?r = "b - (\<Sum>p\<leftarrow>ps. b * snd p div L)" and ?m = "\<Sum>p\<leftarrow>ps. b * snd p mod L"
  have "L * ?r = ?m"
    using mod_sum [of b ps L] assms(2) by (simp add: right_diff_distrib mult.commute)
  moreover note mods_bound [OF assms(1), of "\<lambda>p. b * snd p" ps]
  ultimately have lo: "0 \<le> L * ?r" and hi: "L * ?r \<le> int (length ps) * (L - 1)" by simp_all
  from lo assms(1) show "0 \<le> ?r" by (simp add: zero_le_mult_iff)
  have "ps \<noteq> []" using assms by auto
  then have "int (length ps) * (L - 1) < int (length ps) * L" using assms(1) by simp
  with hi have "L * ?r < L * int (length ps)" by (simp add: mult.commute)
  then show "?r < int (length ps)" using assms(1) by (simp only: mult_less_cancel_left_pos)
qed

lemma distribute_sum:
  "0 \<le> r \<Longrightarrow> r \<le> int (length ps) \<Longrightarrow> part_sum (distribute r ps) = part_sum ps + r"
  by (induction r ps rule: distribute.induct) (auto simp: part_sum_def)

lemma distribute_starts [simp]: "map fst (distribute r ps) = map fst ps"
  by (induction r ps rule: distribute.induct) auto

lemma distribute_parts:
  "list_all2 (\<lambda>p q. snd p \<le> snd q \<and> snd q \<le> snd p + 1) ps (distribute r ps)"
  by (induction r ps rule: distribute.induct)
    (auto simp: list.rel_refl_strong)

section \<open>splitBytes\<close>

lemma splitBytes_overlaps:
  assumes "start < end" "0 \<le> bytes" "in_era start"
  shows "split_loop start end bytes g (bucketStart start g) =
    map (\<lambda>(s, o'). (s, bytes * o' div (end - start))) (overlaps start end g (bucketStart start g))"
proof -
  have "start < nextBucket (bucketStart start g) g" by (rule bk.lt_next [OF assms(3)])
  then have pos: "0 < snd p" if "p \<in> set (overlaps start end g (bucketStart start g))" for p
    using overlaps_pos [OF assms(1) _ that] by blast
  show ?thesis
    unfolding split_loop_overlaps
    using assms(1,2) by (auto simp: bigint_div_nonneg dest!: pos)
qed

lemma splitBytes_total:
  assumes "start < end" "0 \<le> bytes" "in_era start"
  shows "part_sum (splitBytes start end bytes g) = bytes"
proof -
  let ?c = "bucketStart start g" and ?L = "end - start"
  let ?os = "overlaps start end g ?c"
  have lt: "start < nextBucket ?c g" by (rule bk.lt_next [OF assms(3)])
  have "?c \<le> start" by (rule bk.start_le [OF assms(3)])
  then have sum: "(\<Sum>p\<leftarrow>?os. snd p) = ?L"
    using overlaps_sum [OF assms(1) _ lt] assms(1) by (simp add: part_sum_def)
  let ?ps = "split_loop start end bytes g ?c"
  have ps: "?ps = map (\<lambda>(s, o'). (s, bytes * o' div ?L)) ?os"
    by (rule splitBytes_overlaps [OF assms])
  have alloc: "part_sum ?ps = (\<Sum>p\<leftarrow>?os. bytes * snd p div ?L)"
    by (simp add: ps part_sum_def case_prod_unfold o_def)
  have "0 \<le> bytes - part_sum ?ps" "bytes - part_sum ?ps < int (length ?ps)"
    unfolding alloc using remainder_bounds [OF _ sum, of bytes] assms(1) by (simp_all add: ps)
  then show ?thesis
    by (simp add: splitBytes_def Let_def distribute_sum)
qed

lemma distribute_nonneg:
  "\<forall>p \<in> set ps. 0 \<le> snd p \<Longrightarrow> q \<in> set (distribute r ps) \<Longrightarrow> 0 \<le> snd q"
proof (induction r ps rule: distribute.induct)
  case (2 r s b ps)
  then show ?case by (cases "r = 0") auto
qed simp

lemma splitBytes_nonneg:
  assumes "start < end" "0 \<le> bytes" "in_era start" "p \<in> set (splitBytes start end bytes g)"
  shows "0 \<le> snd p"
proof -
  let ?c = "bucketStart start g"
  have lt: "start < nextBucket ?c g" by (rule bk.lt_next [OF assms(3)])
  have "0 \<le> snd q" if "q \<in> set (split_loop start end bytes g ?c)" for q
  proof -
    from that obtain s o' where o': "(s, o') \<in> set (overlaps start end g ?c)"
      and "q = (s, bytes * o' div (end - start))"
      by (auto simp: splitBytes_overlaps [OF assms(1-3)])
    with overlaps_pos [OF assms(1) lt o'] assms(1,2) show ?thesis
      by (simp add: pos_imp_zdiv_nonneg_iff)
  qed
  then show ?thesis
    using assms(4) distribute_nonneg unfolding splitBytes_def Let_def by blast
qed

text \<open>Every part starts a bucket, and the starts increase.\<close>

lemma split_loop_aligned:
  "in_era c \<Longrightarrow> bucketStart c g = c \<Longrightarrow> p \<in> set (split_loop start end bytes g c) \<Longrightarrow>
    c \<le> fst p \<and> fst p < end \<and> bucketStart (fst p) g = fst p"
proof (induction start "end" bytes g c rule: split_loop.induct)
  case (1 start "end" bytes g c)
  let ?n = "nextBucket c g"
  from "1.prems" have c: "c < end" by (subst (asm) split_loop.simps) (simp split: if_splits)
  from "1.prems"(3) c consider "fst p = c" | "p \<in> set (split_loop start end bytes g ?n)"
    by (subst (asm) split_loop.simps) (auto simp: Let_def)
  then show ?case
  proof cases
    case 1
    with c "1.prems"(2) show ?thesis by simp
  next
    case 2
    have "bucketStart ?n g = ?n" "in_era ?n"
      using bk.next_aligned [OF "1.prems"(1), of g] bk.aligned_ok [OF "1.prems"(1), of g]
        "1.prems"(2) by simp_all
    with "1.IH" [OF c] 2 have "?n \<le> fst p \<and> fst p < end \<and> bucketStart (fst p) g = fst p"
      by (simp add: Let_def)
    with nextBucket_gt [of c g] show ?thesis by simp
  qed
qed

lemma split_loop_sorted: "sorted_wrt (\<lambda>p q. fst p < fst q) (split_loop start end bytes g c)"
  and split_loop_from: "p \<in> set (split_loop start end bytes g c) \<Longrightarrow> c \<le> fst p"
proof (induction start "end" bytes g c arbitrary: p rule: split_loop.induct)
  case (1 start "end" bytes g c)
  {
    case 1
    have "c < fst p" if "c < end" "p \<in> set (split_loop start end bytes g (nextBucket c g))" for p
      using "1.IH"(2) [OF that(1) refl refl that(2)] nextBucket_gt [of c g] by simp
    then show ?case using "1.IH"(1) by (subst split_loop.simps) (simp add: Let_def)
  next
    case 2
    then show ?case using "1.IH"(2) nextBucket_gt [of c g]
      by (subst (asm) split_loop.simps) (fastforce simp: Let_def split: if_splits)
  }
qed

section \<open>rollupMinutes\<close>

lemma add_part_sum: "part_sum (add_part s b ps) = part_sum ps + b"
  by (induction ps) (auto simp: part_sum_def)

lemma rollup_fold_sum:
  "part_sum (foldl (\<lambda>bs (s, b). add_part (f s) b bs) acc ms) = part_sum acc + part_sum ms"
proof (induction ms arbitrary: acc)
  case Nil
  then show ?case by (simp add: part_sum_def)
next
  case (Cons m ms)
  obtain s b where m: "m = (s, b)" by (cases m)
  have "part_sum (m # ms) = b + part_sum ms" by (simp add: m part_sum_def)
  with Cons show ?case by (simp add: m add_part_sum)
qed

lemma rollup_total: "part_sum (rollupMinutes ms g) = part_sum ms"
  using rollup_fold_sum [of "\<lambda>s. bucketStart s g" "[]" ms]
  by (simp add: rollupMinutes_def part_sum_def)

lemma add_part_keys: "fst ` set (add_part s b ps) = insert s (fst ` set ps)"
  by (induction s b ps rule: add_part.induct) auto

lemma add_part_starts:
  "map fst (add_part s b ps) = (if s \<in> fst ` set ps then map fst ps else map fst ps @ [s])"
  by (induction s b ps rule: add_part.induct) auto

lemma add_part_distinct: "distinct (map fst ps) \<Longrightarrow> distinct (map fst (add_part s b ps))"
  by (simp add: add_part_starts)

text \<open>
  The starts of a rollup depend on the starts of the minute parts only: upload and download parts
  of one sample line up.
\<close>

lemma rollup_starts:
  assumes "map fst ms = map fst ns" and "map fst acc = map fst acc'"
  shows "map fst (foldl (\<lambda>bs (s, b). add_part (f s) b bs) acc ms) =
    map fst (foldl (\<lambda>bs (s, b). add_part (f s) b bs) acc' ns)"
  using assms
proof (induction ms arbitrary: ns acc acc')
  case Nil
  then show ?case by simp
next
  case (Cons m ms)
  obtain s b where m: "m = (s, b)" by (cases m)
  from Cons.prems m obtain b' ns' where ns: "ns = (s, b') # ns'" and "map fst ms = map fst ns'"
    by (cases ns) auto
  moreover have "fst ` set acc = fst ` set acc'"
    using Cons.prems(2) by (metis list.set_map)
  ultimately show ?case
    using Cons.IH [of ns'] Cons.prems(2) by (simp add: m add_part_starts)
qed

lemma rollupMinutes_starts:
  assumes "map fst ms = map fst ns"
  shows "map fst (rollupMinutes ms g) = map fst (rollupMinutes ns g)"
  using assms rollup_starts [OF assms refl, of "\<lambda>s. bucketStart s g" "[]"]
  unfolding rollupMinutes_def by (cases "g = Minute") simp_all

lemma split_starts:
  "map fst (split_loop start end bytes g c) = map fst (split_loop start end bytes' g c)"
  by (simp add: split_loop_overlaps case_prod_unfold o_def)

lemma splitBytes_starts:
  "map fst (splitBytes start end bytes g) = map fst (splitBytes start end bytes' g)"
  unfolding splitBytes_def Let_def distribute_starts by (rule split_starts)

end
