(* ===== verification/Schema.thy ===== *)
theory Schema
  imports Messages Tables Task_Hub Splitting
begin

text \<open>
  The panel's persistent state (\<open>server/db/schema.ts\<close>, \<open>schema-machines.ts\<close>, \<open>schema-proxy.ts\<close>):
  a record per table, the database as the list of rows of every table, and the world a request runs
  in (the database, the clock, the random source and the task hub). TEXT columns that only ever hold
  the decimal digits of a bigint, and the JSON columns \<open>tags\<close> and \<open>supported_tasks\<close>, hold the value
  they encode (theory \<open>Text\<close> has the round trip of the digits). Foreign keys are left out: every
  insertion of the sources has read the parent row first, and users and machines are never deleted.
\<close>

section \<open>Machines and tasks\<close>

datatype task_state = Queued | Accepted | Running | Succeeded | Failed | Canceled | Superseded

record machine_row =
  m_id :: string
  m_name :: string
  m_address :: string
  m_region :: string
  m_tags :: "string list"
  m_tokenHash :: string
  m_tokenCiphertext :: string
  m_tokenGeneration :: int
  m_installationId :: "string option"
  m_bindingEpoch :: int
  m_sessionEpoch :: int
  m_statusSequence :: int
  m_statusJson :: "string option"
  m_supportedTasks :: "task_kind list"
  m_daemonVersion :: "string option"
  m_os :: "string option"
  m_arch :: "string option"
  m_lastSeenAt :: "int option"
  m_version :: int
  m_createdAt :: int
  m_removedAt :: "int option"

record task_row =
  t_id :: string
  t_machineId :: string
  t_bindingEpoch :: int
  t_kind :: task_kind
  t_payload :: bytes
  t_payloadHash :: string
  t_requestKey :: string
  t_state :: task_state
  t_progressSequence :: int
  t_reportHash :: "string option"
  t_phase :: "string option"
  t_progressPercent :: "int option"
  t_message :: "string option"
  t_errorCode :: "string option"
  t_diagnosticJson :: "string option"
  t_rollback :: "rollback_state option"
  t_createdAt :: int
  t_updatedAt :: int

section \<open>Identity\<close>

datatype role = Admin | User
datatype user_status = Pending | Active | Disabled
datatype flow_purpose = Activation | Recovery | Login | Register | Reauth

record user_row =
  u_id :: string
  u_username :: string
  u_role :: role
  u_status :: user_status
  u_monthlyLimitBytes :: "int option"
  u_version :: int
  u_createdAt :: int

record password_row =
  pw_userId :: string
  pw_hash :: string
  pw_changedAt :: int

record session_row =
  ss_tokenHash :: string
  ss_userId :: string
  ss_expiresAt :: int
  ss_reauthAt :: int

record api_key_row =
  k_id :: string
  k_userId :: string
  k_name :: string
  k_prefix :: string
  k_tokenHash :: string
  k_createdAt :: int
  k_lastUsedAt :: "int option"
  k_revokedAt :: "int option"

record passkey_row =
  pk_id :: string
  pk_userId :: string
  pk_publicKey :: string
  pk_counter :: int
  pk_transports :: "string list"
  pk_deviceType :: string
  pk_backedUp :: bool
  pk_name :: string
  pk_createdAt :: int

record auth_flow_row =
  f_id :: string
  f_purpose :: flow_purpose
  f_userId :: "string option"
  f_tokenHash :: "string option"
  f_challenge :: "string option"
  f_sessionHash :: "string option"
  f_expiresAt :: int
  f_consumedAt :: "int option"

record rate_limit_row =
  rl_key :: string
  rl_attempts :: int
  rl_resetsAt :: int

section \<open>Proxy credentials, policy, configuration, usage, subscriptions\<close>

record proxy_credential_row =
  pc_userId :: string
  pc_secretsCiphertext :: string
  pc_generation :: int
  pc_changedAt :: int

record subscription_token_row =
  st_userId :: string
  st_tokenHash :: string
  st_tokenCiphertext :: string
  st_generation :: int
  st_changedAt :: int

record policy_state_row =
  ps_revision :: int
  ps_fingerprint :: string
  ps_period :: string
  ps_updatedAt :: int

record machine_config_row =
  mc_machineId :: string
  mc_settingsCiphertext :: "string option"
  mc_version :: int
  mc_desiredRevisionId :: "string option"
  mc_desiredPolicyRevision :: int

record config_preview_row =
  cp_id :: string
  cp_machineId :: string
  cp_settingsCiphertext :: string
  cp_renderedCiphertext :: string
  cp_digest :: string
  cp_expectedVersion :: int
  cp_policyRevision :: int
  cp_expiresAt :: int
  cp_createdBy :: string
  cp_publishedRevisionId :: "string option"

record config_revision_row =
  cr_id :: string
  cr_machineId :: string
  cr_version :: int
  cr_settingsCiphertext :: string
  cr_renderedCiphertext :: string
  cr_digest :: string
  cr_policyRevision :: int
  cr_authorizedUserIds :: "string list"
  cr_createdAt :: int
  cr_createdBy :: "string option"

record machine_user_row =
  mu_machineId :: string
  mu_userId :: string

record usage_stream_row =
  us_machineId :: string
  us_installationId :: string
  us_streamId :: string
  us_committedSequence :: int
  us_lastPayloadHash :: string
  us_lastSeenAt :: int

record usage_bucket_row =
  ub_grain :: grain
  ub_bucketStart :: int
  ub_userId :: string
  ub_machineId :: string
  ub_uploadBytes :: int
  ub_downloadBytes :: int
  ub_estimated :: bool
  ub_incomplete :: bool

record quota_state_row =
  qs_userId :: string
  qs_period :: string
  qs_usedBytes :: int
  qs_blocked :: bool

record subscription_row =
  sb_id :: string
  sb_userId :: string
  sb_name :: string
  sb_preset :: string
  sb_requestKey :: string
  sb_draftCiphertext :: string
  sb_publishedCiphertext :: "string option"
  sb_version :: int
  sb_publishedVersion :: int
  sb_legacy :: bool
  sb_tokenHash :: string
  sb_tokenCiphertext :: string
  sb_generation :: int
  sb_enabled :: bool
  sb_createdAt :: int
  sb_updatedAt :: int
  sb_lastFetchedAt :: "int option"
  sb_deletedAt :: "int option"

record subscription_preview_row =
  sp_id :: string
  sp_subscriptionId :: string
  sp_version :: int
  sp_digest :: string
  sp_expiresAt :: int
  sp_published :: bool

section \<open>The database and the world\<close>

record database =
  machines :: "machine_row list"
  tasks :: "task_row list"
  users :: "user_row list"
  passwords :: "password_row list"
  sessions :: "session_row list"
  apiKeys :: "api_key_row list"
  passkeys :: "passkey_row list"
  authFlows :: "auth_flow_row list"
  rateLimits :: "rate_limit_row list"
  proxyCredentials :: "proxy_credential_row list"
  subscriptionTokens :: "subscription_token_row list"
  policyState :: "policy_state_row option"  \<comment> \<open>the only row, with id "global"\<close>
  machineConfigs :: "machine_config_row list"
  configPreviews :: "config_preview_row list"
  configRevisions :: "config_revision_row list"
  machineUserHistory :: "machine_user_row list"
  usageStreams :: "usage_stream_row list"
  usageBuckets :: "usage_bucket_row list"
  quotaStates :: "quota_state_row list"
  subscriptions :: "subscription_row list"
  subscriptionPreviews :: "subscription_preview_row list"

definition empty_db :: database where
  "empty_db = \<lparr>machines = [], tasks = [], users = [], passwords = [], sessions = [], apiKeys = [],
     passkeys = [], authFlows = [], rateLimits = [], proxyCredentials = [], subscriptionTokens = [],
     policyState = None, machineConfigs = [], configPreviews = [], configRevisions = [],
     machineUserHistory = [], usageStreams = [], usageBuckets = [], quotaStates = [],
     subscriptions = [], subscriptionPreviews = []\<rparr>"

text \<open>
  \<open>w_draws\<close> counts the values taken from the random source; \<open>Date.now()\<close> reads \<open>w_now\<close>, which a
  synchronous call sees as one instant. \<open>w_dummyHash\<close> is the module variable \<open>dummyHash\<close> of the
  identity service.
\<close>

record world =
  w_db :: database
  w_now :: int
  w_draws :: nat
  w_hub :: hub
  w_dummyHash :: "string option"

type_synonym 'a app = "(world, 'a) prog"

definition db_get :: "(database \<Rightarrow> 'a) \<Rightarrow> 'a app" where
  "db_get f = gets (\<lambda>w. f (w_db w))"

definition db_run :: "(database \<Rightarrow> database) \<Rightarrow> unit app" where
  "db_run f = modify (\<lambda>w. w\<lparr>w_db := f (w_db w)\<rparr>)"

definition Date_now :: "int app" where
  "Date_now = gets w_now"

definition hub_run :: "(hub \<Rightarrow> hub) \<Rightarrow> unit app" where
  "hub_run f = modify (\<lambda>w. w\<lparr>w_hub := f (w_hub w)\<rparr>)"

text \<open>
  \<open>db.transaction(..)\<close>: an exception rolls the database back (a nested call is a savepoint, rolled
  back the same way) and is thrown on; nothing else of the world is undone.
\<close>

definition transaction :: "'a app \<Rightarrow> 'a app" where
  "transaction p w =
     (case p w of (Inl e, t) \<Rightarrow> (Inl e, t\<lparr>w_db := w_db w\<rparr>) | (Inr a, t) \<Rightarrow> (Inr a, t))"

lemma db_get_run [prog_run, simp]: "db_get f w = (Inr (f (w_db w)), w)"
  by (simp add: db_get_def)

lemma db_run_run [prog_run, simp]: "db_run f w = (Inr (), w\<lparr>w_db := f (w_db w)\<rparr>)"
  by (simp add: db_run_def)

lemma Date_now_run [prog_run, simp]: "Date_now w = (Inr (w_now w), w)"
  by (simp add: Date_now_def)

lemma hub_run_run [prog_run, simp]: "hub_run f w = (Inr (), w\<lparr>w_hub := f (w_hub w)\<rparr>)"
  by (simp add: hub_run_def)

lemma bind_db_get [steps_run]: "bind (db_get f) g w = g (f (w_db w)) w"
  by (simp add: bind_def)

lemma bind_gets_run [steps_run]: "bind (gets f) g (w :: world) = g (f w) w"
  by (simp add: bind_def)

lemma transaction_run [prog_run]:
  "transaction p w =
    (case fst (p w) of Inl e \<Rightarrow> (Inl e, (snd (p w))\<lparr>w_db := w_db w\<rparr>) | Inr a \<Rightarrow> (Inr a, snd (p w)))"
  by (simp add: transaction_def split: prod.split sum.split)

lemma transaction_Inr [steps_run]: "p w = (Inr a, t) \<Longrightarrow> transaction p w = (Inr a, t)"
  by (simp add: transaction_def)

lemma transaction_Inl [steps_run]: "p w = (Inl e, t) \<Longrightarrow> transaction p w = (Inl e, t\<lparr>w_db := w_db w\<rparr>)"
  by (simp add: transaction_def)

lemma transaction_ok [prog_ok]: "transaction p w = (Inr a, t) \<longleftrightarrow> p w = (Inr a, t)"
  by (auto simp: transaction_def split: prod.splits sum.splits)

lemma transaction_fail [prog_fail]:
  "transaction p w = (Inl e, t) \<longleftrightarrow> (\<exists>u. p w = (Inl e, u) \<and> t = u\<lparr>w_db := w_db w\<rparr>)"
  by (auto simp: transaction_def split: prod.splits sum.splits)

lemma transaction_fail_db: "transaction p w = (Inl e, t) \<Longrightarrow> w_db t = w_db w"
  by (auto simp: transaction_fail)

lemma transaction_Inl_db: "fst (transaction p w) = Inl e \<Longrightarrow> w_db (snd (transaction p w)) = w_db w"
  by (auto simp: transaction_run split: sum.splits)

lemma db_get_ok [prog_ok]: "db_get f w = (Inr a, t) \<longleftrightarrow> a = f (w_db w) \<and> t = w"
  by auto

lemma db_run_ok [prog_ok]: "db_run f w = (Inr a, t) \<longleftrightarrow> t = w\<lparr>w_db := f (w_db w)\<rparr>"
  by auto

lemma Date_now_ok [prog_ok]: "Date_now w = (Inr a, t) \<longleftrightarrow> a = w_now w \<and> t = w"
  by auto

lemma hub_run_ok [prog_ok]: "hub_run f w = (Inr a, t) \<longleftrightarrow> t = w\<lparr>w_hub := f (w_hub w)\<rparr>"
  by auto

lemma db_get_fail [prog_fail]: "db_get f w = (Inl e, t) \<longleftrightarrow> False"
  by simp

lemma db_run_fail [prog_fail]: "db_run f w = (Inl e, t) \<longleftrightarrow> False"
  by simp

lemma Date_now_fail [prog_fail]: "Date_now w = (Inl e, t) \<longleftrightarrow> False"
  by simp

lemma hub_run_fail [prog_fail]: "hub_run f w = (Inl e, t) \<longleftrightarrow> False"
  by simp

text \<open>Invariants of the database, and what a transaction does for them.\<close>

abbreviation on_db :: "(database \<Rightarrow> bool) \<Rightarrow> world \<Rightarrow> bool" where
  "on_db I w \<equiv> I (w_db w)"

lemma keeps_db_get [keeps_rules]: "keeps I (db_get f)"
  by (simp add: keeps_def)

lemma keeps_Date_now [keeps_rules]: "keeps I Date_now"
  by (simp add: keeps_def)

lemma keeps_hub_run [keeps_rules]: "keeps (on_db I) (hub_run f)"
  by (simp add: keeps_def)

lemma keeps_db_run [keeps_rules]: "(\<And>d. I d \<Longrightarrow> I (f d)) \<Longrightarrow> keeps (on_db I) (db_run f)"
  by (simp add: keeps_def)

lemma keeps_transaction [keeps_rules]: "keeps (on_db I) p \<Longrightarrow> keeps (on_db I) (transaction p)"
  by (auto simp: keeps_def transaction_run split: sum.split)

text \<open>Only a returning transaction has to be looked at.\<close>

lemma keeps_transactionI:
  assumes "\<And>w a t. I (w_db w) \<Longrightarrow> p w = (Inr a, t) \<Longrightarrow> I (w_db t)"
  shows "keeps (on_db I) (transaction p)"
proof (rule keepsI)
  fix w :: world assume "I (w_db w)"
  with assms [of w] show "I (w_db (snd (transaction p w)))"
    by (cases "p w") (auto simp: transaction_def split: sum.split)
qed

section \<open>The tables with their unique keys\<close>

definition task_key :: "task_row \<Rightarrow> string \<times> string" where
  "task_key t = (t_machineId t, t_requestKey t)"

definition bucket_key :: "usage_bucket_row \<Rightarrow> grain \<times> int \<times> string \<times> string" where
  "bucket_key b = (ub_grain b, ub_bucketStart b, ub_userId b, ub_machineId b)"

definition stream_key :: "usage_stream_row \<Rightarrow> string \<times> string \<times> string" where
  "stream_key s = (us_machineId s, us_installationId s, us_streamId s)"

interpretation machine_tbl: keyed_table machines machines_update m_id
  by unfold_locales simp

interpretation task_tbl: keyed_table tasks tasks_update t_id
  by unfold_locales simp

interpretation task_request_tbl: keyed_table tasks tasks_update task_key
  by unfold_locales simp

interpretation user_tbl: keyed_table users users_update u_id
  by unfold_locales simp

interpretation session_tbl: keyed_table sessions sessions_update ss_tokenHash
  by unfold_locales simp

interpretation rate_limit_tbl: keyed_table rateLimits rateLimits_update rl_key
  by unfold_locales simp

interpretation bucket_tbl: keyed_table usageBuckets usageBuckets_update bucket_key
  by unfold_locales simp

interpretation stream_tbl: keyed_table usageStreams usageStreams_update stream_key
  by unfold_locales simp

interpretation config_tbl: keyed_table machineConfigs machineConfigs_update mc_machineId
  by unfold_locales simp

end
