(* ===== verification/Json.thy ===== *)
theory Json
  imports Text
begin

text \<open>
  JSON values and \<open>JSON.stringify\<close>, compact and indented by two spaces (\<open>jsonBytes\<close> of the sing-box
  adapter), as ECMAScript defines them for strings of Latin-1. An object is the list of its
  properties in insertion order; a number is kept as the text \<open>Number::toString\<close> gives it. Parsing
  is a parameter of the components that parse.
\<close>

datatype json =
    JNull
  | JBool bool
  | JNum string
  | JStr string
  | JArr "json list"
  | JObj "(string \<times> json) list"

definition jint :: "int \<Rightarrow> json" where
  "jint i = JNum (decimal i)"

definition hex_digit :: "nat \<Rightarrow> char" where
  "hex_digit d = (''0123456789abcdef'' ! d)"

text \<open>Escapes of \<open>QuoteJSONString\<close>.\<close>

definition quote_char :: "char \<Rightarrow> string" where
  "quote_char c =
     (let n = of_char c :: nat
      in if n = 8 then [CHR 0x5C, CHR ''b''] else if n = 9 then [CHR 0x5C, CHR ''t'']
         else if n = 10 then [CHR 0x5C, CHR ''n''] else if n = 12 then [CHR 0x5C, CHR ''f'']
         else if n = 13 then [CHR 0x5C, CHR ''r''] else if n = 34 then [CHR 0x5C, CHR 0x22]
         else if n = 92 then [CHR 0x5C, CHR 0x5C]
         else if n < 32 then [CHR 0x5C, CHR ''u'', CHR ''0'', CHR ''0'',
                              hex_digit (n div 16), hex_digit (n mod 16)]
         else [c])"

definition quote :: "string \<Rightarrow> string" where
  "quote s = [CHR 0x22] @ concat (map quote_char s) @ [CHR 0x22]"

fun comma_sep :: "string \<Rightarrow> string list \<Rightarrow> string" where
  "comma_sep sep [] = []"
| "comma_sep sep [x] = x"
| "comma_sep sep (x # y # xs) = x @ sep @ comma_sep sep (y # xs)"

text \<open>\<open>JSON.stringify(value)\<close>\<close>

fun stringify :: "json \<Rightarrow> string" where
  "stringify JNull = ''null''"
| "stringify (JBool b) = (if b then ''true'' else ''false'')"
| "stringify (JNum n) = n"
| "stringify (JStr s) = quote s"
| "stringify (JArr xs) = ''['' @ comma_sep '','' (map stringify xs) @ '']''"
| "stringify (JObj ps) =
     ''{'' @ comma_sep '','' (map (\<lambda>(k, v). quote k @ '':'' @ stringify v) ps) @ ''}''"

text \<open>\<open>JSON.stringify(value, null, 2)\<close>, at an indentation.\<close>

definition newline :: "nat \<Rightarrow> string" where
  "newline n = [CHR 0x0A] @ replicate n (CHR '' '')"

fun stringify2 :: "nat \<Rightarrow> json \<Rightarrow> string" where
  "stringify2 n JNull = ''null''"
| "stringify2 n (JBool b) = (if b then ''true'' else ''false'')"
| "stringify2 n (JNum t) = t"
| "stringify2 n (JStr s) = quote s"
| "stringify2 n (JArr xs) =
     (if xs = [] then ''[]''
      else ''['' @ newline (n + 2) @
        comma_sep ('','' @ newline (n + 2)) (map (stringify2 (n + 2)) xs) @ newline n @ '']'')"
| "stringify2 n (JObj ps) =
     (if ps = [] then ''{}''
      else ''{'' @ newline (n + 2) @
        comma_sep ('','' @ newline (n + 2))
          (map (\<lambda>(k, v). quote k @ '': '' @ stringify2 (n + 2) v) ps) @ newline n @ ''}'')"

section \<open>Objects\<close>

text \<open>
  Property lookup, and \<open>{...base, ...extra}\<close>: a property of \<open>extra\<close> replaces the value of one
  of \<open>base\<close> in place and is appended otherwise.
\<close>

definition jprop :: "string \<Rightarrow> (string \<times> json) list \<Rightarrow> json option" where
  "jprop k ps = map_of ps k"

fun set_prop :: "string \<Rightarrow> json \<Rightarrow> (string \<times> json) list \<Rightarrow> (string \<times> json) list" where
  "set_prop k v [] = [(k, v)]"
| "set_prop k v ((k', v') # ps) = (if k' = k then (k, v) # ps else (k', v') # set_prop k v ps)"

definition spread :: "(string \<times> json) list \<Rightarrow> (string \<times> json) list \<Rightarrow> (string \<times> json) list" where
  "spread base extra = foldl (\<lambda>ps (k, v). set_prop k v ps) base extra"

lemma jprop_set_prop: "jprop k (set_prop k' v ps) = (if k = k' then Some v else jprop k ps)"
  by (induction ps) (auto simp: jprop_def)

lemma set_prop_keys:
  "map fst (set_prop k v ps) = (if k \<in> fst ` set ps then map fst ps else map fst ps @ [k])"
  by (induction k v ps rule: set_prop.induct) auto

lemma set_prop_distinct: "distinct (map fst ps) \<Longrightarrow> distinct (map fst (set_prop k v ps))"
  by (simp add: set_prop_keys)

lemma prop_spread:
  "distinct (map fst extra) \<Longrightarrow>
    jprop k (spread base extra) = (case jprop k extra of Some v \<Rightarrow> Some v | None \<Rightarrow> jprop k base)"
proof (induction extra arbitrary: base)
  case Nil
  then show ?case by (simp add: spread_def jprop_def)
next
  case (Cons p extra)
  obtain k' v where p: "p = (k', v)" by (cases p)
  with Cons.prems have "distinct (map fst extra)" "k' \<notin> fst ` set extra" by auto
  with Cons.IH [of "set_prop k' v base"] p show ?case
    by (auto simp: spread_def jprop_def jprop_set_prop [unfolded jprop_def] split: option.split
        dest: map_of_SomeD intro: rev_image_eqI)
qed

end
