(* ===== verification/Crypto.thy ===== *)
theory Crypto
  imports Schema Json
begin

text \<open>
  \<open>server/crypto/index.ts\<close>: identifiers, tokens, digests and the encryption of stored secrets. What
  Node and the third-party packages provide (SHA-256, AES-256-GCM, the random source, Argon2, the
  protobuf and JSON codecs, the clock-free parts of the environment) is the record \<open>platform\<close>, an
  argument of every definition that uses it. Base64url, which the encoded secrets and tokens are
  written in, is written out, with its round trip.
\<close>

text \<open>What \<open>X509Certificate\<close> tells of a certificate; a date that does not parse is \<open>None\<close>.\<close>

record certificate =
  x_publicKey :: bytes
  x_validFrom :: "int option"
  x_validTo :: "int option"
  x_checkIP :: "string \<Rightarrow> bool"
  x_checkHost :: "string \<Rightarrow> bool"

text \<open>What @simplewebauthn/server exchanges: the options of a ceremony, and what it verified.\<close>

record webauthn_options =
  wo_challenge :: string
  wo_json :: json

record authentication_info =
  ai_verified :: bool
  ai_newCounter :: int
  ai_backedUp :: bool

record registration_info =
  ri_verified :: bool
  ri_credentialId :: string
  ri_publicKey :: bytes
  ri_counter :: int
  ri_transports :: "string list"
  ri_deviceType :: string
  ri_backedUp :: bool

record platform =
  p_sha256 :: "bytes \<Rightarrow> string"
  p_randomBytes :: "nat \<Rightarrow> nat \<Rightarrow> bytes"       \<comment> \<open>the n-th draw, of that many bytes\<close>
  p_randomUUID :: "nat \<Rightarrow> string"
  p_gcmSeal :: "bytes \<Rightarrow> bytes \<Rightarrow> bytes \<Rightarrow> bytes \<Rightarrow> bytes \<times> bytes"  \<comment> \<open>key, nonce, AAD, plaintext to tag, ciphertext\<close>
  p_gcmOpen :: "bytes \<Rightarrow> bytes \<Rightarrow> bytes \<Rightarrow> bytes \<Rightarrow> bytes \<Rightarrow> bytes option"
  p_argonHash :: "nat \<Rightarrow> string \<Rightarrow> string"
  p_argonVerify :: "string \<Rightarrow> string \<Rightarrow> bool"
  p_appKey :: bytes
  p_publicUrl :: string
  p_secureCookies :: bool
  p_specToBinary :: "task_spec \<Rightarrow> bytes"
  p_specFromBinary :: "bytes \<Rightarrow> task_spec option"
  p_reportToBinary :: "report_task_request \<Rightarrow> bytes"
  p_statusToJson :: "machine_status \<Rightarrow> string"
  p_statusFromJson :: "string \<Rightarrow> machine_status option"
  p_batchFromBinary :: "bytes \<Rightarrow> usage_batch option"
  p_jsonParse :: "string \<Rightarrow> json option"
  p_isUuid :: "string \<Rightarrow> bool"  \<comment> \<open>the \<open>uuid\<close> check of zod\<close>
  p_isIP :: "string \<Rightarrow> int"
  p_certificate :: "string \<Rightarrow> certificate option"
  p_privateKeyPublic :: "string \<Rightarrow> bytes option"  \<comment> \<open>the public key that belongs to a private key\<close>
  p_rpId :: string
  p_authenticationOptions :: "nat \<Rightarrow> (string \<times> string list) list option \<Rightarrow> webauthn_options"
  p_registrationOptions :: "nat \<Rightarrow> string \<Rightarrow> string \<Rightarrow> (string \<times> string list) list \<Rightarrow> webauthn_options"  \<comment> \<open>user name, user id\<close>
  p_verifyAuthentication :: "json \<Rightarrow> string \<Rightarrow> passkey_row \<Rightarrow> authentication_info option"
  p_verifyRegistration :: "json \<Rightarrow> string \<Rightarrow> registration_info option"
  p_artifactManifest :: "string option"  \<comment> \<open>the text of the release manifest\<close>

section \<open>Base64url\<close>

definition b64_alphabet :: string where
  "b64_alphabet = ''ABCDEFGHIJKLMNOPQRSTUVWXYZabcdefghijklmnopqrstuvwxyz0123456789-_''"

definition b64_char :: "nat \<Rightarrow> char" where
  "b64_char n = b64_alphabet ! n"

fun index_of :: "char \<Rightarrow> string \<Rightarrow> nat option" where
  "index_of c [] = None"
| "index_of c (x # xs) = (if x = c then Some 0 else map_option Suc (index_of c xs))"

definition b64_value :: "char \<Rightarrow> nat option" where
  "b64_value c =
     (if c = CHR ''+'' then Some 62 else if c = CHR ''/'' then Some 63 else index_of c b64_alphabet)"

fun sextets :: "nat list \<Rightarrow> nat list" where
  "sextets [] = []"
| "sextets [a] = [a div 4, (a mod 4) * 16]"
| "sextets [a, b] = [a div 4, (a mod 4) * 16 + b div 16, (b mod 16) * 4]"
| "sextets (a # b # c # r) =
     [a div 4, (a mod 4) * 16 + b div 16, (b mod 16) * 4 + c div 64, c mod 64] @ sextets r"

fun octets :: "nat list \<Rightarrow> nat list" where
  "octets (p # q # r # s # t) =
     [p * 4 + q div 16, (q mod 16) * 16 + r div 4, (r mod 4) * 64 + s] @ octets t"
| "octets [p, q, r] = [p * 4 + q div 16, (q mod 16) * 16 + r div 4]"
| "octets [p, q] = [p * 4 + q div 16]"
| "octets _ = []"

text \<open>\<open>buffer.toString("base64url")\<close>, and \<open>Buffer.from(text, "base64url")\<close>, which skips foreign characters.\<close>

definition base64url :: "bytes \<Rightarrow> string" where
  "base64url bs = map b64_char (sextets (map of_char bs))"

definition from_base64url :: "string \<Rightarrow> bytes" where
  "from_base64url s = map char_of (octets (List.map_filter b64_value s))"

lemma b64_char_value:
  assumes "n < 64"
  shows "b64_value (b64_char n) = Some n \<and> is_token_char (b64_char n)"
proof -
  have "\<forall>n \<in> set [0..<64]. b64_value (b64_char n) = Some n \<and> is_token_char (b64_char n)"
    by code_simp
  with assms show ?thesis by simp
qed

lemma sextets_lt: "\<forall>b \<in> set bs. b < 256 \<Longrightarrow> s \<in> set (sextets bs) \<Longrightarrow> s < 64"
proof (induction bs rule: sextets.induct)
  case 1
  then show ?case by simp
next
  case (2 a)
  have "a mod 4 < 4" by simp
  with 2 show ?case by auto
next
  case (3 a b)
  have "a mod 4 < 4" "b mod 16 < 16" by simp_all
  with 3 show ?case by auto
next
  case (4 a b c r)
  have "a mod 4 < 4" "b mod 16 < 16" "c mod 64 < 64" by simp_all
  with 4 show ?case by auto
qed

text \<open>The low bits \<open>x\<close> of one byte and the high bits \<open>y\<close> of the next, packed and unpacked.\<close>

lemma pack_unpack: "y < n \<Longrightarrow> (x * n + y) div n = (x :: nat) \<and> (x * n + y) mod n = y"
  by simp

lemma octets_sextets: "\<forall>b \<in> set bs. b < 256 \<Longrightarrow> octets (sextets bs) = bs"
proof (induction bs rule: sextets.induct)
  case (4 a b c r)
  then have "b div 16 < 16" "c div 64 < 4" by auto
  with 4 pack_unpack [of "b div 16" 16 "a mod 4"] pack_unpack [of "c div 64" 4 "b mod 16"]
  show ?case by simp
next
  case (3 a b)
  then have "b div 16 < 16" by auto
  with pack_unpack [of "b div 16" 16 "a mod 4"] show ?case by simp
qed simp_all

lemma octet_bound: "\<forall>b \<in> set (map (of_char :: char \<Rightarrow> nat) bs). b < 256"
  by (simp add: of_char_def) 

lemma base64url_chars: "list_all is_token_char (base64url bs)"
  using sextets_lt [OF octet_bound, of _ bs] b64_char_value
  by (auto simp: base64url_def list_all_iff)

lemma map_filter_b64: "\<forall>s \<in> set ss. s < 64 \<Longrightarrow> List.map_filter b64_value (map b64_char ss) = ss"
  by (induction ss) (simp_all add: map_filter_simps b64_char_value)

text \<open>Decoding undoes encoding.\<close>

lemma base64url_roundtrip: "from_base64url (base64url bs) = bs"
proof -
  have "\<forall>s \<in> set (sextets (map of_char bs)). s < 64" using sextets_lt [OF octet_bound] by blast
  then have "from_base64url (base64url bs) = map char_of (octets (sextets (map of_char bs)))"
    by (simp only: from_base64url_def base64url_def map_filter_b64)
  also have "\<dots> = map char_of (map (of_char :: char \<Rightarrow> nat) bs)" by (simp only: octets_sextets [OF octet_bound])
  also have "\<dots> = bs" by (simp add: o_def)
  finally show ?thesis .
qed

lemma base64url_inj: "base64url a = base64url b \<Longrightarrow> a = b"
  by (metis base64url_roundtrip)

lemma sextets_length: "length (sextets bs) = (4 * length bs + 2) div 3"
  by (induction bs rule: sextets.induct) auto

section \<open>Identifiers, tokens and digests\<close>

definition draw :: "(nat \<Rightarrow> 'a) \<Rightarrow> 'a app" where
  "draw f w = (Inr (f (w_draws w)), w\<lparr>w_draws := w_draws w + 1\<rparr>)"

lemma draw_run [prog_run, simp]: "draw f w = (Inr (f (w_draws w)), w\<lparr>w_draws := w_draws w + 1\<rparr>)"
  by (simp add: draw_def)

lemma draw_ok [prog_ok]:
  "draw f w = (Inr a, t) \<longleftrightarrow> a = f (w_draws w) \<and> t = w\<lparr>w_draws := w_draws w + 1\<rparr>"
  by auto

lemma draw_fail [prog_fail]: "draw f w = (Inl e, t) \<longleftrightarrow> False"
  by simp

lemma keeps_draw [keeps_rules]: "keeps (on_db I) (draw f)"
  by (simp add: keeps_def)

definition newId :: "platform \<Rightarrow> string app" where
  "newId P = draw (p_randomUUID P)"

definition newToken :: "platform \<Rightarrow> string \<Rightarrow> string app" where
  "newToken P prefix = draw (\<lambda>n. prefix @ base64url (p_randomBytes P n 32))"

definition sha256 :: "platform \<Rightarrow> bytes \<Rightarrow> string" where
  "sha256 P value = p_sha256 P value"

definition tokenHash :: "platform \<Rightarrow> string \<Rightarrow> string" where
  "tokenHash P value = sha256 P value"

definition hashPassword :: "platform \<Rightarrow> string \<Rightarrow> string app" where
  "hashPassword P value = draw (\<lambda>n. p_argonHash P n value)"

definition verifyPassword :: "platform \<Rightarrow> string \<Rightarrow> string \<Rightarrow> bool" where
  "verifyPassword P hash value = p_argonVerify P hash value"

text \<open>The random source gives as many bytes as asked.\<close>

definition random_ok :: "platform \<Rightarrow> bool" where
  "random_ok P \<longleftrightarrow> (\<forall>n k. length (p_randomBytes P n k) = k)"

lemma newToken_shape:
  assumes "random_ok P" and "newToken P prefix w = (Inr t, w')"
  shows "\<exists>body. t = prefix @ body \<and> matches is_token_char 43 43 body"
  using assms base64url_chars [of "p_randomBytes P (w_draws w) 32"]
  by (auto simp: newToken_def matches_def random_ok_def base64url_def sextets_length)

section \<open>Secrets\<close>

definition secret_aad :: bytes where "secret_aad = ''bifurcation:v1''"

definition encryptSecret :: "platform \<Rightarrow> string \<Rightarrow> string app" where
  "encryptSecret P value =
     bind (draw (\<lambda>n. p_randomBytes P n 12)) (\<lambda>nonce.
     let (tag, ciphertext) = p_gcmSeal P (p_appKey P) nonce secret_aad value
     in return (join_with (CHR ''.'')
          [''v1'', base64url nonce, base64url tag, base64url ciphertext]))"

definition decryptSecret :: "platform \<Rightarrow> string \<Rightarrow> failure + string" where
  "decryptSecret P value =
     (case split_on (CHR ''.'') value of
        version # nonce # tag # ciphertext # extra \<Rightarrow>
          if version \<noteq> ''v1'' \<or> nonce = [] \<or> tag = [] \<or> (extra \<noteq> [] \<and> hd extra \<noteq> [])
          then Inl JsError
          else (case p_gcmOpen P (p_appKey P) (from_base64url nonce) secret_aad
                       (from_base64url tag) (from_base64url ciphertext) of
                  None \<Rightarrow> Inl JsError | Some plain \<Rightarrow> Inr plain)
      | _ \<Rightarrow> Inl JsError)"

text \<open>
  What AES-256-GCM promises: opening what was sealed under the same key, nonce and associated data
  gives the plaintext; the tag is not empty.
\<close>

definition gcm_ok :: "platform \<Rightarrow> bool" where
  "gcm_ok P \<longleftrightarrow>
     (\<forall>k n a m. fst (p_gcmSeal P k n a m) \<noteq> [] \<and>
        p_gcmOpen P k n a (fst (p_gcmSeal P k n a m)) (snd (p_gcmSeal P k n a m)) = Some m)"

lemma base64url_no_dot: "CHR ''.'' \<notin> set (base64url bs)"
proof
  assume "CHR ''.'' \<in> set (base64url bs)"
  then have "is_token_char (CHR ''.'')" using base64url_chars [of bs] by (simp add: list_all_iff)
  then show False by code_simp
qed

lemma base64url_empty: "base64url bs = [] \<longleftrightarrow> bs = []"
  by (metis base64url_roundtrip base64url_def list.map_disc_iff sextets.simps(1) list.simps(8))

lemma encryptSecret_decrypts:
  assumes "gcm_ok P" "random_ok P" and "encryptSecret P value w = (Inr c, w')"
  shows "decryptSecret P c = Inr value"
proof -
  let ?n = "p_randomBytes P (w_draws w) 12"
  obtain tag ct where seal: "p_gcmSeal P (p_appKey P) ?n secret_aad value = (tag, ct)"
    by (cases "p_gcmSeal P (p_appKey P) ?n secret_aad value")
  have c: "c = join_with (CHR ''.'') [''v1'', base64url ?n, base64url tag, base64url ct]"
    using assms(3) by (simp add: encryptSecret_def prog_run seal)
  have "split_on (CHR ''.'') c = [''v1'', base64url ?n, base64url tag, base64url ct]"
    unfolding c by (rule split_join) (auto simp: base64url_no_dot)
  moreover have "?n \<noteq> []" using assms(2) by (metis random_ok_def list.size(3) zero_neq_numeral)
  moreover have "tag \<noteq> []" "p_gcmOpen P (p_appKey P) ?n secret_aad tag ct = Some value"
    using assms(1) seal by (metis gcm_ok_def fst_conv, metis gcm_ok_def fst_conv snd_conv)
  ultimately show ?thesis
    by (simp add: decryptSecret_def base64url_empty base64url_roundtrip)
qed

text \<open>Drawing randomness changes nothing else.\<close>

lemma newId_run [prog_run]:
  "newId P w = (Inr (p_randomUUID P (w_draws w)), w\<lparr>w_draws := w_draws w + 1\<rparr>)"
  by (simp add: newId_def)

lemma newToken_run [prog_run]:
  "newToken P prefix w =
    (Inr (prefix @ base64url (p_randomBytes P (w_draws w) 32)), w\<lparr>w_draws := w_draws w + 1\<rparr>)"
  by (simp add: newToken_def)

lemma encryptSecret_ok [prog_ok]:
  "encryptSecret P v w = (Inr c, t) \<longleftrightarrow>
    c = projr (fst (encryptSecret P v w)) \<and> t = w\<lparr>w_draws := w_draws w + 1\<rparr>"
  by (auto simp: encryptSecret_def bind_def split: prod.splits)

lemma encryptSecret_fail [prog_fail]: "encryptSecret P v w = (Inl e, t) \<longleftrightarrow> False"
  by (auto simp: encryptSecret_def bind_def split: prod.splits)

lemma newId_ok [prog_ok]:
  "newId P w = (Inr a, t) \<longleftrightarrow> a = p_randomUUID P (w_draws w) \<and> t = w\<lparr>w_draws := w_draws w + 1\<rparr>"
  by (auto simp: newId_run)

lemma newId_fail [prog_fail]: "newId P w = (Inl e, t) \<longleftrightarrow> False"
  by (simp add: newId_run)

lemma newToken_ok [prog_ok]:
  "newToken P prefix w = (Inr a, t) \<longleftrightarrow>
    a = prefix @ base64url (p_randomBytes P (w_draws w) 32) \<and> t = w\<lparr>w_draws := w_draws w + 1\<rparr>"
  by (auto simp: newToken_run)

lemma newToken_fail [prog_fail]: "newToken P prefix w = (Inl e, t) \<longleftrightarrow> False"
  by (simp add: newToken_run)

lemma keeps_newId [keeps_rules]: "keeps (on_db I) (newId P)"
  by (simp add: newId_def keeps_draw)

lemma keeps_newToken [keeps_rules]: "keeps (on_db I) (newToken P prefix)"
  by (simp add: newToken_def keeps_draw)

lemma keeps_encryptSecret [keeps_rules]: "keeps (on_db I) (encryptSecret P v)"
  by (auto simp: encryptSecret_def Let_def case_prod_unfold intro!: keeps_rules)

end
