(* ===== verification/Machines.thy ===== *)
theory Machines
  imports Crypto
begin

text \<open>
  \<open>server/modules/machines/store.ts\<close> and \<open>contracts/machines.ts\<close>, \<open>contracts/maintenance.ts\<close>: the
  machines, their installations and sessions, and the durable tasks. A definition per method of
  \<open>MachineStore\<close>, under the method's name (prefixed where HOL has the name), as a program over the
  world. The rows that callers pass in are the ones \<open>authenticate\<close> has just read.
\<close>

section \<open>Vocabulary\<close>

definition MAX_SAFE_INTEGER :: int where "MAX_SAFE_INTEGER = 9007199254740991"

definition truthy :: "string option \<Rightarrow> bool" where
  "truthy x \<longleftrightarrow> x \<noteq> None \<and> x \<noteq> Some []"

text \<open>\<open>value || null\<close> for a string\<close>

definition or_null :: "string \<Rightarrow> string option" where
  "or_null s = (if s = [] then None else Some s)"

text \<open>The three groups of task states the code tests for.\<close>

definition pendingStates :: "task_state list" where
  "pendingStates = [Queued, Accepted, Running]"

definition activeStates :: "task_state list" where
  "activeStates = [Accepted, Running]"

definition kindNames :: "task_kind \<Rightarrow> string option" where
  "kindNames k = (case k of INSPECT \<Rightarrow> Some ''inspect'' | APPLY_CONFIG \<Rightarrow> Some ''apply_config''
     | UPGRADE_DAEMON \<Rightarrow> Some ''upgrade_daemon'' | UNINSTALL \<Rightarrow> Some ''uninstall'' | _ \<Rightarrow> None)"

definition connect :: "string \<Rightarrow> connect_code \<Rightarrow> failure" where
  "connect message code = ConnectError message code"

definition integerSequence :: "int \<Rightarrow> string \<Rightarrow> bool \<Rightarrow> ('s, int) prog" where
  "integerSequence v name allowZero =
     (if v < (if allowZero then 0 else 1) \<or> v > MAX_SAFE_INTEGER
      then throw (ConnectError (name @ '' is out of range'') CInvalidArgument) else return v)"

section \<open>Maintenance\<close>

text \<open>The label and description pairs of \<open>maintenanceInfo\<close>, by the reason they explain.\<close>

datatype maintenance_note =
  NoteContainer | NoteUnsupportedOs | NoteNonstandardBinary | NoteInvalidStateDirectory
| NoteInvalidPaths | NoteUnmanagedService | NoteOnline | NoteUnknown

fun maintenance_reason :: "maintenance_status \<Rightarrow> maintenance_note option" where
  "maintenance_reason CONTAINER = Some NoteContainer"
| "maintenance_reason UNSUPPORTED_OS = Some NoteUnsupportedOs"
| "maintenance_reason NONSTANDARD_BINARY = Some NoteNonstandardBinary"
| "maintenance_reason INVALID_STATE_DIRECTORY = Some NoteInvalidStateDirectory"
| "maintenance_reason INVALID_PATHS = Some NoteInvalidPaths"
| "maintenance_reason UNMANAGED_SERVICE = Some NoteUnmanagedService"
| "maintenance_reason _ = None"

definition maintenanceInfo :: "maintenance_status \<Rightarrow> bool \<Rightarrow> maintenance_note \<times> bool" where
  "maintenanceInfo status supported =
     (case maintenance_reason status of
        Some note \<Rightarrow> (note, False)
      | None \<Rightarrow>
          if supported \<and> (status = AVAILABLE \<or> status = MS_UNSPECIFIED)
          then (NoteOnline, True) else (NoteUnknown, False))"

section \<open>Reading\<close>

definition find_machine :: "string \<Rightarrow> database \<Rightarrow> machine_row option" where
  "find_machine i d = find (\<lambda>m. m_id m = i \<and> m_removedAt m = None) (machines d)"

definition store_get :: "string \<Rightarrow> machine_row app" where
  "store_get i = bind (db_get (find_machine i)) (\<lambda>row.
     the_or row (AppError ''MACHINE_NOT_FOUND'' 404))"

text \<open>\<open>/^Bearer (bm_[A-Za-z0-9_-]{43})$/.exec(header ?? "")\<close>, the captured token.\<close>

definition machine_bearer :: "string option \<Rightarrow> string option" where
  "machine_bearer header =
     (case header of None \<Rightarrow> None
      | Some h \<Rightarrow>
          if startsWith h ''Bearer bm_'' \<and> matches is_token_char 43 43 (drop 10 h)
          then Some (drop 7 h) else None)"

definition store_authenticate :: "platform \<Rightarrow> string option \<Rightarrow> machine_row app" where
  "store_authenticate P header =
     (case machine_bearer header of
        None \<Rightarrow> throw (connect ''invalid machine token'' CUnauthenticated)
      | Some token \<Rightarrow>
          bind (db_get (\<lambda>d. find (\<lambda>m. m_tokenHash m = tokenHash P token \<and> m_removedAt m = None)
                                (machines d))) (\<lambda>row.
          the_or row (connect ''invalid machine token'' CUnauthenticated)))"

definition valid_installation_id :: "string \<Rightarrow> bool" where
  "valid_installation_id s \<longleftrightarrow> matches is_token_char 16 128 s"

definition assertInstallation ::
  "machine_row \<Rightarrow> installation option \<Rightarrow> bool \<Rightarrow> ('s, unit) prog" where
  "assertInstallation row identity allowInitial =
     (case identity of
        None \<Rightarrow> throw (connect ''invalid installation identity'' CInvalidArgument)
      | Some ident \<Rightarrow>
          bind (require (valid_installation_id (i_installationId ident))
                  (connect ''invalid installation identity'' CInvalidArgument)) (\<lambda>_.
          bind (integerSequence (i_bindingEpoch ident) ''binding epoch'' allowInitial) (\<lambda>epoch.
          bind (require (\<not> (truthy (m_installationId row) \<and>
                            m_installationId row \<noteq> Some (i_installationId ident)))
                  (connect ''INSTANCE_CONFLICT'' CFailedPrecondition)) (\<lambda>_.
          bind (require (\<not> (truthy (m_installationId row) \<and> epoch \<noteq> m_bindingEpoch row \<and>
                            \<not> (allowInitial \<and> epoch = 0)))
                  (connect ''STALE_BINDING'' CFailedPrecondition)) (\<lambda>_.
          bind (require (\<not> (\<not> allowInitial \<and> \<not> truthy (m_installationId row)))
                  (connect ''machine is not enrolled'' CFailedPrecondition)) (\<lambda>_.
          require (\<not> (\<not> truthy (m_installationId row) \<and> epoch \<noteq> 0))
            (connect ''STALE_BINDING'' CFailedPrecondition)))))))"

definition isUninstalled :: "string \<Rightarrow> int \<Rightarrow> database \<Rightarrow> bool" where
  "isUninstalled i bindingEpoch d =
     has_row (\<lambda>t. t_machineId t = i \<and> t_bindingEpoch t = bindingEpoch \<and> t_kind t = UNINSTALL \<and>
       t_state t = Succeeded) (tasks d)"

text \<open>The optional status column: \<open>row.statusJson ? fromJsonString(..) : undefined\<close>.\<close>

definition status_of :: "platform \<Rightarrow> string option \<Rightarrow> ('s, machine_status option) prog" where
  "status_of P statusJson =
     (if truthy statusJson
      then bind (the_or (p_statusFromJson P (the statusJson)) JsError) (\<lambda>s. return (Some s))
      else return None)"

section \<open>Enrolment and machine records\<close>

definition bind_row ::
  "string \<Rightarrow> int \<Rightarrow> watch_tasks_request \<Rightarrow> int \<Rightarrow> machine_row \<Rightarrow> machine_row" where
  "bind_row installationId bindingEpoch info now current =
     current\<lparr>m_installationId := Some installationId, m_bindingEpoch := bindingEpoch,
       m_sessionEpoch := m_sessionEpoch current + 1, m_statusSequence := 0,
       m_daemonVersion := Some (wt_daemonVersion info), m_os := Some (wt_os info),
       m_arch := Some (wt_arch info), m_supportedTasks := wt_supportedTasks info,
       m_lastSeenAt := Some now\<rparr>"

definition store_bind ::
  "string \<Rightarrow> installation option \<Rightarrow> watch_tasks_request \<Rightarrow> machine_row app" where
  "store_bind i identity info = transaction (
     bind (db_get (find_machine i)) (\<lambda>found.
     bind (the_or found (connect ''invalid machine'' CUnauthenticated)) (\<lambda>current.
     bind (assertInstallation current identity True) (\<lambda>_.
     bind (db_get (isUninstalled i (m_bindingEpoch current))) (\<lambda>gone.
     bind (require (\<not> gone) (connect ''MACHINE_UNINSTALLED'' CFailedPrecondition)) (\<lambda>_.
     let bindingEpoch = (if m_bindingEpoch current = 0 then 1 else m_bindingEpoch current) in
     bind Date_now (\<lambda>now.
     let updated = bind_row (i_installationId (the identity)) bindingEpoch info now current in
     bind (db_run (machines_update (update_where (\<lambda>m. m_id m = i) (\<lambda>_. updated)))) (\<lambda>_.
     return updated))))))))"

record machine_input =
  mi_name :: string
  mi_address :: string
  mi_region :: string
  mi_tags :: "string list option"

text \<open>The row of a new machine, with the column defaults.\<close>

definition new_machine_row ::
  "string \<Rightarrow> machine_input \<Rightarrow> string \<Rightarrow> string \<Rightarrow> int \<Rightarrow> machine_row" where
  "new_machine_row i input hash ciphertext now =
     \<lparr>m_id = i, m_name = mi_name input, m_address = mi_address input, m_region = mi_region input,
      m_tags = (case mi_tags input of None \<Rightarrow> [] | Some ts \<Rightarrow> ts),
      m_tokenHash = hash, m_tokenCiphertext = ciphertext, m_tokenGeneration = 1,
      m_installationId = None, m_bindingEpoch = 0, m_sessionEpoch = 0, m_statusSequence = 0,
      m_statusJson = None, m_supportedTasks = [], m_daemonVersion = None, m_os = None,
      m_arch = None, m_lastSeenAt = None, m_version = 1, m_createdAt = now, m_removedAt = None\<rparr>"

text \<open>\<open>INSERT INTO machines\<close>: the primary key and the unique token hash.\<close>

definition insert_machine :: "machine_row \<Rightarrow> unit app" where
  "insert_machine row =
     bind (db_get (\<lambda>d. has_row (\<lambda>m. m_id m = m_id row \<or> m_tokenHash m = m_tokenHash row) (machines d)))
       (\<lambda>taken.
     bind (require (\<not> taken) SqlError) (\<lambda>_.
     db_run (machines_update (\<lambda>t. t @ [row]))))"

text \<open>\<open>UPDATE machines .. WHERE id\<close> of the token columns: the unique token hash again.\<close>

definition update_machine_token ::
  "string \<Rightarrow> string \<Rightarrow> (machine_row \<Rightarrow> machine_row) \<Rightarrow> unit app" where
  "update_machine_token i hash f =
     bind (db_get (\<lambda>d. has_row (\<lambda>m. m_id m \<noteq> i \<and> m_tokenHash m = hash) (machines d))) (\<lambda>taken.
     bind (require (\<not> taken) SqlError) (\<lambda>_.
     db_run (machines_update (update_where (\<lambda>m. m_id m = i) (\<lambda>m. (f m)\<lparr>m_tokenHash := hash\<rparr>)))))"

section \<open>What the panel shows\<close>

record task_dto =
  td_id :: string
  td_machineId :: string
  td_kind :: "string option"
  td_state :: task_state
  td_phase :: "string option"
  td_progressPercent :: "int option"
  td_message :: "string option"
  td_errorCode :: "string option"
  td_diagnostic :: "json option"
  td_rollback :: string
  td_createdAt :: int
  td_updatedAt :: int

definition rollbackName :: "rollback_state option \<Rightarrow> string" where
  "rollbackName r =
     (if r = Some NOT_NEEDED then ''not_needed''
      else if r = Some ROLLBACK_SUCCEEDED then ''succeeded''
      else if r = Some ROLLBACK_FAILED then ''failed'' else ''unspecified'')"

definition parse_diagnostic :: "platform \<Rightarrow> string option \<Rightarrow> ('s, json option) prog" where
  "parse_diagnostic P diagnosticJson =
     (if truthy diagnosticJson
      then bind (the_or (p_jsonParse P (the diagnosticJson)) JsError) (\<lambda>j. return (Some j))
      else return None)"

definition taskDto :: "platform \<Rightarrow> task_row \<Rightarrow> ('s, task_dto) prog" where
  "taskDto P row =
     bind (parse_diagnostic P (t_diagnosticJson row)) (\<lambda>diagnostic.
     return \<lparr>td_id = t_id row, td_machineId = t_machineId row, td_kind = kindNames (t_kind row),
       td_state = t_state row, td_phase = t_phase row, td_progressPercent = t_progressPercent row,
       td_message = t_message row, td_errorCode = t_errorCode row, td_diagnostic = diagnostic,
       td_rollback = rollbackName (t_rollback row), td_createdAt = t_createdAt row,
       td_updatedAt = t_updatedAt row\<rparr>)"

datatype machine_connection = Waiting | Online | Offline

record machine_resources =
  r_cpuUsagePercent :: "double option"
  r_memoryUsedBytes :: "int option"
  r_memoryTotalBytes :: "int option"
  r_diskFreeBytes :: "int option"
  r_connections :: "int option"
  r_networkRxBytes :: "int option"
  r_networkTxBytes :: "int option"
  r_networkInterface :: "string option"

record machine_dto =
  md_id :: string
  md_name :: string
  md_address :: string
  md_region :: string
  md_tags :: "string list"
  md_connection :: machine_connection
  md_uninstalled :: bool
  md_streamConnected :: bool
  md_lastSeenAt :: "int option"
  md_daemonVersion :: "string option"
  md_coreVersion :: "string option"
  md_coreHealth :: string
  md_installationId :: "string option"
  md_createdAt :: int
  md_version :: int
  md_os :: "string option"
  md_arch :: "string option"
  md_capabilities :: "string list"
  md_maintenanceStatus :: maintenance_status
  md_appliedRevisionId :: "string option"
  md_appliedPolicyRevision :: int
  md_appliedConfigSha256 :: "string option"
  md_resources :: machine_resources
  md_activeTaskCount :: nat

record machine_detail_dto = machine_dto +
  md_token :: string
  md_installCommand :: string
  md_tasks :: "task_dto list"
  md_issue :: "string option"

definition healthName :: "core_health \<Rightarrow> string" where
  "healthName h = (case h of NOT_CONFIGURED \<Rightarrow> ''not_configured'' | STOPPED \<Rightarrow> ''stopped''
     | HEALTHY \<Rightarrow> ''healthy'' | UNHEALTHY \<Rightarrow> ''unhealthy'' | _ \<Rightarrow> ''unknown'')"

definition connection_of :: "machine_row \<Rightarrow> bool \<Rightarrow> int \<Rightarrow> machine_connection" where
  "connection_of row uninstalled now =
     (if uninstalled then Offline else if \<not> truthy (m_installationId row) then Waiting
      else case m_lastSeenAt row of
        None \<Rightarrow> Offline
      | Some seen \<Rightarrow> if seen \<noteq> 0 \<and> now - seen < 60000 then Online else Offline)"

text \<open>\<open>status?.field || null\<close> and \<open>status?.field ?? null\<close>\<close>

definition status_text :: "machine_status option \<Rightarrow> (machine_status \<Rightarrow> string) \<Rightarrow> string option" where
  "status_text status f = (case status of None \<Rightarrow> None | Some s \<Rightarrow> or_null (f s))"

definition status_field :: "machine_status option \<Rightarrow> (machine_status \<Rightarrow> 'a option) \<Rightarrow> 'a option" where
  "status_field status f = (case status of None \<Rightarrow> None | Some s \<Rightarrow> f s)"

definition dto :: "platform \<Rightarrow> machine_row \<Rightarrow> machine_dto app" where
  "dto P row =
     bind (status_of P (m_statusJson row)) (\<lambda>status.
     bind (db_get (isUninstalled (m_id row) (m_bindingEpoch row))) (\<lambda>uninstalled.
     bind Date_now (\<lambda>now.
     bind (gets (\<lambda>w. hub_connected (m_id row) (w_hub w))) (\<lambda>connected.
     bind (db_get (\<lambda>d. length (filter (\<lambda>t. t_machineId t = m_id row \<and> t_state t \<in> set pendingStates)
                                 (tasks d)))) (\<lambda>active.
     return \<lparr>md_id = m_id row, md_name = m_name row, md_address = m_address row,
       md_region = m_region row, md_tags = m_tags row,
       md_connection = connection_of row uninstalled now, md_uninstalled = uninstalled,
       md_streamConnected = (\<not> uninstalled \<and> connected), md_lastSeenAt = m_lastSeenAt row,
       md_daemonVersion = m_daemonVersion row, md_coreVersion = status_text status s_coreVersion,
       md_coreHealth =
         healthName (case status of None \<Rightarrow> HEALTH_UNSPECIFIED | Some s \<Rightarrow> s_coreHealth s),
       md_installationId = m_installationId row, md_createdAt = m_createdAt row,
       md_version = m_version row, md_os = m_os row, md_arch = m_arch row,
       md_capabilities = List.map_filter kindNames (m_supportedTasks row),
       md_maintenanceStatus =
         (case status of None \<Rightarrow> MS_UNSPECIFIED | Some s \<Rightarrow> s_maintenanceStatus s),
       md_appliedRevisionId = status_text status s_appliedRevisionId,
       md_appliedPolicyRevision = (case status of None \<Rightarrow> 0 | Some s \<Rightarrow> s_appliedPolicyRevision s),
       md_appliedConfigSha256 = status_text status s_appliedConfigSha256,
       md_resources = \<lparr>r_cpuUsagePercent = status_field status s_cpuUsagePercent,
         r_memoryUsedBytes = status_field status s_memoryUsedBytes,
         r_memoryTotalBytes = status_field status s_memoryTotalBytes,
         r_diskFreeBytes = status_field status s_diskFreeBytes,
         r_connections = status_field status s_connections,
         r_networkRxBytes = status_field status s_networkRxBytes,
         r_networkTxBytes = status_field status s_networkTxBytes,
         r_networkInterface = status_text status s_networkInterface\<rparr>,
       md_activeTaskCount = active\<rparr>)))))"

text \<open>\<open>ORDER BY key DESC\<close>, keeping the order of rows with equal keys; \<open>rows.map(f)\<close> in a program.\<close>

definition order_desc :: "('r \<Rightarrow> int) \<Rightarrow> 'r list \<Rightarrow> 'r list" where
  "order_desc key rows = sort_key (\<lambda>r. - key r) rows"

primrec map_prog :: "('a \<Rightarrow> ('s, 'b) prog) \<Rightarrow> 'a list \<Rightarrow> ('s, 'b list) prog" where
  "map_prog f [] = return []"
| "map_prog f (x # xs) = bind (f x) (\<lambda>y. bind (map_prog f xs) (\<lambda>ys. return (y # ys)))"

definition store_list :: "platform \<Rightarrow> machine_dto list app" where
  "store_list P =
     bind (db_get (\<lambda>d. order_desc m_createdAt (filter (\<lambda>m. m_removedAt m = None) (machines d))))
       (map_prog (dto P))"

definition listTasks :: "platform \<Rightarrow> string \<Rightarrow> task_dto list app" where
  "listTasks P i =
     bind (store_get i) (\<lambda>_.
     bind (db_get (\<lambda>d. take 50 (order_desc t_createdAt (filter (\<lambda>t. t_machineId t = i) (tasks d)))))
       (map_prog (taskDto P)))"

definition getTask :: "platform \<Rightarrow> string \<Rightarrow> string \<Rightarrow> task_dto app" where
  "getTask P machineId taskId =
     bind (store_get machineId) (\<lambda>_.
     bind (db_get (\<lambda>d. find (\<lambda>t. t_id t = taskId \<and> t_machineId t = machineId) (tasks d))) (\<lambda>found.
     bind (the_or found (AppError ''TASK_NOT_FOUND'' 404)) (\<lambda>task. taskDto P task)))"

text \<open>The shell quoting of \<open>detail\<close>: between single quotes, each quote as \<open>'\''\<close>.\<close>

definition shell_quote :: "string \<Rightarrow> string" where
  "shell_quote s =
     [CHR 0x27] @ concat (map (\<lambda>c. if c = CHR 0x27
                               then [CHR 0x27, CHR 0x5C, CHR 0x27, CHR 0x27] else [c]) s) @ [CHR 0x27]"

definition installCommand :: "string \<Rightarrow> string \<Rightarrow> string" where
  "installCommand origin token =
     ''installer=$(curl -fsSL '' @ shell_quote (origin @ ''/install.sh'') @ '') && eval '' @
     [CHR 0x22] @ ''$installer'' @ [CHR 0x22] @ '' && bifurcation_install --panel '' @
     shell_quote origin @ '' --token '' @ shell_quote token"

definition detail :: "platform \<Rightarrow> string \<Rightarrow> machine_detail_dto app" where
  "detail P i =
     bind (store_get i) (\<lambda>row.
     bind (lift_sum (decryptSecret P (m_tokenCiphertext row))) (\<lambda>token.
     bind (dto P row) (\<lambda>base.
     bind (listTasks P i) (\<lambda>ts.
     bind (status_of P (m_statusJson row)) (\<lambda>status.
     return (machine_dto.extend base
       \<lparr>md_token = token, md_installCommand = installCommand (p_publicUrl P) token, md_tasks = ts,
        md_issue = status_text status s_issue\<rparr>))))))"

end
