(* ===== verification/Machine_Ops.thy ===== *)
theory Machine_Ops
  imports Machines
begin

text \<open>
  The operations of \<open>MachineStore\<close> that change state: machine records and tokens, the queue of
  durable tasks, and the reports of a daemon. Each is the method of the same name.
\<close>

section \<open>Machine records and tokens\<close>

text \<open>The draws in the order JavaScript evaluates them: the token, the id, the nonce.\<close>

definition store_create :: "platform \<Rightarrow> machine_input \<Rightarrow> machine_detail_dto app" where
  "store_create P input =
     bind (newToken P ''bm_'') (\<lambda>token.
     bind (newId P) (\<lambda>i.
     bind (encryptSecret P token) (\<lambda>ciphertext.
     bind Date_now (\<lambda>now.
     bind (insert_machine (new_machine_row i input (tokenHash P token) ciphertext now)) (\<lambda>_.
     detail P i)))))"

record machine_update =
  up_expectedVersion :: int
  up_name :: "string option"
  up_address :: "string option"
  up_region :: "string option"
  up_tags :: "string list option"

text \<open>\<open>a ?? b\<close>\<close>

definition or_else :: "'a option \<Rightarrow> 'a \<Rightarrow> 'a" where
  "or_else x d = (case x of None \<Rightarrow> d | Some a \<Rightarrow> a)"

definition store_update :: "platform \<Rightarrow> string \<Rightarrow> machine_update \<Rightarrow> machine_detail_dto app" where
  "store_update P i input =
     bind (store_get i) (\<lambda>row.
     bind (require (m_version row = up_expectedVersion input) (AppError ''VERSION_CONFLICT'' 409)) (\<lambda>_.
     bind (db_run (machines_update (update_where
             (\<lambda>m. m_id m = i \<and> m_version m = up_expectedVersion input)
             (\<lambda>m. m\<lparr>m_name := or_else (up_name input) (m_name row),
                    m_address := or_else (up_address input) (m_address row),
                    m_region := or_else (up_region input) (m_region row),
                    m_tags := or_else (up_tags input) (m_tags row),
                    m_version := m_version row + 1\<rparr>)))) (\<lambda>_.
     detail P i)))"

text \<open>\<open>UPDATE tasks SET state = .., updated_at = now WHERE ..\<close>\<close>

definition set_task_state :: "task_state \<Rightarrow> int \<Rightarrow> task_row \<Rightarrow> task_row" where
  "set_task_state s now t = t\<lparr>t_state := s, t_updatedAt := now\<rparr>"

definition cancel_queued :: "string \<Rightarrow> unit app" where
  "cancel_queued i =
     bind Date_now (\<lambda>now.
     db_run (tasks_update (update_where (\<lambda>t. t_machineId t = i \<and> t_state t = Queued)
                             (set_task_state Canceled now))))"

definition has_active :: "string \<Rightarrow> database \<Rightarrow> bool" where
  "has_active i d = has_row (\<lambda>t. t_machineId t = i \<and> t_state t \<in> set activeStates) (tasks d)"

definition unbound_row :: "machine_row \<Rightarrow> string \<Rightarrow> machine_row \<Rightarrow> machine_row" where
  "unbound_row row ciphertext m =
     m\<lparr>m_installationId := None, m_bindingEpoch := m_bindingEpoch row + 1,
       m_sessionEpoch := m_sessionEpoch row + 1, m_tokenCiphertext := ciphertext,
       m_tokenGeneration := m_tokenGeneration row + 1, m_statusSequence := 0, m_statusJson := None,
       m_daemonVersion := None, m_os := None, m_arch := None, m_supportedTasks := [],
       m_lastSeenAt := None, m_version := m_version row + 1\<rparr>"

definition rebind :: "platform \<Rightarrow> string \<Rightarrow> int \<Rightarrow> machine_detail_dto app" where
  "rebind P i expectedVersion =
     bind (store_get i) (\<lambda>row.
     bind (require (m_version row = expectedVersion) (AppError ''VERSION_CONFLICT'' 409)) (\<lambda>_.
     bind (newToken P ''bm_'') (\<lambda>token.
     bind (transaction (
       bind (db_get (has_active i)) (\<lambda>active.
       bind (require (\<not> active) (AppError ''TASK_ACTIVE'' 409)) (\<lambda>_.
       bind (encryptSecret P token) (\<lambda>ciphertext.
       bind (update_machine_token i (tokenHash P token) (unbound_row row ciphertext)) (\<lambda>_.
       cancel_queued i)))))) (\<lambda>_.
     detail P i))))"

definition reset_row :: "string \<Rightarrow> machine_row \<Rightarrow> machine_row" where
  "reset_row ciphertext m =
     m\<lparr>m_tokenCiphertext := ciphertext, m_tokenGeneration := m_tokenGeneration m + 1,
       m_sessionEpoch := m_sessionEpoch m + 1, m_version := m_version m + 1, m_lastSeenAt := None\<rparr>"

definition resetToken :: "platform \<Rightarrow> string \<Rightarrow> unit app" where
  "resetToken P i =
     bind (store_get i) (\<lambda>_.
     bind (newToken P ''bm_'') (\<lambda>token.
     bind (encryptSecret P token) (\<lambda>ciphertext.
     update_machine_token i (tokenHash P token) (reset_row ciphertext))))"

definition store_remove :: "string \<Rightarrow> unit app" where
  "store_remove i =
     bind (store_get i) (\<lambda>_.
     transaction (
       bind Date_now (\<lambda>now.
       bind (db_run (machines_update (update_where (\<lambda>m. m_id m = i)
               (\<lambda>m. m\<lparr>m_removedAt := Some now, m_sessionEpoch := m_sessionEpoch m + 1\<rparr>)))) (\<lambda>_.
       cancel_queued i))))"

section \<open>The task queue\<close>

definition spec_kind :: "task_spec \<Rightarrow> task_kind option" where
  "spec_kind spec = (case spec of NoOperation \<Rightarrow> None | Inspect _ \<Rightarrow> Some INSPECT
     | ApplyConfig _ \<Rightarrow> Some APPLY_CONFIG | UpgradeDaemon _ \<Rightarrow> Some UPGRADE_DAEMON
     | Uninstall \<Rightarrow> Some UNINSTALL)"

definition find_request :: "string \<Rightarrow> string \<Rightarrow> database \<Rightarrow> task_row option" where
  "find_request i requestKey d = find (\<lambda>t. t_machineId t = i \<and> t_requestKey t = requestKey) (tasks d)"

definition new_task_row ::
  "string \<Rightarrow> machine_row \<Rightarrow> task_kind \<Rightarrow> bytes \<Rightarrow> string \<Rightarrow> string \<Rightarrow> int \<Rightarrow> task_row" where
  "new_task_row i machine kind payload digest requestKey now =
     \<lparr>t_id = i, t_machineId = m_id machine, t_bindingEpoch = m_bindingEpoch machine, t_kind = kind,
      t_payload = payload, t_payloadHash = digest, t_requestKey = requestKey, t_state = Queued,
      t_progressSequence = 0, t_reportHash = None, t_phase = None, t_progressPercent = None,
      t_message = None, t_errorCode = None, t_diagnosticJson = None, t_rollback = None,
      t_createdAt = now, t_updatedAt = now\<rparr>"

text \<open>\<open>INSERT INTO tasks\<close>: the primary key and the unique (machine, request key).\<close>

definition insert_task :: "task_row \<Rightarrow> unit app" where
  "insert_task row =
     bind (db_get (\<lambda>d. has_row (\<lambda>t. t_id t = t_id row \<or> task_key t = task_key row) (tasks d))) (\<lambda>taken.
     bind (require (\<not> taken) SqlError) (\<lambda>_.
     db_run (tasks_update (\<lambda>t. t @ [row]))))"

text \<open>The checks of a new task that the machine has to pass.\<close>

definition check_enqueue :: "platform \<Rightarrow> machine_row \<Rightarrow> task_kind \<Rightarrow> unit app" where
  "check_enqueue P machine kind =
     bind (db_get (isUninstalled (m_id machine) (m_bindingEpoch machine))) (\<lambda>gone.
     bind (require (\<not> gone) (AppError ''MACHINE_UNINSTALLED'' 409)) (\<lambda>_.
     bind (require (truthy (m_installationId machine)) (AppError ''MACHINE_NOT_ENROLLED'' 409)) (\<lambda>_.
     let supported = kind \<in> set (m_supportedTasks machine) in
     bind (if kind = UPGRADE_DAEMON \<or> kind = UNINSTALL then
             bind (status_of P (m_statusJson machine)) (\<lambda>status.
             require (snd (maintenanceInfo
                 (case status of None \<Rightarrow> MS_UNSPECIFIED | Some s \<Rightarrow> s_maintenanceStatus s) supported))
               (AppError ''TASK_UNSUPPORTED'' 409))
           else return ()) (\<lambda>_.
     require supported (AppError ''TASK_UNSUPPORTED'' 409)))))"

definition supersede_queued :: "machine_row \<Rightarrow> int \<Rightarrow> unit app" where
  "supersede_queued machine now =
     db_run (tasks_update (update_where
       (\<lambda>t. t_machineId t = m_id machine \<and> t_bindingEpoch t = m_bindingEpoch machine \<and>
            t_kind t = APPLY_CONFIG \<and> t_state t = Queued)
       (set_task_state Superseded now)))"

definition enqueue_new :: "platform \<Rightarrow> machine_row \<Rightarrow> task_kind \<Rightarrow> bytes \<Rightarrow> string \<Rightarrow> task_dto app" where
  "enqueue_new P machine kind payload requestKey =
     bind (check_enqueue P machine kind) (\<lambda>_.
     bind Date_now (\<lambda>now.
     bind (if kind = APPLY_CONFIG then supersede_queued machine now else return ()) (\<lambda>_.
     bind (newId P) (\<lambda>i.
     let row = new_task_row i machine kind payload (sha256 P payload) requestKey now in
     bind (insert_task row) (\<lambda>_. taskDto P row)))))"

definition enqueueTask :: "platform \<Rightarrow> string \<Rightarrow> task_spec \<Rightarrow> string \<Rightarrow> task_dto app" where
  "enqueueTask P i spec requestKey =
     bind (store_get i) (\<lambda>machine.
     bind (the_or (spec_kind spec) (AppError ''INVALID_TASK'' 422)) (\<lambda>kind.
     let payload = p_specToBinary P spec in
     bind (require (length payload \<le> 1024 * 1024) (AppError ''TASK_TOO_LARGE'' 422)) (\<lambda>_.
     transaction (
       bind (db_get (find_request i requestKey)) (\<lambda>existing.
       case existing of
         Some task \<Rightarrow>
           bind (require (t_payloadHash task = sha256 P payload) (AppError ''REQUEST_CONFLICT'' 409))
             (\<lambda>_. taskDto P task)
       | None \<Rightarrow> enqueue_new P machine kind payload requestKey)))))"

text \<open>
  \<open>enqueueInspect\<close>: its numbers are JavaScript numbers, so a caller may pass what is no integer;
  \<open>NonFinite\<close> stands for NaN and the infinities.
\<close>

definition isInteger :: "double \<Rightarrow> bool" where
  "isInteger x = (case x of NonFinite \<Rightarrow> False | Finite q \<Rightarrow> q = of_int \<lfloor>q\<rfloor>)"

definition between :: "int \<Rightarrow> int \<Rightarrow> double \<Rightarrow> bool" where
  "between lo hi x = (case x of NonFinite \<Rightarrow> False | Finite q \<Rightarrow> of_int lo \<le> q \<and> q \<le> of_int hi)"

definition to_int :: "double \<Rightarrow> int" where
  "to_int x = (case x of NonFinite \<Rightarrow> 0 | Finite q \<Rightarrow> \<lfloor>q\<rfloor>)"

definition enqueueInspect ::
  "platform \<Rightarrow> string \<Rightarrow> string \<Rightarrow> bool option \<Rightarrow> double option \<Rightarrow> double option \<Rightarrow> task_dto app" where
  "enqueueInspect P i requestKey includeLogs maxLogLines maxBytes =
     (let lines = or_else maxLogLines (Finite 100); size = or_else maxBytes (Finite 262144) in
      bind (require (isInteger lines \<and> between 1 1000 lines \<and> isInteger size \<and> between 1024 262144 size)
              (AppError ''INVALID_DIAGNOSTIC_LIMIT'' 422)) (\<lambda>_.
      enqueueTask P i (Inspect \<lparr>it_includeLogs = or_else includeLogs False,
        it_maxLogLines = to_int lines, it_maxBytes = to_int size\<rparr>) requestKey))"

definition pending :: "string \<Rightarrow> int \<Rightarrow> database \<Rightarrow> task_row list" where
  "pending i bindingEpoch d =
     take 1 (sort_key t_createdAt
       (filter (\<lambda>t. t_machineId t = i \<and> t_bindingEpoch t = bindingEpoch \<and> t_state t \<in> set pendingStates)
         (tasks d)))"

section \<open>What a daemon reports\<close>

definition require_session :: "machine_row \<Rightarrow> int \<Rightarrow> ('s, unit) prog" where
  "require_session row sessionEpoch =
     bind (integerSequence sessionEpoch ''session epoch'' False) (\<lambda>epoch.
     require (epoch = m_sessionEpoch row) (connect ''STALE_SESSION'' CFailedPrecondition))"

definition find_task :: "string \<Rightarrow> machine_row \<Rightarrow> database \<Rightarrow> task_row option" where
  "find_task taskId row d =
     find (\<lambda>t. t_id t = taskId \<and> t_machineId t = m_id row \<and> t_bindingEpoch t = m_bindingEpoch row) (tasks d)"

definition store_accept :: "machine_row \<Rightarrow> int \<Rightarrow> string \<Rightarrow> string \<Rightarrow> task_row app" where
  "store_accept row sessionEpoch taskId hash =
     bind (require_session row sessionEpoch) (\<lambda>_.
     transaction (
       bind (db_get (find_task taskId row)) (\<lambda>found.
       bind (the_or found (connect ''task not found'' CNotFound)) (\<lambda>task.
       bind (require (t_payloadHash task = hash) (connect ''TASK_PAYLOAD_CONFLICT'' CAlreadyExists)) (\<lambda>_.
       bind (require (t_state task \<noteq> Canceled \<and> t_state task \<noteq> Superseded)
               (connect ''task is no longer executable'' CFailedPrecondition)) (\<lambda>_.
       bind (require (t_state task \<noteq> Succeeded \<and> t_state task \<noteq> Failed)
               (connect ''task is already complete'' CFailedPrecondition)) (\<lambda>_.
       if t_state task \<noteq> Queued then return task
       else
         bind (db_get (\<lambda>d. has_row (\<lambda>t. t_machineId t = m_id row \<and> t_state t \<in> set activeStates \<and>
                                        t_id t \<noteq> t_id task) (tasks d))) (\<lambda>active.
         bind (require (\<not> active) (connect ''another task is active'' CFailedPrecondition)) (\<lambda>_.
         bind Date_now (\<lambda>now.
         bind (db_run (tasks_update (update_where (\<lambda>t. t_id t = t_id task)
                                       (set_task_state Accepted now)))) (\<lambda>_.
         return (set_task_state Accepted now task))))))))))))"

definition store_reportStatus ::
  "platform \<Rightarrow> machine_row \<Rightarrow> int \<Rightarrow> int \<Rightarrow> machine_status \<Rightarrow> int app" where
  "store_reportStatus P row sessionEpoch sequence status =
     bind (require_session row sessionEpoch) (\<lambda>_.
     bind (integerSequence sequence ''status sequence'' False) (\<lambda>sq.
     if sq \<le> m_statusSequence row then return (m_statusSequence row)
     else
       bind Date_now (\<lambda>now.
       bind (db_run (machines_update (update_where
               (\<lambda>m. m_id m = m_id row \<and> m_sessionEpoch m = m_sessionEpoch row)
               (\<lambda>m. m\<lparr>m_statusSequence := sq, m_statusJson := Some (p_statusToJson P status),
                      m_daemonVersion := Some (s_daemonVersion status), m_lastSeenAt := Some now\<rparr>)))) (\<lambda>_.
       return sq))))"

text \<open>The new state of a report, if the daemon may report it.\<close>

definition report_target :: "report_state \<Rightarrow> task_state option" where
  "report_target s = (case s of RUNNING \<Rightarrow> Some Running | SUCCEEDED \<Rightarrow> Some Succeeded
     | FAILED \<Rightarrow> Some Failed | _ \<Rightarrow> None)"

definition check_upgrade :: "platform \<Rightarrow> machine_row \<Rightarrow> task_row \<Rightarrow> report_task_request \<Rightarrow> ('s, unit) prog" where
  "check_upgrade P row task request =
     bind (the_or (p_specFromBinary P (t_payload task)) JsError) (\<lambda>spec.
     let expectedVersion = (case spec of UpgradeDaemon (Some a) \<Rightarrow> Some (a_version a) | _ \<Rightarrow> None) in
     bind (status_of P (m_statusJson row)) (\<lambda>status.
     require (truthy expectedVersion \<and> 1 \<le> m_statusSequence row \<and>
              m_daemonVersion row = expectedVersion \<and>
              map_option s_daemonVersion status = expectedVersion \<and>
              map_option s_daemonVersion (rt_actualStatus request) = expectedVersion)
       (connect ''WAITING_FOR_DAEMON_RECONNECT'' CFailedPrecondition)))"

text \<open>The text of a diagnostic is JSON in UTF-8; it is stored the way \<open>JSON.stringify\<close> writes it.\<close>

definition read_diagnostic :: "platform \<Rightarrow> bytes \<Rightarrow> ('s, string option) prog" where
  "read_diagnostic P diagnosticJson =
     (if diagnosticJson = [] then return None
      else
        bind (require (length diagnosticJson \<le> 262144)
                (connect ''diagnostic too large'' CResourceExhausted)) (\<lambda>_.
        bind (the_or (p_jsonParse P diagnosticJson)
                (connect ''invalid diagnostic JSON'' CInvalidArgument)) (\<lambda>j.
        return (Some (stringify j)))))"

definition reported_row ::
  "task_state \<Rightarrow> int \<Rightarrow> string \<Rightarrow> report_task_request \<Rightarrow> string option \<Rightarrow> int \<Rightarrow> task_row \<Rightarrow> task_row" where
  "reported_row state sq hash request diagnosticJson now t =
     t\<lparr>t_state := state, t_progressSequence := sq, t_reportHash := Some hash,
       t_phase := or_null (rt_phase request), t_progressPercent := rt_progressPercent request,
       t_message := or_null (rt_message request), t_errorCode := or_null (rt_errorCode request),
       t_diagnosticJson := diagnosticJson, t_rollback := Some (rt_rollback request),
       t_updatedAt := now\<rparr>"

definition terminalStates :: "task_state list" where
  "terminalStates = [Succeeded, Failed]"

text \<open>The part of \<open>reportTask\<close> behind the replay checks: a new report of an active task.\<close>

definition commit_report ::
  "platform \<Rightarrow> machine_row \<Rightarrow> task_row \<Rightarrow> report_task_request \<Rightarrow> int \<Rightarrow> string \<Rightarrow>
     report_task_response app" where
  "commit_report P row task request sq hash =
     bind (require (t_state task \<in> set activeStates)
             (connect ''invalid task transition'' CFailedPrecondition)) (\<lambda>_.
     bind (if t_kind task = UPGRADE_DAEMON \<and> rt_state request = SUCCEEDED
           then check_upgrade P row task request else return ()) (\<lambda>_.
     bind (the_or (report_target (rt_state request))
             (connect ''invalid task state'' CInvalidArgument)) (\<lambda>state.
     bind (read_diagnostic P (rt_diagnosticJson request)) (\<lambda>diagnosticJson.
     bind Date_now (\<lambda>now.
     bind (db_run (tasks_update (update_where (\<lambda>t. t_id t = t_id task)
                                   (reported_row state sq hash request diagnosticJson now)))) (\<lambda>_.
     bind (if state = Succeeded \<and> t_kind task = UNINSTALL then cancel_queued (m_id row)
           else return ()) (\<lambda>_.
     return \<lparr>rp_committedSequence = sq, rp_terminal = (state \<noteq> Running)\<rparr>)))))))"

definition store_reportTask ::
  "platform \<Rightarrow> machine_row \<Rightarrow> report_task_request \<Rightarrow> report_task_response app" where
  "store_reportTask P row request =
     bind (integerSequence (rt_sequence request) ''task sequence'' False) (\<lambda>sq.
     let hash = sha256 P (p_reportToBinary P request) in
     transaction (
       bind (db_get (find_task (rt_taskId request) row)) (\<lambda>found.
       bind (the_or found (connect ''task not found'' CNotFound)) (\<lambda>task.
       bind (require (t_payloadHash task = rt_payloadSha256 request)
               (connect ''TASK_PAYLOAD_CONFLICT'' CAlreadyExists)) (\<lambda>_.
       bind (db_get (isUninstalled (m_id row) (m_bindingEpoch row))) (\<lambda>gone.
       bind (require (\<not> (gone \<and> \<not> (t_kind task = UNINSTALL \<and> t_state task = Succeeded \<and>
                                     sq = t_progressSequence task \<and> t_reportHash task = Some hash)))
               (connect ''uninstalled machine may only replay its final uninstall result''
                 CPermissionDenied)) (\<lambda>_.
       if sq \<le> t_progressSequence task
       then
         bind (require (\<not> (sq = t_progressSequence task \<and> t_reportHash task \<noteq> Some hash))
                 (connect ''TASK_REPORT_CONFLICT'' CAlreadyExists)) (\<lambda>_.
         return \<lparr>rp_committedSequence = t_progressSequence task,
                 rp_terminal = (t_state task \<in> set terminalStates)\<rparr>)
       else commit_report P row task request sq hash)))))))"

end
