(* ===== verification/Task_Queue.thy ===== *)
theory Task_Queue
  imports Machine_Ops
begin

text \<open>
  What the store of machines promises about durable tasks, as a step relation over the two tables
  (\<open>queue_step\<close>, the abstract specification the operations are later shown to refine), its invariant
  and the ways a task can evolve.
\<close>

section \<open>The invariant\<close>

definition is_pending :: "task_row \<Rightarrow> bool" where
  "is_pending t \<longleftrightarrow> t_state t \<in> set pendingStates"

definition is_active :: "task_row \<Rightarrow> bool" where
  "is_active t \<longleftrightarrow> t_state t \<in> set activeStates"

definition is_final :: "task_row \<Rightarrow> bool" where
  "is_final t \<longleftrightarrow> \<not> is_pending t"

lemma state_simps [simp]:
  "is_pending t \<longleftrightarrow> t_state t = Queued \<or> t_state t = Accepted \<or> t_state t = Running"
  "is_active t \<longleftrightarrow> t_state t = Accepted \<or> t_state t = Running"
  "is_final t \<longleftrightarrow> t_state t = Succeeded \<or> t_state t = Failed \<or> t_state t = Canceled \<or> t_state t = Superseded"
  by (simp_all add: is_final_def is_pending_def is_active_def pendingStates_def activeStates_def,
      cases "t_state t") auto

text \<open>
  Two tasks clash when both are active on a machine, when both are queued configuration targets of
  one binding, or when one is the successful uninstallation of a binding that the other still
  waits to run on.
\<close>

definition clash :: "task_row \<Rightarrow> task_row \<Rightarrow> bool" where
  "clash t u \<longleftrightarrow> t_machineId t = t_machineId u \<and>
     (is_active t \<and> is_active u
      \<or> t_bindingEpoch t = t_bindingEpoch u \<and>
        (t_kind t = APPLY_CONFIG \<and> t_kind u = APPLY_CONFIG \<and> t_state t = Queued \<and> t_state u = Queued
         \<or> t_kind t = UNINSTALL \<and> t_state t = Succeeded \<and> is_pending u))"

text \<open>A report has been seen exactly when the sequence is positive and the state says so.\<close>

definition progress_ok :: "task_row \<Rightarrow> bool" where
  "progress_ok t \<longleftrightarrow>
     (if t_reportHash t = None then t_progressSequence t = 0 \<and> t_state t \<notin> {Running, Succeeded, Failed}
      else 0 < t_progressSequence t \<and> t_state t \<in> {Running, Succeeded, Failed})"

definition tasks_inv :: "task_row list \<Rightarrow> bool" where
  "tasks_inv ts \<longleftrightarrow> distinct (map t_id ts) \<and> distinct (map task_key ts) \<and>
     (\<forall>t \<in> set ts. progress_ok t) \<and>
     (\<forall>t \<in> set ts. \<forall>u \<in> set ts. t_id t \<noteq> t_id u \<longrightarrow> \<not> clash t u)"

definition machines_inv :: "machine_row list \<Rightarrow> bool" where
  "machines_inv ms \<longleftrightarrow> distinct (map m_id ms) \<and> distinct (map m_tokenHash ms) \<and>
     (\<forall>m \<in> set ms. 0 \<le> m_bindingEpoch m \<and> (truthy (m_installationId m) \<longrightarrow> 1 \<le> m_bindingEpoch m))"

text \<open>Every task belongs to a binding of its machine, a pending one to the current binding.\<close>

definition epochs_inv :: "database \<Rightarrow> bool" where
  "epochs_inv d \<longleftrightarrow> (\<forall>t \<in> set (tasks d). \<exists>m \<in> set (machines d). m_id m = t_machineId t \<and>
     1 \<le> t_bindingEpoch t \<and> t_bindingEpoch t \<le> m_bindingEpoch m \<and>
     (is_pending t \<longrightarrow> t_bindingEpoch t = m_bindingEpoch m))"

definition queue_inv :: "database \<Rightarrow> bool" where
  "queue_inv d \<longleftrightarrow> machines_inv (machines d) \<and> tasks_inv (tasks d) \<and> epochs_inv d"

lemma queue_invD:
  assumes "queue_inv d"
  shows "distinct (map m_id (machines d))" and "distinct (map m_tokenHash (machines d))"
    and "distinct (map t_id (tasks d))" and "distinct (map task_key (tasks d))"
  using assms by (auto simp: queue_inv_def machines_inv_def tasks_inv_def)

lemma queue_inv_same_tables: "machines e = machines d \<Longrightarrow> tasks e = tasks d \<Longrightarrow> queue_inv e \<longleftrightarrow> queue_inv d"
  by (simp add: queue_inv_def epochs_inv_def)

lemma queue_inv_no_clash:
  "queue_inv d \<Longrightarrow> t \<in> set (tasks d) \<Longrightarrow> u \<in> set (tasks d) \<Longrightarrow> clash t u \<Longrightarrow> t_id t = t_id u"
  by (auto simp: queue_inv_def tasks_inv_def)

lemma queue_inv_same_machine:
  assumes "queue_inv d" and "m \<in> set (machines d)" and "n \<in> set (machines d)" and "m_id m = m_id n"
  shows "m = n"
  using machine_tbl.same_key_same_row [OF queue_invD(1) [OF assms(1)]] assms by blast

lemma queue_inv_same_task:
  assumes "queue_inv d" and "t \<in> set (tasks d)" and "u \<in> set (tasks d)" and "t_id t = t_id u"
  shows "t = u"
  using task_tbl.same_key_same_row [OF queue_invD(3) [OF assms(1)]] assms by blast

lemma queue_inv_epoch:
  assumes "queue_inv d" and "t \<in> set (tasks d)" and "m \<in> set (machines d)" and "m_id m = t_machineId t"
  shows "1 \<le> t_bindingEpoch t" and "t_bindingEpoch t \<le> m_bindingEpoch m"
    and "is_pending t \<Longrightarrow> t_bindingEpoch t = m_bindingEpoch m"
proof -
  obtain n where n: "n \<in> set (machines d)" "m_id n = t_machineId t" "1 \<le> t_bindingEpoch t"
    "t_bindingEpoch t \<le> m_bindingEpoch n" "is_pending t \<longrightarrow> t_bindingEpoch t = m_bindingEpoch n"
    using assms(1,2) unfolding queue_inv_def epochs_inv_def by blast
  moreover have "n = m"
    using queue_inv_same_machine [OF assms(1) n(1) assms(3)] n(2) assms(4) by simp
  ultimately show "1 \<le> t_bindingEpoch t" "t_bindingEpoch t \<le> m_bindingEpoch m"
    "is_pending t \<Longrightarrow> t_bindingEpoch t = m_bindingEpoch m" by simp_all
qed

section \<open>The steps\<close>

definition cancel_tasks :: "string \<Rightarrow> int \<Rightarrow> task_row list \<Rightarrow> task_row list" where
  "cancel_tasks i now = update_where (\<lambda>t. t_machineId t = i \<and> t_state t = Queued)
     (set_task_state Canceled now)"

definition supersede_tasks :: "machine_row \<Rightarrow> int \<Rightarrow> task_row list \<Rightarrow> task_row list" where
  "supersede_tasks m now = update_where
     (\<lambda>t. t_machineId t = m_id m \<and> t_bindingEpoch t = m_bindingEpoch m \<and>
          t_kind t = APPLY_CONFIG \<and> t_state t = Queued)
     (set_task_state Superseded now)"

definition same_binding :: "(machine_row \<Rightarrow> machine_row) \<Rightarrow> bool" where
  "same_binding f \<longleftrightarrow> (\<forall>m. m_id (f m) = m_id m \<and> m_installationId (f m) = m_installationId m \<and>
     m_bindingEpoch (f m) = m_bindingEpoch m)"

text \<open>
  What may happen to the two tables: anything that leaves them alone; a machine is registered; a
  machine row changes without its binding; a token is replaced; an installation enrols; a machine is
  unbound, which needs no active task and cancels the queue; a machine is removed; a task is added
  for an enrolled machine that is not uninstalled, superseding queued configuration targets; a
  queued task is accepted while no other is active; and an active task takes a report, a successful
  uninstallation clearing the queue.
\<close>

inductive queue_step :: "database \<Rightarrow> database \<Rightarrow> bool" where
  elsewhere: "machines e = machines d \<Longrightarrow> tasks e = tasks d \<Longrightarrow> queue_step d e"
| register: "\<not> has_row (\<lambda>m. m_id m = m_id row \<or> m_tokenHash m = m_tokenHash row) (machines d) \<Longrightarrow>
    m_installationId row = None \<Longrightarrow> m_bindingEpoch row = 0 \<Longrightarrow>
    queue_step d (machines_update (\<lambda>t. t @ [row]) d)"
| touch: "same_binding f \<Longrightarrow> (\<And>m. m_tokenHash (f m) = m_tokenHash m) \<Longrightarrow>
    queue_step d (machines_update (update_where P f) d)"
| retoken: "\<not> has_row (\<lambda>m. m_id m \<noteq> i \<and> m_tokenHash m = hash) (machines d) \<Longrightarrow> same_binding f \<Longrightarrow>
    queue_step d (machines_update (update_where (\<lambda>m. m_id m = i) (\<lambda>m. (f m)\<lparr>m_tokenHash := hash\<rparr>)) d)"
| enrol: "find_machine i d = Some m \<Longrightarrow> valid_installation_id iid \<Longrightarrow>
    queue_step d (machines_update (update_where (\<lambda>m. m_id m = i) (\<lambda>_. bind_row iid
      (if m_bindingEpoch m = 0 then 1 else m_bindingEpoch m) info now m)) d)"
| unbind: "find_machine i d = Some m \<Longrightarrow> \<not> has_active i d \<Longrightarrow>
    \<not> has_row (\<lambda>m. m_id m \<noteq> i \<and> m_tokenHash m = hash) (machines d) \<Longrightarrow>
    queue_step d (tasks_update (cancel_tasks i now) (machines_update (update_where (\<lambda>m. m_id m = i)
      (\<lambda>n. (unbound_row m ciphertext n)\<lparr>m_tokenHash := hash\<rparr>)) d))"
| remove: "same_binding f \<Longrightarrow> (\<And>m. m_tokenHash (f m) = m_tokenHash m) \<Longrightarrow>
    queue_step d (tasks_update (cancel_tasks i now) (machines_update (update_where P f) d))"
| enqueue: "find_machine i d = Some m \<Longrightarrow> truthy (m_installationId m) \<Longrightarrow>
    \<not> isUninstalled i (m_bindingEpoch m) d \<Longrightarrow>
    \<not> has_row (\<lambda>t. t_id t = tid \<or> task_key t = (i, requestKey)) (tasks d) \<Longrightarrow>
    queue_step d (tasks_update (\<lambda>ts. (if kind = APPLY_CONFIG then supersede_tasks m now ts else ts) @
      [new_task_row tid m kind payload digest requestKey now]) d)"
| accept: "t \<in> set (tasks d) \<Longrightarrow> t_state t = Queued \<Longrightarrow>
    \<not> has_row (\<lambda>u. t_machineId u = t_machineId t \<and> t_state u \<in> set activeStates \<and> t_id u \<noteq> t_id t)
      (tasks d) \<Longrightarrow>
    queue_step d (tasks_update (update_where (\<lambda>u. t_id u = t_id t) (set_task_state Accepted now)) d)"
| report: "t \<in> set (tasks d) \<Longrightarrow> is_active t \<Longrightarrow>
    \<not> isUninstalled (t_machineId t) (t_bindingEpoch t) d \<Longrightarrow> t_progressSequence t < sq \<Longrightarrow>
    report_target (rt_state request) = Some state \<Longrightarrow>
    queue_step d (tasks_update (\<lambda>ts.
      (if state = Succeeded \<and> t_kind t = UNINSTALL then cancel_tasks (t_machineId t) now else (\<lambda>x. x))
        (update_where (\<lambda>u. t_id u = t_id t) (reported_row state sq hash request diagnostic now) ts)) d)"

section \<open>Invariance\<close>

lemma tasks_inv_update:
  assumes inv: "tasks_inv ts"
    and same: "\<And>t. t_id (f t) = t_id t \<and> task_key (f t) = task_key t"
    and row: "\<And>t. t \<in> set ts \<Longrightarrow> P t \<Longrightarrow> progress_ok (f t)"
    and new_old: "\<And>t u. t \<in> set ts \<Longrightarrow> P t \<Longrightarrow> u \<in> set ts \<Longrightarrow> \<not> P u \<Longrightarrow> t_id u \<noteq> t_id t \<Longrightarrow>
      \<not> clash (f t) u \<and> \<not> clash u (f t)"
    and new_new: "\<And>t u. t \<in> set ts \<Longrightarrow> P t \<Longrightarrow> u \<in> set ts \<Longrightarrow> P u \<Longrightarrow> t_id u \<noteq> t_id t \<Longrightarrow>
      \<not> clash (f t) (f u)"
  shows "tasks_inv (update_where P f ts)"
proof -
  have "map t_id (update_where P f ts) = map t_id ts"
    "map task_key (update_where P f ts) = map task_key ts"
    using same by (auto intro: map_update_where)
  moreover have "progress_ok t" if "t \<in> set (update_where P f ts)" for t
    using that inv row by (auto simp: set_update_where tasks_inv_def)
  moreover have "\<not> clash t u" if "t \<in> set (update_where P f ts)" "u \<in> set (update_where P f ts)"
    "t_id t \<noteq> t_id u" for t u
    using that(1)
  proof (cases rule: update_where_memE)
    case 1
    note t = this
    from that(2) show ?thesis
    proof (cases rule: update_where_memE)
      case 1
      with t inv that(3) show ?thesis by (simp add: tasks_inv_def)
    next
      case (2 q)
      with t new_old [of q t] that(3) same [of q] show ?thesis by simp
    qed
  next
    case (2 p)
    note t = this
    from that(2) show ?thesis
    proof (cases rule: update_where_memE)
      case 1
      with t new_old [of p u] that(3) same [of p] show ?thesis by simp
    next
      case (2 q)
      with t new_new [of p q] that(3) same [of p] same [of q] show ?thesis by simp
    qed
  qed
  ultimately show ?thesis using inv by (simp add: tasks_inv_def)
qed

text \<open>Taking queued tasks out of the queue creates no clash.\<close>

lemma tasks_inv_retire:
  assumes "tasks_inv ts" and "s = Canceled \<or> s = Superseded" and "\<And>t. P t \<Longrightarrow> t_state t = Queued"
  shows "tasks_inv (update_where P (set_task_state s now) ts)"
proof (rule tasks_inv_update [OF assms(1)])
  fix t assume "t \<in> set ts" "P t"
  with assms show "progress_ok (set_task_state s now t)"
    by (auto simp: tasks_inv_def progress_ok_def set_task_state_def split: if_splits)
qed (use assms(2) in \<open>auto simp: set_task_state_def task_key_def clash_def\<close>)

lemma tasks_inv_cancel: "tasks_inv ts \<Longrightarrow> tasks_inv (cancel_tasks i now ts)"
  unfolding cancel_tasks_def by (rule tasks_inv_retire) auto

lemma tasks_inv_supersede: "tasks_inv ts \<Longrightarrow> tasks_inv (supersede_tasks m now ts)"
  unfolding supersede_tasks_def by (rule tasks_inv_retire) auto

lemma machines_inv_update:
  assumes "machines_inv ms"
    and "\<And>m. m_id (f m) = m_id m \<and> m_tokenHash (f m) = m_tokenHash m"
    and "\<And>m. m \<in> set ms \<Longrightarrow> P m \<Longrightarrow> 0 \<le> m_bindingEpoch (f m) \<and>
      (truthy (m_installationId (f m)) \<longrightarrow> 1 \<le> m_bindingEpoch (f m))"
  shows "machines_inv (update_where P f ms)"
proof -
  have "map m_id (update_where P f ms) = map m_id ms"
    "map m_tokenHash (update_where P f ms) = map m_tokenHash ms"
    using assms(2) by (auto intro: map_update_where)
  with assms show ?thesis by (auto simp: machines_inv_def set_update_where)
qed

lemma distinct_set_one:
  assumes "distinct (map k ts)" and "distinct (map h ts)"
    and "\<And>t. t \<in> set ts \<Longrightarrow> k t \<noteq> i \<Longrightarrow> h t \<noteq> x"
    and "\<And>t. k t = i \<Longrightarrow> h (f t) = x"
  shows "distinct (map h (update_where (\<lambda>t. k t = i) f ts))"
  using assms
proof (induction ts)
  case Nil
  then show ?case by simp
next
  case (Cons a ts)
  show ?case
  proof (cases "k a = i")
    case True
    with Cons.prems(1) have "\<And>t. t \<in> set ts \<Longrightarrow> k t \<noteq> i" by (auto simp: rev_image_eqI)
    then have "update_where (\<lambda>t. k t = i) f ts = ts" by (intro update_where_none) auto
    with True Cons.prems show ?thesis by (force simp: rev_image_eqI)
  next
    case False
    have "h a \<noteq> h t" if "t \<in> set (update_where (\<lambda>t. k t = i) f ts)" for t
      using that
    proof (cases rule: update_where_memE)
      case 1
      with Cons.prems(2) show ?thesis by (auto simp: rev_image_eqI)
    next
      case (2 q)
      with Cons.prems(3) [of a] Cons.prems(4) [of q] False show ?thesis by simp
    qed
    with False Cons show ?thesis by auto
  qed
qed

lemma machines_inv_retoken:
  assumes "machines_inv ms" and "\<not> has_row (\<lambda>m. m_id m \<noteq> i \<and> m_tokenHash m = hash) ms"
    and "\<And>m. m_id (f m) = m_id m"
    and "\<And>m. m \<in> set ms \<Longrightarrow> m_id m = i \<Longrightarrow> 0 \<le> m_bindingEpoch (f m) \<and>
      (truthy (m_installationId (f m)) \<longrightarrow> 1 \<le> m_bindingEpoch (f m))"
  shows "machines_inv (update_where (\<lambda>m. m_id m = i) (\<lambda>m. (f m)\<lparr>m_tokenHash := hash\<rparr>) ms)"
    (is "machines_inv (update_where ?P ?f ms)")
proof -
  have "map m_id (update_where ?P ?f ms) = map m_id ms"
    using assms(3) by (auto intro: map_update_where)
  moreover have "distinct (map m_tokenHash (update_where ?P ?f ms))"
    using assms(1,2) by (intro distinct_set_one [where x = hash]) (auto simp: machines_inv_def has_row_iff)
  ultimately show ?thesis using assms(1,4) by (auto simp: machines_inv_def set_update_where)
qed

lemma epochs_inv_step:
  assumes "epochs_inv d"
    and tasks: "\<And>t. t \<in> set (tasks e) \<Longrightarrow> \<exists>u \<in> set (tasks d). t_machineId t = t_machineId u \<and>
      t_bindingEpoch t = t_bindingEpoch u \<and> (is_pending t \<longrightarrow> is_pending u)"
    and machines: "\<And>m. m \<in> set (machines d) \<Longrightarrow> \<exists>n \<in> set (machines e). m_id n = m_id m \<and>
      m_bindingEpoch m \<le> m_bindingEpoch n \<and> (m_bindingEpoch n \<noteq> m_bindingEpoch m \<longrightarrow>
        (\<forall>t \<in> set (tasks e). t_machineId t = m_id m \<longrightarrow> \<not> is_pending t))"
  shows "epochs_inv e"
  unfolding epochs_inv_def
proof
  fix t assume t: "t \<in> set (tasks e)"
  then obtain u where u: "u \<in> set (tasks d)" "t_machineId t = t_machineId u"
    "t_bindingEpoch t = t_bindingEpoch u" "is_pending t \<longrightarrow> is_pending u" using tasks by blast
  then obtain m where m: "m \<in> set (machines d)" "m_id m = t_machineId u" "1 \<le> t_bindingEpoch u"
    "t_bindingEpoch u \<le> m_bindingEpoch m" "is_pending u \<longrightarrow> t_bindingEpoch u = m_bindingEpoch m"
    using assms(1) unfolding epochs_inv_def by blast
  then obtain n where n: "n \<in> set (machines e)" "m_id n = m_id m" "m_bindingEpoch m \<le> m_bindingEpoch n"
    "m_bindingEpoch n \<noteq> m_bindingEpoch m \<longrightarrow>
      (\<forall>t \<in> set (tasks e). t_machineId t = m_id m \<longrightarrow> \<not> is_pending t)"
    using machines by blast
  show "\<exists>m \<in> set (machines e). m_id m = t_machineId t \<and> 1 \<le> t_bindingEpoch t \<and>
      t_bindingEpoch t \<le> m_bindingEpoch m \<and> (is_pending t \<longrightarrow> t_bindingEpoch t = m_bindingEpoch m)"
    by (rule bexI [OF _ n(1)]) (use t u m n in fastforce)
qed

lemma epochs_inv_same_binding:
  assumes "epochs_inv d" and "same_binding f"
  shows "epochs_inv (machines_update (update_where P f) d)"
proof (rule epochs_inv_step [OF assms(1)])
  fix m assume m: "m \<in> set (machines d)"
  then have "(if P m then f m else m) \<in> set (update_where P f (machines d))"
    by (auto simp: set_update_where)
  then show "\<exists>n \<in> set (machines (machines_update (update_where P f) d)). m_id n = m_id m \<and>
      m_bindingEpoch m \<le> m_bindingEpoch n \<and> (m_bindingEpoch n \<noteq> m_bindingEpoch m \<longrightarrow>
        (\<forall>t \<in> set (tasks (machines_update (update_where P f) d)). t_machineId t = m_id m \<longrightarrow> \<not> is_pending t))"
    by (intro bexI [where x = "if P m then f m else m"]) (use assms(2) in \<open>auto simp: same_binding_def\<close>)
qed auto

text \<open>A rewrite of task rows that keeps their machine and binding and makes nothing pending.\<close>

lemma epochs_inv_update:
  assumes "epochs_inv d"
    and "\<And>t. P t \<Longrightarrow> t_machineId (f t) = t_machineId t \<and> t_bindingEpoch (f t) = t_bindingEpoch t"
    and "\<And>t. t \<in> set (tasks d) \<Longrightarrow> P t \<Longrightarrow> is_pending (f t) \<Longrightarrow> is_pending t"
  shows "epochs_inv (tasks_update (update_where P f) d)"
proof (rule epochs_inv_step [OF assms(1)])
  fix t assume "t \<in> set (tasks (tasks_update (update_where P f) d))"
  then have "t \<in> set (update_where P f (tasks d))" by simp
  then show "\<exists>u \<in> set (tasks d). t_machineId t = t_machineId u \<and> t_bindingEpoch t = t_bindingEpoch u \<and>
      (is_pending t \<longrightarrow> is_pending u)"
    by (cases rule: update_where_memE) (use assms in blast)+
qed auto

lemma epochs_inv_cancel: "epochs_inv d \<Longrightarrow> epochs_inv (tasks_update (cancel_tasks i now) d)"
  unfolding cancel_tasks_def by (rule epochs_inv_update) (auto simp: set_task_state_def)

lemma epochs_inv_supersede: "epochs_inv d \<Longrightarrow> epochs_inv (tasks_update (supersede_tasks m now) d)"
  unfolding supersede_tasks_def by (rule epochs_inv_update) (auto simp: set_task_state_def)

lemma queue_inv_touch:
  assumes "queue_inv d" and "same_binding f" and "\<And>m. m_tokenHash (f m) = m_tokenHash m"
  shows "queue_inv (machines_update (update_where P f) d)"
proof -
  have "machines_inv (update_where P f (machines d))"
    using assms by (intro machines_inv_update) (auto simp: queue_inv_def machines_inv_def same_binding_def)
  with assms epochs_inv_same_binding show ?thesis by (simp add: queue_inv_def)
qed

lemma queue_inv_cancel: "queue_inv d \<Longrightarrow> queue_inv (tasks_update (cancel_tasks i now) d)"
  using tasks_inv_cancel epochs_inv_cancel by (simp add: queue_inv_def)

lemma queue_inv_register:
  assumes "queue_inv d"
    and "\<not> has_row (\<lambda>m. m_id m = m_id row \<or> m_tokenHash m = m_tokenHash row) (machines d)"
    and "m_installationId row = None" and "m_bindingEpoch row = 0"
  shows "queue_inv (machines_update (\<lambda>t. t @ [row]) d)"
proof -
  have "machines_inv (machines d @ [row])"
    using assms by (force simp: queue_inv_def machines_inv_def has_row_iff truthy_def)
  moreover have "epochs_inv (machines_update (\<lambda>t. t @ [row]) d)"
    using assms(1) by (auto simp: queue_inv_def epochs_inv_def)
  ultimately show ?thesis using assms(1) by (simp add: queue_inv_def)
qed

lemma queue_inv_retoken:
  assumes "queue_inv d" and "\<not> has_row (\<lambda>m. m_id m \<noteq> i \<and> m_tokenHash m = hash) (machines d)"
    and "same_binding f"
  shows "queue_inv (machines_update (update_where (\<lambda>m. m_id m = i) (\<lambda>m. (f m)\<lparr>m_tokenHash := hash\<rparr>)) d)"
proof -
  have "machines_inv (update_where (\<lambda>m. m_id m = i) (\<lambda>m. (f m)\<lparr>m_tokenHash := hash\<rparr>) (machines d))"
    using assms by (intro machines_inv_retoken) (auto simp: queue_inv_def machines_inv_def same_binding_def)
  moreover have "same_binding (\<lambda>m. (f m)\<lparr>m_tokenHash := hash\<rparr>)" using assms(3) by (simp add: same_binding_def)
  ultimately show ?thesis using assms(1) epochs_inv_same_binding by (simp add: queue_inv_def)
qed

lemma find_machineD: "find_machine i d = Some m \<Longrightarrow> m \<in> set (machines d) \<and> m_id m = i \<and> m_removedAt m = None"
  unfolding find_machine_def by (drule find_Some_mem) simp

text \<open>Moving a machine to a later binding, while none of its tasks is pending.\<close>

lemma epochs_inv_rebind:
  assumes inv: "queue_inv d" and m: "m \<in> set (machines d)" and i: "m_id m = i"
    and f: "\<And>n. m_id (f n) = m_id n" "m_bindingEpoch m \<le> m_bindingEpoch (f m)"
    and idle: "\<And>t. m_bindingEpoch (f m) \<noteq> m_bindingEpoch m \<Longrightarrow> t \<in> set (tasks d) \<Longrightarrow> t_machineId t = i \<Longrightarrow>
      \<not> is_pending t"
  shows "epochs_inv (machines_update (update_where (\<lambda>m. m_id m = i) f) d)"
proof (rule epochs_inv_step)
  show "epochs_inv d" using inv by (simp add: queue_inv_def)
next
  fix n assume n: "n \<in> set (machines d)"
  let ?e = "machines_update (update_where (\<lambda>m. m_id m = i) f) d"
  let ?n = "if m_id n = i then f n else n"
  have mem: "?n \<in> set (machines ?e)" using n by (auto simp: set_update_where)
  have "n = m" if "m_id n = i" using queue_inv_same_machine [OF inv n m] that i by simp
  then have "m_id ?n = m_id n \<and> m_bindingEpoch n \<le> m_bindingEpoch ?n \<and>
    (m_bindingEpoch ?n \<noteq> m_bindingEpoch n \<longrightarrow> (\<forall>t \<in> set (tasks ?e). t_machineId t = m_id n \<longrightarrow> \<not> is_pending t))"
    using f idle by auto
  with mem show "\<exists>k \<in> set (machines ?e). m_id k = m_id n \<and> m_bindingEpoch n \<le> m_bindingEpoch k \<and>
    (m_bindingEpoch k \<noteq> m_bindingEpoch n \<longrightarrow> (\<forall>t \<in> set (tasks ?e). t_machineId t = m_id n \<longrightarrow> \<not> is_pending t))"
    by blast
qed auto

lemma queue_inv_unbind:
  assumes inv: "queue_inv d" and "find_machine i d = Some m" and "\<not> has_active i d"
    and hash: "\<not> has_row (\<lambda>m. m_id m \<noteq> i \<and> m_tokenHash m = hash) (machines d)"
  shows "queue_inv (tasks_update (cancel_tasks i now) (machines_update (update_where (\<lambda>m. m_id m = i)
    (\<lambda>n. (unbound_row m ciphertext n)\<lparr>m_tokenHash := hash\<rparr>)) d))"
proof -
  have m: "m \<in> set (machines d)" "m_id m = i" using find_machineD [OF assms(2)] by auto
  define c where "c = tasks_update (cancel_tasks i now) d"
  have c: "queue_inv c" "machines c = machines d" by (simp_all add: c_def queue_inv_cancel inv)
  have idle: "\<not> is_pending t" if "t \<in> set (tasks c)" "t_machineId t = i" for t
  proof -
    from that(1) have "t \<in> set (cancel_tasks i now (tasks d))" by (simp add: c_def)
    then show ?thesis unfolding cancel_tasks_def
      by (cases rule: update_where_memE)
        (use assms(3) that(2) in \<open>auto simp: set_task_state_def has_active_def has_row_iff activeStates_def\<close>)
  qed
  let ?f = "\<lambda>n. (unbound_row m ciphertext n)\<lparr>m_tokenHash := hash\<rparr>"
  have "machines_inv (update_where (\<lambda>m. m_id m = i) ?f (machines d))"
    using inv hash m by (intro machines_inv_retoken)
      (auto simp: queue_inv_def machines_inv_def unbound_row_def truthy_def)
  moreover have "epochs_inv (machines_update (update_where (\<lambda>m. m_id m = i) ?f) c)"
    using c m idle by (intro epochs_inv_rebind [where m = m]) (auto simp: unbound_row_def)
  ultimately show ?thesis using c by (simp add: queue_inv_def epochs_inv_def c_def)
qed

lemma valid_installation_truthy: "valid_installation_id i \<Longrightarrow> truthy (Some i)"
  by (cases i) (auto simp: valid_installation_id_def matches_def truthy_def)

lemma queue_inv_enrol:
  assumes inv: "queue_inv d" and "find_machine i d = Some m"
  shows "queue_inv (machines_update (update_where (\<lambda>m. m_id m = i) (\<lambda>_. bind_row iid
      (if m_bindingEpoch m = 0 then 1 else m_bindingEpoch m) info now m)) d)"
proof -
  have m: "m \<in> set (machines d)" "m_id m = i" using find_machineD [OF assms(2)] by auto
  let ?f = "bind_row iid (if m_bindingEpoch m = 0 then 1 else m_bindingEpoch m) info now"
  have only: "n = m" if "n \<in> set (machines d)" "m_id n = i" for n
    using queue_inv_same_machine [OF inv that(1) m(1)] that(2) m(2) by simp
  then have eq: "update_where (\<lambda>m. m_id m = i) (\<lambda>_. ?f m) (machines d) =
      update_where (\<lambda>m. m_id m = i) ?f (machines d)"
    by (auto simp: update_where_def)
  have none: "t_machineId t \<noteq> i" if "m_bindingEpoch m = 0" "t \<in> set (tasks d)" for t
    using queue_inv_epoch(1,2) [OF inv that(2) m(1)] that(1) m(2) by auto
  have "machines_inv (update_where (\<lambda>m. m_id m = i) ?f (machines d))"
    using inv m only by (intro machines_inv_update)
      (force simp: queue_inv_def machines_inv_def bind_row_def)+
  moreover have "epochs_inv (machines_update (update_where (\<lambda>m. m_id m = i) ?f) d)"
    using none by (intro epochs_inv_rebind [OF inv m]) (auto simp: bind_row_def split: if_splits)
  ultimately show ?thesis using inv eq by (simp add: queue_inv_def epochs_inv_def)
qed

lemma queue_inv_enqueue:
  assumes inv: "queue_inv d" and found: "find_machine i d = Some m" and "truthy (m_installationId m)"
    and alive: "\<not> isUninstalled i (m_bindingEpoch m) d"
    and fresh: "\<not> has_row (\<lambda>t. t_id t = tid \<or> task_key t = (i, requestKey)) (tasks d)"
  shows "queue_inv (tasks_update (\<lambda>ts. (if kind = APPLY_CONFIG then supersede_tasks m now ts else ts) @
      [new_task_row tid m kind payload digest requestKey now]) d)"
proof -
  have m: "m \<in> set (machines d)" "m_id m = i" using find_machineD [OF found] by auto
  define ts where "ts = (if kind = APPLY_CONFIG then supersede_tasks m now (tasks d) else tasks d)"
  let ?row = "new_task_row tid m kind payload digest requestKey now"
  let ?e = "tasks_update (\<lambda>_. ts) d"
  have ts: "tasks_inv ts" using inv tasks_inv_supersede by (simp add: ts_def queue_inv_def)
  have keys: "map t_id ts = map t_id (tasks d)" "map task_key ts = map task_key (tasks d)"
    by (auto simp: ts_def supersede_tasks_def set_task_state_def task_key_def intro!: map_update_where)
  have "tid \<notin> set (map t_id (tasks d))" "(i, requestKey) \<notin> set (map task_key (tasks d))"
    using fresh by (auto simp: has_row_iff)
  then have new: "tid \<notin> set (map t_id ts)" "(i, requestKey) \<notin> set (map task_key ts)"
    by (simp_all only: keys not_False_eq_True)
  have old: "\<not> clash u ?row \<and> \<not> clash ?row u" if u: "u \<in> set ts" for u
  proof -
    have gone: "\<not> (t_machineId u = i \<and> t_bindingEpoch u = m_bindingEpoch m \<and> t_kind u = UNINSTALL \<and>
        t_state u = Succeeded)"
    proof (cases "u \<in> set (tasks d)")
      case True
      with alive show ?thesis by (auto simp: isUninstalled_def has_row_iff)
    next
      case False
      with u show ?thesis
        by (auto simp: ts_def supersede_tasks_def set_update_where set_task_state_def split: if_splits)
    qed
    have "\<not> (kind = APPLY_CONFIG \<and> t_machineId u = i \<and> t_bindingEpoch u = m_bindingEpoch m \<and>
        t_kind u = APPLY_CONFIG \<and> t_state u = Queued)"
      using u m(2) by (auto simp: ts_def supersede_tasks_def set_update_where set_task_state_def)
    with gone m(2) show ?thesis by (auto simp: clash_def new_task_row_def)
  qed
  have "progress_ok ?row" by (simp add: progress_ok_def new_task_row_def)
  with ts new old m(2) have "tasks_inv (ts @ [?row])"
    by (auto simp: tasks_inv_def new_task_row_def task_key_def)
  moreover have "epochs_inv ?e"
    using inv epochs_inv_supersede [of d m now] by (simp add: ts_def queue_inv_def epochs_inv_def)
  then have "epochs_inv (tasks_update (\<lambda>_. ts @ [?row]) d)"
    using inv m assms(3) by (auto simp: epochs_inv_def new_task_row_def queue_inv_def machines_inv_def)
  moreover have "(if kind = APPLY_CONFIG then supersede_tasks m now (tasks d) else tasks d) = ts"
    by (simp add: ts_def)
  ultimately show ?thesis using inv by (simp add: queue_inv_def epochs_inv_def)
qed

lemma queue_inv_accept:
  assumes inv: "queue_inv d" and t: "t \<in> set (tasks d)" and "t_state t = Queued"
    and idle: "\<not> has_row (\<lambda>u. t_machineId u = t_machineId t \<and> t_state u \<in> set activeStates \<and>
      t_id u \<noteq> t_id t) (tasks d)"
  shows "queue_inv (tasks_update (update_where (\<lambda>u. t_id u = t_id t) (set_task_state Accepted now)) d)"
proof -
  have only: "u = t" if "u \<in> set (tasks d)" "t_id u = t_id t" for u
    using queue_inv_same_task [OF inv that(1) t that(2)] .
  have "tasks_inv (update_where (\<lambda>u. t_id u = t_id t) (set_task_state Accepted now) (tasks d))"
  proof (rule tasks_inv_update)
    show "tasks_inv (tasks d)" using inv by (simp add: queue_inv_def)
  next
    fix u assume u: "u \<in> set (tasks d)" "t_id u = t_id t"
    have "progress_ok t" using inv t by (simp add: queue_inv_def tasks_inv_def)
    with only [OF u] assms(3) show "progress_ok (set_task_state Accepted now u)"
      by (auto simp: progress_ok_def set_task_state_def split: if_splits)
  next
    fix p u assume pu: "p \<in> set (tasks d)" "t_id p = t_id t" "u \<in> set (tasks d)" "t_id u \<noteq> t_id t"
    then have "\<not> (t_machineId u = t_machineId t \<and> is_active u)"
      using idle by (auto simp: has_row_iff activeStates_def)
    moreover have "\<not> clash u t" using queue_inv_no_clash [OF inv pu(3) t] pu(4) by auto
    ultimately show "\<not> clash (set_task_state Accepted now p) u \<and> \<not> clash u (set_task_state Accepted now p)"
      using only [OF pu(1,2)] assms(3) by (auto simp: clash_def set_task_state_def)
  qed (auto simp: set_task_state_def task_key_def)
  moreover have "epochs_inv (tasks_update (update_where (\<lambda>u. t_id u = t_id t) (set_task_state Accepted now)) d)"
    using inv only assms(3) by (intro epochs_inv_update) (auto simp: queue_inv_def set_task_state_def)
  ultimately show ?thesis using inv by (simp add: queue_inv_def)
qed

lemma reported_row_simps [simp]:
  "t_id (reported_row s q h r j n t) = t_id t" "t_machineId (reported_row s q h r j n t) = t_machineId t"
  "t_bindingEpoch (reported_row s q h r j n t) = t_bindingEpoch t"
  "t_kind (reported_row s q h r j n t) = t_kind t" "t_state (reported_row s q h r j n t) = s"
  "t_requestKey (reported_row s q h r j n t) = t_requestKey t"
  "t_progressSequence (reported_row s q h r j n t) = q"
  "t_reportHash (reported_row s q h r j n t) = Some h"
  "t_payload (reported_row s q h r j n t) = t_payload t"
  "t_payloadHash (reported_row s q h r j n t) = t_payloadHash t"
  "t_createdAt (reported_row s q h r j n t) = t_createdAt t"
  by (simp_all add: reported_row_def)

lemma set_task_state_simps [simp]:
  "t_id (set_task_state s n t) = t_id t" "t_machineId (set_task_state s n t) = t_machineId t"
  "t_bindingEpoch (set_task_state s n t) = t_bindingEpoch t"
  "t_kind (set_task_state s n t) = t_kind t" "t_state (set_task_state s n t) = s"
  "t_requestKey (set_task_state s n t) = t_requestKey t"
  "t_progressSequence (set_task_state s n t) = t_progressSequence t"
  "t_reportHash (set_task_state s n t) = t_reportHash t"
  "t_payload (set_task_state s n t) = t_payload t"
  "t_payloadHash (set_task_state s n t) = t_payloadHash t"
  "t_createdAt (set_task_state s n t) = t_createdAt t"
  by (simp_all add: set_task_state_def)

lemma report_target_states: "report_target s = Some state \<Longrightarrow> state \<in> {Running, Succeeded, Failed}"
  by (cases s) (auto simp: report_target_def)

text \<open>A report when no other task of the machine is queued, or it is no successful uninstallation.\<close>

lemma queue_inv_report_row:
  assumes inv: "queue_inv d" and t: "t \<in> set (tasks d)" and active: "is_active t" and "0 < sq"
    and alive: "\<not> isUninstalled (t_machineId t) (t_bindingEpoch t) d"
    and state: "state \<in> {Running, Succeeded, Failed}"
    and queue: "\<And>u. state = Succeeded \<Longrightarrow> t_kind t = UNINSTALL \<Longrightarrow> u \<in> set (tasks d) \<Longrightarrow>
      t_machineId u = t_machineId t \<Longrightarrow> t_state u \<noteq> Queued"
  shows "queue_inv (tasks_update (update_where (\<lambda>u. t_id u = t_id t)
    (reported_row state sq hash request diagnostic now)) d)"
proof -
  let ?f = "reported_row state sq hash request diagnostic now"
  have only: "u = t" if "u \<in> set (tasks d)" "t_id u = t_id t" for u
    using queue_inv_same_task [OF inv that(1) t that(2)] .
  have "tasks_inv (update_where (\<lambda>u. t_id u = t_id t) ?f (tasks d))"
  proof (rule tasks_inv_update)
    show "tasks_inv (tasks d)" using inv by (simp add: queue_inv_def)
  next
    fix u assume "u \<in> set (tasks d)" "t_id u = t_id t"
    show "progress_ok (?f u)" using state \<open>0 < sq\<close> by (auto simp: progress_ok_def)
  next
    fix p u assume pu: "p \<in> set (tasks d)" "t_id p = t_id t" "u \<in> set (tasks d)" "t_id u \<noteq> t_id t"
    then have "\<not> clash u t" "\<not> clash t u"
      using queue_inv_no_clash [OF inv pu(3) t] queue_inv_no_clash [OF inv t pu(3)] by auto
    moreover have "\<not> (t_machineId u = t_machineId t \<and> t_bindingEpoch u = t_bindingEpoch t \<and>
        t_kind u = UNINSTALL \<and> t_state u = Succeeded)"
      using alive pu(3) by (auto simp: isUninstalled_def has_row_iff)
    ultimately show "\<not> clash (?f p) u \<and> \<not> clash u (?f p)"
      using only [OF pu(1,2)] active state queue [OF _ _ pu(3)] by (auto simp: clash_def)
  qed (auto simp: task_key_def)
  moreover have "epochs_inv (tasks_update (update_where (\<lambda>u. t_id u = t_id t) ?f) d)"
    using inv only active by (intro epochs_inv_update) (auto simp: queue_inv_def)
  ultimately show ?thesis using inv by (simp add: queue_inv_def)
qed

lemma cancel_report_commute:
  assumes "is_active t" and "state \<noteq> Queued" and "\<And>u. u \<in> set ts \<Longrightarrow> t_id u = t_id t \<Longrightarrow> u = t"
  shows "cancel_tasks i n (update_where (\<lambda>u. t_id u = t_id t) (reported_row state sq hash request j n) ts) =
    update_where (\<lambda>u. t_id u = t_id t) (reported_row state sq hash request j n) (cancel_tasks i n ts)"
proof -
  have "cancel_tasks i n [if t_id u = t_id t then reported_row state sq hash request j n u else u] =
    update_where (\<lambda>u. t_id u = t_id t) (reported_row state sq hash request j n) (cancel_tasks i n [u])"
    if "u \<in> set ts" for u
    using that assms(1,2) assms(3) [OF that] by (cases "t_id u = t_id t") (auto simp: cancel_tasks_def)
  then show ?thesis by (induction ts) (auto simp: cancel_tasks_def)
qed

lemma queue_inv_report:
  assumes inv: "queue_inv d" and t: "t \<in> set (tasks d)" and active: "is_active t"
    and alive: "\<not> isUninstalled (t_machineId t) (t_bindingEpoch t) d"
    and sq: "t_progressSequence t < sq" and state: "report_target (rt_state request) = Some state"
  shows "queue_inv (tasks_update (\<lambda>ts.
      (if state = Succeeded \<and> t_kind t = UNINSTALL then cancel_tasks (t_machineId t) now else (\<lambda>x. x))
        (update_where (\<lambda>u. t_id u = t_id t) (reported_row state sq hash request diagnostic now) ts)) d)"
proof -
  have states: "state \<in> {Running, Succeeded, Failed}" using report_target_states [OF state] .
  have "0 \<le> t_progressSequence t"
    using inv t by (auto simp: queue_inv_def tasks_inv_def progress_ok_def split: if_splits)
  with sq have pos: "0 < sq" by simp
  show ?thesis
  proof (cases "state = Succeeded \<and> t_kind t = UNINSTALL")
    case True
    define c where "c = tasks_update (cancel_tasks (t_machineId t) now) d"
    have c: "queue_inv c" by (simp add: c_def queue_inv_cancel inv)
    have tasks_c: "tasks c = cancel_tasks (t_machineId t) now (tasks d)" by (simp add: c_def)
    have tc: "t \<in> set (tasks c)" using t active by (auto simp: tasks_c cancel_tasks_def set_update_where)
    have idle: "t_state u \<noteq> Queued" if "u \<in> set (tasks c)" "t_machineId u = t_machineId t" for u
      using that by (auto simp: tasks_c cancel_tasks_def set_update_where)
    have alive_c: "\<not> isUninstalled (t_machineId t) (t_bindingEpoch t) c"
      using alive by (auto simp: isUninstalled_def has_row_iff tasks_c cancel_tasks_def set_update_where)
    have eq: "cancel_tasks (t_machineId t) now (update_where (\<lambda>u. t_id u = t_id t)
        (reported_row state sq hash request diagnostic now) (tasks d)) =
      update_where (\<lambda>u. t_id u = t_id t) (reported_row state sq hash request diagnostic now) (tasks c)"
      unfolding tasks_c using active states queue_inv_same_task [OF inv _ t]
      by (intro cancel_report_commute) auto
    have "queue_inv (tasks_update (update_where (\<lambda>u. t_id u = t_id t)
        (reported_row state sq hash request diagnostic now)) c)"
      by (rule queue_inv_report_row [OF c tc active pos alive_c states idle])
    then show ?thesis
      by (rule queue_inv_same_tables [THEN iffD1, rotated 2]) (use True eq in \<open>simp_all add: c_def\<close>)
  next
    case False
    have "queue_inv (tasks_update (update_where (\<lambda>u. t_id u = t_id t)
        (reported_row state sq hash request diagnostic now)) d)"
      by (rule queue_inv_report_row [OF inv t active pos alive states]) (use False in blast)
    with False show ?thesis by (simp only: if_False)
  qed
qed

lemma queue_step_inv:
  assumes "queue_step d e" and "queue_inv d"
  shows "queue_inv e"
  using assms
proof cases
  case elsewhere
  with assms(2) show ?thesis using queue_inv_same_tables by blast
next
  case register
  show ?thesis unfolding register(1) by (rule queue_inv_register [OF assms(2) register(2-)])
next
  case touch
  show ?thesis unfolding touch(1) by (rule queue_inv_touch [OF assms(2) touch(2-)])
next
  case retoken
  show ?thesis unfolding retoken(1) by (rule queue_inv_retoken [OF assms(2) retoken(2-)])
next
  case enrol
  show ?thesis unfolding enrol(1) by (rule queue_inv_enrol [OF assms(2) enrol(2)])
next
  case unbind
  show ?thesis unfolding unbind(1) by (rule queue_inv_unbind [OF assms(2) unbind(2-)])
next
  case remove
  show ?thesis unfolding remove(1) by (rule queue_inv_cancel [OF queue_inv_touch [OF assms(2) remove(2-)]])
next
  case enqueue
  show ?thesis unfolding enqueue(1) by (rule queue_inv_enqueue [OF assms(2) enqueue(2-)])
next
  case accept
  show ?thesis unfolding accept(1) by (rule queue_inv_accept [OF assms(2) accept(2-)])
next
  case report
  show ?thesis unfolding report(1) by (rule queue_inv_report [OF assms(2) report(2-)])
qed

interpretation queue: transition_system "\<lambda>d. machines d = [] \<and> tasks d = []" queue_step queue_inv
  by unfold_locales
    (simp add: queue_inv_def machines_inv_def tasks_inv_def epochs_inv_def, blast intro: queue_step_inv)

end
