(* ===== verification/Machine_Refinement.thy ===== *)
theory Machine_Refinement
  imports Task_Queue
begin

text \<open>
  The operations of \<open>MachineStore\<close> refine the steps of theory \<open>Task_Queue\<close>, whatever they return or
  throw; so everything proved of the steps holds of the code: the invariant of the queue in every
  reachable state, and the ways a durable task may evolve.
\<close>

section \<open>How a task evolves\<close>

fun may_become :: "task_state \<Rightarrow> task_state \<Rightarrow> bool" where
  "may_become Queued s = True"
| "may_become Accepted s = (s \<in> {Accepted, Running, Succeeded, Failed})"
| "may_become Running s = (s \<in> {Running, Succeeded, Failed})"
| "may_become r s = (s = r)"

text \<open>
  What is fixed when a task is created stays fixed, its progress sequence never falls, its state
  only moves forward, and a task that is over does not change at all.
\<close>

definition evolves :: "task_row \<Rightarrow> task_row \<Rightarrow> bool" where
  "evolves t u \<longleftrightarrow> t_id u = t_id t \<and> t_machineId u = t_machineId t \<and>
     t_bindingEpoch u = t_bindingEpoch t \<and> t_kind u = t_kind t \<and> t_payload u = t_payload t \<and>
     t_payloadHash u = t_payloadHash t \<and> t_requestKey u = t_requestKey t \<and>
     t_createdAt u = t_createdAt t \<and> t_progressSequence t \<le> t_progressSequence u \<and>
     may_become (t_state t) (t_state u) \<and> (is_final t \<longrightarrow> u = t)"

lemma may_become_refl [simp]: "may_become s s"
  by (cases s) auto

lemma may_become_trans: "may_become r s \<Longrightarrow> may_become s t \<Longrightarrow> may_become r t"
  by (cases r; cases s; auto)

lemma evolves_refl [simp]: "evolves t t"
  by (simp add: evolves_def)

lemma evolves_trans: "evolves t u \<Longrightarrow> evolves u v \<Longrightarrow> evolves t v"
  unfolding evolves_def using may_become_trans by auto

text \<open>All tasks of one table live on in the other.\<close>

definition lives_on :: "task_row list \<Rightarrow> task_row list \<Rightarrow> bool" where
  "lives_on ts us \<longleftrightarrow> (\<forall>t \<in> set ts. \<exists>u \<in> set us. evolves t u)"

lemma lives_on_refl [simp]: "lives_on ts ts"
  by (auto simp: lives_on_def intro: evolves_refl)

lemma lives_on_trans: "lives_on ts us \<Longrightarrow> lives_on us vs \<Longrightarrow> lives_on ts vs"
  unfolding lives_on_def using evolves_trans by meson

lemma lives_on_update: "(\<And>t. t \<in> set ts \<Longrightarrow> P t \<Longrightarrow> evolves t (f t)) \<Longrightarrow> lives_on ts (update_where P f ts)"
  unfolding lives_on_def
proof
  fix t assume "t \<in> set ts" and *: "\<And>t. t \<in> set ts \<Longrightarrow> P t \<Longrightarrow> evolves t (f t)"
  then have "(if P t then f t else t) \<in> set (update_where P f ts)" by (auto simp: set_update_where)
  moreover have "evolves t (if P t then f t else t)" using * \<open>t \<in> set ts\<close> by simp
  ultimately show "\<exists>u \<in> set (update_where P f ts). evolves t u" by blast
qed

lemma lives_on_append: "lives_on ts us \<Longrightarrow> lives_on ts (us @ vs)"
  by (auto simp: lives_on_def)

lemma lives_on_retire: "t_state t = Queued \<Longrightarrow> evolves t (set_task_state s now t)"
  by (simp add: evolves_def)

lemma lives_on_cancel: "lives_on ts (cancel_tasks i now ts)"
  unfolding cancel_tasks_def by (rule lives_on_update) (simp add: lives_on_retire)

lemma lives_on_supersede: "lives_on ts (supersede_tasks m now ts)"
  unfolding supersede_tasks_def by (rule lives_on_update) (simp add: lives_on_retire)

lemma queue_step_lives_on:
  assumes "queue_step d e" and inv: "queue_inv d"
  shows "lives_on (tasks d) (tasks e)"
  using assms(1)
proof cases
  case enqueue
  then show ?thesis by (simp add: lives_on_append lives_on_supersede)
next
  case (accept t now)
  have "t_state u = Queued" if "u \<in> set (tasks d)" "t_id u = t_id t" for u
    using queue_inv_same_task [OF inv that(1) accept(2) that(2)] accept(3) by simp
  then show ?thesis unfolding accept(1) by (auto intro!: lives_on_update lives_on_retire)
next
  case (report t sq request state now hash diagnostic)
  let ?us = "update_where (\<lambda>u. t_id u = t_id t) (reported_row state sq hash request diagnostic now) (tasks d)"
  have only: "u = t" if "u \<in> set (tasks d)" "t_id u = t_id t" for u
    using queue_inv_same_task [OF inv that(1) report(2) that(2)] .
  have "evolves t (reported_row state sq hash request diagnostic now t)"
    using report(3,5) report_target_states [OF report(6)] by (auto simp: evolves_def)
  then have us: "lives_on (tasks d) ?us" using only by (intro lives_on_update) blast
  show ?thesis unfolding report(1)
    using us lives_on_trans [OF us lives_on_cancel [of _ "t_machineId t" now]] by auto
qed (simp_all add: lives_on_cancel)

lemma queue_steps_lives_on: "queue_step\<^sup>*\<^sup>* d e \<Longrightarrow> queue_inv d \<Longrightarrow> lives_on (tasks d) (tasks e)"
proof (induction rule: rtranclp_induct)
  case base
  then show ?case by simp
next
  case (step e f)
  with queue.steps_inv have "queue_inv e" by blast
  with step queue_step_lives_on lives_on_trans show ?case by blast
qed

section \<open>The operations refine the steps\<close>

text \<open>Programs that change nothing.\<close>

definition reads :: "('s, 'a) prog \<Rightarrow> bool" where
  "reads p \<longleftrightarrow> (\<forall>s. keeps (\<lambda>t. t = s) p)"

lemma readsD: "reads p \<Longrightarrow> p s = (r, t) \<Longrightarrow> t = s"
  unfolding reads_def keeps_def by (metis snd_conv)

lemma reads_snd: "reads p \<Longrightarrow> snd (p s) = s"
  by (simp add: reads_def keeps_def)

lemma keeps_map_prog [keeps_rules]: "(\<And>x. keeps I (f x)) \<Longrightarrow> keeps I (map_prog f xs)"
  by (induction xs) (auto intro!: keeps_rules)

lemma keeps_status_of [keeps_rules]: "keeps I (status_of P j)"
  unfolding status_of_def by (intro keeps_rules)

lemma keeps_store_get [keeps_rules]: "keeps I (store_get i)"
  unfolding store_get_def by (intro keeps_rules)

lemma keeps_taskDto [keeps_rules]: "keeps I (taskDto P row)"
  unfolding taskDto_def parse_diagnostic_def by (intro keeps_rules)

lemma keeps_dto [keeps_rules]: "keeps I (dto P row)"
  unfolding dto_def by (intro keeps_rules)

lemma keeps_listTasks [keeps_rules]: "keeps I (listTasks P i)"
  unfolding listTasks_def by (intro keeps_rules)

lemma keeps_detail [keeps_rules]: "keeps I (detail P i)"
  unfolding detail_def by (intro keeps_rules)

lemma reads_detail: "reads (detail P i)"
  unfolding reads_def by (intro allI keeps_detail)

lemma reads_taskDto: "reads (taskDto P row)"
  unfolding reads_def by (intro allI keeps_taskDto)

lemmas read_back = readsD [OF reads_detail] readsD [OF reads_taskDto]

lemma queue_step_refl [simp]: "queue_step d d"
  by (rule elsewhere) simp_all

lemma store_get_ok [prog_ok]: "store_get i w = (Inr m, t) \<longleftrightarrow> find_machine i (w_db w) = Some m \<and> t = w"
  by (auto simp: store_get_def prog_ok)

lemma store_get_fail [prog_fail]:
  "store_get i w = (Inl e, t) \<longleftrightarrow> find_machine i (w_db w) = None \<and> e = AppError ''MACHINE_NOT_FOUND'' 404 \<and> t = w"
  by (auto simp: store_get_def prog_ok prog_fail)

lemma cancel_queued_run:
  "cancel_queued i w = (Inr (), w\<lparr>w_db := tasks_update (cancel_tasks i (w_now w)) (w_db w)\<rparr>)"
  by (simp add: cancel_queued_def cancel_tasks_def prog_run)

lemma store_create_step:
  assumes "store_create P input w = (r, t)"
  shows "queue_step (w_db w) (w_db t)"
proof (cases r)
  case (Inl e)
  with assms show ?thesis
    by (auto simp: store_create_def insert_machine_def prog_ok prog_fail new_machine_row_def
        intro: queue_step_refl intro!: register dest!: read_back)
next
  case (Inr a)
  with assms show ?thesis
    by (auto simp: store_create_def insert_machine_def prog_ok new_machine_row_def
        intro!: register dest!: read_back)
qed

lemma store_update_step:
  assumes "store_update P i input w = (r, t)"
  shows "queue_step (w_db w) (w_db t)"
  using assms
  by (cases r)
    (auto simp: store_update_def prog_ok prog_fail same_binding_def
      intro: queue_step_refl intro!: touch dest!: read_back)

lemma rebind_step:
  assumes "rebind P i expected w = (r, t)"
  shows "queue_step (w_db w) (w_db t)"
  using assms
  by (cases r)
    (auto simp: rebind_def update_machine_token_def cancel_queued_run prog_ok prog_fail
      intro: queue_step_refl intro!: unbind dest!: read_back)

lemma resetToken_step:
  assumes "resetToken P i w = (r, t)"
  shows "queue_step (w_db w) (w_db t)"
  using assms
  by (cases r)
    (auto simp: resetToken_def update_machine_token_def reset_row_def prog_ok prog_fail same_binding_def
      intro: queue_step_refl intro!: retoken)

lemma store_remove_step:
  assumes "store_remove i w = (r, t)"
  shows "queue_step (w_db w) (w_db t)"
  using assms
  by (cases r)
    (auto simp: store_remove_def cancel_queued_run prog_ok prog_fail same_binding_def
      intro: queue_step_refl intro!: remove)

text \<open>Checking an identity reads and writes nothing.\<close>

lemma assertInstallation_world: "snd (assertInstallation m identity b w) = w"
  by (auto simp: assertInstallation_def integerSequence_def require_def split: option.split)

lemma assertInstallation_valid:
  "assertInstallation m identity b w = (Inr (), t) \<Longrightarrow>
    \<exists>ident. identity = Some ident \<and> valid_installation_id (i_installationId ident)"
  by (auto simp: assertInstallation_def prog_ok split: option.splits)

lemma store_bind_ok:
  assumes "store_bind i identity info w = (Inr a, t)"
  obtains m ident where "find_machine i (w_db w) = Some m" and "identity = Some ident"
    and "valid_installation_id (i_installationId ident)"
    and "assertInstallation m identity True w = (Inr (), w)"
    and "\<not> isUninstalled i (m_bindingEpoch m) (w_db w)"
    and "a = bind_row (i_installationId ident) (if m_bindingEpoch m = 0 then 1 else m_bindingEpoch m)
          info (w_now w) m"
    and "t = w\<lparr>w_db := machines_update (update_where (\<lambda>m. m_id m = i) (\<lambda>_. a)) (w_db w)\<rparr>"
proof -
  from assms obtain m u where m: "find_machine i (w_db w) = Some m"
    and u: "assertInstallation m identity True w = (Inr (), u)"
    and rest: "\<not> isUninstalled i (m_bindingEpoch m) (w_db u)"
      "a = bind_row (i_installationId (the identity))
        (if m_bindingEpoch m = 0 then 1 else m_bindingEpoch m) info (w_now u) m"
      "t = u\<lparr>w_db := machines_update (update_where (\<lambda>m. m_id m = i) (\<lambda>_. a)) (w_db u)\<rparr>"
    by (auto simp: store_bind_def Let_def prog_ok simp del: if_split)
  have "u = w" using assertInstallation_world [of m identity True w] u by simp
  with m u rest assertInstallation_valid [OF u] that show ?thesis by auto
qed

lemma store_bind_step:
  assumes "store_bind i identity info w = (r, t)"
  shows "queue_step (w_db w) (w_db t)"
proof (cases r)
  case (Inl e)
  with assms have "w_db t = w_db w" unfolding store_bind_def by (intro transaction_fail_db) simp
  then show ?thesis by simp
next
  case (Inr a)
  with assms have "store_bind i identity info w = (Inr a, t)" by simp
  then show ?thesis
  proof (cases rule: store_bind_ok)
    case (1 m ident)
    show ?thesis using enrol [OF 1(1,3), of info "w_now w"] unfolding 1(6,7) by simp
  qed
qed

lemma check_enqueue_ok:
  assumes "check_enqueue P m k w = (Inr (), t)"
  shows "t = w \<and> \<not> isUninstalled (m_id m) (m_bindingEpoch m) (w_db w) \<and> truthy (m_installationId m) \<and>
    k \<in> set (m_supportedTasks m)"
  using assms
  by (auto simp: check_enqueue_def Let_def prog_ok status_of_def split: if_splits)

lemma find_request_key: "find_request i k d = None \<Longrightarrow> t \<in> set (tasks d) \<Longrightarrow> task_key t \<noteq> (i, k)"
  by (auto simp: find_request_def find_None_all task_key_def)

lemma new_task_row_simps [simp]:
  "t_id (new_task_row i m k p h rk now) = i" "task_key (new_task_row i m k p h rk now) = (m_id m, rk)"
  "t_state (new_task_row i m k p h rk now) = Queued" "t_kind (new_task_row i m k p h rk now) = k"
  "t_diagnosticJson (new_task_row i m k p h rk now) = None"
  "t_payloadHash (new_task_row i m k p h rk now) = h"
  "t_machineId (new_task_row i m k p h rk now) = m_id m"
  "t_bindingEpoch (new_task_row i m k p h rk now) = m_bindingEpoch m"
  by (simp_all add: new_task_row_def task_key_def)

lemma enqueue_new_ok:
  assumes "enqueue_new P m k payload rk w = (Inr a, t)"
  shows "\<exists>tid. \<not> isUninstalled (m_id m) (m_bindingEpoch m) (w_db w) \<and> truthy (m_installationId m) \<and>
    k \<in> set (m_supportedTasks m) \<and>
    \<not> has_row (\<lambda>t. t_id t = tid \<or> task_key t = (m_id m, rk)) (tasks (w_db w)) \<and>
    td_id a = tid \<and> td_state a = Queued \<and>
    w_db t = tasks_update (\<lambda>ts. (if k = APPLY_CONFIG then supersede_tasks m (w_now w) ts else ts) @
      [new_task_row tid m k payload (sha256 P payload) rk (w_now w)]) (w_db w)"
proof -
  have keys: "has_row (\<lambda>t. t_id t = i \<or> task_key t = q) (supersede_tasks m n ts) \<longleftrightarrow>
      has_row (\<lambda>t. t_id t = i \<or> task_key t = q) ts" for i q n ts
    by (induction ts) (auto simp: has_row_iff supersede_tasks_def task_key_def)
  show ?thesis
    using assms
    by (intro exI [of _ "p_randomUUID P (w_draws w)"], cases "k = APPLY_CONFIG")
      (auto simp: enqueue_new_def Let_def insert_task_def supersede_queued_def prog_ok taskDto_def
        parse_diagnostic_def truthy_def [of None] supersede_tasks_def [symmetric] keys o_def
        split: if_splits dest!: check_enqueue_ok)
qed

lemma check_enqueue_fail: "check_enqueue P m k w = (Inl e, t) \<Longrightarrow> t = w"
  by (auto simp: check_enqueue_def Let_def prog_ok prog_fail status_of_def split: if_splits)

text \<open>What \<open>enqueueTask\<close> does when it returns: the earlier task of the same request, or a new one.\<close>

lemma enqueueTask_ok:
  assumes "enqueueTask P i spec rk w = (Inr a, t)"
  obtains (existing) m u k where "find_machine i (w_db w) = Some m" and "spec_kind spec = Some k"
      and "find_request i rk (w_db w) = Some u"
      and "t_payloadHash u = sha256 P (p_specToBinary P spec)" and "taskDto P u w = (Inr a, t)"
  | (fresh) m k where "find_machine i (w_db w) = Some m" and "spec_kind spec = Some k"
      and "find_request i rk (w_db w) = None" and "length (p_specToBinary P spec) \<le> 1024 * 1024"
      and "enqueue_new P m k (p_specToBinary P spec) rk w = (Inr a, t)"
  using assms
  by (cases "find_request i rk (w_db w)") (auto simp: enqueueTask_def Let_def prog_ok)

lemma enqueueTask_step:
  assumes "enqueueTask P i spec rk w = (r, t)"
  shows "queue_step (w_db w) (w_db t)"
proof (cases r)
  case (Inl e)
  with assms show ?thesis
    by (cases "find_request i rk (w_db w)") (auto simp: enqueueTask_def Let_def prog_ok prog_fail)
next
  case (Inr a)
  with assms have "enqueueTask P i spec rk w = (Inr a, t)" by simp
  then show ?thesis
  proof (cases rule: enqueueTask_ok)
    case existing
    then show ?thesis by (auto intro: queue_step_refl dest: read_back)
  next
    case (fresh m k)
    from find_machineD [OF fresh(1)] have "m_id m = i" by simp
    with enqueue_new_ok [OF fresh(5)] fresh(1) show ?thesis by (auto intro!: enqueue)
  qed
qed

lemma enqueueInspect_step:
  assumes "enqueueInspect P i rk logs lines kb w = (r, t)"
  shows "queue_step (w_db w) (w_db t)"
  using assms enqueueTask_step
  by (cases r) (auto simp: enqueueInspect_def Let_def prog_ok prog_fail intro: queue_step_refl)

text \<open>The reports of a daemon, with the row of the machine that \<open>authenticate\<close> has just read.\<close>

lemma require_session_ok [prog_ok]:
  "require_session row s w = (Inr a, t) \<longleftrightarrow> 1 \<le> s \<and> s \<le> MAX_SAFE_INTEGER \<and> s = m_sessionEpoch row \<and> t = w"
  by (auto simp: require_session_def integerSequence_def prog_ok)

lemma integerSequence_ok [prog_ok]:
  "integerSequence v n z w = (Inr a, t) \<longleftrightarrow> (if z then 0 else 1) \<le> v \<and> v \<le> MAX_SAFE_INTEGER \<and> a = v \<and> t = w"
  by (auto simp: integerSequence_def)

lemma integerSequence_fail [prog_fail]:
  "integerSequence v n z w = (Inl e, t) \<longleftrightarrow> (v < (if z then 0 else 1) \<or> MAX_SAFE_INTEGER < v) \<and>
     e = ConnectError (n @ '' is out of range'') CInvalidArgument \<and> t = w"
  by (auto simp: integerSequence_def)

lemma require_session_fail [prog_fail]:
  "require_session row s w = (Inl e, t) \<longleftrightarrow> t = w \<and>
     (s < 1 \<or> MAX_SAFE_INTEGER < s) \<and> e = ConnectError ''session epoch is out of range'' CInvalidArgument
   \<or> t = w \<and> 1 \<le> s \<and> s \<le> MAX_SAFE_INTEGER \<and> s \<noteq> m_sessionEpoch row \<and>
     e = ConnectError ''STALE_SESSION'' CFailedPrecondition"
  by (auto simp: require_session_def integerSequence_def prog_ok prog_fail connect_def)

lemma find_taskD:
  assumes "find_task i row d = Some t"
  shows "t \<in> set (tasks d)" and "t_id t = i" and "t_machineId t = m_id row"
    and "t_bindingEpoch t = m_bindingEpoch row"
  using assms find_Some_mem unfolding find_task_def by fastforce+

text \<open>
  A task is handed out as it is when the daemon has accepted it already, and otherwise accepted while
  no other task of the machine is active.
\<close>

lemma store_accept_ok:
  assumes "store_accept row s i hash w = (Inr a, t)"
  shows "s = m_sessionEpoch row \<and> (\<exists>task. find_task i row (w_db w) = Some task \<and> t_payloadHash task = hash \<and>
    (t_state task \<in> set activeStates \<and> a = task \<and> t = w \<or>
     t_state task = Queued \<and>
     \<not> has_row (\<lambda>t. t_machineId t = m_id row \<and> t_state t \<in> set activeStates \<and> t_id t \<noteq> t_id task)
        (tasks (w_db w)) \<and>
     a = set_task_state Accepted (w_now w) task \<and>
     t = w\<lparr>w_db := tasks_update (update_where (\<lambda>t. t_id t = t_id task)
       (set_task_state Accepted (w_now w))) (w_db w)\<rparr>))"
proof -
  from assms obtain task where task: "find_task i row (w_db w) = Some task"
    by (auto simp: store_accept_def prog_ok)
  with assms show ?thesis
    by (cases "t_state task") (auto simp: store_accept_def prog_ok activeStates_def)
qed

lemma store_accept_step:
  assumes "store_accept row s i hash w = (r, t)"
  shows "queue_step (w_db w) (w_db t)"
proof (cases r)
  case (Inl e)
  have "w_db t = w_db w"
    using assms
    unfolding Inl store_accept_def bind_fail [of "require_session row s"] require_session_fail require_session_ok
    by (elim disjE exE conjE) (simp_all add: transaction_fail_db)
  then show ?thesis by simp
next
  case (Inr a)
  with assms have "store_accept row s i hash w = (Inr a, t)" by simp
  then obtain task where task: "find_task i row (w_db w) = Some task" and
    "t = w \<or> t_state task = Queued \<and>
     \<not> has_row (\<lambda>t. t_machineId t = m_id row \<and> t_state t \<in> set activeStates \<and> t_id t \<noteq> t_id task)
        (tasks (w_db w)) \<and>
     t = w\<lparr>w_db := tasks_update (update_where (\<lambda>t. t_id t = t_id task)
       (set_task_state Accepted (w_now w))) (w_db w)\<rparr>"
    using store_accept_ok by blast
  with accept [of task "w_db w" "w_now w"] find_taskD [OF task] show ?thesis by auto
qed

lemma store_reportStatus_ok:
  assumes "store_reportStatus P row s q status w = (Inr a, t)"
  shows "s = m_sessionEpoch row \<and> a = max q (m_statusSequence row) \<and>
    (q \<le> m_statusSequence row \<and> t = w \<or>
     m_statusSequence row < q \<and> q \<le> MAX_SAFE_INTEGER \<and>
     t = w\<lparr>w_db := machines_update (update_where
               (\<lambda>m. m_id m = m_id row \<and> m_sessionEpoch m = m_sessionEpoch row)
               (\<lambda>m. m\<lparr>m_statusSequence := q, m_statusJson := Some (p_statusToJson P status),
                      m_daemonVersion := Some (s_daemonVersion status),
                      m_lastSeenAt := Some (w_now w)\<rparr>)) (w_db w)\<rparr>)"
  using assms
  by (cases "q \<le> m_statusSequence row") (auto simp: store_reportStatus_def prog_ok)

lemma store_reportStatus_step:
  assumes "store_reportStatus P row s q status w = (r, t)"
  shows "queue_step (w_db w) (w_db t)"
proof (cases r)
  case (Inl e)
  have "t = w"
    using assms unfolding Inl store_reportStatus_def
    by (simp only: prog_fail prog_ok) (elim disjE exE conjE; simp add: prog_ok prog_fail split: if_splits)
  then show ?thesis by simp
next
  case (Inr a)
  with assms have "store_reportStatus P row s q status w = (Inr a, t)" by simp
  from store_reportStatus_ok [OF this] show ?thesis
    by (elim conjE disjE) (simp_all add: same_binding_def touch)
qed

text \<open>An upgrade succeeds only with evidence that the requested version runs.\<close>

definition upgrade_evidence :: "platform \<Rightarrow> machine_row \<Rightarrow> task_row \<Rightarrow> report_task_request \<Rightarrow> bool" where
  "upgrade_evidence P row task request \<longleftrightarrow>
     (case p_specFromBinary P (t_payload task) of
        Some (UpgradeDaemon (Some artifact)) \<Rightarrow>
          a_version artifact \<noteq> [] \<and> 1 \<le> m_statusSequence row \<and>
          m_daemonVersion row = Some (a_version artifact) \<and>
          (\<exists>j status. m_statusJson row = Some j \<and> p_statusFromJson P j = Some status \<and>
             s_daemonVersion status = a_version artifact) \<and>
          (\<exists>actual. rt_actualStatus request = Some actual \<and> s_daemonVersion actual = a_version artifact)
      | _ \<Rightarrow> False)"

lemma status_of_ok [prog_ok]:
  "status_of P j w = (Inr a, t) \<longleftrightarrow> t = w \<and>
     (if truthy j then p_statusFromJson P (the j) \<noteq> None \<and> a = p_statusFromJson P (the j) else a = None)"
  by (auto simp: status_of_def prog_ok)

lemma check_upgrade_ok:
  assumes "check_upgrade P row task request w = (Inr u, t)"
  shows "t = w \<and> upgrade_evidence P row task request"
proof -
  let ?v = "\<lambda>spec. case spec of UpgradeDaemon (Some a) \<Rightarrow> Some (a_version a) | _ \<Rightarrow> None"
  from assms obtain spec status where spec: "p_specFromBinary P (t_payload task) = Some spec"
    and status: "if truthy (m_statusJson row) then p_statusFromJson P (the (m_statusJson row)) \<noteq> None \<and>
        status = p_statusFromJson P (the (m_statusJson row)) else status = None"
    and v: "truthy (?v spec)" "1 \<le> m_statusSequence row" "m_daemonVersion row = ?v spec"
      "map_option s_daemonVersion status = ?v spec"
      "map_option s_daemonVersion (rt_actualStatus request) = ?v spec" and "t = w"
    by (auto simp: check_upgrade_def Let_def prog_ok)
  from v(1) obtain artifact where a: "spec = UpgradeDaemon (Some artifact)" "a_version artifact \<noteq> []"
    by (auto simp: truthy_def split: task_spec.splits option.splits)
  with status v have "\<exists>j st. m_statusJson row = Some j \<and> p_statusFromJson P j = Some st \<and>
      s_daemonVersion st = a_version artifact"
    by (cases "m_statusJson row") (auto simp: truthy_def split: if_splits)
  with a v spec \<open>t = w\<close> show ?thesis by (auto simp: upgrade_evidence_def)
qed

lemma read_diagnostic_ok: "read_diagnostic P b w = (Inr a, t) \<Longrightarrow> t = w"
  by (auto simp: read_diagnostic_def prog_ok split: if_splits)

lemma commit_report_ok:
  assumes "commit_report P row task request sq hash w = (Inr a, t)"
  shows "is_active task \<and>
    (t_kind task = UPGRADE_DAEMON \<and> rt_state request = SUCCEEDED \<longrightarrow> upgrade_evidence P row task request) \<and>
    (\<exists>state diagnostic. report_target (rt_state request) = Some state \<and>
      a = \<lparr>rp_committedSequence = sq, rp_terminal = (state \<noteq> Running)\<rparr> \<and>
      w_db t = tasks_update (\<lambda>ts.
        (if state = Succeeded \<and> t_kind task = UNINSTALL then cancel_tasks (m_id row) (w_now w) else (\<lambda>x. x))
          (update_where (\<lambda>u. t_id u = t_id task)
            (reported_row state sq hash request diagnostic (w_now w)) ts)) (w_db w))"
proof -
  from assms obtain state diagnostic u v where active: "t_state task \<in> set activeStates"
    and up: "(if t_kind task = UPGRADE_DAEMON \<and> rt_state request = SUCCEEDED
           then check_upgrade P row task request else return ()) w = (Inr (), u)"
    and state: "report_target (rt_state request) = Some state"
    and diag: "read_diagnostic P (rt_diagnosticJson request) u = (Inr diagnostic, v)"
    and rest: "(if state = Succeeded \<and> t_kind task = UNINSTALL then cancel_queued (m_id row) else return ())
      (v\<lparr>w_db := tasks_update (update_where (\<lambda>t. t_id t = t_id task)
        (reported_row state sq hash request diagnostic (w_now v))) (w_db v)\<rparr>) = (Inr (), t)"
    and a: "a = \<lparr>rp_committedSequence = sq, rp_terminal = (state \<noteq> Running)\<rparr>"
    unfolding commit_report_def prog_ok by (elim exE conjE) (rule that; simp)
  have "u = w" "t_kind task = UPGRADE_DAEMON \<and> rt_state request = SUCCEEDED \<longrightarrow>
      upgrade_evidence P row task request"
    using up check_upgrade_ok [of P row task request w] by (auto split: if_splits)
  moreover have "v = u" using read_diagnostic_ok [OF diag] .
  moreover have "is_active task" using active by (simp add: activeStates_def)
  moreover have "w_db t = tasks_update (\<lambda>ts.
        (if state = Succeeded \<and> t_kind task = UNINSTALL then cancel_tasks (m_id row) (w_now v) else (\<lambda>x. x))
          (update_where (\<lambda>u. t_id u = t_id task)
            (reported_row state sq hash request diagnostic (w_now v)) ts)) (w_db v)"
    using rest by (cases "state = Succeeded \<and> t_kind task = UNINSTALL")
      (auto simp: cancel_queued_run o_def simp del: return_run split: if_splits simp add: return_ok)
  ultimately show ?thesis using state a by (intro conjI exI [of _ state] exI [of _ diagnostic]) simp_all
qed

text \<open>
  A report is either the replay of one already committed, answered without any change, or a new
  report of an active task on a machine that is not uninstalled.
\<close>

lemma store_reportTask_ok:
  assumes "store_reportTask P row request w = (Inr a, t)"
  shows "\<exists>task. find_task (rt_taskId request) row (w_db w) = Some task \<and>
    t_payloadHash task = rt_payloadSha256 request \<and> 1 \<le> rt_sequence request \<and>
    (rt_sequence request \<le> t_progressSequence task \<and> t = w \<and>
     (rt_sequence request = t_progressSequence task \<longrightarrow>
       t_reportHash task = Some (sha256 P (p_reportToBinary P request))) \<and>
     a = \<lparr>rp_committedSequence = t_progressSequence task,
          rp_terminal = (t_state task \<in> set terminalStates)\<rparr> \<or>
     t_progressSequence task < rt_sequence request \<and>
     \<not> isUninstalled (m_id row) (m_bindingEpoch row) (w_db w) \<and>
     commit_report P row task request (rt_sequence request) (sha256 P (p_reportToBinary P request)) w =
       (Inr a, t))"
proof -
  let ?hash = "sha256 P (p_reportToBinary P request)"
  from assms obtain task where task: "find_task (rt_taskId request) row (w_db w) = Some task"
    by (auto simp: store_reportTask_def Let_def prog_ok)
  with assms show ?thesis
    by (cases "rt_sequence request \<le> t_progressSequence task")
      (auto simp: store_reportTask_def Let_def prog_ok)
qed

lemma reportTask_fail_db: "store_reportTask P row request w = (Inl e, t) \<Longrightarrow> w_db t = w_db w"
  unfolding store_reportTask_def bind_fail [of "integerSequence _ _ _"] integerSequence_fail
    integerSequence_ok Let_def
  by (elim disjE exE conjE) (simp_all add: transaction_fail_db)

lemma store_reportTask_step:
  assumes "store_reportTask P row request w = (r, t)"
  shows "queue_step (w_db w) (w_db t)"
proof (cases r)
  case (Inl e)
  with assms have "w_db t = w_db w" by (simp add: reportTask_fail_db)
  then show ?thesis by simp
next
  case (Inr a)
  with assms have "store_reportTask P row request w = (Inr a, t)" by simp
  from store_reportTask_ok [OF this] obtain task where task:
    "find_task (rt_taskId request) row (w_db w) = Some task" and
    "t = w \<or> t_progressSequence task < rt_sequence request \<and>
     \<not> isUninstalled (m_id row) (m_bindingEpoch row) (w_db w) \<and>
     commit_report P row task request (rt_sequence request) (sha256 P (p_reportToBinary P request)) w =
       (Inr a, t)" by blast
  note found = find_taskD [OF task]
  from this(2) \<open>t = w \<or> _\<close> show ?thesis
  proof (elim disjE conjE)
    assume new: "t_progressSequence task < rt_sequence request"
      "\<not> isUninstalled (m_id row) (m_bindingEpoch row) (w_db w)"
      and "commit_report P row task request (rt_sequence request) (sha256 P (p_reportToBinary P request)) w =
        (Inr a, t)"
    from commit_report_ok [OF this(3)] obtain state diagnostic where "is_active task"
      "report_target (rt_state request) = Some state"
      "w_db t = tasks_update (\<lambda>ts.
        (if state = Succeeded \<and> t_kind task = UNINSTALL then cancel_tasks (m_id row) (w_now w) else (\<lambda>x. x))
          (update_where (\<lambda>u. t_id u = t_id task) (reported_row state (rt_sequence request)
            (sha256 P (p_reportToBinary P request)) request diagnostic (w_now w)) ts)) (w_db w)" by blast
    with report [OF found(1), unfolded found(2-4), of "rt_sequence request" request state] found new
    show ?thesis by (simp split del: if_split)
  qed simp
qed

section \<open>The store as a state machine\<close>

text \<open>
  One step of the panel as far as machines and tasks are concerned: an operation of \<open>MachineStore\<close>,
  returning or throwing; or anything else (another component, the clock) that leaves the two tables
  alone. Rows are passed to the daemon's operations by a caller that may hold any row.
\<close>

inductive store_step :: "platform \<Rightarrow> world \<Rightarrow> world \<Rightarrow> bool" for P :: platform where
  other: "machines (w_db v) = machines (w_db w) \<Longrightarrow> tasks (w_db v) = tasks (w_db w) \<Longrightarrow> store_step P w v"
| create: "store_create P input w = (r, v) \<Longrightarrow> store_step P w v"
| update: "store_update P i change w = (r, v) \<Longrightarrow> store_step P w v"
| rebind: "rebind P i expectedVersion w = (r, v) \<Longrightarrow> store_step P w v"
| reset: "resetToken P i w = (q, v) \<Longrightarrow> store_step P w v"
| remove: "store_remove i w = (q, v) \<Longrightarrow> store_step P w v"
| bind: "store_bind i identity info w = (b, v) \<Longrightarrow> store_step P w v"
| enqueue: "enqueueTask P i spec requestKey w = (d, v) \<Longrightarrow> store_step P w v"
| inspect: "enqueueInspect P i requestKey logs maxLines maxBytes w = (d, v) \<Longrightarrow> store_step P w v"
| accept: "store_accept row sessionEpoch taskId hash w = (a, v) \<Longrightarrow> store_step P w v"
| status: "store_reportStatus P row sessionEpoch sq st w = (s, v) \<Longrightarrow> store_step P w v"
| report: "store_reportTask P row request w = (p, v) \<Longrightarrow> store_step P w v"

lemma store_step_refines: "store_step P w v \<Longrightarrow> queue_step (w_db w) (w_db v)"
proof (induction rule: store_step.induct)
  case (other v w)
  then show ?case by (rule elsewhere)
qed (auto intro: store_create_step store_update_step rebind_step resetToken_step store_remove_step
      store_bind_step enqueueTask_step enqueueInspect_step store_accept_step store_reportStatus_step
      store_reportTask_step)

interpretation store: transition_system "\<lambda>w. w_db w = empty_db" "store_step P" "\<lambda>w. queue_inv (w_db w)" for P
proof
  fix w :: world assume "w_db w = empty_db"
  then show "queue_inv (w_db w)" using queue.init_inv [of empty_db] by (simp add: empty_db_def)
next
  fix w v assume "queue_inv (w_db w)" "store_step P w v"
  then show "queue_inv (w_db v)" using queue_step_inv store_step_refines by blast
qed

lemma store_steps_lives_on:
  assumes "(store_step P)\<^sup>*\<^sup>* w v" and "queue_inv (w_db w)"
  shows "lives_on (tasks (w_db w)) (tasks (w_db v))"
proof -
  have "queue_step\<^sup>*\<^sup>* (w_db w) (w_db v)"
    using assms(1) by (induction rule: rtranclp_induct) (auto intro: rtranclp.rtrancl_into_rtrancl store_step_refines)
  then show ?thesis using queue_steps_lives_on assms(2) by blast
qed

inductive_cases store_stepE: "store_step P w v"

end
