(* ===== verification/Sample.thy ===== *)
theory Sample
  imports Machine_Refinement
begin

text \<open>
  A concrete platform and the start of a concrete history, for the examples: the digest is the
  identity, the cipher puts the text in the clear behind a tag, the random source counts, and the
  codecs keep what the examples need. The history creates a machine, enrols a daemon that supports
  every task, and queues and accepts tasks.
\<close>

definition sample_status :: "string \<Rightarrow> machine_status" where
  "sample_status version =
     \<lparr>s_observedAtUnixMs = 1, s_daemonVersion = version, s_coreVersion = ''1.12'', s_coreRuntimeId = '''',
      s_coreHealth = HEALTHY, s_appliedRevisionId = '''', s_appliedPolicyRevision = 0,
      s_cpuUsagePercent = None, s_memoryUsedBytes = None, s_memoryTotalBytes = None,
      s_diskFreeBytes = None, s_connections = None, s_networkRxBytes = None, s_networkTxBytes = None,
      s_usageIncomplete = False, s_issue = '''', s_networkInterface = '''', s_appliedConfigSha256 = '''',
      s_maintenanceStatus = AVAILABLE\<rparr>"

definition sample_artifact :: "string \<Rightarrow> artifact" where
  "sample_artifact version = \<lparr>a_id = ''a'', a_version = version, a_url = '''', a_sha256 = '''',
     a_sizeBytes = 1, a_os = ''linux'', a_arch = ''amd64''\<rparr>"

definition sample_encode :: "task_spec \<Rightarrow> bytes" where
  "sample_encode spec = (case spec of NoOperation \<Rightarrow> '''' | Inspect t \<Rightarrow> ''i'' @ decimal (it_maxLogLines t)
     | ApplyConfig t \<Rightarrow> ''c'' @ ac_revisionId t
     | UpgradeDaemon None \<Rightarrow> ''n'' | UpgradeDaemon (Some a) \<Rightarrow> ''u'' @ a_version a | Uninstall \<Rightarrow> ''x'')"

definition sample_decode :: "bytes \<Rightarrow> task_spec option" where
  "sample_decode b = (case b of
       c # v \<Rightarrow> if c = CHR ''u'' then Some (UpgradeDaemon (Some (sample_artifact v)))
                else if c = CHR ''n'' then Some (UpgradeDaemon None)
                else if c = CHR ''x'' then Some Uninstall else None
     | [] \<Rightarrow> Some NoOperation)"

definition sample_report_bytes :: "report_task_request \<Rightarrow> bytes" where
  "sample_report_bytes r = decimal (rt_sequence r) @ '':'' @ rt_phase r @ '':'' @ rt_taskId r @ '':'' @
     (case rt_state r of RUNNING \<Rightarrow> ''r'' | SUCCEEDED \<Rightarrow> ''s'' | FAILED \<Rightarrow> ''f'' | _ \<Rightarrow> ''?'')"

definition sample_digest :: "bytes \<Rightarrow> string" where
  "sample_digest b = b"

definition sample_random :: "nat \<Rightarrow> nat \<Rightarrow> bytes" where
  "sample_random n k = replicate k (char_of (n mod 256))"

definition sample_uuid :: "nat \<Rightarrow> string" where
  "sample_uuid n = ''id'' @ decimal (int n)"

definition sample_seal :: "bytes \<Rightarrow> bytes \<Rightarrow> bytes \<Rightarrow> bytes \<Rightarrow> bytes \<times> bytes" where
  "sample_seal k n a m = (''tag'', m)"

definition sample_open :: "bytes \<Rightarrow> bytes \<Rightarrow> bytes \<Rightarrow> bytes \<Rightarrow> bytes \<Rightarrow> bytes option" where
  "sample_open k n a t c = (if t = ''tag'' then Some c else None)"

definition sample_argon :: "nat \<Rightarrow> string \<Rightarrow> string" where
  "sample_argon n v = ''argon:'' @ v"

definition sample_verify :: "string \<Rightarrow> string \<Rightarrow> bool" where
  "sample_verify h v \<longleftrightarrow> h = ''argon:'' @ v"

definition sample_read_status :: "string \<Rightarrow> machine_status option" where
  "sample_read_status j = Some (sample_status j)"

definition sample_delta :: usage_delta where
  "sample_delta = \<lparr>d_userId = ''u1'', d_startUnixMs = 0, d_endUnixMs = 90000, d_uploadBytes = 100,
     d_downloadBytes = 11, d_estimated = False, d_incomplete = False\<rparr>"

definition sample_batch :: usage_batch where
  "sample_batch = \<lparr>b_deltas = [sample_delta], b_coreRuntimeId = ''core''\<rparr>"

definition sample_read_batch :: "bytes \<Rightarrow> usage_batch option" where
  "sample_read_batch b = Some sample_batch"

definition sample_parse :: "string \<Rightarrow> json option" where
  "sample_parse s = Some (JStr s)"

text \<open>Identifiers of the examples are UUIDs to it, a certificate carries its host and its key.\<close>

definition sample_isUuid :: "string \<Rightarrow> bool" where
  "sample_isUuid s \<longleftrightarrow> s \<noteq> []"

definition sample_isIP :: "string \<Rightarrow> int" where
  "sample_isIP s = (if s = ''::'' then 6 else 0)"

definition sample_certificate :: "string \<Rightarrow> certificate option" where
  "sample_certificate pem = (if pem = [] then None else Some \<lparr>x_publicKey = pem, x_validFrom = Some 0,
     x_validTo = Some 1000000, x_checkIP = (\<lambda>_. False), x_checkHost = (\<lambda>h. h = pem)\<rparr>)"

definition sample_ceremony :: "nat \<Rightarrow> webauthn_options" where
  "sample_ceremony n = \<lparr>wo_challenge = ''challenge'' @ decimal (int n), wo_json = JNull\<rparr>"

definition sample_authenticate :: "json \<Rightarrow> string \<Rightarrow> passkey_row \<Rightarrow> authentication_info option" where
  "sample_authenticate response challenge key =
     (if response = JStr challenge then Some \<lparr>ai_verified = True, ai_newCounter = pk_counter key + 1, ai_backedUp = False\<rparr>
      else None)"

definition sample_register :: "json \<Rightarrow> string \<Rightarrow> registration_info option" where
  "sample_register response challenge =
     (if response = JStr challenge
      then Some \<lparr>ri_verified = True, ri_credentialId = challenge, ri_publicKey = ''key'', ri_counter = 0,
        ri_transports = [], ri_deviceType = ''singleDevice'', ri_backedUp = False\<rparr>
      else None)"

definition sample :: platform where
  "sample =
     \<lparr>p_sha256 = sample_digest, p_randomBytes = sample_random, p_randomUUID = sample_uuid,
      p_gcmSeal = sample_seal, p_gcmOpen = sample_open, p_argonHash = sample_argon,
      p_argonVerify = sample_verify, p_appKey = ''key'', p_publicUrl = ''https://panel'',
      p_secureCookies = True, p_specToBinary = sample_encode, p_specFromBinary = sample_decode,
      p_reportToBinary = sample_report_bytes, p_statusToJson = s_daemonVersion,
      p_statusFromJson = sample_read_status, p_batchFromBinary = sample_read_batch,
      p_jsonParse = sample_parse, p_isUuid = sample_isUuid, p_isIP = sample_isIP,
      p_certificate = sample_certificate, p_privateKeyPublic = Some, p_rpId = ''panel'',
      p_authenticationOptions = (\<lambda>n _. sample_ceremony n), p_registrationOptions = (\<lambda>n _ _ _. sample_ceremony n),
      p_verifyAuthentication = sample_authenticate, p_verifyRegistration = sample_register,
      p_artifactManifest = None\<rparr>"

lemma sample_random_ok: "random_ok sample"
  by (simp add: random_ok_def sample_def sample_random_def)

lemma sample_gcm_ok: "gcm_ok sample"
  by (simp add: gcm_ok_def sample_def sample_seal_def sample_open_def)

definition empty_world :: world where
  "empty_world = \<lparr>w_db = empty_db, w_now = 1000, w_draws = 0, w_hub = new_hub, w_dummyHash = None\<rparr>"

text \<open>The world after a program.\<close>

definition after :: "'a app \<Rightarrow> world \<Rightarrow> world" where
  "after p w = snd (p w)"

lemma after_pair: "p w = (fst (p w), after p w)"
  by (simp add: after_def)

definition sample_input :: machine_input where
  "sample_input = \<lparr>mi_name = ''node'', mi_address = ''10.0.0.1'', mi_region = ''hk'', mi_tags = None\<rparr>"

definition sample_hello :: watch_tasks_request where
  "sample_hello = \<lparr>wt_installation = None, wt_daemonVersion = ''1.0'', wt_protocolVersion = 1,
     wt_supportedTasks = [INSPECT, APPLY_CONFIG, UPGRADE_DAEMON, UNINSTALL], wt_os = ''linux'',
     wt_arch = ''amd64''\<rparr>"

definition sample_identity :: "int \<Rightarrow> installation" where
  "sample_identity epoch = \<lparr>i_installationId = ''installation-0001'', i_bindingEpoch = epoch\<rparr>"

text \<open>A machine (its id is the second draw), enrolled, with an inspection accepted.\<close>

definition created_world :: world where
  "created_world = after (store_create sample sample_input) empty_world"

definition enrolled_world :: world where
  "enrolled_world = after (store_bind ''id1'' (Some (sample_identity 0)) sample_hello) created_world"

definition sample_upgrade :: task_spec where
  "sample_upgrade = UpgradeDaemon (Some (sample_artifact ''2.0''))"

definition queued_world :: world where
  "queued_world = after (enqueueTask sample ''id1'' sample_upgrade ''k1'') enrolled_world"

definition sample_machine :: "world \<Rightarrow> machine_row" where
  "sample_machine w = hd (machines (w_db w))"

definition accepted_world :: world where
  "accepted_world = after (store_accept (sample_machine queued_world) 1 ''id3'' ''u2.0'') queued_world"

lemma sample_reach:
  "reach (\<lambda>w. w_db w = empty_db) (store_step sample) empty_world"
  "reach (\<lambda>w. w_db w = empty_db) (store_step sample) created_world"
  "reach (\<lambda>w. w_db w = empty_db) (store_step sample) enrolled_world"
  "reach (\<lambda>w. w_db w = empty_db) (store_step sample) queued_world"
  "reach (\<lambda>w. w_db w = empty_db) (store_step sample) accepted_world"
proof -
  show 0: "reach (\<lambda>w. w_db w = empty_db) (store_step sample) empty_world"
    by (rule reach_init) (simp add: empty_world_def)
  show 1: "reach (\<lambda>w. w_db w = empty_db) (store_step sample) created_world"
    unfolding created_world_def by (rule reach_step [OF 0], rule store_step.create, rule after_pair)
  show 2: "reach (\<lambda>w. w_db w = empty_db) (store_step sample) enrolled_world"
    unfolding enrolled_world_def by (rule reach_step [OF 1], rule store_step.bind, rule after_pair)
  show 3: "reach (\<lambda>w. w_db w = empty_db) (store_step sample) queued_world"
    unfolding queued_world_def by (rule reach_step [OF 2], rule store_step.enqueue, rule after_pair)
  show "reach (\<lambda>w. w_db w = empty_db) (store_step sample) accepted_world"
    unfolding accepted_world_def by (rule reach_step [OF 3], rule store_step.accept, rule after_pair)
qed

text \<open>What the history leaves behind.\<close>

definition sample_token :: "nat \<Rightarrow> string" where
  "sample_token n = ''bm_'' @ base64url (sample_random n 32)"

definition sample_sealed :: "nat \<Rightarrow> string \<Rightarrow> string" where
  "sample_sealed n v = join_with (CHR ''.'')
     [''v1'', base64url (sample_random n 12), base64url ''tag'', base64url v]"

lemma sample_runs:
  "newToken sample ''bm_'' w = (Inr (sample_token (w_draws w)), w\<lparr>w_draws := w_draws w + 1\<rparr>)"
  "newId sample w = (Inr (sample_uuid (w_draws w)), w\<lparr>w_draws := w_draws w + 1\<rparr>)"
  "encryptSecret sample v w = (Inr (sample_sealed (w_draws w) v), w\<lparr>w_draws := w_draws w + 1\<rparr>)"
  "tokenHash sample v = v" "sha256 sample v = v"
  by (simp_all add: newToken_run newId_run encryptSecret_def sample_def sample_token_def sample_sealed_def
      sample_seal_def tokenHash_def sha256_def sample_digest_def bind_run)

lemma sample_ids:
  "sample_uuid 1 = ''id1''" "sample_uuid (Suc 0) = ''id1''" "sample_uuid 3 = ''id3''"
  by code_simp+

definition sample_row :: machine_row where
  "sample_row = new_machine_row ''id1'' sample_input (sample_token 0) (sample_sealed 2 (sample_token 0)) 1000"

lemma created_world:
  "created_world = empty_world\<lparr>w_draws := 3, w_db := empty_db\<lparr>machines := [sample_row]\<rparr>\<rparr>"
  by (simp add: created_world_def after_def store_create_def bind_run sample_runs insert_machine_def
      reads_snd [OF reads_detail] empty_world_def empty_db_def has_row_code sample_ids sample_row_def
      numeral_eq_Suc)

definition sample_bound :: machine_row where
  "sample_bound = bind_row ''installation-0001'' 1 sample_hello 1000 sample_row"

lemma sample_row_simps [simp]:
  "m_id sample_row = ''id1''" "m_installationId sample_row = None" "m_bindingEpoch sample_row = 0"
  "m_removedAt sample_row = None" "m_sessionEpoch sample_row = 0" "m_version sample_row = 1"
  "m_tokenHash sample_row = sample_token 0"
  by (simp_all add: sample_row_def new_machine_row_def)

lemma sample_bound_simps [simp]:
  "m_id sample_bound = ''id1''" "m_installationId sample_bound = Some ''installation-0001''"
  "m_bindingEpoch sample_bound = 1" "m_removedAt sample_bound = None" "m_sessionEpoch sample_bound = 1"
  "m_statusSequence sample_bound = 0" "m_statusJson sample_bound = None" "m_version sample_bound = 1"
  "m_supportedTasks sample_bound = [INSPECT, APPLY_CONFIG, UPGRADE_DAEMON, UNINSTALL]"
  "m_tokenHash sample_bound = sample_token 0"
  by (simp_all add: sample_bound_def bind_row_def sample_row_def sample_hello_def new_machine_row_def)

lemma sample_installation_valid: "valid_installation_id ''installation-0001''"
  by code_simp

lemma sample_db_simps [simp]:
  "machines empty_db = []" "tasks empty_db = []" "w_db empty_world = empty_db"
  "w_now empty_world = 1000" "w_hub empty_world = new_hub" "w_draws empty_world = 0"
  by (simp_all add: empty_db_def empty_world_def)

lemma after_eq: "p w = (r, t) \<Longrightarrow> after p w = t"
  by (simp add: after_def)

lemma enrolled_world:
  "enrolled_world = empty_world\<lparr>w_draws := 3, w_db := empty_db\<lparr>machines := [sample_bound]\<rparr>\<rparr>"
  unfolding enrolled_world_def created_world
  by (rule after_eq)
    (simp add: store_bind_def steps_run find_machine_def assertInstallation_def sample_identity_def
      sample_installation_valid integerSequence_def MAX_SAFE_INTEGER_def truthy_def isUninstalled_def
      has_row_code Let_def sample_bound_def)

definition sample_task :: task_row where
  "sample_task = new_task_row ''id3'' sample_bound UPGRADE_DAEMON ''u2.0'' ''u2.0'' ''k1'' 1000"

lemma sample_upgrade_bytes [simp]:
  "p_specToBinary sample sample_upgrade = ''u2.0''" "spec_kind sample_upgrade = Some UPGRADE_DAEMON"
  by code_simp+

lemma sample_task_simps [simp]:
  "t_id sample_task = ''id3''" "t_machineId sample_task = ''id1''" "t_bindingEpoch sample_task = 1"
  "t_kind sample_task = UPGRADE_DAEMON" "t_payload sample_task = ''u2.0''"
  "t_payloadHash sample_task = ''u2.0''" "t_requestKey sample_task = ''k1''" "t_state sample_task = Queued"
  "t_progressSequence sample_task = 0" "t_reportHash sample_task = None" "t_diagnosticJson sample_task = None"
  by (simp_all add: sample_task_def new_task_row_def)

lemma sample_check: "check_enqueue sample sample_bound UPGRADE_DAEMON w = (Inr (), w)" if "tasks (w_db w) = []"
  using that
  by (simp add: check_enqueue_def steps_run isUninstalled_def has_row_code truthy_def maintenanceInfo_def
      status_of_def)

definition sample_dto :: task_dto where
  "sample_dto = \<lparr>td_id = ''id3'', td_machineId = ''id1'', td_kind = Some ''upgrade_daemon'',
     td_state = Queued, td_phase = None, td_progressPercent = None, td_message = None,
     td_errorCode = None, td_diagnostic = None, td_rollback = ''unspecified'', td_createdAt = 1000,
     td_updatedAt = 1000\<rparr>"

lemma sample_taskDto: "taskDto sample sample_task w = (Inr sample_dto, w)"
  by (simp add: taskDto_def parse_diagnostic_def truthy_def sample_dto_def kindNames_def rollbackName_def
      sample_task_def new_task_row_def)

lemma queued_run:
  "enqueueTask sample ''id1'' sample_upgrade ''k1'' enrolled_world = (Inr sample_dto,
     empty_world\<lparr>w_draws := 4, w_db := empty_db\<lparr>machines := [sample_bound], tasks := [sample_task]\<rparr>\<rparr>)"
  unfolding enrolled_world
  by (simp add: enqueueTask_def steps_run store_get_def find_machine_def find_request_def enqueue_new_def
      sample_check insert_task_def Let_def sample_runs sample_ids sample_taskDto
      has_row_code sample_task_def [symmetric])

lemma queued_world:
  "queued_world = empty_world\<lparr>w_draws := 4, w_db := empty_db\<lparr>machines := [sample_bound],
     tasks := [sample_task]\<rparr>\<rparr>"
  unfolding queued_world_def by (rule after_eq, rule queued_run)

lemma accepted_world:
  "accepted_world = empty_world\<lparr>w_draws := 4, w_db := empty_db\<lparr>machines := [sample_bound],
     tasks := [set_task_state Accepted 1000 sample_task]\<rparr>\<rparr>"
  unfolding accepted_world_def queued_world sample_machine_def
  by (rule after_eq)
    (simp add: store_accept_def steps_run require_session_def integerSequence_def MAX_SAFE_INTEGER_def
      find_task_def has_row_code activeStates_def)

end
