(* ===== verification/Machine_Props.thy ===== *)
theory Machine_Props
  imports Sample
begin

text \<open>
  What the machine store guarantees to the panel and to the daemons, over every reachable state of
  theory \<open>Machine_Refinement\<close>: the exclusiveness and the life of durable tasks, the idempotence of
  enqueuing and reporting, and what enrolling and rebinding do to old credentials.
\<close>

abbreviation store_reachable :: "platform \<Rightarrow> world \<Rightarrow> bool" where
  "store_reachable P \<equiv> reach (\<lambda>w. w_db w = empty_db) (store_step P)"

lemma reachable_inv: "store_reachable P w \<Longrightarrow> queue_inv (w_db w)"
  by (rule store.reach_inv)

text \<open>A second, queued task beside the accepted one of the example history.\<close>

definition two_tasks_world :: world where
  "two_tasks_world = after (enqueueTask sample ''id1'' sample_upgrade ''k2'') accepted_world"

definition sample_task2 :: task_row where
  "sample_task2 = new_task_row ''id4'' sample_bound UPGRADE_DAEMON ''u2.0'' ''u2.0'' ''k2'' 1000"

lemma two_tasks_reach: "store_reachable sample two_tasks_world"
  unfolding two_tasks_world_def
  by (rule reach_step [OF sample_reach(5)], rule store_step.enqueue, rule after_pair)

lemma sample_uuid_4: "sample_uuid 4 = ''id4''"
  by code_simp

lemma sample_task2_simps [simp]:
  "t_id sample_task2 = ''id4''" "t_machineId sample_task2 = ''id1''" "t_bindingEpoch sample_task2 = 1"
  "t_kind sample_task2 = UPGRADE_DAEMON" "t_state sample_task2 = Queued" "t_diagnosticJson sample_task2 = None"
  "t_requestKey sample_task2 = ''k2''" "t_payloadHash sample_task2 = ''u2.0''"
  by (simp_all add: sample_task2_def new_task_row_def)

lemma two_tasks_world:
  "two_tasks_world = empty_world\<lparr>w_draws := 5, w_db := empty_db\<lparr>machines := [sample_bound],
     tasks := [set_task_state Accepted 1000 sample_task, sample_task2]\<rparr>\<rparr>"
proof -
  have check: "check_enqueue sample sample_bound UPGRADE_DAEMON w = (Inr (), w)"
    if "tasks (w_db w) = [set_task_state Accepted 1000 sample_task]" for w
    using that by (simp add: check_enqueue_def steps_run isUninstalled_def has_row_code truthy_def
        maintenanceInfo_def status_of_def)
  show ?thesis
    unfolding two_tasks_world_def accepted_world
    by (rule after_eq)
      (simp add: enqueueTask_def steps_run store_get_def find_machine_def find_request_def enqueue_new_def
        check insert_task_def Let_def sample_runs sample_uuid_4 taskDto_def parse_diagnostic_def truthy_def
        has_row_code sample_task2_def [symmetric] task_key_def)
qed

section \<open>Exclusiveness\<close>

text \<open>
  C1. In every reachable state, two tasks of one machine are never both accepted or running, never
  both queued configuration targets of one binding, and none is pending on a binding that another
  has uninstalled.
\<close>

theorem tasks_exclusive:
  assumes "store_reachable P w"
    and "t \<in> set (tasks (w_db w))" and "u \<in> set (tasks (w_db w))"
    and "t_machineId t = t_machineId u" and "t_id t \<noteq> t_id u"
  shows "\<not> (t_state t \<in> {Accepted, Running} \<and> t_state u \<in> {Accepted, Running}) \<and>
    (t_bindingEpoch t = t_bindingEpoch u \<longrightarrow>
      \<not> (t_kind t = APPLY_CONFIG \<and> t_kind u = APPLY_CONFIG \<and> t_state t = Queued \<and> t_state u = Queued) \<and>
      \<not> (t_kind t = UNINSTALL \<and> t_state t = Succeeded \<and> t_state u \<in> {Queued, Accepted, Running}))"
  using queue_inv_no_clash [OF reachable_inv [OF assms(1)] assms(2,3)] assms(4,5)
  by (auto simp: clash_def)

lemma tasks_exclusive_witness:
  "\<not> (t_state (set_task_state Accepted 1000 sample_task) \<in> {Accepted, Running} \<and>
      t_state sample_task2 \<in> {Accepted, Running})"
  using tasks_exclusive [OF two_tasks_reach, of "set_task_state Accepted 1000 sample_task" sample_task2]
  by (simp add: two_tasks_world)

text \<open>
  C21. In every reachable state, each task belongs to a past or the present binding of its machine,
  and whatever is still pending belongs to the present one: a rebound machine never receives work
  queued for its predecessor.
\<close>

theorem pending_current_binding:
  assumes "store_reachable P w" and "t \<in> set (tasks (w_db w))"
  shows "\<exists>m \<in> set (machines (w_db w)). m_id m = t_machineId t \<and> t_bindingEpoch t \<le> m_bindingEpoch m \<and>
    (t_state t \<in> {Queued, Accepted, Running} \<longrightarrow> t_bindingEpoch t = m_bindingEpoch m)"
  using reachable_inv [OF assms(1)] assms(2) by (fastforce simp: queue_inv_def epochs_inv_def)

lemma pending_current_binding_witness:
  "\<exists>m \<in> set (machines (w_db two_tasks_world)). m_id m = ''id1'' \<and> m_bindingEpoch m = 1"
  using pending_current_binding [OF two_tasks_reach, of sample_task2] by (simp add: two_tasks_world)

section \<open>The life of a task\<close>

text \<open>
  C4. A durable task is never lost or rewritten: from any reachable state on, whatever operations
  follow, a task with the same id, machine, binding, kind, payload and request is still there, its
  progress sequence has not fallen, its state has only moved forward, and if it was over it is
  unchanged.
\<close>

theorem task_history:
  assumes "store_reachable P w" and "(store_step P)\<^sup>*\<^sup>* w v" and "t \<in> set (tasks (w_db w))"
  shows "\<exists>u \<in> set (tasks (w_db v)). evolves t u"
  using store_steps_lives_on [OF assms(2) reachable_inv [OF assms(1)]] assms(3)
  by (simp add: lives_on_def)

lemma task_history_witness: "\<exists>u \<in> set (tasks (w_db two_tasks_world)). evolves sample_task u"
proof (rule task_history [OF sample_reach(4)])
  have "store_step sample queued_world accepted_world"
    unfolding accepted_world_def by (rule store_step.accept, rule after_pair)
  moreover have "store_step sample accepted_world two_tasks_world"
    unfolding two_tasks_world_def by (rule store_step.enqueue, rule after_pair)
  ultimately show "(store_step sample)\<^sup>*\<^sup>* queued_world two_tasks_world" by simp
qed (simp add: queued_world)

lemma reachable_steps:
  assumes "store_reachable P w" and "(store_step P)\<^sup>*\<^sup>* w v"
  shows "store_reachable P v"
  using assms(2,1) by (induction rule: rtranclp_induct) (auto intro: reach_step)

section \<open>Idempotence\<close>

lemma find_request_unique:
  assumes "queue_inv d" and "t \<in> set (tasks d)" and "t_machineId t = i" and "t_requestKey t = rk"
  shows "find_request i rk d = Some t"
proof -
  have "(\<lambda>q. task_key q = task_key t) = (\<lambda>q. t_machineId q = i \<and> t_requestKey q = rk)"
    using assms(3,4) by (auto simp: task_key_def)
  with task_request_tbl.unique_lookup [OF queue_invD(4) [OF assms(1)] assms(2)] show ?thesis
    by (simp add: find_request_def)
qed

lemma enqueued_task:
  assumes "enqueueTask P i spec rk w = (Inr a, v)"
  shows "\<exists>t \<in> set (tasks (w_db v)). t_id t = td_id a \<and> t_machineId t = i \<and> t_requestKey t = rk \<and>
    t_payloadHash t = sha256 P (p_specToBinary P spec)"
  using assms
proof (cases rule: enqueueTask_ok)
  case (existing m u k)
  then have "td_id a = t_id u" "v = w"
    using readsD [OF reads_taskDto existing(5)] by (auto simp: taskDto_def prog_ok)
  moreover have "u \<in> set (tasks (w_db w)) \<and> t_machineId u = i \<and> t_requestKey u = rk"
    using existing(3) find_Some_mem unfolding find_request_def by fastforce
  ultimately show ?thesis using existing(4) by auto
next
  case (fresh m k)
  with find_machineD [OF fresh(1)] enqueue_new_ok [OF fresh(5)] show ?thesis
    by (auto simp: new_task_row_def)
qed

text \<open>
  C8. Enqueuing is idempotent over any history: once a request has been enqueued, enqueuing it again
  with the same payload, as long as the machine is there, reports the same task as it then is and
  changes nothing; and the same request key with another payload is refused.
\<close>

theorem enqueue_idempotent:
  assumes "store_reachable P w" and "enqueueTask P i spec rk w = (Inr a, w1)"
    and "(store_step P)\<^sup>*\<^sup>* w1 w2" and "find_machine i (w_db w2) = Some m"
    and "spec_kind spec' = Some k" and "length (p_specToBinary P spec') \<le> 1024 * 1024"
  shows "\<exists>u \<in> set (tasks (w_db w2)). t_id u = td_id a \<and> enqueueTask P i spec' rk w2 =
    (if sha256 P (p_specToBinary P spec') = sha256 P (p_specToBinary P spec) then taskDto P u w2
     else (Inl (AppError ''REQUEST_CONFLICT'' 409), w2))"
proof -
  have w1: "store_reachable P w1" using assms(1,2) reach_step store_step.enqueue by meson
  with assms(3) have w2: "store_reachable P w2" by (rule reachable_steps [rotated])
  from enqueued_task [OF assms(2)] obtain t where t: "t \<in> set (tasks (w_db w1))" "t_id t = td_id a"
    "t_machineId t = i" "t_requestKey t = rk" "t_payloadHash t = sha256 P (p_specToBinary P spec)" by blast
  from store_steps_lives_on [OF assms(3) reachable_inv [OF w1]] t(1)
  obtain u where u: "u \<in> set (tasks (w_db w2))" "evolves t u" by (auto simp: lives_on_def)
  with t have "find_request i rk (w_db w2) = Some u"
    by (intro find_request_unique reachable_inv [OF w2]) (auto simp: evolves_def)
  moreover have "t_payloadHash u = sha256 P (p_specToBinary P spec)" "t_id u = td_id a"
    using u t by (auto simp: evolves_def)
  moreover have "transaction (taskDto P u) w2 = taskDto P u w2"
    using reads_snd [OF reads_taskDto, of P u w2] by (cases "taskDto P u w2") (auto simp: transaction_def split: sum.split)
  ultimately show ?thesis
    using u(1) assms(4,5,6)
    by (intro bexI [of _ u])
      (auto simp: enqueueTask_def store_get_def steps_run Let_def transaction_def)
qed

lemma enqueue_idempotent_witness:
  "\<exists>u \<in> set (tasks (w_db accepted_world)). t_id u = ''id3'' \<and>
    enqueueTask sample ''id1'' sample_upgrade ''k1'' accepted_world = taskDto sample u accepted_world"
proof -
  have "store_step sample queued_world accepted_world"
    unfolding accepted_world_def by (rule store_step.accept, rule after_pair)
  then have "(store_step sample)\<^sup>*\<^sup>* queued_world accepted_world" by simp
  moreover have "find_machine ''id1'' (w_db accepted_world) = Some sample_bound"
    by (simp add: accepted_world find_machine_def)
  ultimately have "\<exists>u \<in> set (tasks (w_db accepted_world)). t_id u = td_id sample_dto \<and>
    enqueueTask sample ''id1'' sample_upgrade ''k1'' accepted_world =
    (if sha256 sample (p_specToBinary sample sample_upgrade) = sha256 sample (p_specToBinary sample sample_upgrade)
     then taskDto sample u accepted_world else (Inl (AppError ''REQUEST_CONFLICT'' 409), accepted_world))"
    by (rule enqueue_idempotent [OF sample_reach(3) queued_run [folded queued_world]]) simp_all
  then show ?thesis unfolding if_P [OF refl] by (auto simp: sample_dto_def)
qed

lemma find_taskI:
  assumes "queue_inv d" and "t \<in> set (tasks d)" and "t_machineId t = m_id row"
    and "t_bindingEpoch t = m_bindingEpoch row"
  shows "find_task (t_id t) row d = Some t"
proof -
  obtain u where u: "find_task (t_id t) row d = Some u"
    using assms(2-4) by (cases "find_task (t_id t) row d") (auto simp: find_task_def find_None_all)
  from find_taskD(1,2) [OF u] queue_inv_same_task [OF assms(1) _ assms(2)] have "u = t" by blast
  with u show ?thesis by simp
qed

lemma reported_in_cancelled:
  "state \<noteq> Queued \<Longrightarrow> t \<in> set ts \<Longrightarrow>
    reported_row state sq h r j n t \<in> set ((if b then cancel_tasks i n' else (\<lambda>x. x))
      (update_where (\<lambda>u. t_id u = t_id t) (reported_row state sq h r j n) ts))"
  by (auto simp: cancel_tasks_def set_update_where)

lemma cancelled_mem:
  "u \<in> set ((if b then cancel_tasks i n else (\<lambda>x. x)) ts) \<Longrightarrow> t_state u \<noteq> Canceled \<Longrightarrow> u \<in> set ts"
  by (auto simp: cancel_tasks_def set_update_where split: if_splits)


definition sample_report :: "report_state \<Rightarrow> int \<Rightarrow> report_task_request" where
  "sample_report s q = \<lparr>rt_installation = Some (sample_identity 1), rt_taskId = ''id3'',
     rt_payloadSha256 = ''u2.0'', rt_sequence = q, rt_state = s, rt_phase = ''work'',
     rt_progressPercent = None, rt_errorCode = '''', rt_message = '''', rt_rollback = ROLLBACK_UNSPECIFIED,
     rt_actualStatus = Some (sample_status ''2.0''), rt_diagnosticJson = ''''\<rparr>"

lemma sample_report_simps [simp]:
  "rt_taskId (sample_report s q) = ''id3''" "rt_payloadSha256 (sample_report s q) = ''u2.0''"
  "rt_sequence (sample_report s q) = q" "rt_state (sample_report s q) = s"
  "rt_diagnosticJson (sample_report s q) = ''''"
  by (simp_all add: sample_report_def)

definition running_world :: world where
  "running_world = after (store_reportTask sample sample_bound (sample_report RUNNING 1)) accepted_world"

lemma running_run:
  "store_reportTask sample sample_bound (sample_report RUNNING 1) accepted_world =
    (Inr \<lparr>rp_committedSequence = 1, rp_terminal = False\<rparr>, running_world)"
proof -
  have "\<exists>v. store_reportTask sample sample_bound (sample_report RUNNING 1) accepted_world =
      (Inr \<lparr>rp_committedSequence = 1, rp_terminal = False\<rparr>, v)"
    unfolding accepted_world
    by (simp add: store_reportTask_def steps_run integerSequence_def MAX_SAFE_INTEGER_def Let_def
        find_task_def isUninstalled_def has_row_code commit_report_def activeStates_def report_target_def
        read_diagnostic_def)
  then show ?thesis by (auto simp: running_world_def after_def)
qed


section \<open>Evidence of an upgrade\<close>


definition sample_upgraded :: machine_row where
  "sample_upgraded = sample_bound\<lparr>m_statusSequence := 1, m_statusJson := Some ''2.0'',
     m_daemonVersion := Some ''2.0'', m_lastSeenAt := Some 1000\<rparr>"

definition reported_world :: world where
  "reported_world = after (store_reportStatus sample sample_bound 1 1 (sample_status ''2.0'')) accepted_world"

lemma reported_world:
  "reported_world = empty_world\<lparr>w_draws := 4, w_db := empty_db\<lparr>machines := [sample_upgraded],
     tasks := [set_task_state Accepted 1000 sample_task]\<rparr>\<rparr>"
  unfolding reported_world_def accepted_world
  by (rule after_eq)
    (simp add: store_reportStatus_def steps_run require_session_def integerSequence_def MAX_SAFE_INTEGER_def
      sample_upgraded_def, simp add: sample_def sample_status_def)

lemma reported_reach: "store_reachable sample reported_world"
  unfolding reported_world_def by (rule reach_step [OF sample_reach(5)], rule store_step.status, rule after_pair)

lemma sample_upgraded_simps [simp]:
  "m_id sample_upgraded = ''id1''" "m_bindingEpoch sample_upgraded = 1" "m_statusSequence sample_upgraded = 1"
  "m_statusJson sample_upgraded = Some ''2.0''" "m_daemonVersion sample_upgraded = Some ''2.0''"
  by (simp_all add: sample_upgraded_def)

lemma sample_codecs [simp]:
  "p_specFromBinary sample ''u2.0'' = Some (UpgradeDaemon (Some (sample_artifact ''2.0'')))"
  "p_statusFromJson sample j = Some (sample_status j)"
  "s_daemonVersion (sample_status j) = j" "a_version (sample_artifact j) = j"
  "rt_actualStatus (sample_report s q) = Some (sample_status ''2.0'')"
  by (simp_all add: sample_def sample_decode_def sample_read_status_def sample_status_def
      sample_artifact_def sample_report_def)

definition upgraded_world :: world where
  "upgraded_world = after (store_reportTask sample sample_upgraded (sample_report SUCCEEDED 1)) reported_world"

lemma upgraded_world:
  "upgraded_world = reported_world\<lparr>w_db := empty_db\<lparr>machines := [sample_upgraded],
     tasks := [reported_row Succeeded 1 (sample_report_bytes (sample_report SUCCEEDED 1))
       (sample_report SUCCEEDED 1) None 1000 (set_task_state Accepted 1000 sample_task)]\<rparr>\<rparr>"
proof -
  have "p_reportToBinary sample = sample_report_bytes" by (simp add: sample_def)
  then show ?thesis
    unfolding upgraded_world_def reported_world
    by (intro after_eq)
      (simp add: store_reportTask_def steps_run integerSequence_def MAX_SAFE_INTEGER_def Let_def
        find_task_def isUninstalled_def has_row_code commit_report_def activeStates_def report_target_def
        read_diagnostic_def check_upgrade_def status_of_def truthy_def sample_runs)
qed


section \<open>Credentials and sessions\<close>

definition bearer :: "string \<Rightarrow> string option" where
  "bearer token = Some (''Bearer '' @ token)"

lemma machine_bearer_bearer:
  "machine_bearer (bearer token) =
    (if startsWith token ''bm_'' \<and> matches is_token_char 43 43 (drop 3 token) then Some token else None)"
  by (simp add: machine_bearer_def bearer_def startsWith_def)

lemma authenticate_token:
  assumes "queue_inv d" and "m \<in> set (machines d)" and "m_removedAt m = None"
    and "m_tokenHash m = tokenHash P token" and "token = ''bm_'' @ body" and "matches is_token_char 43 43 body"
    and "w_db w = d"
  shows "store_authenticate P (bearer token) w = (Inr m, w)"
proof -
  have "find (\<lambda>q. m_tokenHash q = tokenHash P token \<and> m_removedAt q = None) (machines d) = Some m"
  proof -
    obtain n where n: "find (\<lambda>q. m_tokenHash q = tokenHash P token \<and> m_removedAt q = None) (machines d) = Some n"
      using assms(2-4) by (cases "find (\<lambda>q. m_tokenHash q = tokenHash P token \<and> m_removedAt q = None) (machines d)")
        (auto simp: find_None_all)
    from find_Some_mem [OF n] assms(4) have "n \<in> set (machines d)" "m_tokenHash n = m_tokenHash m" by auto
    with queue_invD(2) [OF assms(1)] assms(2) have "n = m" by (auto simp: distinct_map dest: inj_onD)
    with n show ?thesis by simp
  qed
  with assms(5-7) show ?thesis
    by (simp add: store_authenticate_def machine_bearer_bearer startsWith_def steps_run)
qed

lemma update_where_only:
  assumes "r \<in> set t" and "distinct (map k t)" and "k r = i"
  shows "f r \<in> set (update_where (\<lambda>q. k q = i) f t)"
  using assms by (auto simp: set_update_where)

lemma rebind_ok:
  assumes "rebind P i version w = (Inr d, v)"
  shows "\<exists>m ciphertext u. find_machine i (w_db w) = Some m \<and> m_version m = version \<and>
    \<not> has_active i (w_db w) \<and>
    encryptSecret P (''bm_'' @ base64url (p_randomBytes P (w_draws w) 32)) (w\<lparr>w_draws := w_draws w + 1\<rparr>) =
      (Inr ciphertext, w\<lparr>w_draws := w_draws w + 2\<rparr>) \<and>
    u = tasks_update (cancel_tasks i (w_now w)) (machines_update (update_where (\<lambda>m. m_id m = i)
      (\<lambda>n. (unbound_row m ciphertext n)\<lparr>m_tokenHash :=
         tokenHash P (''bm_'' @ base64url (p_randomBytes P (w_draws w) 32))\<rparr>)) (w_db w)) \<and>
    w_db v = u \<and> (\<exists>x. detail P i x = (Inr d, v) \<and> w_db x = u)"
proof -
  let ?token = "''bm_'' @ base64url (p_randomBytes P (w_draws w) 32)"
  define c where "c = projr (fst (encryptSecret P ?token (w\<lparr>w_draws := w_draws w + 1\<rparr>)))"
  have enc: "encryptSecret P ?token (w\<lparr>w_draws := w_draws w + 1\<rparr>) = (Inr c, w\<lparr>w_draws := w_draws w + 2\<rparr>)"
    by (simp add: encryptSecret_ok c_def)
  from assms obtain m where m: "find_machine i (w_db w) = Some m" "m_version m = version"
    by (auto simp: rebind_def prog_ok)
  moreover have "\<not> has_active i (w_db w)" using assms by (auto simp: rebind_def prog_ok)
  moreover obtain x where x: "detail P i x = (Inr d, v)"
    "w_db x = tasks_update (cancel_tasks i (w_now w)) (machines_update (update_where (\<lambda>m. m_id m = i)
      (\<lambda>n. (unbound_row m c n)\<lparr>m_tokenHash := tokenHash P ?token\<rparr>)) (w_db w))"
    using assms m
    by (auto simp: rebind_def prog_ok update_machine_token_def cancel_queued_run c_def)
  moreover have "v = x" using readsD [OF reads_detail x(1)] .
  ultimately show ?thesis using enc by blast
qed

lemma detail_token:
  assumes "detail P i w = (Inr d, v)" and "find_machine i (w_db w) = Some m"
  shows "decryptSecret P (m_tokenCiphertext m) = Inr (md_token d) \<and> m_removedAt m = None"
  using assms find_machineD [OF assms(2)] by (auto simp: detail_def prog_ok machine_dto.defs)

lemma unbound_row_simps [simp]:
  "m_id (unbound_row m c n) = m_id n" "m_removedAt (unbound_row m c n) = m_removedAt n"
  "m_tokenCiphertext (unbound_row m c n) = c" "m_installationId (unbound_row m c n) = None"
  "m_bindingEpoch (unbound_row m c n) = m_bindingEpoch m + 1"
  "m_sessionEpoch (unbound_row m c n) = m_sessionEpoch m + 1"
  by (simp_all add: unbound_row_def)


lemma sample_unseal: "decryptSecret sample (sample_sealed n v) = Inr v"
  using encryptSecret_decrypts [OF sample_gcm_ok sample_random_ok sample_runs(3) [where v = v and w = "empty_world\<lparr>w_draws := n\<rparr>"]]
  by simp

lemma sample_detail:
  assumes "find_machine ''id1'' (w_db w) = Some m" and "m_statusJson m = None"
    and "m_tokenCiphertext m = sample_sealed n v" and "m_id m = ''id1''" and "tasks (w_db w) = []"
  shows "\<exists>d. detail sample ''id1'' w = (Inr d, w)"
  using assms
  by (simp add: detail_def store_get_def steps_run sample_unseal dto_def status_of_def truthy_def
      listTasks_def order_desc_def)


end
