(* ===== verification/Policy.thy ===== *)
theory Policy
  imports Machine_Refinement "HOL-Library.List_Lexorder" "HOL-Library.Char_ord"
begin

text \<open>
  \<open>server/subscription/credentials.ts\<close> and \<open>server/configuration/policy.ts\<close>: the proxy secrets of
  an account, its monthly quota, and the authorization policy, whose revision tells the machines that
  the set of authorized accounts has changed.
\<close>

section \<open>Proxy secrets\<close>

definition find_credential :: "string \<Rightarrow> database \<Rightarrow> proxy_credential_row option" where
  "find_credential i d = find (\<lambda>c. pc_userId c = i) (proxyCredentials d)"

definition find_subscription_token :: "string \<Rightarrow> database \<Rightarrow> subscription_token_row option" where
  "find_subscription_token i d = find (\<lambda>s. st_userId s = i) (subscriptionTokens d)"

text \<open>\<open>INSERT INTO subscription_tokens\<close>: the primary key and the unique token hash.\<close>

definition insert_subscription_token :: "subscription_token_row \<Rightarrow> unit app" where
  "insert_subscription_token row =
     bind (db_get (\<lambda>d. has_row (\<lambda>s. st_userId s = st_userId row \<or> st_tokenHash s = st_tokenHash row)
                              (subscriptionTokens d))) (\<lambda>taken.
     bind (require (\<not> taken) SqlError) (\<lambda>_.
     db_run (subscriptionTokens_update (\<lambda>t. t @ [row]))))"

definition initialize_credential :: "platform \<Rightarrow> string \<Rightarrow> unit app" where
  "initialize_credential P i =
     bind (db_get (find_credential i)) (\<lambda>found.
     if found \<noteq> None then return ()
     else
       bind (newToken P []) (\<lambda>trojan.
       bind (newToken P []) (\<lambda>hysteria2.
       bind (encryptSecret P (stringify (JObj [(''trojanPassword'', JStr trojan),
                                               (''hysteria2Password'', JStr hysteria2)]))) (\<lambda>ciphertext.
       bind Date_now (\<lambda>now.
       db_run (proxyCredentials_update (\<lambda>t. t @ [\<lparr>pc_userId = i, pc_secretsCiphertext = ciphertext,
         pc_generation = 1, pc_changedAt = now\<rparr>])))))))"

definition initialize_token :: "platform \<Rightarrow> string \<Rightarrow> unit app" where
  "initialize_token P i =
     bind (db_get (find_subscription_token i)) (\<lambda>found.
     if found \<noteq> None then return ()
     else
       bind (newToken P ''bf_sub_'') (\<lambda>token.
       bind (encryptSecret P token) (\<lambda>ciphertext.
       bind Date_now (\<lambda>now.
       insert_subscription_token \<lparr>st_userId = i, st_tokenHash = tokenHash P token,
         st_tokenCiphertext = ciphertext, st_generation = 1, st_changedAt = now\<rparr>))))"

definition initializeUserSecrets :: "platform \<Rightarrow> string \<Rightarrow> unit app" where
  "initializeUserSecrets P i =
     transaction (bind (initialize_credential P i) (\<lambda>_. initialize_token P i))"

text \<open>The secrets are the properties of the parsed object, as \<open>...secrets\<close> spreads them.\<close>

fun object_properties :: "json \<Rightarrow> (string \<times> json) list" where
  "object_properties (JObj ps) = ps"
| "object_properties _ = []"

record credentials =
  c_generation :: int
  c_secrets :: "(string \<times> json) list"

definition readProxyCredentials :: "platform \<Rightarrow> string \<Rightarrow> credentials app" where
  "readProxyCredentials P i =
     bind (db_get (find_credential i)) (\<lambda>found.
     bind (the_or found (AppError ''SUBSCRIPTION_NOT_READY'' 409)) (\<lambda>row.
     bind (lift_sum (decryptSecret P (pc_secretsCiphertext row))) (\<lambda>plain.
     bind (the_or (p_jsonParse P plain) JsError) (\<lambda>j.
     return \<lparr>c_generation = pc_generation row, c_secrets = object_properties j\<rparr>))))"

section \<open>Quotas\<close>

record quota =
  q_user :: user_row
  q_used :: int
  q_limit :: "int option"
  q_blocked :: bool
  q_period :: string

definition find_user :: "string \<Rightarrow> database \<Rightarrow> user_row option" where
  "find_user i d = find (\<lambda>u. u_id u = i) (users d)"

definition month_usage :: "string \<Rightarrow> int \<Rightarrow> database \<Rightarrow> int" where
  "month_usage i now d =
     (\<Sum>b\<leftarrow>filter (\<lambda>b. ub_userId b = i \<and> ub_grain b = Month \<and> ub_bucketStart b = monthStart now)
            (usageBuckets d). ub_uploadBytes b + ub_downloadBytes b)"

definition over_limit :: "int option \<Rightarrow> int \<Rightarrow> bool" where
  "over_limit limit used = (case limit of None \<Rightarrow> False | Some l \<Rightarrow> l \<le> used)"

definition userQuota :: "string \<Rightarrow> int \<Rightarrow> quota app" where
  "userQuota i now =
     bind (db_get (find_user i)) (\<lambda>found.
     bind (the_or found (AppError ''NOT_FOUND'' 404)) (\<lambda>user.
     bind (db_get (month_usage i now)) (\<lambda>used.
     bind (require (used \<le> MAX_BYTES) (AppError ''USAGE_OVERFLOW'' 409)) (\<lambda>_.
     return \<lparr>q_user = user, q_used = used, q_limit = u_monthlyLimitBytes user,
       q_blocked = over_limit (u_monthlyLimitBytes user) used, q_period = monthPeriod now\<rparr>))))"

section \<open>The authorization policy\<close>

text \<open>\<open>AuthorizationLayer\<close>: an account is the object \<open>{ id, ...secrets }\<close>.\<close>

record authorization_layer =
  al_policyRevision :: int
  al_users :: "(string \<times> json) list list"

definition quota_key :: "quota_state_row \<Rightarrow> string \<times> string" where
  "quota_key s = (qs_userId s, qs_period s)"

definition put_quota :: "string \<Rightarrow> quota \<Rightarrow> database \<Rightarrow> database" where
  "put_quota i quota = quotaStates_update (upsert
     (\<lambda>s. quota_key s = (i, q_period quota))
     (\<lambda>s. s\<lparr>qs_usedBytes := q_used quota, qs_blocked := q_blocked quota\<rparr>)
     \<lparr>qs_userId = i, qs_period = q_period quota, qs_usedBytes = q_used quota, qs_blocked = q_blocked quota\<rparr>)"

text \<open>What the loop over the active accounts collects: the authorized accounts and the fingerprint.\<close>

type_synonym authorized = "(string \<times> json) list list \<times> json list"

definition authorize_user :: "platform \<Rightarrow> int \<Rightarrow> user_row \<Rightarrow> authorized \<Rightarrow> authorized app" where
  "authorize_user P now user acc =
     bind (initializeUserSecrets P (u_id user)) (\<lambda>_.
     bind (readProxyCredentials P (u_id user)) (\<lambda>credentials.
     bind (userQuota (u_id user) now) (\<lambda>quota.
     bind (db_run (put_quota (u_id user) quota)) (\<lambda>_.
     return (if q_blocked quota then acc
             else (fst acc @ [spread [(''id'', JStr (u_id user))] (c_secrets credentials)],
                   snd acc @ [JArr [JStr (u_id user), jint (c_generation credentials)]]))))))"

definition active_users :: "database \<Rightarrow> user_row list" where
  "active_users d = sort_key u_id (filter (\<lambda>u. u_status u = Active) (users d))"

definition fingerprint_of :: "platform \<Rightarrow> json list \<Rightarrow> string" where
  "fingerprint_of P us = sha256 P (stringify (JArr us))"

definition next_revision :: "policy_state_row option \<Rightarrow> string \<Rightarrow> int" where
  "next_revision previous fingerprint =
     (case previous of None \<Rightarrow> 1
      | Some s \<Rightarrow> if ps_fingerprint s = fingerprint then ps_revision s else ps_revision s + 1)"

definition put_policy :: "int \<Rightarrow> string \<Rightarrow> string \<Rightarrow> int \<Rightarrow> database \<Rightarrow> database" where
  "put_policy revision fingerprint period now d =
     d\<lparr>policyState := Some \<lparr>ps_revision = revision, ps_fingerprint = fingerprint, ps_period = period,
                            ps_updatedAt = now\<rparr>\<rparr>"

definition policy_refresh :: "platform \<Rightarrow> int \<Rightarrow> authorization_layer app" where
  "policy_refresh P now = transaction (
     bind (db_get active_users) (\<lambda>active.
     bind (fold_each active ([], []) (authorize_user P now)) (\<lambda>(authorized, fingerprintUsers).
     let period = monthPeriod now; fingerprint = fingerprint_of P fingerprintUsers in
     bind (db_get policyState) (\<lambda>previous.
     let changed = (map_option ps_fingerprint previous \<noteq> Some fingerprint);
         revision = next_revision previous fingerprint in
     bind (require (\<bar>revision\<bar> \<le> MAX_SAFE_INTEGER) (AppError ''POLICY_OVERFLOW'' 409)) (\<lambda>_.
     bind (if changed \<or> map_option ps_period previous \<noteq> Some period
           then db_run (put_policy revision fingerprint period now) else return ()) (\<lambda>_.
     return \<lparr>al_policyRevision = revision, al_users = authorized\<rparr>))))))"

end
