(* ===== verification/Usage.thy ===== *)
theory Usage
  imports Policy
begin

text \<open>
  \<open>server/usage/store.ts\<close>: the ledger of traffic. \<open>reportUsage\<close> takes numbered batches from a
  daemon's stream exactly once and adds every sample to the minute, day and month buckets of its
  account and machine; \<open>query\<close> reads the ledger for the panel; \<open>cleanMinutes\<close> drops old minutes.
\<close>

section \<open>Taking a batch\<close>

definition invalid :: "string \<Rightarrow> failure" where
  "invalid message = ConnectError message CInvalidArgument"

definition find_bucket :: "grain \<times> int \<times> string \<times> string \<Rightarrow> database \<Rightarrow> usage_bucket_row option" where
  "find_bucket k d = find (\<lambda>b. bucket_key b = k) (usageBuckets d)"

definition find_stream :: "string \<times> string \<times> string \<Rightarrow> database \<Rightarrow> usage_stream_row option" where
  "find_stream k d = find (\<lambda>s. stream_key s = k) (usageStreams d)"

text \<open>\<open>previous?.field ?? default\<close>\<close>

definition or_default :: "'a \<Rightarrow> ('r \<Rightarrow> 'a) \<Rightarrow> 'r option \<Rightarrow> 'a" where
  "or_default a f r = (case r of None \<Rightarrow> a | Some x \<Rightarrow> f x)"

text \<open>Minutes older than this are not kept.\<close>

definition minute_floor :: "int \<Rightarrow> int" where
  "minute_floor now = now - 30 * DAY_MS"

definition kept :: "grain \<Rightarrow> int \<Rightarrow> int \<Rightarrow> bool" where
  "kept g now s \<longleftrightarrow> \<not> (g = Minute \<and> s < minute_floor now)"

definition put_bucket :: "usage_bucket_row \<Rightarrow> database \<Rightarrow> database" where
  "put_bucket row = usageBuckets_update (upsert (\<lambda>b. bucket_key b = bucket_key row)
     (\<lambda>b. b\<lparr>ub_uploadBytes := ub_uploadBytes row, ub_downloadBytes := ub_downloadBytes row,
            ub_estimated := ub_estimated row, ub_incomplete := ub_incomplete row\<rparr>) row)"

text \<open>One bucket of one sample: the body of the innermost loop.\<close>

definition add_bucket ::
  "string \<Rightarrow> usage_delta \<Rightarrow> grain \<Rightarrow> bool \<Rightarrow> int \<Rightarrow> part \<times> part \<Rightarrow> unit app" where
  "add_bucket machineId delta g several now = (\<lambda>((s, up), (_, down)).
     if \<not> kept g now s then return ()
     else
       bind (db_get (find_bucket (g, s, d_userId delta, machineId))) (\<lambda>previous.
       let uploadBytes = or_default 0 ub_uploadBytes previous + up;
           downloadBytes = or_default 0 ub_downloadBytes previous + down in
       bind (require (uploadBytes + downloadBytes \<le> MAX_BYTES)
               (ConnectError ''usage bucket overflow'' COutOfRange)) (\<lambda>_.
       db_run (put_bucket \<lparr>ub_grain = g, ub_bucketStart = s, ub_userId = d_userId delta,
         ub_machineId = machineId, ub_uploadBytes = uploadBytes, ub_downloadBytes = downloadBytes,
         ub_estimated = (or_default False ub_estimated previous \<or> d_estimated delta \<or> several),
         ub_incomplete = (or_default False ub_incomplete previous \<or> d_incomplete delta)\<rparr>))))"

text \<open>
  One grain of a sample. The parts of the upload and of the download are those of the same buckets
  (lemma \<open>rollupMinutes_starts\<close>), so that the loop over the index is one over the pairs.
\<close>

definition add_grain ::
  "string \<Rightarrow> usage_delta \<Rightarrow> int \<Rightarrow> part list \<Rightarrow> part list \<Rightarrow> grain \<Rightarrow> int \<Rightarrow> int app" where
  "add_grain machineId delta now minuteUpload minuteDownload g projectionCount =
     (let upload = rollupMinutes minuteUpload g; download = rollupMinutes minuteDownload g;
          count = projectionCount + int (length (filter (\<lambda>p. kept g now (fst p)) upload)) in
      bind (require (count \<le> 20000)
              (ConnectError ''usage batch spans too many time buckets'' CResourceExhausted)) (\<lambda>_.
      bind (for_each (zip upload download) (add_bucket machineId delta g (1 < length upload) now)) (\<lambda>_.
      return count)))"

definition check_delta :: "string list \<Rightarrow> usage_delta \<Rightarrow> int \<Rightarrow> ('s, unit) prog" where
  "check_delta knownUsers delta now =
     bind (require (d_userId delta \<in> set knownUsers)
             (invalid ''usage user has never been authorized on this machine'')) (\<lambda>_.
     bind (require (\<not> (d_startUnixMs delta < 0 \<or> d_endUnixMs delta > MAX_SAFE_INTEGER \<or>
                       d_endUnixMs delta \<le> d_startUnixMs delta))
             (invalid ''invalid usage interval'')) (\<lambda>_.
     bind (require (\<not> (d_endUnixMs delta > now + 5 * 60000 \<or>
                       d_endUnixMs delta - d_startUnixMs delta > DAY_MS))
             (invalid ''usage interval is outside accepted bounds'')) (\<lambda>_.
     require (\<not> (d_uploadBytes delta < 0 \<or> d_downloadBytes delta < 0 \<or>
                 d_uploadBytes delta + d_downloadBytes delta > MAX_BYTES))
       (invalid ''usage bytes out of range''))))"

definition add_delta :: "string \<Rightarrow> string list \<Rightarrow> int \<Rightarrow> usage_delta \<Rightarrow> int \<Rightarrow> int app" where
  "add_delta machineId knownUsers now delta projectionCount =
     bind (check_delta knownUsers delta now) (\<lambda>_.
     let start = d_startUnixMs delta; end = d_endUnixMs delta;
         minuteUpload = splitBytes start end (d_uploadBytes delta) Minute;
         minuteDownload = splitBytes start end (d_downloadBytes delta) Minute in
     fold_each [Minute, Day, Month] projectionCount
       (add_grain machineId delta now minuteUpload minuteDownload))"

definition known_users :: "string \<Rightarrow> database \<Rightarrow> string list" where
  "known_users machineId d = map mu_userId (filter (\<lambda>h. mu_machineId h = machineId) (machineUserHistory d))"

definition put_stream :: "string \<times> string \<times> string \<Rightarrow> int \<Rightarrow> string \<Rightarrow> int \<Rightarrow> database \<Rightarrow> database" where
  "put_stream k sq hash now = usageStreams_update (upsert (\<lambda>s. stream_key s = k)
     (\<lambda>s. s\<lparr>us_committedSequence := sq, us_lastPayloadHash := hash, us_lastSeenAt := now\<rparr>)
     \<lparr>us_machineId = fst k, us_installationId = fst (snd k), us_streamId = snd (snd k),
      us_committedSequence = sq, us_lastPayloadHash = hash, us_lastSeenAt = now\<rparr>)"

text \<open>The part of the transaction that takes the next batch.\<close>

definition commit_usage ::
  "platform \<Rightarrow> string \<Rightarrow> string \<times> string \<times> string \<Rightarrow> report_usage_request \<Rightarrow> int \<Rightarrow>
     report_usage_response app" where
  "commit_usage P machineId k request now =
     bind (the_or (p_batchFromBinary P (ru_payload request)) (invalid ''invalid usage protobuf'')) (\<lambda>batch.
     bind (require (\<not> (b_coreRuntimeId batch = [] \<or> length (b_coreRuntimeId batch) > 256 \<or>
                       b_deltas batch = [] \<or> length (b_deltas batch) > 256))
             (invalid ''invalid usage batch metadata'')) (\<lambda>_.
     bind (db_get (known_users machineId)) (\<lambda>knownUsers.
     bind (fold_each (b_deltas batch) 0 (add_delta machineId knownUsers now)) (\<lambda>_.
     bind (policy_refresh P now) (\<lambda>_.
     bind (db_run (put_stream k (ru_sequence request) (ru_payloadSha256 request) now)) (\<lambda>_.
     return \<lparr>rr_committedSequence = ru_sequence request,
             rr_expectedSequence = ru_sequence request + 1\<rparr>))))))"

definition reportUsage ::
  "platform \<Rightarrow> machine_row \<Rightarrow> report_usage_request \<Rightarrow> int \<Rightarrow> report_usage_response app" where
  "reportUsage P machine request now =
     bind (assertInstallation machine (ru_installation request) False) (\<lambda>_.
     bind (require (matches is_token_char 16 128 (ru_streamId request)) (invalid ''invalid usage stream ID'')) (\<lambda>_.
     bind (require (\<not> (ru_sequence request \<le> 0 \<or> ru_sequence request > MAX_BYTES))
             (invalid ''usage sequence out of range'')) (\<lambda>_.
     bind (require (\<not> length (ru_payload request) > 1024 * 1024)
             (ConnectError ''usage payload too large'' CResourceExhausted)) (\<lambda>_.
     bind (require (is_sha256_hex (ru_payloadSha256 request) \<and>
                    sha256 P (ru_payload request) = ru_payloadSha256 request)
             (invalid ''usage payload hash mismatch'')) (\<lambda>_.
     let k = (m_id machine, i_installationId (the (ru_installation request)), ru_streamId request) in
     transaction (
       bind (db_get (find_stream k)) (\<lambda>stream.
       let committed = or_default 0 us_committedSequence stream in
       if ru_sequence request \<le> committed
       then
         bind (require (\<not> (ru_sequence request = committed \<and>
                           map_option us_lastPayloadHash stream \<noteq> Some (ru_payloadSha256 request)))
                 (ConnectError ''USAGE_PAYLOAD_CONFLICT'' CAlreadyExists)) (\<lambda>_.
         return \<lparr>rr_committedSequence = committed, rr_expectedSequence = committed + 1\<rparr>)
       else if ru_sequence request \<noteq> committed + 1
       then return \<lparr>rr_committedSequence = committed, rr_expectedSequence = committed + 1\<rparr>
       else commit_usage P (m_id machine) k request now)))))))"

section \<open>Cleaning up\<close>

text \<open>Up to 1000 of the oldest minute buckets below the floor.\<close>

definition stale_minutes :: "int \<Rightarrow> database \<Rightarrow> usage_bucket_row list" where
  "stale_minutes now d = take 1000 (sort_key ub_bucketStart
     (filter (\<lambda>b. ub_grain b = Minute \<and> ub_bucketStart b < minute_floor now) (usageBuckets d)))"

definition cleanMinutes :: "int \<Rightarrow> nat app" where
  "cleanMinutes now =
     bind (db_get (stale_minutes now)) (\<lambda>stale.
     bind (db_run (usageBuckets_update (delete_where (\<lambda>b. b \<in> set stale)))) (\<lambda>_.
     return (length stale)))"

end
