(* ===== verification/Policy_Facts.thy ===== *)
theory Policy_Facts
  imports Policy
begin

text \<open>
  The policy refresh: what it writes, what it returns, and that running it again changes nothing.
\<close>

section \<open>What the refresh writes\<close>

text \<open>
  A property of the database that does not look at the tables of secrets, quota states and policy
  survives a refresh.
\<close>

definition policy_frame :: "(database \<Rightarrow> bool) \<Rightarrow> bool" where
  "policy_frame I \<longleftrightarrow> (\<forall>d. I d \<longrightarrow> (\<forall>f. I (proxyCredentials_update f d)) \<and>
     (\<forall>f. I (subscriptionTokens_update f d)) \<and> (\<forall>f. I (quotaStates_update f d)) \<and>
     (\<forall>f. I (policyState_update f d)))"

lemma policy_frameD:
  assumes "policy_frame I" and "I d"
  shows "I (proxyCredentials_update f d)" and "I (subscriptionTokens_update f' d)"
    and "I (quotaStates_update g d)" and "I (policyState_update h d)"
  using assms by (auto simp: policy_frame_def)

lemma keeps_initializeUserSecrets:
  assumes "policy_frame I"
  shows "keeps (on_db I) (initializeUserSecrets P i)"
  unfolding initializeUserSecrets_def initialize_credential_def initialize_token_def
    insert_subscription_token_def
  by (intro keeps_rules policy_frameD [OF assms])

lemma keeps_readProxyCredentials [keeps_rules]: "keeps I (readProxyCredentials P i)"
  unfolding readProxyCredentials_def by (intro keeps_rules)

lemma keeps_userQuota [keeps_rules]: "keeps I (userQuota i now)"
  unfolding userQuota_def by (intro keeps_rules)

lemma keeps_policy_refresh:
  assumes "policy_frame I"
  shows "keeps (on_db I) (policy_refresh P now)"
  unfolding policy_refresh_def Let_def authorize_user_def put_quota_def put_policy_def case_prod_unfold
  by (intro keeps_rules keeps_initializeUserSecrets [OF assms] policy_frameD [OF assms])
    (simp_all add: policy_frameD [OF assms])

section \<open>One account\<close>

text \<open>The credentials an account has, as \<open>readProxyCredentials\<close> reads them.\<close>

definition cred :: "platform \<Rightarrow> string \<Rightarrow> database \<Rightarrow> credentials option" where
  "cred P i d =
     (case find_credential i d of None \<Rightarrow> None
      | Some row \<Rightarrow>
          (case decryptSecret P (pc_secretsCiphertext row) of Inl e \<Rightarrow> None
           | Inr plain \<Rightarrow> map_option (\<lambda>j. \<lparr>c_generation = pc_generation row, c_secrets = object_properties j\<rparr>)
               (p_jsonParse P plain)))"

lemma readProxyCredentials_ok [prog_ok]:
  "readProxyCredentials P i w = (Inr c, v) \<longleftrightarrow> cred P i (w_db w) = Some c \<and> v = w"
  by (auto simp: readProxyCredentials_def cred_def prog_ok split: option.splits sum.splits)

definition account_quota :: "user_row \<Rightarrow> int \<Rightarrow> database \<Rightarrow> quota" where
  "account_quota u now d =
     \<lparr>q_user = u, q_used = month_usage (u_id u) now d, q_limit = u_monthlyLimitBytes u,
      q_blocked = over_limit (u_monthlyLimitBytes u) (month_usage (u_id u) now d),
      q_period = monthPeriod now\<rparr>"

lemma userQuota_ok [prog_ok]:
  "userQuota i now w = (Inr q, v) \<longleftrightarrow> (\<exists>u. find_user i (w_db w) = Some u \<and>
     month_usage i now (w_db w) \<le> MAX_BYTES \<and> q = account_quota u now (w_db w) \<and> v = w)"
  by (auto simp: userQuota_def prog_ok account_quota_def find_user_def dest: find_Some_mem)

text \<open>Secrets are created once: a row that is there is never touched.\<close>

definition secrets_stay :: "database \<Rightarrow> database \<Rightarrow> bool" where
  "secrets_stay d e \<longleftrightarrow> (\<forall>i r. find_credential i d = Some r \<longrightarrow> find_credential i e = Some r) \<and>
     (\<forall>i r. find_subscription_token i d = Some r \<longrightarrow> find_subscription_token i e = Some r)"

lemma secrets_stay_refl [simp]: "secrets_stay d d"
  by (simp add: secrets_stay_def)

lemma secrets_stay_trans: "secrets_stay d e \<Longrightarrow> secrets_stay e f \<Longrightarrow> secrets_stay d f"
  by (auto simp: secrets_stay_def)

lemma find_append: "find Q (xs @ ys) = (case find Q xs of None \<Rightarrow> find Q ys | Some x \<Rightarrow> Some x)"
  by (induction xs) auto

lemma secrets_stay_append:
  "secrets_stay d (proxyCredentials_update (\<lambda>t. t @ ys) d)"
  "secrets_stay d (subscriptionTokens_update (\<lambda>t. t @ zs) d)"
  by (auto simp: secrets_stay_def find_credential_def find_subscription_token_def find_append)

lemma initialize_credential_ok:
  assumes "initialize_credential P i w = (Inr u, v)"
  shows "secrets_stay (w_db w) (w_db v) \<and> find_credential i (w_db v) \<noteq> None \<and>
    (find_credential i (w_db w) \<noteq> None \<longrightarrow> v = w)"
  using assms
  by (auto simp: initialize_credential_def prog_ok secrets_stay_append find_credential_def find_append
      split: if_splits)

lemma initialize_token_ok:
  assumes "initialize_token P i w = (Inr u, v)"
  shows "secrets_stay (w_db w) (w_db v) \<and> find_subscription_token i (w_db v) \<noteq> None \<and>
    (find_subscription_token i (w_db w) \<noteq> None \<longrightarrow> v = w)"
  using assms
  by (auto simp: initialize_token_def insert_subscription_token_def prog_ok secrets_stay_append
      find_subscription_token_def find_append split: if_splits)

lemma initializeUserSecrets_ok:
  assumes "initializeUserSecrets P i w = (Inr u, v)"
  shows "secrets_stay (w_db w) (w_db v) \<and> find_credential i (w_db v) \<noteq> None \<and>
    find_subscription_token i (w_db v) \<noteq> None \<and>
    (find_credential i (w_db w) \<noteq> None \<longrightarrow> find_subscription_token i (w_db w) \<noteq> None \<longrightarrow> v = w)"
proof -
  from assms obtain x where x: "initialize_credential P i w = (Inr (), x)" "initialize_token P i x = (Inr (), v)"
    by (auto simp: initializeUserSecrets_def prog_ok)
  have "find_credential i (w_db v) \<noteq> None"
    using initialize_credential_ok [OF x(1)] initialize_token_ok [OF x(2)] by (auto simp: secrets_stay_def)
  with initialize_credential_ok [OF x(1)] initialize_token_ok [OF x(2)] secrets_stay_trans show ?thesis
    by blast
qed

lemma initializeUserSecrets_again:
  assumes "find_credential i (w_db w) \<noteq> None" and "find_subscription_token i (w_db w) \<noteq> None"
  shows "initializeUserSecrets P i w = (Inr (), w)"
  using assms by (simp add: initializeUserSecrets_def initialize_credential_def initialize_token_def steps_run)

lemma cred_stays: "secrets_stay d e \<Longrightarrow> cred P i d = Some c \<Longrightarrow> cred P i e = Some c"
  by (auto simp: cred_def secrets_stay_def split: option.splits)

section \<open>Recording a quota\<close>

definition quota_recorded :: "string \<Rightarrow> quota \<Rightarrow> database \<Rightarrow> bool" where
  "quota_recorded i q d \<longleftrightarrow> has_row (\<lambda>s. quota_key s = (i, q_period q)) (quotaStates d) \<and>
     (\<forall>s \<in> set (quotaStates d). quota_key s = (i, q_period q) \<longrightarrow>
        qs_usedBytes s = q_used q \<and> qs_blocked s = q_blocked q)"

lemma quota_key_update [simp]: "quota_key (s\<lparr>qs_usedBytes := b, qs_blocked := c\<rparr>) = quota_key s"
  by (simp add: quota_key_def)

lemma put_quota_recorded: "quota_recorded i q (put_quota i q d)"
proof (cases "has_row (\<lambda>s. quota_key s = (i, q_period q)) (quotaStates d)")
  case True
  then have "has_row (\<lambda>s. quota_key s = (i, q_period q)) (update_where (\<lambda>s. quota_key s = (i, q_period q))
      (\<lambda>s. s\<lparr>qs_usedBytes := q_used q, qs_blocked := q_blocked q\<rparr>) (quotaStates d))"
    by (simp add: has_row_update_where)
  with True show ?thesis
    by (auto simp: quota_recorded_def put_quota_def upsert_def set_update_where)
next
  case False
  then show ?thesis
    by (auto simp: quota_recorded_def put_quota_def upsert_def has_row_iff quota_key_def)
qed

lemma recorded_put:
  assumes "quota_recorded i q d"
  shows "put_quota i q d = d"
proof -
  let ?f = "\<lambda>s. s\<lparr>qs_usedBytes := q_used q, qs_blocked := q_blocked q\<rparr>"
  have "update_where (\<lambda>s. quota_key s = (i, q_period q)) ?f t = t"
    if "\<forall>s \<in> set t. quota_key s = (i, q_period q) \<longrightarrow> qs_usedBytes s = q_used q \<and> qs_blocked s = q_blocked q" for t
    using that by (induction t) auto
  with assms have "upsert (\<lambda>s. quota_key s = (i, q_period q)) ?f r (quotaStates d) = quotaStates d" for r
    by (simp add: upsert_def quota_recorded_def)
  then show ?thesis by (simp add: put_quota_def)
qed

lemma recorded_after_put:
  assumes "quota_recorded i q d" and "i = j \<Longrightarrow> q_used q = q_used q' \<and> q_blocked q = q_blocked q'"
  shows "quota_recorded i q (put_quota j q' d)"
proof -
  from assms(1) obtain r where r: "r \<in> set (quotaStates d)" "quota_key r = (i, q_period q)"
    by (auto simp: quota_recorded_def has_row_iff)
  let ?f = "\<lambda>s. s\<lparr>qs_usedBytes := q_used q', qs_blocked := q_blocked q'\<rparr>"
  let ?P = "\<lambda>s. quota_key s = (j, q_period q')"
  show ?thesis
  proof (cases "has_row ?P (quotaStates d)")
    case True
    then have eq: "quotaStates (put_quota j q' d) = update_where ?P ?f (quotaStates d)"
      by (simp add: put_quota_def upsert_def)
    have "has_row (\<lambda>s. quota_key s = (i, q_period q)) (update_where ?P ?f (quotaStates d))"
      using assms(1) by (simp add: has_row_update_where quota_recorded_def)
    then show ?thesis using assms by (auto simp: quota_recorded_def eq set_update_where)
  next
    case False
    then have "(i, q_period q) \<noteq> (j, q_period q')" using r by (auto simp: has_row_iff)
    with False assms(1) show ?thesis
      by (auto simp: quota_recorded_def put_quota_def upsert_def has_row_iff quota_key_def)
  qed
qed

section \<open>The loop over the active accounts\<close>

definition same_accounts :: "database \<Rightarrow> database \<Rightarrow> bool" where
  "same_accounts d e \<longleftrightarrow> users e = users d \<and> usageBuckets e = usageBuckets d \<and> policyState e = policyState d"

lemma same_accounts_reads:
  "same_accounts d e \<Longrightarrow> find_user i e = find_user i d \<and> month_usage i now e = month_usage i now d \<and>
     account_quota u now e = account_quota u now d \<and> active_users e = active_users d"
  by (simp add: same_accounts_def find_user_def month_usage_def account_quota_def active_users_def)

lemma initialize_same_accounts:
  assumes "initializeUserSecrets P i w = (r, v)"
  shows "same_accounts (w_db w) (w_db v)"
proof -
  have "policy_frame (\<lambda>d. users d = users (w_db w) \<and> usageBuckets d = usageBuckets (w_db w))"
    by (simp add: policy_frame_def)
  from keepsD [OF keeps_initializeUserSecrets [OF this] _ assms]
  have "users (w_db v) = users (w_db w) \<and> usageBuckets (w_db v) = usageBuckets (w_db w)" by simp
  moreover have "keeps (on_db (\<lambda>d. policyState d = policyState (w_db w))) (initializeUserSecrets P i)"
    unfolding initializeUserSecrets_def initialize_credential_def initialize_token_def
      insert_subscription_token_def by (intro keeps_rules) simp_all
  from keepsD [OF this _ assms] have "policyState (w_db v) = policyState (w_db w)" by simp
  ultimately show ?thesis by (simp add: same_accounts_def)
qed

lemma initialize_quotas:
  assumes "initializeUserSecrets P i w = (r, v)"
  shows "quotaStates (w_db v) = quotaStates (w_db w)"
proof -
  have "keeps (on_db (\<lambda>d. quotaStates d = quotaStates (w_db w))) (initializeUserSecrets P i)"
    unfolding initializeUserSecrets_def initialize_credential_def initialize_token_def
      insert_subscription_token_def by (intro keeps_rules) simp_all
  from keepsD [OF this _ assms] show ?thesis by simp
qed

definition the_quota :: "int \<Rightarrow> database \<Rightarrow> user_row \<Rightarrow> quota" where
  "the_quota now d u = account_quota (the (find_user (u_id u) d)) now d"

text \<open>What one account adds to the result.\<close>

definition collect :: "platform \<Rightarrow> int \<Rightarrow> database \<Rightarrow> user_row \<Rightarrow> authorized \<Rightarrow> authorized" where
  "collect P now d u acc =
     (if q_blocked (the_quota now d u) then acc
      else (fst acc @ [spread [(''id'', JStr (u_id u))] (c_secrets (the (cred P (u_id u) d)))],
            snd acc @ [JArr [JStr (u_id u), jint (c_generation (the (cred P (u_id u) d)))]]))"

text \<open>An account that the loop has dealt with.\<close>

definition settled :: "platform \<Rightarrow> int \<Rightarrow> database \<Rightarrow> user_row \<Rightarrow> bool" where
  "settled P now d u \<longleftrightarrow> find_credential (u_id u) d \<noteq> None \<and> find_subscription_token (u_id u) d \<noteq> None \<and>
     cred P (u_id u) d \<noteq> None \<and> find_user (u_id u) d \<noteq> None \<and>
     month_usage (u_id u) now d \<le> MAX_BYTES \<and> quota_recorded (u_id u) (the_quota now d u) d"

lemma find_user_id: "find_user i d = Some u \<Longrightarrow> u_id u = i"
  unfolding find_user_def by (drule find_Some_mem) simp

lemma put_quota_accounts [simp]:
  "same_accounts d (put_quota i q d)" "secrets_stay d (put_quota i q d)"
  "find_credential j (put_quota i q d) = find_credential j d"
  "find_subscription_token j (put_quota i q d) = find_subscription_token j d"
  "cred P j (put_quota i q d) = cred P j d"
  by (simp_all add: same_accounts_def secrets_stay_def put_quota_def find_credential_def
      find_subscription_token_def cred_def)

lemma the_quota_cong: "u_id u = u_id v \<Longrightarrow> the_quota now d u = the_quota now d v"
  by (simp add: the_quota_def)

lemma same_accounts_trans: "same_accounts d e \<Longrightarrow> same_accounts e f \<Longrightarrow> same_accounts d f"
  by (simp add: same_accounts_def)

lemma settled_step:
  assumes u: "settled P now d u" and "secrets_stay d e" and "same_accounts d e"
    and "quotaStates e = quotaStates d"
  shows "settled P now (put_quota (u_id v) (the_quota now d v) e) u"
proof -
  let ?e = "put_quota (u_id v) (the_quota now d v) e"
  have same: "same_accounts d ?e" by (rule same_accounts_trans [OF assms(3) put_quota_accounts(1)])
  have quota: "the_quota now ?e u = the_quota now d u"
    using same_accounts_reads [OF same] by (simp add: the_quota_def)
  have "quota_recorded (u_id u) (the_quota now d u) e"
    using u assms(4) by (simp add: settled_def quota_recorded_def)
  then have "quota_recorded (u_id u) (the_quota now d u) ?e"
    by (rule recorded_after_put) (simp add: the_quota_cong [of u v])
  moreover have "find_credential (u_id u) e \<noteq> None" "find_subscription_token (u_id u) e \<noteq> None"
    "cred P (u_id u) e \<noteq> None"
    using u assms(2) cred_stays [OF assms(2), of P "u_id u"] by (auto simp: settled_def secrets_stay_def)
  ultimately show ?thesis
    using u same_accounts_reads [OF same] by (simp add: settled_def quota)
qed

lemma authorize_user_ok:
  assumes "authorize_user P now u acc w = (Inr acc', v)"
  shows "settled P now (w_db v) u \<and> acc' = collect P now (w_db v) u acc \<and>
    secrets_stay (w_db w) (w_db v) \<and> same_accounts (w_db w) (w_db v) \<and>
    (\<forall>u'. settled P now (w_db w) u' \<longrightarrow> settled P now (w_db v) u')"
proof -
  from assms obtain x c m where x: "initializeUserSecrets P (u_id u) w = (Inr (), x)"
    and c: "cred P (u_id u) (w_db x) = Some c" and m: "find_user (u_id u) (w_db x) = Some m"
    and use: "month_usage (u_id u) now (w_db x) \<le> MAX_BYTES"
    and v: "w_db v = put_quota (u_id u) (account_quota m now (w_db x)) (w_db x)"
    and acc': "acc' = (if q_blocked (account_quota m now (w_db x)) then acc
      else (fst acc @ [spread [(''id'', JStr (u_id u))] (c_secrets c)],
            snd acc @ [JArr [JStr (u_id u), jint (c_generation c)]]))"
    by (auto simp: authorize_user_def prog_ok)
  note ini = initializeUserSecrets_ok [OF x] initialize_same_accounts [OF x] initialize_quotas [OF x]
  have stay: "secrets_stay (w_db w) (w_db v)" "same_accounts (w_db w) (w_db v)" "same_accounts (w_db x) (w_db v)"
    using ini secrets_stay_trans same_accounts_trans put_quota_accounts by (auto simp: v)
  have quota: "the_quota now (w_db v) u = account_quota m now (w_db x)"
    "the_quota now (w_db w) u = account_quota m now (w_db x)"
    using m same_accounts_reads [OF stay(3)] same_accounts_reads [OF ini(2)] by (simp_all add: the_quota_def)
  have "quota_recorded (u_id u) (the_quota now (w_db v) u) (w_db v)"
    unfolding quota by (simp add: v put_quota_recorded)
  then have "settled P now (w_db v) u"
    using ini(1) c m use same_accounts_reads [OF stay(3)]
    by (auto simp: settled_def v)
  moreover have "settled P now (w_db v) u'" if "settled P now (w_db w) u'" for u'
    using settled_step [OF that _ ini(2,3), of u] ini(1) by (simp add: v quota)
  moreover have "cred P (u_id u) (w_db v) = Some c" using c by (simp add: v)
  then have "collect P now (w_db v) u acc = acc'" by (simp add: collect_def quota(1) acc')
  ultimately show ?thesis using stay by blast
qed

lemma world_same: "(w :: world)\<lparr>w_db := w_db w\<rparr> = w"
  by simp

lemma authorize_user_again:
  assumes "settled P now (w_db w) u"
  shows "authorize_user P now u acc w = (Inr (collect P now (w_db w) u acc), w)"
proof -
  from assms obtain c m where *: "cred P (u_id u) (w_db w) = Some c" "find_user (u_id u) (w_db w) = Some m"
    "month_usage (u_id u) now (w_db w) \<le> MAX_BYTES" by (auto simp: settled_def)
  have ini: "initializeUserSecrets P (u_id u) w = (Inr (), w)"
    using assms by (intro initializeUserSecrets_again) (auto simp: settled_def)
  have read: "readProxyCredentials P (u_id u) w = (Inr c, w)" using * by (simp add: readProxyCredentials_ok)
  have quota: "userQuota (u_id u) now w = (Inr (the_quota now (w_db w) u), w)"
    using * by (simp add: userQuota_ok the_quota_def)
  have "put_quota (u_id u) (the_quota now (w_db w) u) (w_db w) = w_db w"
    using assms by (intro recorded_put) (simp add: settled_def)
  then show ?thesis
    unfolding authorize_user_def by (simp add: steps_run ini read quota collect_def * world_same)
qed

lemma collect_same:
  "same_accounts d e \<Longrightarrow> secrets_stay d e \<Longrightarrow> cred P (u_id u) d \<noteq> None \<Longrightarrow>
    collect P now e u acc = collect P now d u acc"
  using cred_stays [of d e P "u_id u"] same_accounts_reads [of d e]
  by (auto simp: collect_def the_quota_def)

lemma authorize_loop_ok:
  "fold_each us acc (authorize_user P now) w = (Inr acc', v) \<Longrightarrow>
    (\<forall>u \<in> set us. settled P now (w_db v) u) \<and> acc' = fold (collect P now (w_db v)) us acc \<and>
    secrets_stay (w_db w) (w_db v) \<and> same_accounts (w_db w) (w_db v) \<and>
    (\<forall>u'. settled P now (w_db w) u' \<longrightarrow> settled P now (w_db v) u')"
proof (induction us arbitrary: acc w)
  case Nil
  then show ?case by (simp add: same_accounts_def)
next
  case (Cons u us)
  from Cons.prems obtain a x where x: "authorize_user P now u acc w = (Inr a, x)"
    and rest: "fold_each us a (authorize_user P now) x = (Inr acc', v)"
    by (auto simp: prog_ok)
  note one = authorize_user_ok [OF x] and more = Cons.IH [OF rest]
  have "collect P now (w_db v) u acc = collect P now (w_db x) u acc"
    using one more by (intro collect_same) (auto simp: settled_def)
  with one more secrets_stay_trans same_accounts_trans show ?case by auto
qed

lemma authorize_loop_again:
  "(\<forall>u \<in> set us. settled P now (w_db w) u) \<Longrightarrow>
    fold_each us acc (authorize_user P now) w = (Inr (fold (collect P now (w_db w)) us acc), w)"
  by (induction us arbitrary: acc) (simp_all add: authorize_user_again steps_run)

section \<open>The refresh\<close>

definition unblocked :: "int \<Rightarrow> database \<Rightarrow> user_row list" where
  "unblocked now d = filter (\<lambda>u. \<not> q_blocked (the_quota now d u)) (active_users d)"

definition layer_user :: "platform \<Rightarrow> database \<Rightarrow> user_row \<Rightarrow> (string \<times> json) list" where
  "layer_user P d u = spread [(''id'', JStr (u_id u))] (c_secrets (the (cred P (u_id u) d)))"

definition fingerprint_user :: "platform \<Rightarrow> database \<Rightarrow> user_row \<Rightarrow> json" where
  "fingerprint_user P d u = JArr [JStr (u_id u), jint (c_generation (the (cred P (u_id u) d)))]"

lemma fold_collect:
  "fold (collect P now d) us acc =
    (fst acc @ map (layer_user P d) (filter (\<lambda>u. \<not> q_blocked (the_quota now d u)) us),
     snd acc @ map (fingerprint_user P d) (filter (\<lambda>u. \<not> q_blocked (the_quota now d u)) us))"
  by (induction us arbitrary: acc) (simp_all add: collect_def layer_user_def fingerprint_user_def)

definition policy_fingerprint :: "platform \<Rightarrow> int \<Rightarrow> database \<Rightarrow> string" where
  "policy_fingerprint P now d = fingerprint_of P (map (fingerprint_user P d) (unblocked now d))"

text \<open>The state after a refresh, its accounts seen in the database it leaves behind.\<close>

lemma policy_refresh_ok:
  assumes "policy_refresh P now w = (Inr l, v)"
  shows "(\<forall>u \<in> set (active_users (w_db v)). settled P now (w_db v) u) \<and>
    users (w_db v) = users (w_db w) \<and> usageBuckets (w_db v) = usageBuckets (w_db w) \<and>
    secrets_stay (w_db w) (w_db v) \<and>
    al_users l = map (layer_user P (w_db v)) (unblocked now (w_db v)) \<and>
    al_policyRevision l = next_revision (policyState (w_db w)) (policy_fingerprint P now (w_db v)) \<and>
    \<bar>al_policyRevision l\<bar> \<le> MAX_SAFE_INTEGER \<and>
    (\<exists>s. policyState (w_db v) = Some s \<and> ps_revision s = al_policyRevision l \<and>
       ps_fingerprint s = policy_fingerprint P now (w_db v) \<and> ps_period s = monthPeriod now)"
proof -
  from assms obtain a x where x: "fold_each (active_users (w_db w)) ([], []) (authorize_user P now) w = (Inr a, x)"
    by (auto simp: policy_refresh_def prog_ok)
  note loop = authorize_loop_ok [OF x]
  let ?fp = "fingerprint_of P (snd a)" and ?old = "policyState (w_db w)"
  have same: "same_accounts (w_db w) (w_db x)" using loop by blast
  from assms x have l: "al_policyRevision l = next_revision ?old ?fp" "al_users l = fst a"
    and big: "\<bar>next_revision ?old ?fp\<bar> \<le> MAX_SAFE_INTEGER"
    and written: "w_db v = (if map_option ps_fingerprint ?old \<noteq> Some ?fp \<or> map_option ps_period ?old \<noteq> Some (monthPeriod now)
      then put_policy (next_revision ?old ?fp) ?fp (monthPeriod now) now (w_db x) else w_db x)"
    using same
    by (cases a; cases "map_option ps_fingerprint ?old \<noteq> Some ?fp \<or> map_option ps_period ?old \<noteq> Some (monthPeriod now)";
        simp add: policy_refresh_def prog_ok Let_def same_accounts_def; auto)+
  have frame: "users (w_db v) = users (w_db x)" "usageBuckets (w_db v) = usageBuckets (w_db x)"
    "secrets_stay (w_db x) (w_db v)" "quotaStates (w_db v) = quotaStates (w_db x)"
    "cred P i (w_db v) = cred P i (w_db x)" "find_credential i (w_db v) = find_credential i (w_db x)"
    "find_subscription_token i (w_db v) = find_subscription_token i (w_db x)" for i
    unfolding written by (simp_all add: put_policy_def secrets_stay_def find_credential_def
        find_subscription_token_def cred_def)
  have reads: "active_users (w_db v) = active_users (w_db w)" "the_quota now (w_db v) = the_quota now (w_db x)"
    "layer_user P (w_db v) = layer_user P (w_db x)" "fingerprint_user P (w_db v) = fingerprint_user P (w_db x)"
    "find_user i (w_db v) = find_user i (w_db x)" "month_usage i now (w_db v) = month_usage i now (w_db x)" for i
    using frame same
    by (auto simp: active_users_def the_quota_def find_user_def account_quota_def month_usage_def
        layer_user_def fingerprint_user_def same_accounts_def fun_eq_iff)
  have settled: "settled P now (w_db v) u" if "u \<in> set (active_users (w_db v))" for u
    using loop that frame reads by (auto simp: settled_def quota_recorded_def)
  have a: "a = (map (layer_user P (w_db v)) (unblocked now (w_db v)),
      map (fingerprint_user P (w_db v)) (unblocked now (w_db v)))"
    using loop by (simp add: fold_collect unblocked_def reads)
  have fp: "?fp = policy_fingerprint P now (w_db v)" by (simp add: policy_fingerprint_def a)
  have "\<exists>s. policyState (w_db v) = Some s \<and> ps_revision s = next_revision ?old ?fp \<and>
      ps_fingerprint s = ?fp \<and> ps_period s = monthPeriod now"
    using same by (auto simp: written put_policy_def next_revision_def same_accounts_def)
  moreover have "al_users l = map (layer_user P (w_db v)) (unblocked now (w_db v))"
    using l(2) a by simp
  moreover have "secrets_stay (w_db w) (w_db v)" using loop frame(3) secrets_stay_trans by blast
  moreover have "users (w_db v) = users (w_db w)" "usageBuckets (w_db v) = usageBuckets (w_db w)"
    using frame(1,2) same by (simp_all add: same_accounts_def)
  ultimately show ?thesis using settled l(1) big unfolding fp by simp
qed

text \<open>A database that a refresh at this time would leave as it is, and the layer it would return.\<close>

definition refreshed :: "platform \<Rightarrow> int \<Rightarrow> authorization_layer \<Rightarrow> database \<Rightarrow> bool" where
  "refreshed P now l d \<longleftrightarrow> (\<forall>u \<in> set (active_users d). settled P now d u) \<and>
     al_users l = map (layer_user P d) (unblocked now d) \<and> \<bar>al_policyRevision l\<bar> \<le> MAX_SAFE_INTEGER \<and>
     (\<exists>s. policyState d = Some s \<and> ps_revision s = al_policyRevision l \<and>
       ps_fingerprint s = policy_fingerprint P now d \<and> ps_period s = monthPeriod now)"

lemma policy_refresh_refreshed: "policy_refresh P now w = (Inr l, v) \<Longrightarrow> refreshed P now l (w_db v)"
  using policy_refresh_ok [of P now w l v] unfolding refreshed_def by blast

lemma refreshed_again:
  assumes "refreshed P now l (w_db v)"
  shows "policy_refresh P now v = (Inr l, v)"
proof -
  obtain s where s: "policyState (w_db v) = Some s" "ps_revision s = al_policyRevision l"
    "ps_fingerprint s = policy_fingerprint P now (w_db v)" "ps_period s = monthPeriod now"
    using assms unfolding refreshed_def by blast
  have "fold_each (active_users (w_db v)) ([], []) (authorize_user P now) v =
      (Inr (map (layer_user P (w_db v)) (unblocked now (w_db v)),
        map (fingerprint_user P (w_db v)) (unblocked now (w_db v))), v)"
    using authorize_loop_again [of "active_users (w_db v)" P now v "([], [])"] assms
    by (simp add: fold_collect unblocked_def refreshed_def)
  moreover have "fingerprint_of P (map (fingerprint_user P (w_db v)) (unblocked now (w_db v))) = ps_fingerprint s"
    using s(3) by (simp add: policy_fingerprint_def)
  moreover have "next_revision (policyState (w_db v)) (ps_fingerprint s) = al_policyRevision l"
    using s by (simp add: next_revision_def)
  moreover have "\<bar>al_policyRevision l\<bar> \<le> MAX_SAFE_INTEGER"
    "al_users l = map (layer_user P (w_db v)) (unblocked now (w_db v))" using assms unfolding refreshed_def by blast+
  ultimately show ?thesis
    using s(1,4) by (simp add: policy_refresh_def steps_run Let_def)
qed

lemma policy_refresh_again: "policy_refresh P now w = (Inr l, v) \<Longrightarrow> policy_refresh P now v = (Inr l, v)"
  by (rule refreshed_again, rule policy_refresh_refreshed)

text \<open>The streams of usage do not matter to the policy.\<close>

lemma refreshed_streams: "refreshed P now l (usageStreams_update f d) = refreshed P now l d"
proof -
  let ?e = "usageStreams_update f d"
  have "active_users ?e = active_users d" "find_credential i ?e = find_credential i d"
    "find_subscription_token i ?e = find_subscription_token i d" "find_user i ?e = find_user i d"
    "month_usage i now ?e = month_usage i now d" "cred P i ?e = cred P i d"
    "quota_recorded i q ?e = quota_recorded i q d" for i q
    by (simp_all add: active_users_def find_credential_def find_subscription_token_def find_user_def
        month_usage_def cred_def quota_recorded_def)
  then have "settled P now ?e = settled P now d" "unblocked now ?e = unblocked now d"
    "layer_user P ?e = layer_user P d" "fingerprint_user P ?e = fingerprint_user P d"
    by (simp_all add: settled_def the_quota_def account_quota_def unblocked_def layer_user_def
        fingerprint_user_def fun_eq_iff)
  with \<open>active_users ?e = active_users d\<close> show ?thesis
    by (simp add: refreshed_def policy_fingerprint_def)
qed

end
