(* ===== verification/Usage_Facts.thy ===== *)
theory Usage_Facts
  imports Usage Policy_Facts
begin

text \<open>
  The accounting of \<open>reportUsage\<close>: totals over any set of buckets grow by exactly the parts of the
  samples that fall into it, and the buckets stay within 63 bits.
\<close>

section \<open>Totals over buckets\<close>

text \<open>\<open>True\<close> is the upload side, \<open>False\<close> the download side.\<close>

definition amount :: "bool \<Rightarrow> usage_bucket_row \<Rightarrow> int" where
  "amount up b = (if up then ub_uploadBytes b else ub_downloadBytes b)"

type_synonym bucket_set = "grain \<times> int \<times> string \<times> string \<Rightarrow> bool"

definition total :: "bool \<Rightarrow> bucket_set \<Rightarrow> database \<Rightarrow> int" where
  "total up Q d = (\<Sum>b\<leftarrow>usageBuckets d. if Q (bucket_key b) then amount up b else 0)"

definition bucket_ok :: "usage_bucket_row \<Rightarrow> bool" where
  "bucket_ok b \<longleftrightarrow> 0 \<le> ub_uploadBytes b \<and> 0 \<le> ub_downloadBytes b \<and>
     ub_uploadBytes b + ub_downloadBytes b \<le> MAX_BYTES"

definition buckets_ok :: "database \<Rightarrow> bool" where
  "buckets_ok d \<longleftrightarrow> distinct (map bucket_key (usageBuckets d)) \<and> (\<forall>b \<in> set (usageBuckets d). bucket_ok b)"

lemma find_bucketD: "find_bucket k d = Some b \<Longrightarrow> b \<in> set (usageBuckets d) \<and> bucket_key b = k"
  unfolding find_bucket_def by (drule find_Some_mem) simp

lemma find_bucket_None: "find_bucket k d = None \<Longrightarrow> b \<in> set (usageBuckets d) \<Longrightarrow> bucket_key b \<noteq> k"
  by (auto simp: find_bucket_def find_None_all)

lemma bucket_key_update [simp]:
  "bucket_key (b\<lparr>ub_uploadBytes := u, ub_downloadBytes := v, ub_estimated := e, ub_incomplete := i\<rparr>) = bucket_key b"
  by (simp add: bucket_key_def)

lemma total_put_bucket:
  assumes "distinct (map bucket_key (usageBuckets d))"
  shows "total up Q (put_bucket row d) = total up Q d +
    (if Q (bucket_key row) then amount up row - or_default 0 (amount up) (find_bucket (bucket_key row) d) else 0)"
proof (cases "find_bucket (bucket_key row) d")
  case None
  then have "\<not> has_row (\<lambda>b. bucket_key b = bucket_key row) (usageBuckets d)"
    by (simp add: has_row_def find_bucket_def)
  with None show ?thesis by (simp add: total_def put_bucket_def upsert_def or_default_def)
next
  case (Some b)
  note b = find_bucketD [OF Some]
  then have "has_row (\<lambda>b. bucket_key b = bucket_key row) (usageBuckets d)" by (auto simp: has_row_iff)
  moreover have "amount up (b\<lparr>ub_uploadBytes := ub_uploadBytes row, ub_downloadBytes := ub_downloadBytes row,
      ub_estimated := ub_estimated row, ub_incomplete := ub_incomplete row\<rparr>) = amount up row"
    by (simp add: amount_def)
  ultimately show ?thesis
    using assms sum_update_where [where t = "usageBuckets d" and r = b and k = bucket_key
        and P = "\<lambda>b. bucket_key b = bucket_key row"
        and g = "\<lambda>b. if Q (bucket_key b) then amount up b else 0"
        and f = "\<lambda>b. b\<lparr>ub_uploadBytes := ub_uploadBytes row, ub_downloadBytes := ub_downloadBytes row,
          ub_estimated := ub_estimated row, ub_incomplete := ub_incomplete row\<rparr>"] b Some
    by (simp add: total_def put_bucket_def upsert_def or_default_def)
qed

lemma buckets_ok_put:
  assumes "buckets_ok d" and "bucket_ok row"
  shows "buckets_ok (put_bucket row d)"
proof -
  have "distinct (map bucket_key (usageBuckets (put_bucket row d)))"
    using bucket_tbl.upsert_keeps_key [of d row] assms(1) by (simp add: buckets_ok_def put_bucket_def)
  moreover have "bucket_ok b" if "b \<in> set (usageBuckets (put_bucket row d))" for b
    using that assms
    by (auto simp: buckets_ok_def put_bucket_def upsert_def set_update_where bucket_ok_def split: if_splits)
  ultimately show ?thesis by (simp add: buckets_ok_def)
qed

section \<open>What a sample adds\<close>

definition gain :: "bucket_set \<Rightarrow> grain \<Rightarrow> string \<Rightarrow> string \<Rightarrow> int \<Rightarrow> part list \<Rightarrow> int" where
  "gain Q g user machineId now ps =
     (\<Sum>p\<leftarrow>ps. if kept g now (fst p) \<and> Q (g, fst p, user, machineId) then snd p else 0)"

lemma add_bucket_ok:
  assumes "add_bucket m delta g several now ((s, u), (s', dn)) w = (Inr x, v)"
    and "buckets_ok (w_db w)" and "0 \<le> u" and "0 \<le> dn"
  shows "buckets_ok (w_db v) \<and> total up Q (w_db v) = total up Q (w_db w) +
    (if kept g now s \<and> Q (g, s, d_userId delta, m) then (if up then u else dn) else 0)"
proof (cases "kept g now s")
  case False
  with assms(1,2) show ?thesis by (simp add: add_bucket_def)
next
  case True
  let ?k = "(g, s, d_userId delta, m)" and ?old = "find_bucket (g, s, d_userId delta, m) (w_db w)"
  define row where "row = \<lparr>ub_grain = g, ub_bucketStart = s, ub_userId = d_userId delta, ub_machineId = m,
    ub_uploadBytes = or_default 0 ub_uploadBytes ?old + u, ub_downloadBytes = or_default 0 ub_downloadBytes ?old + dn,
    ub_estimated = (or_default False ub_estimated ?old \<or> d_estimated delta \<or> several),
    ub_incomplete = (or_default False ub_incomplete ?old \<or> d_incomplete delta)\<rparr>"
  from assms(1) True have v: "w_db v = put_bucket row (w_db w)"
    and max: "ub_uploadBytes row + ub_downloadBytes row \<le> MAX_BYTES"
    by (auto simp: add_bucket_def prog_ok Let_def row_def)
  have k: "bucket_key row = ?k" by (simp add: row_def bucket_key_def)
  have "0 \<le> or_default 0 ub_uploadBytes ?old \<and> 0 \<le> or_default 0 ub_downloadBytes ?old"
    using assms(2) find_bucketD [of ?k "w_db w"]
    by (auto simp: or_default_def buckets_ok_def bucket_ok_def split: option.split)
  with assms(3,4) max have "bucket_ok row" by (simp add: bucket_ok_def row_def)
  with assms(2) have "buckets_ok (w_db v)" by (simp add: v buckets_ok_put)
  moreover have "amount up row - or_default 0 (amount up) (find_bucket (bucket_key row) (w_db w)) =
      (if up then u else dn)"
    unfolding k by (cases ?old) (simp_all add: amount_def row_def or_default_def)
  moreover have "distinct (map bucket_key (usageBuckets (w_db w)))" using assms(2) by (simp add: buckets_ok_def)
  ultimately show ?thesis
    using total_put_bucket [of "w_db w" up Q row] True by (simp add: v k)
qed

lemma add_buckets_ok:
  "map fst us = map fst ds \<Longrightarrow> for_each (zip us ds) (add_bucket m delta g several now) w = (Inr x, v) \<Longrightarrow>
    buckets_ok (w_db w) \<Longrightarrow> \<forall>p \<in> set us \<union> set ds. 0 \<le> snd p \<Longrightarrow>
    buckets_ok (w_db v) \<and> total up Q (w_db v) = total up Q (w_db w) +
      gain Q g (d_userId delta) m now (if up then us else ds)"
proof (induction us arbitrary: ds w)
  case Nil
  then show ?case by (simp add: gain_def)
next
  case (Cons p us)
  then obtain q ds' where ds: "ds = q # ds'" and starts: "fst p = fst q" "map fst us = map fst ds'"
    by (cases ds) auto
  obtain s u dn where p: "p = (s, u)" and q: "q = (s, dn)" using starts(1) by (cases p; cases q) auto
  from Cons.prems(2) obtain y where y: "add_bucket m delta g several now ((s, u), (s, dn)) w = (Inr (), y)"
    and rest: "for_each (zip us ds') (add_bucket m delta g several now) y = (Inr x, v)"
    by (auto simp: ds p q prog_ok)
  have nonneg: "0 \<le> u" "0 \<le> dn" using Cons.prems(4) by (auto simp: ds p q)
  note one = add_bucket_ok [OF y Cons.prems(3) nonneg, of up Q]
  from Cons.IH [OF starts(2) rest] one Cons.prems(4)
  have "buckets_ok (w_db v)" "total up Q (w_db v) = total up Q (w_db y) +
      gain Q g (d_userId delta) m now (if up then us else ds')" by (auto simp: ds)
  with one show ?case by (cases up) (simp_all add: gain_def ds p q)
qed

definition delta_bytes :: "bool \<Rightarrow> usage_delta \<Rightarrow> int" where
  "delta_bytes up delta = (if up then d_uploadBytes delta else d_downloadBytes delta)"

definition sample_parts :: "bool \<Rightarrow> usage_delta \<Rightarrow> grain \<Rightarrow> part list" where
  "sample_parts up delta g = rollupMinutes
     (splitBytes (d_startUnixMs delta) (d_endUnixMs delta) (delta_bytes up delta) Minute) g"

definition delta_gain :: "bool \<Rightarrow> bucket_set \<Rightarrow> string \<Rightarrow> int \<Rightarrow> usage_delta \<Rightarrow> int" where
  "delta_gain up Q m now delta =
     (\<Sum>g\<leftarrow>[Minute, Day, Month]. gain Q g (d_userId delta) m now (sample_parts up delta g))"

lemma add_part_nonneg:
  "0 \<le> b \<Longrightarrow> \<forall>p \<in> set ps. 0 \<le> snd p \<Longrightarrow> \<forall>p \<in> set (add_part s b ps). 0 \<le> snd p"
  by (induction s b ps rule: add_part.induct) auto

lemma rollup_nonneg:
  assumes "\<forall>p \<in> set ms. 0 \<le> snd p"
  shows "\<forall>p \<in> set (rollupMinutes ms g). 0 \<le> snd p"
proof -
  have "\<forall>p \<in> set (foldl (\<lambda>bs (s, b). add_part (bucketStart s g) b bs) acc ms). 0 \<le> snd p"
    if "\<forall>p \<in> set acc. 0 \<le> snd p" for acc
    using that assms
  proof (induction ms arbitrary: acc)
    case (Cons m ms)
    obtain s b where m: "m = (s, b)" by (cases m)
    with Cons.prems add_part_nonneg [of b acc "bucketStart s g"] Cons.IH show ?case by simp
  qed simp
  from this [of "[]"] assms show ?thesis by (simp add: rollupMinutes_def)
qed

definition delta_valid :: "string list \<Rightarrow> usage_delta \<Rightarrow> int \<Rightarrow> bool" where
  "delta_valid known delta now \<longleftrightarrow> d_userId delta \<in> set known \<and> 0 \<le> d_startUnixMs delta \<and>
     d_startUnixMs delta < d_endUnixMs delta \<and> d_endUnixMs delta \<le> MAX_SAFE_INTEGER \<and>
     d_endUnixMs delta \<le> now + 5 * 60000 \<and> d_endUnixMs delta - d_startUnixMs delta \<le> DAY_MS \<and>
     0 \<le> d_uploadBytes delta \<and> 0 \<le> d_downloadBytes delta \<and>
     d_uploadBytes delta + d_downloadBytes delta \<le> MAX_BYTES"

lemma check_delta_ok [prog_ok]:
  "check_delta known delta now w = (Inr x, v) \<longleftrightarrow> delta_valid known delta now \<and> v = w"
  by (auto simp: check_delta_def delta_valid_def prog_ok)

lemma delta_in_era: "delta_valid known delta now \<Longrightarrow> in_era (d_startUnixMs delta)"
  by (simp add: delta_valid_def in_era_def SHANGHAI_OFFSET_def)

lemma sample_parts_nonneg:
  assumes "delta_valid known delta now"
  shows "\<forall>p \<in> set (sample_parts up delta g). 0 \<le> snd p"
  unfolding sample_parts_def
proof (rule rollup_nonneg, rule ballI, rule splitBytes_nonneg)
  show "d_startUnixMs delta < d_endUnixMs delta" "0 \<le> delta_bytes up delta" "in_era (d_startUnixMs delta)"
    using assms delta_in_era by (auto simp: delta_valid_def delta_bytes_def)
qed

lemma sample_parts_starts: "map fst (sample_parts True delta g) = map fst (sample_parts False delta g)"
  unfolding sample_parts_def by (rule rollupMinutes_starts) (rule splitBytes_starts)

lemma add_grain_ok:
  assumes "add_grain m delta now (splitBytes (d_startUnixMs delta) (d_endUnixMs delta) (d_uploadBytes delta) Minute)
      (splitBytes (d_startUnixMs delta) (d_endUnixMs delta) (d_downloadBytes delta) Minute) g n w = (Inr n', v)"
    and "buckets_ok (w_db w)" and "delta_valid known delta now"
  shows "buckets_ok (w_db v) \<and> total up Q (w_db v) = total up Q (w_db w) +
    gain Q g (d_userId delta) m now (sample_parts up delta g)"
proof -
  let ?u = "sample_parts True delta g" and ?d = "sample_parts False delta g"
  from assms(1) obtain x where "for_each (zip ?u ?d) (add_bucket m delta g (1 < length ?u) now) w = (Inr x, v)"
    by (auto simp: add_grain_def Let_def prog_ok sample_parts_def delta_bytes_def)
  from add_buckets_ok [OF sample_parts_starts this assms(2), of up Q] sample_parts_nonneg [OF assms(3)]
  show ?thesis by (cases up) auto
qed

lemma add_delta_ok:
  assumes "add_delta m known now delta n w = (Inr n', v)" and "buckets_ok (w_db w)"
  shows "buckets_ok (w_db v) \<and> delta_valid known delta now \<and>
    total up Q (w_db v) = total up Q (w_db w) + delta_gain up Q m now delta"
proof -
  let ?f = "add_grain m delta now (splitBytes (d_startUnixMs delta) (d_endUnixMs delta) (d_uploadBytes delta) Minute)
      (splitBytes (d_startUnixMs delta) (d_endUnixMs delta) (d_downloadBytes delta) Minute)"
  from assms(1) obtain n1 w1 n2 w2 n3 where valid: "delta_valid known delta now"
    and g: "?f Minute n w = (Inr n1, w1)" "?f Day n1 w1 = (Inr n2, w2)" "?f Month n2 w2 = (Inr n3, v)"
    by (auto simp: add_delta_def Let_def prog_ok)
  note one = add_grain_ok [OF g(1) assms(2) valid, of up Q]
  note two = add_grain_ok [OF g(2) conjunct1 [OF one] valid, of up Q]
  from add_grain_ok [OF g(3) conjunct1 [OF two] valid, of up Q] one two valid show ?thesis
    by (simp add: delta_gain_def)
qed

lemma add_deltas_ok:
  "fold_each ds n (add_delta m known now) w = (Inr n', v) \<Longrightarrow> buckets_ok (w_db w) \<Longrightarrow>
    buckets_ok (w_db v) \<and> (\<forall>delta \<in> set ds. delta_valid known delta now) \<and>
    total up Q (w_db v) = total up Q (w_db w) + (\<Sum>delta\<leftarrow>ds. delta_gain up Q m now delta)"
proof (induction ds arbitrary: n w)
  case Nil
  then show ?case by simp
next
  case (Cons delta ds)
  from Cons.prems(1) obtain k x where x: "add_delta m known now delta n w = (Inr k, x)"
    and rest: "fold_each ds k (add_delta m known now) x = (Inr n', v)" by (auto simp: prog_ok)
  note one = add_delta_ok [OF x Cons.prems(2), of up Q]
  from Cons.IH [OF rest conjunct1 [OF one]] one show ?case by simp
qed

text \<open>The samples touch nothing but the buckets.\<close>

lemma keeps_add_delta:
  assumes "\<And>d f. I d \<Longrightarrow> I (usageBuckets_update f d)"
  shows "keeps (on_db I) (add_delta m known now delta n)"
  unfolding add_delta_def add_grain_def add_bucket_def check_delta_def Let_def case_prod_unfold put_bucket_def
  by (intro keeps_rules assms)

end
