(* ===== verification/Usage_Props.thy ===== *)
theory Usage_Props
  imports Usage_Facts Machine_Props
begin

text \<open>
  What the ledger of traffic guarantees: a batch is counted exactly once, entirely and within 63
  bits, and the policy that is committed with it already knows it.
\<close>

section \<open>The outcomes of a report\<close>

lemma find_stream_put:
  "\<exists>s. find_stream k (put_stream k sq h now d) = Some s \<and> us_committedSequence s = sq \<and> us_lastPayloadHash s = h"
  "k' \<noteq> k \<Longrightarrow> find_stream k' (put_stream k sq h now d) = find_stream k' d"
proof -
  let ?r = "\<lparr>us_machineId = fst k, us_installationId = fst (snd k), us_streamId = snd (snd k),
      us_committedSequence = sq, us_lastPayloadHash = h, us_lastSeenAt = now\<rparr>"
  let ?f = "\<lambda>s. s\<lparr>us_committedSequence := sq, us_lastPayloadHash := h, us_lastSeenAt := now\<rparr>"
  have k: "stream_key ?r = k" by (simp add: stream_key_def)
  have f: "stream_key (?f q) = stream_key q" for q by (simp add: stream_key_def)
  show "\<exists>s. find_stream k (put_stream k sq h now d) = Some s \<and> us_committedSequence s = sq \<and> us_lastPayloadHash s = h"
    using stream_tbl.lookup_after_upsert [of ?r ?f d] f
    by (auto simp: find_stream_def put_stream_def k split: option.splits)
  show "find_stream k' (put_stream k sq h now d) = find_stream k' d" if "k' \<noteq> k"
    using stream_tbl.lookup_other_after_upsert [of k' ?r ?f d] that f
    by (simp add: find_stream_def put_stream_def k)
qed

lemma commit_usage_ok:
  assumes "commit_usage P m k request now w = (Inr a, v)"
  obtains batch n x l y where "p_batchFromBinary P (ru_payload request) = Some batch"
    and "fold_each (b_deltas batch) 0 (add_delta m (known_users m (w_db w)) now) w = (Inr n, x)"
    and "policy_refresh P now x = (Inr l, y)"
    and "w_db v = put_stream k (ru_sequence request) (ru_payloadSha256 request) now (w_db y)"
    and "a = \<lparr>rr_committedSequence = ru_sequence request, rr_expectedSequence = ru_sequence request + 1\<rparr>"
  using assms unfolding commit_usage_def prog_ok by (elim exE conjE) (rule that; simp)

definition usage_key :: "machine_row \<Rightarrow> report_usage_request \<Rightarrow> string \<times> string \<times> string" where
  "usage_key machine request =
     (m_id machine, i_installationId (the (ru_installation request)), ru_streamId request)"

definition committed :: "string \<times> string \<times> string \<Rightarrow> database \<Rightarrow> int" where
  "committed k d = or_default 0 us_committedSequence (find_stream k d)"

text \<open>What the checks before the transaction let pass.\<close>

definition usage_admitted :: "platform \<Rightarrow> machine_row \<Rightarrow> report_usage_request \<Rightarrow> bool" where
  "usage_admitted P machine request \<longleftrightarrow>
     (\<exists>w :: world. assertInstallation machine (ru_installation request) False w = (Inr (), w)) \<and>
     matches is_token_char 16 128 (ru_streamId request) \<and> 0 < ru_sequence request \<and>
     ru_sequence request \<le> MAX_BYTES \<and> length (ru_payload request) \<le> 1024 * 1024 \<and>
     is_sha256_hex (ru_payloadSha256 request) \<and> sha256 P (ru_payload request) = ru_payloadSha256 request"

lemma assertInstallation_same:
  assumes "assertInstallation m i b (w :: world) = (Inr (), w)"
  shows "assertInstallation m i b (w' :: world) = (Inr (), w')"
  using assms by (auto simp: assertInstallation_def prog_ok split: option.splits)

lemma reportUsage_admitted:
  assumes "usage_admitted P machine request"
  shows "reportUsage P machine request now w = transaction (
       bind (db_get (find_stream (usage_key machine request))) (\<lambda>stream.
       let committed = or_default 0 us_committedSequence stream in
       if ru_sequence request \<le> committed
       then
         bind (require (\<not> (ru_sequence request = committed \<and>
                           map_option us_lastPayloadHash stream \<noteq> Some (ru_payloadSha256 request)))
                 (ConnectError ''USAGE_PAYLOAD_CONFLICT'' CAlreadyExists)) (\<lambda>_.
         return \<lparr>rr_committedSequence = committed, rr_expectedSequence = committed + 1\<rparr>)
       else if ru_sequence request \<noteq> committed + 1
       then return \<lparr>rr_committedSequence = committed, rr_expectedSequence = committed + 1\<rparr>
       else commit_usage P (m_id machine) (usage_key machine request) request now)) w"
proof -
  from assms assertInstallation_same have "assertInstallation machine (ru_installation request) False w = (Inr (), w)"
    unfolding usage_admitted_def by blast
  with assms show ?thesis
    by (simp add: reportUsage_def steps_run usage_admitted_def not_le not_less Let_def
        usage_key_def [symmetric])
qed

lemma reportUsage_ok:
  assumes "reportUsage P machine request now w = (Inr a, v)"
  shows "usage_admitted P machine request \<and>
    (ru_sequence request \<le> committed (usage_key machine request) (w_db w) \<and> v = w \<or>
     ru_sequence request > committed (usage_key machine request) (w_db w) + 1 \<and> v = w \<or>
     ru_sequence request = committed (usage_key machine request) (w_db w) + 1 \<and>
     commit_usage P (m_id machine) (usage_key machine request) request now w = (Inr a, v))"
proof -
  from assms obtain u where u: "assertInstallation machine (ru_installation request) False w = (Inr (), u)"
    unfolding reportUsage_def bind_ok by auto
  with assertInstallation_world [of machine "ru_installation request" False w] have "u = w" by simp
  with u assms have adm: "usage_admitted P machine request"
    by (auto simp: usage_admitted_def reportUsage_def prog_ok)
  with assms show ?thesis
    by (auto simp: reportUsage_admitted transaction_ok bind_db_get committed_def Let_def prog_ok split: if_splits)
qed

section \<open>Exactly once\<close>

lemma committed_after:
  assumes "commit_usage P m k request now w = (Inr a, v)"
  shows "\<exists>s. find_stream k (w_db v) = Some s \<and> us_committedSequence s = ru_sequence request \<and>
    us_lastPayloadHash s = ru_payloadSha256 request"
proof -
  from assms show ?thesis
    by (rule commit_usage_ok) (use find_stream_put(1) [of k] in metis)
qed


section \<open>Conservation\<close>

lemma commit_usage_totals:
  assumes "commit_usage P m k request now w = (Inr a, v)" and "buckets_ok (w_db w)"
  shows "\<exists>batch. p_batchFromBinary P (ru_payload request) = Some batch \<and>
    (\<forall>delta \<in> set (b_deltas batch). delta_valid (known_users m (w_db w)) delta now) \<and> buckets_ok (w_db v) \<and>
    (\<forall>up Q. total up Q (w_db v) = total up Q (w_db w) + (\<Sum>delta\<leftarrow>b_deltas batch. delta_gain up Q m now delta))"
  using assms(1)
proof (rule commit_usage_ok)
  fix batch n x l y
  assume b: "p_batchFromBinary P (ru_payload request) = Some batch"
    and x: "fold_each (b_deltas batch) 0 (add_delta m (known_users m (w_db w)) now) w = (Inr n, x)"
    and y: "policy_refresh P now x = (Inr l, y)"
    and v: "w_db v = put_stream k (ru_sequence request) (ru_payloadSha256 request) now (w_db y)"
  have same: "usageBuckets (w_db v) = usageBuckets (w_db x)"
    using policy_refresh_ok [OF y] by (simp add: v put_stream_def)
  then have "buckets_ok (w_db v) = buckets_ok (w_db x)" "total up Q (w_db v) = total up Q (w_db x)" for up Q
    by (simp_all add: buckets_ok_def total_def)
  with add_deltas_ok [OF x assms(2)] b show ?thesis by auto
qed

text \<open>All of a sample lands in the days, and all of it in the months, of its account on that machine.\<close>

definition account_buckets :: "grain \<Rightarrow> string \<Rightarrow> string \<Rightarrow> bucket_set" where
  "account_buckets g user machineId = (\<lambda>(g', s, i, m). g' = g \<and> i = user \<and> m = machineId)"

lemma part_sum_sample:
  assumes "delta_valid known delta now"
  shows "part_sum (sample_parts up delta g) = delta_bytes up delta"
proof -
  have "part_sum (splitBytes (d_startUnixMs delta) (d_endUnixMs delta) (delta_bytes up delta) Minute) =
      delta_bytes up delta"
    using assms delta_in_era [OF assms] by (intro splitBytes_total) (auto simp: delta_valid_def delta_bytes_def)
  then show ?thesis by (simp add: sample_parts_def rollup_total)
qed

lemma gain_other: "(\<And>s. \<not> Q (g, s, user, m)) \<Longrightarrow> gain Q g user m now ps = 0"
  by (simp add: gain_def)

lemma gain_all:
  "(\<And>s. kept g now s \<and> Q (g, s, user, m)) \<Longrightarrow> gain Q g user m now ps = part_sum ps"
  by (simp add: gain_def part_sum_def)

lemma delta_gain_account:
  assumes "delta_valid known delta now" and "g = Day \<or> g = Month"
  shows "delta_gain up (account_buckets g user m') m now delta =
    (if d_userId delta = user \<and> m = m' then delta_bytes up delta else 0)"
proof (cases "d_userId delta = user \<and> m = m'")
  case True
  then have "gain (account_buckets g user m') g (d_userId delta) m now (sample_parts up delta g) = delta_bytes up delta"
    using assms(2) by (subst gain_all) (auto simp: kept_def account_buckets_def part_sum_sample [OF assms(1)])
  moreover have "gain (account_buckets g user m') g' (d_userId delta) m now ps = 0" if "g' \<noteq> g" for g' ps
    using that by (intro gain_other) (simp add: account_buckets_def)
  ultimately show ?thesis using True assms(2) by (auto simp: delta_gain_def)
next
  case False
  then have "gain (account_buckets g user m') g' (d_userId delta) m now ps = 0" for g' ps
    by (intro gain_other) (auto simp: account_buckets_def)
  then show ?thesis unfolding delta_gain_def if_not_P [OF False] by simp
qed

text \<open>
  C3. No byte is lost or invented. When a batch is committed, the day buckets, and likewise the month
  buckets, of an account on the reporting machine grow by exactly the bytes of the account's samples
  in the batch, those of every other machine by nothing, in both directions; and every bucket still
  holds non-negative counters whose sum fits in 63 bits.
\<close>

theorem usage_conserved:
  assumes "buckets_ok (w_db w)" and "reportUsage P machine request now w = (Inr a, v)"
    and "ru_sequence request = committed (usage_key machine request) (w_db w) + 1"
    and "g = Day \<or> g = Month"
  shows "buckets_ok (w_db v) \<and> (\<exists>batch. p_batchFromBinary P (ru_payload request) = Some batch \<and>
    (\<forall>up user m. total up (account_buckets g user m) (w_db v) = total up (account_buckets g user m) (w_db w) +
      (\<Sum>delta\<leftarrow>b_deltas batch. if d_userId delta = user \<and> m_id machine = m then delta_bytes up delta else 0)))"
proof -
  from reportUsage_ok [OF assms(2)] assms(3)
  have "commit_usage P (m_id machine) (usage_key machine request) request now w = (Inr a, v)" by auto
  from commit_usage_totals [OF this assms(1)] obtain batch where b: "p_batchFromBinary P (ru_payload request) = Some batch"
    and valid: "\<forall>delta \<in> set (b_deltas batch). delta_valid (known_users (m_id machine) (w_db w)) delta now"
    and ok: "buckets_ok (w_db v)"
    and total: "\<And>up Q. total up Q (w_db v) = total up Q (w_db w) +
      (\<Sum>delta\<leftarrow>b_deltas batch. delta_gain up Q (m_id machine) now delta)" by blast
  have "(\<Sum>delta\<leftarrow>b_deltas batch. delta_gain up (account_buckets g user m) (m_id machine) now delta) =
      (\<Sum>delta\<leftarrow>b_deltas batch. if d_userId delta = user \<and> m_id machine = m then delta_bytes up delta else 0)"
    for up user m
    by (intro arg_cong [where f = sum_list] map_cong refl)
      (rule delta_gain_account [OF bspec [OF valid] assms(4)])
  with b ok total show ?thesis by auto
qed

section \<open>A batch, counted\<close>

definition sample_hash :: string where
  "sample_hash = replicate 64 (CHR ''a'')"

definition sample_usage :: report_usage_request where
  "sample_usage = \<lparr>ru_installation = Some (sample_identity 1), ru_streamId = ''stream-000000001'',
     ru_sequence = 1, ru_payload = sample_hash, ru_payloadSha256 = sample_hash\<rparr>"

definition metered_world :: world where
  "metered_world = empty_world\<lparr>w_db := empty_db\<lparr>machines := [sample_bound],
     machineUserHistory := [\<lparr>mu_machineId = ''id1'', mu_userId = ''u1''\<rparr>]\<rparr>\<rparr>"

lemma sample_split:
  "rollupMinutes (splitBytes 0 90000 100 Minute) Minute = [(0, 67), (60000, 33)]"
  "rollupMinutes (splitBytes 0 90000 11 Minute) Minute = [(0, 8), (60000, 3)]"
  "rollupMinutes (splitBytes 0 90000 100 Minute) Day = [(- 28800000, 100)]"
  "rollupMinutes (splitBytes 0 90000 11 Minute) Day = [(- 28800000, 11)]"
  "rollupMinutes (splitBytes 0 90000 100 Minute) Month = [(- 28800000, 100)]"
  "rollupMinutes (splitBytes 0 90000 11 Minute) Month = [(- 28800000, 11)]"
  by code_simp+

lemma sample_usage_shape: "is_sha256_hex sample_hash" "matches is_token_char 16 128 ''stream-000000001''"
  by code_simp+

lemma policy_refresh_nobody:
  assumes "active_users (w_db w) = []" and "policyState (w_db w) = None"
  shows "policy_refresh P now w = (Inr \<lparr>al_policyRevision = 1, al_users = []\<rparr>,
    w\<lparr>w_db := put_policy 1 (fingerprint_of P []) (monthPeriod now) now (w_db w)\<rparr>)"
  using assms by (simp add: policy_refresh_def steps_run Let_def next_revision_def MAX_SAFE_INTEGER_def)

lemma sample_add_delta:
  "\<exists>n v. add_delta ''id1'' [''u1''] 1000 sample_delta 0 metered_world = (Inr n, v) \<and>
    active_users (w_db v) = [] \<and> policyState (w_db v) = None"
proof -
  have valid: "check_delta [''u1''] sample_delta 1000 w = (Inr (), w)" for w :: world
    by (simp add: check_delta_ok delta_valid_def sample_delta_def MAX_SAFE_INTEGER_def DAY_MS_def MAX_BYTES_def)
  show ?thesis
    by (simp add: add_delta_def valid sample_delta_def [THEN arg_cong, of d_userId]
        sample_delta_def [THEN arg_cong, of d_startUnixMs] sample_delta_def [THEN arg_cong, of d_endUnixMs]
        sample_delta_def [THEN arg_cong, of d_uploadBytes] sample_delta_def [THEN arg_cong, of d_downloadBytes]
        Let_def steps_run add_grain_def sample_split kept_def minute_floor_def DAY_MS_def
        add_bucket_def find_bucket_def or_default_def put_bucket_def upsert_def has_row_code MAX_BYTES_def
        bucket_key_def metered_world_def active_users_def empty_db_def)
qed

lemma sample_usage_simps:
  "ru_installation sample_usage = Some (sample_identity 1)" "ru_streamId sample_usage = ''stream-000000001''"
  "ru_sequence sample_usage = 1" "ru_payload sample_usage = sample_hash" "ru_payloadSha256 sample_usage = sample_hash"
  by (simp_all add: sample_usage_def)

lemma sample_usage_admitted: "usage_admitted sample sample_bound sample_usage"
proof -
  have "assertInstallation sample_bound (Some (sample_identity 1)) False w = (Inr (), w)" for w :: world
    by (simp add: assertInstallation_def sample_identity_def sample_installation_valid steps_run
        integerSequence_def MAX_SAFE_INTEGER_def truthy_def)
  then show ?thesis
    by (simp add: usage_admitted_def sample_usage_simps sample_usage_shape MAX_BYTES_def sample_runs) 
      (simp add: sample_hash_def)
qed

lemma sample_usage_fresh:
  "known_users ''id1'' (w_db metered_world) = [''u1'']" "find_stream k (w_db metered_world) = None"
  by (simp_all add: metered_world_def known_users_def find_stream_def empty_db_def)

lemma sample_usage_run:
  "\<exists>v. reportUsage sample sample_bound sample_usage 1000 metered_world =
    (Inr \<lparr>rr_committedSequence = 1, rr_expectedSequence = 2\<rparr>, v)"
proof -
  obtain n x where x: "add_delta ''id1'' [''u1''] 1000 sample_delta 0 metered_world = (Inr n, x)"
    "active_users (w_db x) = []" "policyState (w_db x) = None" using sample_add_delta by blast
  have batch: "p_batchFromBinary sample b = Some sample_batch" for b
    by (simp add: sample_def sample_read_batch_def)
  have "\<exists>v. commit_usage sample ''id1'' k sample_usage 1000 metered_world =
      (Inr \<lparr>rr_committedSequence = 1, rr_expectedSequence = 2\<rparr>, v)" for k
    using policy_refresh_nobody [OF x(2,3), of sample 1000]
    by (simp add: commit_usage_def steps_run batch sample_batch_def sample_usage_fresh x(1) sample_usage_simps)
  then obtain v where c: "commit_usage sample ''id1'' (usage_key sample_bound sample_usage) sample_usage 1000
      metered_world = (Inr \<lparr>rr_committedSequence = 1, rr_expectedSequence = 2\<rparr>, v)" by blast
  have "reportUsage sample sample_bound sample_usage 1000 metered_world =
      (Inr \<lparr>rr_committedSequence = 1, rr_expectedSequence = 2\<rparr>, v)"
    unfolding reportUsage_admitted [OF sample_usage_admitted]
    by (rule transaction_Inr)
      (simp add: steps_run Let_def sample_usage_fresh sample_usage_simps or_default_def c)
  then show ?thesis ..
qed

lemma sample_usage_next:
  "ru_sequence sample_usage = committed (usage_key sample_bound sample_usage) (w_db metered_world) + 1"
  by (simp add: sample_usage_simps committed_def sample_usage_fresh or_default_def)

lemma metered_world_ok: "buckets_ok (w_db metered_world)"
  by (simp add: buckets_ok_def metered_world_def empty_db_def)


lemma usage_conserved_witness:
  "\<exists>v. reportUsage sample sample_bound sample_usage 1000 metered_world =
      (Inr \<lparr>rr_committedSequence = 1, rr_expectedSequence = 2\<rparr>, v) \<and>
    total True (account_buckets Day ''u1'' ''id1'') (w_db v) = 100"
proof -
  from sample_usage_run obtain v where v: "reportUsage sample sample_bound sample_usage 1000 metered_world =
    (Inr \<lparr>rr_committedSequence = 1, rr_expectedSequence = 2\<rparr>, v)" by blast
  have "total True Q (w_db metered_world) = 0" for Q
    by (simp add: total_def metered_world_def empty_db_def)
  with v usage_conserved [OF metered_world_ok v sample_usage_next, of Day] show ?thesis
    by (auto simp: sample_def sample_read_batch_def sample_batch_def sample_delta_def delta_bytes_def)
qed

end
