(* ===== verification/Policy_Props.thy ===== *)
theory Policy_Props
  imports Usage_Props
begin

text \<open>
  What the authorization policy guarantees: a layer lists exactly the accounts that may connect, its
  revision moves exactly when that set does, and it is up to date with the ledger after every batch.
\<close>

section \<open>The layer\<close>

text \<open>The accounts that may connect: active, and not at their limit in the current month.\<close>

definition may_connect :: "int \<Rightarrow> database \<Rightarrow> user_row list" where
  "may_connect now d =
     filter (\<lambda>u. \<not> over_limit (u_monthlyLimitBytes u) (month_usage (u_id u) now d)) (active_users d)"

lemma find_user_distinct:
  "distinct (map u_id (users d)) \<Longrightarrow> u \<in> set (users d) \<Longrightarrow> find_user (u_id u) d = Some u"
proof -
  have "distinct (map u_id us) \<Longrightarrow> u \<in> set us \<Longrightarrow> find (\<lambda>x. u_id x = u_id u) us = Some u" for us
    by (induction us) auto
  then show "distinct (map u_id (users d)) \<Longrightarrow> u \<in> set (users d) \<Longrightarrow> find_user (u_id u) d = Some u"
    by (simp add: find_user_def)
qed

lemma unblocked_may_connect:
  assumes "distinct (map u_id (users d))"
  shows "unblocked now d = may_connect now d"
  unfolding unblocked_def may_connect_def
  by (rule filter_cong [OF refl])
    (simp add: the_quota_def active_users_def account_quota_def find_user_distinct [OF assms])


text \<open>Two accounts may connect, a third is at its limit, a fourth is disabled.\<close>

definition sample_user :: "string \<Rightarrow> user_status \<Rightarrow> int option \<Rightarrow> user_row" where
  "sample_user i st limit = \<lparr>u_id = i, u_username = i, u_role = User, u_status = st,
     u_monthlyLimitBytes = limit, u_version = 1, u_createdAt = 0\<rparr>"

definition quota_db :: database where
  "quota_db = empty_db\<lparr>
     users := [sample_user ''u2'' Active (Some 100), sample_user ''u1'' Active None,
       sample_user ''u3'' Active (Some 50), sample_user ''u4'' Disabled None],
     proxyCredentials := map (\<lambda>i. \<lparr>pc_userId = i, pc_secretsCiphertext = sample_sealed 0 ''s'', pc_generation = 1,
       pc_changedAt = 0\<rparr>) [''u1'', ''u2'', ''u3''],
     subscriptionTokens := map (\<lambda>i. \<lparr>st_userId = i, st_tokenHash = i, st_tokenCiphertext = [], st_generation = 1,
       st_changedAt = 0\<rparr>) [''u1'', ''u2'', ''u3''],
     usageBuckets := [\<lparr>ub_grain = Month, ub_bucketStart = monthStart 1000, ub_userId = ''u3'', ub_machineId = ''m'',
       ub_uploadBytes = 40, ub_downloadBytes = 20, ub_estimated = False, ub_incomplete = False\<rparr>]\<rparr>"

lemma quota_active:
  "active_users quota_db = [sample_user ''u1'' Active None, sample_user ''u2'' Active (Some 100), sample_user ''u3'' Active (Some 50)]"
proof -
  have "active_users quota_db = sort_key u_id [sample_user ''u2'' Active (Some 100), sample_user ''u1'' Active None,
      sample_user ''u3'' Active (Some 50)]"
    by (simp add: active_users_def quota_db_def sample_user_def)
  also have "\<dots> = [sample_user ''u1'' Active None, sample_user ''u2'' Active (Some 100), sample_user ''u3'' Active (Some 50)]"
    by code_simp
  finally show ?thesis .
qed

lemma sample_user_simps [simp]:
  "u_id (sample_user i s l) = i" "u_status (sample_user i s l) = s" "u_monthlyLimitBytes (sample_user i s l) = l"
  by (simp_all add: sample_user_def)

lemma quota_usage: "month_usage i 1000 quota_db = (if i = ''u3'' then 60 else 0)"
  by (simp add: month_usage_def quota_db_def)

lemma quota_may_connect:
  "may_connect 1000 quota_db = [sample_user ''u1'' Active None, sample_user ''u2'' Active (Some 100)]"
  by (simp add: may_connect_def quota_active quota_usage over_limit_def)

text \<open>When a refresh succeeds: every active account has its secrets and a usage within 63 bits.\<close>

definition ready :: "platform \<Rightarrow> int \<Rightarrow> database \<Rightarrow> user_row \<Rightarrow> bool" where
  "ready P now d u \<longleftrightarrow> find_credential (u_id u) d \<noteq> None \<and> find_subscription_token (u_id u) d \<noteq> None \<and>
     cred P (u_id u) d \<noteq> None \<and> find_user (u_id u) d \<noteq> None \<and> month_usage (u_id u) now d \<le> MAX_BYTES"

lemma authorize_ready:
  assumes "ready P now (w_db w) u"
  shows "\<exists>acc' v. authorize_user P now u acc w = (Inr acc', v) \<and> (\<forall>u'. ready P now (w_db w) u' \<longrightarrow> ready P now (w_db v) u') \<and>
    policyState (w_db v) = policyState (w_db w)"
proof -
  from assms obtain c m where *: "cred P (u_id u) (w_db w) = Some c" "find_user (u_id u) (w_db w) = Some m"
    "month_usage (u_id u) now (w_db w) \<le> MAX_BYTES" by (auto simp: ready_def)
  have ini: "initializeUserSecrets P (u_id u) w = (Inr (), w)"
    using assms by (intro initializeUserSecrets_again) (auto simp: ready_def)
  have read: "readProxyCredentials P (u_id u) w = (Inr c, w)" using * by (simp add: readProxyCredentials_ok)
  have quota: "userQuota (u_id u) now w = (Inr (account_quota m now (w_db w)), w)"
    using * by (simp add: userQuota_ok)
  let ?d = "put_quota (u_id u) (account_quota m now (w_db w)) (w_db w)"
  have "ready P now ?d u'" if "ready P now (w_db w) u'" for u'
    using that same_accounts_reads [OF put_quota_accounts(1)] by (simp add: ready_def)
  moreover have "policyState ?d = policyState (w_db w)" by (simp add: put_quota_def)
  ultimately show ?thesis unfolding authorize_user_def by (simp add: steps_run ini read quota)
qed

lemma authorize_all_ready:
  "(\<forall>u \<in> set us. ready P now (w_db w) u) \<Longrightarrow>
    \<exists>acc' v. fold_each us acc (authorize_user P now) w = (Inr acc', v) \<and> policyState (w_db v) = policyState (w_db w)"
proof (induction us arbitrary: acc w)
  case Nil
  then show ?case by (simp add: steps_run)
next
  case (Cons u us)
  then obtain a x where x: "authorize_user P now u acc w = (Inr a, x)"
    "\<forall>u'. ready P now (w_db w) u' \<longrightarrow> ready P now (w_db x) u'" "policyState (w_db x) = policyState (w_db w)"
    using authorize_ready [of P now w u acc] by auto
  with Cons.prems Cons.IH [of x a] show ?case by (simp add: steps_run)
qed

lemma refresh_ready:
  assumes "\<forall>u \<in> set (active_users (w_db w)). ready P now (w_db w) u" and "policyState (w_db w) = None"
  shows "\<exists>l v. policy_refresh P now w = (Inr l, v)"
proof -
  obtain a x where "fold_each (active_users (w_db w)) ([], []) (authorize_user P now) w = (Inr a, x)"
    "policyState (w_db x) = None" using authorize_all_ready [OF assms(1)] assms(2) by metis
  then show ?thesis
    by (cases a) (simp add: policy_refresh_def steps_run Let_def next_revision_def MAX_SAFE_INTEGER_def)
qed

definition quota_world :: world where
  "quota_world = empty_world\<lparr>w_db := quota_db\<rparr>"

lemma quota_refresh: "\<exists>l v. policy_refresh sample 1000 quota_world = (Inr l, v)"
proof (rule refresh_ready)
  have "cred sample i quota_db \<noteq> None" if "i \<in> {''u1'', ''u2'', ''u3''}" for i
    using that by (auto simp: cred_def find_credential_def quota_db_def sample_unseal) (simp_all add: sample_def sample_parse_def)
  then show "\<forall>u \<in> set (active_users (w_db quota_world)). ready sample 1000 (w_db quota_world) u"
    by (simp add: quota_world_def quota_active ready_def quota_usage MAX_BYTES_def)
      (simp add: find_credential_def find_subscription_token_def find_user_def quota_db_def)
  show "policyState (w_db quota_world) = None" by (simp add: quota_world_def quota_db_def empty_db_def)
qed


section \<open>Accounting and policy together\<close>

text \<open>
  C5. A batch is committed together with the policy it implies. When a batch has been counted, the
  stored policy is already the one of the new counters: refreshing it changes nothing, and an account
  that the batch brought to its limit is not in the layer any more.
\<close>

theorem usage_updates_policy:
  assumes "reportUsage P machine request now w = (Inr a, v)"
    and "ru_sequence request = committed (usage_key machine request) (w_db w) + 1"
    and "distinct (map u_id (users (w_db w)))"
  shows "\<exists>l. policy_refresh P now v = (Inr l, v) \<and>
    al_users l = map (layer_user P (w_db v)) (may_connect now (w_db v)) \<and>
    map_option ps_revision (policyState (w_db v)) = Some (al_policyRevision l) \<and>
    (\<forall>u \<in> set (users (w_db v)). \<forall>limit. u_monthlyLimitBytes u = Some limit \<longrightarrow>
       limit \<le> month_usage (u_id u) now (w_db v) \<longrightarrow> u \<notin> set (may_connect now (w_db v)))"
proof -
  from reportUsage_ok [OF assms(1)] assms(2)
  have "commit_usage P (m_id machine) (usage_key machine request) request now w = (Inr a, v)" by auto
  then obtain n x l y where x: "fold_each (b_deltas (the (p_batchFromBinary P (ru_payload request)))) 0
      (add_delta (m_id machine) (known_users (m_id machine) (w_db w)) now) w = (Inr n, x)"
    and y: "policy_refresh P now x = (Inr l, y)"
    and v: "w_db v = put_stream (usage_key machine request) (ru_sequence request) (ru_payloadSha256 request) now (w_db y)"
    by (rule commit_usage_ok) simp
  have "keeps (on_db (\<lambda>d. users d = users (w_db w)))
      (fold_each ds 0 (add_delta (m_id machine) (known_users (m_id machine) (w_db w)) now))" for ds
    by (intro keeps_fold_each keeps_add_delta) simp
  from keepsD [OF this _ x] have "users (w_db x) = users (w_db w)" by simp
  with assms(3) have ids: "distinct (map u_id (users (w_db x)))" by simp
  have ref: "refreshed P now l (w_db v)"
    using policy_refresh_refreshed [OF y] by (simp add: v put_stream_def refreshed_streams)
  have users: "users (w_db v) = users (w_db x)"
    using policy_refresh_ok [OF y] by (simp add: v put_stream_def)
  with ids have "unblocked now (w_db v) = may_connect now (w_db v)" by (intro unblocked_may_connect) simp
  with ref have "al_users l = map (layer_user P (w_db v)) (may_connect now (w_db v))"
    "map_option ps_revision (policyState (w_db v)) = Some (al_policyRevision l)"
    by (auto simp: refreshed_def)
  then show ?thesis using refreshed_again [OF ref] by (auto simp: may_connect_def over_limit_def)
qed

lemma usage_updates_policy_witness:
  "\<exists>v l. reportUsage sample sample_bound sample_usage 1000 metered_world =
      (Inr \<lparr>rr_committedSequence = 1, rr_expectedSequence = 2\<rparr>, v) \<and>
    policy_refresh sample 1000 v = (Inr l, v)"
proof -
  from sample_usage_run obtain v where v: "reportUsage sample sample_bound sample_usage 1000 metered_world =
    (Inr \<lparr>rr_committedSequence = 1, rr_expectedSequence = 2\<rparr>, v)" by blast
  have "distinct (map u_id (users (w_db metered_world)))" by (simp add: metered_world_def empty_db_def)
  from usage_updates_policy [OF v sample_usage_next this] v show ?thesis by blast
qed

section \<open>Secrets\<close>



end
