(* ===== verification/Metering_Props.thy ===== *)
theory Metering_Props
  imports Splitting
begin

text \<open>
  What the arithmetic of metering guarantees: the buckets of a grain partition time and refine each
  other, a sample is split over its buckets exactly and in proportion, and the minute, day and month
  views of one sample agree.
\<close>

section \<open>Buckets\<close>

text \<open>
  C24. The buckets of a grain partition time from 1970 on: a bucket holds its instants and no other,
  starts where the one before ends, and the start of the next bucket is a start itself; and buckets
  of different grains nest, since an instant and the minute it lies in have the same bucket.
\<close>

theorem buckets_partition:
  assumes "in_era t" and "in_era u"
  shows "bucketStart t g \<le> t \<and> t < nextBucket (bucketStart t g) g \<and>
    (bucketStart u g = bucketStart t g \<longleftrightarrow> bucketStart t g \<le> u \<and> u < nextBucket (bucketStart t g) g) \<and>
    bucketStart (nextBucket (bucketStart t g) g) g = nextBucket (bucketStart t g) g \<and>
    bucketStart (bucketStart t Minute) g = bucketStart t g"
proof -
  let ?m = "bucketStart t Minute" and ?s = "bucketStart t g"
  have "?s \<le> ?m"
  proof -
    have min: "bucketStart (60000 * k) Minute = 60000 * k" for k
    proof -
      have "(60000 * k + 28800000) div 60000 = k + 480" by simp
      then show ?thesis by (simp add: bucketStart_def bucket_size_def SHANGHAI_OFFSET_def)
    qed
    have "bucketStart ?s Minute = ?s"
    proof (cases g)
      case Minute
      then show ?thesis using bk.start_idem [OF assms(1), of Minute] by simp
    next
      case Day
      then have "?s = 60000 * (1440 * ((t + SHANGHAI_OFFSET) div 86400000) - 480)"
        by (simp add: bucketStart_def bucket_size_def SHANGHAI_OFFSET_def DAY_MS_def)
      then show ?thesis by (simp only: min)
    next
      case Month
      let ?d = "month_first (day_of (t + SHANGHAI_OFFSET))"
      have "monthStart t = ?d * MS_PER_DAY - SHANGHAI_OFFSET" by (rule monthStart_days [OF assms(1)])
      also have "\<dots> = 60000 * (1440 * ?d - 480)" by (simp add: MS_PER_DAY_def SHANGHAI_OFFSET_def)
      finally have "?s = 60000 * (1440 * ?d - 480)" using Month by simp
      then show ?thesis by (simp only: min)
    qed
    moreover have "in_era ?s" by (rule bk.start_ok [OF assms(1)])
    moreover have "?s \<le> t" by (rule bk.start_le [OF assms(1)])
    ultimately show ?thesis using bk.start_mono [of ?s t Minute] by simp
  qed
  moreover have "?m < nextBucket ?s g"
    using bk.start_le [OF assms(1), of Minute] bk.lt_next [OF assms(1), of g] by simp
  ultimately have "bucketStart ?m g = ?s" by (rule bk.start_within [OF assms(1)])
  then show ?thesis
    using bk.start_le [OF assms(1)] bk.lt_next [OF assms(1)] bk.same_bucket_iff [OF assms]
      bk.next_aligned [OF assms(1)] by simp
qed

lemma buckets_partition_witness:
  "bucketStart (bucketStart 90000 Minute) Day = bucketStart 90000 Day"
  using buckets_partition [of 90000 0 Day] by (simp add: in_era_def SHANGHAI_OFFSET_def)

section \<open>Splitting a sample\<close>

lemma overlaps_values:
  "p \<in> set (overlaps start end g c) \<Longrightarrow>
    snd p = min end (nextBucket (fst p) g) - max start (fst p)"
proof (induction start "end" g c rule: overlaps.induct)
  case (1 start "end" g c)
  from "1.prems" have c: "c < end" by (subst (asm) overlaps.simps) (simp split: if_splits)
  from "1.prems" c show ?case
    by (subst (asm) overlaps.simps) (auto dest: "1.IH" [OF c])
qed

lemma distribute_near:
  assumes "q \<in> set (distribute r ps)"
  shows "\<exists>p \<in> set ps. fst p = fst q \<and> snd p \<le> snd q \<and> snd q \<le> snd p + 1"
  using assms
proof (induction r ps rule: distribute.induct)
  case (2 r s b ps)
  then show ?case by (cases "r = 0") auto
qed simp

lemma near_share:
  fixes L :: int
  assumes "0 < L" and "b = n div L" and "b \<le> q" and "q \<le> b + 1"
  shows "\<bar>q * L - n\<bar> \<le> L"
proof -
  have n: "n = b * L + n mod L" using assms(2) by simp
  have m: "0 \<le> n mod L" "n mod L < L" using assms(1) by simp_all
  from assms(3,4) consider "q = b" | "q = b + 1" by linarith
  then show ?thesis using n m by cases (simp_all add: algebra_simps abs_le_iff)
qed

lemma overlapped:
  assumes "start < end" and "0 \<le> bytes" and "in_era start"
    and "q \<in> set (splitBytes start end bytes g)"
  shows "bucketStart (fst q) g = fst q \<and> fst q < end \<and> start < nextBucket (fst q) g \<and>
    \<bar>snd q * (end - start) - bytes * (min end (nextBucket (fst q) g) - max start (fst q))\<bar> \<le> end - start"
proof -
  let ?c = "bucketStart start g"
  have lt: "start < nextBucket ?c g" by (rule bk.lt_next [OF assms(3)])
  from assms(4) obtain p where p: "p \<in> set (split_loop start end bytes g ?c)" "fst p = fst q"
    and near: "snd p \<le> snd q" "snd q \<le> snd p + 1"
    unfolding splitBytes_def Let_def using distribute_near by blast
  from p(1) obtain s o' where o': "(s, o') \<in> set (overlaps start end g ?c)"
    and p': "p = (s, bytes * o' div (end - start))"
    by (auto simp: splitBytes_overlaps [OF assms(1-3)])
  have val: "o' = min end (nextBucket s g) - max start s" using overlaps_values [OF o'] by simp
  have "0 < o'" using overlaps_pos [OF assms(1) lt o'] by simp
  then have "start < nextBucket s g" unfolding val by linarith
  moreover have "bucketStart s g = s \<and> s < end"
    using split_loop_aligned [OF bk.start_ok [OF assms(3)] bk.start_idem [OF assms(3)] p(1)] p' by simp
  moreover have "\<bar>snd q * (end - start) - bytes * o'\<bar> \<le> end - start"
    using near p' assms(1) by (intro near_share [where b = "snd p"]) simp_all
  ultimately show ?thesis using p(2) p' by (simp add: val)
qed



section \<open>Rolling up\<close>

definition bytes_at :: "int \<Rightarrow> part list \<Rightarrow> int" where
  "bytes_at s ps = (\<Sum>p\<leftarrow>ps. if fst p = s then snd p else 0)"

lemma add_part_at:
  "bytes_at s (add_part k b ps) = bytes_at s ps + (if k = s then b else 0)"
  by (induction k b ps rule: add_part.induct) (auto simp: bytes_at_def)

lemma rollup_at:
  "bytes_at s (foldl (\<lambda>bs (k, b). add_part (f k) b bs) acc ms) =
    bytes_at s acc + (\<Sum>p\<leftarrow>ms. if f (fst p) = s then snd p else 0)"
  by (induction ms arbitrary: acc) (auto simp: add_part_at)

lemma rollup_distinct:
  "distinct (map fst acc) \<Longrightarrow> distinct (map fst (foldl (\<lambda>bs (k, b). add_part (f k) b bs) acc ms))"
  by (induction ms arbitrary: acc) (auto simp: add_part_distinct)

text \<open>
  C23. The views of one sample agree: rolled up to days or months, a bucket holds what the minutes
  inside it hold together, no bucket appears twice, and the total stays the same.
\<close>

theorem rollup_agrees:
  assumes "g = Minute \<longrightarrow> distinct (map fst minutes) \<and> (\<forall>p \<in> set minutes. bucketStart (fst p) Minute = fst p)"
  shows "bytes_at s (rollupMinutes minutes g) = (\<Sum>p\<leftarrow>minutes. if bucketStart (fst p) g = s then snd p else 0) \<and>
    distinct (map fst (rollupMinutes minutes g)) \<and> part_sum (rollupMinutes minutes g) = part_sum minutes"
proof (cases "g = Minute")
  case True
  with assms have "(\<Sum>p\<leftarrow>minutes. if fst p = s then snd p else 0) =
      (\<Sum>p\<leftarrow>minutes. if bucketStart (fst p) g = s then snd p else 0)"
    by (intro arg_cong [where f = sum_list] map_cong) auto
  with True assms show ?thesis by (simp add: rollupMinutes_def bytes_at_def)
next
  case False
  then show ?thesis
    using rollup_at [of s "\<lambda>k. bucketStart k g" "[]" minutes] rollup_distinct [of "[]" "\<lambda>k. bucketStart k g" minutes]
    by (simp add: rollup_total) (simp add: rollupMinutes_def bytes_at_def)
qed

lemma rollup_agrees_witness:
  "part_sum (rollupMinutes [(0, 67), (60000, 33)] Day) = 100"
  using rollup_agrees [of Day "[(0, 67), (60000, 33)]" 0] by (simp add: part_sum_def)

end
