(* ===== verification/Hub_Props.thy ===== *)
theory Hub_Props
  imports Task_Hub
begin

text \<open>
  What the hub of task streams guarantees in every state that its operations can reach: one live
  stream per machine, no lost wake-up, and a shutdown after which nothing is connected again.
\<close>

abbreviation hub_reachable :: "hub \<Rightarrow> bool" where
  "hub_reachable \<equiv> reach (\<lambda>h. h = new_hub) hub_step"

lemma hub_open_run:
  "\<not> hub_stopping h \<Longrightarrow> hub_open k h = (let c = hub_close k (ConnectError ''connection replaced'' CCanceled) h;
     r = length (hub_objects h) in
     (Inr r, c\<lparr>hub_objects := hub_objects c @ [\<lparr>sub_dirty = False, sub_notify = False, sub_aborted = None\<rparr>],
       hub_subs := hub_subs c @ [(k, r)]\<rparr>))"
  "hub_stopping h \<Longrightarrow> hub_open k h = (Inl (ConnectError ''panel shutting down'' CUnavailable), h)"
  by (simp_all add: hub_open_def assertRunning_def bind_def Let_def hub_close_eq split: option.split)

lemma hub_close_object:
  assumes "hub_inv h" and "hub_lookup k h = Some r"
  shows "r < length (hub_objects h) \<and> sub_aborted (hub_objects (hub_close k e h) ! r) = Some e"
proof -
  from hub_lookup_mem [OF assms(2)] assms(1)
  have r: "r < length (hub_objects h)" "sub_aborted (hub_objects h ! r) = None" by (auto simp: hub_inv_def)
  moreover have "hub_objects (hub_close k e h) ! r = sub_abort e (hub_objects h ! r)"
    using assms(2) r by (simp add: hub_close_eq hub_update_nth)
  ultimately show ?thesis by (simp add: sub_abort_def)
qed

section \<open>One stream per machine\<close>

text \<open>
  C25. A machine has at most one live stream. Opening one makes it the machine's own and leaves those
  of other machines alone; the stream it replaces is aborted with its reason, and when that stream
  releases itself later, the new one stays connected.
\<close>

theorem stream_replaced:
  assumes "hub_reachable h" and "hub_open k h = (Inr r, h')"
  shows "hub_lookup k h' = Some r \<and> hub_connected k h' \<and>
    (\<forall>k'. k' \<noteq> k \<longrightarrow> hub_lookup k' h' = hub_lookup k' h) \<and>
    (\<forall>old. hub_lookup k h = Some old \<longrightarrow>
       sub_aborted (hub_objects h' ! old) = Some (ConnectError ''connection replaced'' CCanceled) \<and>
       hub_lookup k (hub_release k old h') = Some r \<and> hub_connected k (hub_release k old h'))"
proof -
  let ?e = "ConnectError ''connection replaced'' CCanceled" and ?c = "hub_close k (ConnectError ''connection replaced'' CCanceled) h"
  have inv: "hub_inv h" using assms(1) by (rule hub.reach_inv)
  from assms(2) have run: "\<not> hub_stopping h" using hub_open_run(2) [of h k] by fastforce
  have len: "length (hub_objects ?c) = length (hub_objects h)" by (simp add: hub_close_eq split: option.split)
  from assms(2) have r: "r = length (hub_objects h)"
    and h': "h' = ?c\<lparr>hub_objects := hub_objects ?c @ [\<lparr>sub_dirty = False, sub_notify = False, sub_aborted = None\<rparr>],
       hub_subs := hub_subs ?c @ [(k, r)]\<rparr>"
    by (auto simp: hub_open_run(1) [OF run] Let_def)
  have inv': "hub_inv h'" using hub_inv_open [OF inv, of k] by (simp add: assms(2))
  have look: "hub_lookup k h' = Some r" using inv' by (simp add: hub_lookup_iff) (simp add: h')
  have "hub_lookup k' h' = hub_lookup k' h" if "k' \<noteq> k" for k'
  proof -
    have "map_of (filter (\<lambda>(k', _). k' \<noteq> k) xs) k' = map_of xs k'" for xs :: "(string \<times> nat) list"
      using that by (induction xs) auto
    with that show ?thesis by (simp add: hub_lookup_def h' hub_close_eq hub_delete_def map_add_def split: option.splits)
  qed
  moreover {
    fix old assume old: "hub_lookup k h = Some old"
    from hub_close_object [OF inv old] have lt: "old < length (hub_objects h)"
      and ab: "sub_aborted (hub_objects ?c ! old) = Some ?e" by auto
    then have "sub_aborted (hub_objects h' ! old) = Some ?e" by (simp add: h' nth_append len)
    moreover have subs: "hub_lookup k (hub_release k old h') = Some r"
      using look lt r by (simp add: hub_release_def hub_lookup_def)
    moreover have "owns_sub k old h'"
      using lt r hub_refs_distinct [OF inv hub_lookup_mem [OF old]] by (auto simp: owns_sub_def h' hub_close_subs)
    then have "hub_connected k (hub_release k old h')"
      using hub_inv_release [OF inv'] hub_lookup_mem [OF subs] by (force simp: connected_iff)
    ultimately have "sub_aborted (hub_objects h' ! old) = Some ?e \<and>
      hub_lookup k (hub_release k old h') = Some r \<and> hub_connected k (hub_release k old h')" by blast }
  moreover have "hub_connected k h'" using hub_lookup_mem [OF look] by (force simp: connected_iff [OF inv'])
  ultimately show ?thesis using look by blast
qed

definition one_stream :: hub where
  "one_stream = snd (hub_open ''m'' new_hub)"

lemma one_stream_reach: "hub_reachable one_stream"
  unfolding one_stream_def by (rule reach_step, rule reach_init, rule refl, rule step_open)

lemma stream_replaced_witness:
  "hub_connected ''m'' (hub_release ''m'' 0 (snd (hub_open ''m'' one_stream)))"
proof -
  have "hub_lookup ''m'' one_stream = Some 0" "hub_open ''m'' one_stream = (Inr 1, snd (hub_open ''m'' one_stream))"
    by code_simp+
  with stream_replaced [OF one_stream_reach this(2)] show ?thesis by blast
qed

section \<open>No lost wake-up\<close>

text \<open>
  C26. No wake-up is lost and none reaches the wrong stream. Waking a machine that has a stream ends
  the wait that its stream is parked in, or makes its next wait return at once; the other streams,
  and the table, stay as they are.
\<close>

theorem wake_not_lost:
  assumes "hub_reachable h" and "hub_lookup k h = Some r"
  shows "\<not> sub_notify (hub_objects (hub_wake k h) ! r) \<and>
    (sub_notify (hub_objects h ! r) \<or> fst (sub_wait None (hub_objects (hub_wake k h) ! r)) = Returned) \<and>
    (\<forall>r'. r' \<noteq> r \<longrightarrow> hub_objects (hub_wake k h) ! r' = hub_objects h ! r') \<and>
    hub_subs (hub_wake k h) = hub_subs h"
proof -
  have inv: "hub_inv h" using assms(1) by (rule hub.reach_inv)
  with hub_lookup_mem [OF assms(2)] have r: "r < length (hub_objects h)" "sub_aborted (hub_objects h ! r) = None"
    by (auto simp: hub_inv_def)
  have "hub_objects (hub_wake k h) ! r = sub_wake (hub_objects h ! r)"
    using assms(2) r by (simp add: hub_wake_def hub_update_nth)
  moreover have "hub_objects (hub_wake k h) ! r' = hub_objects h ! r'" if "r' \<noteq> r" for r'
    using assms(2) that by (simp add: hub_wake_def hub_update_def)
  moreover have "hub_subs (hub_wake k h) = hub_subs h" by (simp add: hub_wake_def assms(2))
  ultimately show ?thesis using r wake_then_wait [of "hub_objects h ! r"]
    by (auto simp: sub_wake_def Let_def)
qed

lemma wake_not_lost_witness:
  "fst (sub_wait None (hub_objects (hub_wake ''m'' one_stream) ! 0)) = Returned"
proof -
  have "hub_lookup ''m'' one_stream = Some 0" "\<not> sub_notify (hub_objects one_stream ! 0)" by code_simp+
  with wake_not_lost [OF one_stream_reach this(1)] show ?thesis by blast
qed

section \<open>Shutdown\<close>

lemma stopped_steps:
  assumes "hub_step\<^sup>*\<^sup>* h h'" and "hub_inv h" and "hub_stopping h"
  shows "hub_inv h' \<and> hub_stopping h'"
  using assms(1)
proof (induction rule: rtranclp_induct)
  case base
  with assms show ?case by simp
next
  case (step x y)
  then have "hub_inv y" using hub_step_inv by blast
  moreover have "hub_stopping y" using step.hyps(2) step.IH
    by cases (auto simp: hub_open_run hub_wake_def hub_release_def hub_shutdown_def close_all_stopping split: option.split)
  ultimately show ?case by simp
qed

text \<open>Closing other machines leaves an aborted subscription aborted for its reason.\<close>

lemma close_keeps_aborted:
  assumes "sub_aborted (hub_objects h ! r) = Some e"
  shows "sub_aborted (hub_objects (hub_close k e' h) ! r) = Some e"
  using assms by (auto simp: hub_close_eq hub_update_def nth_list_update sub_abort_def split: option.split)

lemma close_all_aborts:
  assumes "hub_inv h" and "hub_lookup k h = Some r" and "k \<in> set ks"
  shows "sub_aborted (hub_objects (foldl (\<lambda>h k. hub_close k e h) h ks) ! r) = Some e"
  using assms
proof (induction ks arbitrary: h)
  case (Cons k' ks)
  have keep: "sub_aborted (hub_objects (foldl (\<lambda>h k. hub_close k e h) x ks) ! r) = Some e"
    if "sub_aborted (hub_objects x ! r) = Some e" for x
    using that by (induction ks arbitrary: x) (simp_all add: close_keeps_aborted)
  show ?case
  proof (cases "k' = k")
    case True
    with keep hub_close_object [OF Cons.prems(1,2), of e] show ?thesis by simp
  next
    case False
    then have "(k, r) \<in> set (hub_subs (hub_close k' e h))"
      using hub_lookup_mem [OF Cons.prems(2)] by (simp add: hub_close_subs)
    with False Cons show ?thesis by (simp add: hub_inv_close hub_lookup_iff)
  qed
qed simp

text \<open>
  C27. A shutdown is final: it aborts the stream of every machine with its reason and empties the
  table, and whatever happens to the hub afterwards, no machine is connected and opening is refused.
\<close>

theorem shutdown_final:
  assumes "hub_reachable h"
  shows "hub_size (hub_shutdown h) = 0 \<and>
    (\<forall>k r. hub_lookup k h = Some r \<longrightarrow>
       sub_aborted (hub_objects (hub_shutdown h) ! r) = Some (ConnectError ''panel shutting down'' CUnavailable)) \<and>
    (\<forall>later k. hub_step\<^sup>*\<^sup>* (hub_shutdown h) later \<longrightarrow> \<not> hub_connected k later \<and>
       hub_open k later = (Inl (ConnectError ''panel shutting down'' CUnavailable), later))"
proof -
  have inv: "hub_inv h" using assms by (rule hub.reach_inv)
  have "\<not> hub_connected k later \<and>
      hub_open k later = (Inl (ConnectError ''panel shutting down'' CUnavailable), later)"
    if "hub_step\<^sup>*\<^sup>* (hub_shutdown h) later" for later k
  proof -
    from stopped_steps [OF that hub_inv_shutdown [OF inv] hub_shutdown_empty(2) [OF inv]]
    have later: "hub_inv later" "hub_stopping later" by simp_all
    then have "hub_subs later = []" by (simp add: hub_inv_def)
    with later show ?thesis by (simp add: hub_open_run(2) hub_connected_def hub_lookup_def)
  qed
  moreover have "sub_aborted (hub_objects (hub_shutdown h) ! r) = Some (ConnectError ''panel shutting down'' CUnavailable)"
    if "hub_lookup k h = Some r" for k r
    using close_all_aborts [OF inv that, of "map fst (hub_subs h)"] hub_lookup_mem [OF that]
    by (force simp: hub_shutdown_def close_all_running)
  moreover have "hub_size (hub_shutdown h) = 0"
    using hub_shutdown_empty [OF inv] by (simp add: hub_size_def)
  ultimately show ?thesis by blast
qed

lemma shutdown_final_witness: "hub_size (hub_shutdown one_stream) = 0"
  using shutdown_final [OF one_stream_reach] by blast

end
