(* ===== verification/Validation.thy ===== *)
theory Validation
  imports Text
begin

text \<open>
  The checks that the inputs of the panel share: trimming and lower-casing as ECMAScript defines them
  on Latin-1, bounded and patterned texts, and pages of distinct values. The inputs are typed by the
  generated messages, so that only these checks of the zod schemas can fail; a failed check is a
  \<open>ZodError\<close>.
\<close>

section \<open>Text\<close>

text \<open>The white space and line terminators that \<open>\s\<close> and \<open>trim\<close> take.\<close>

definition is_space :: "char \<Rightarrow> bool" where
  "is_space c \<longleftrightarrow> of_char c \<in> {9, 10, 11, 12, 13, 32, 160 :: nat}"

definition trim :: "string \<Rightarrow> string" where
  "trim s = rev (dropWhile is_space (rev (dropWhile is_space s)))"

definition lower_char :: "char \<Rightarrow> char" where
  "lower_char c =
     (let n = of_char c :: nat
      in if 65 \<le> n \<and> n \<le> 90 \<or> 192 \<le> n \<and> n \<le> 222 \<and> n \<noteq> 215 then char_of (n + 32) else c)"

definition toLowerCase :: "string \<Rightarrow> string" where
  "toLowerCase s = map lower_char s"

text \<open>\<open>z.string().trim().min(lo).max(hi)\<close>\<close>

definition text_input :: "nat \<Rightarrow> nat \<Rightarrow> string \<Rightarrow> ('s, string) prog" where
  "text_input lo hi s =
     (let t = trim s in
      bind (require (lo \<le> length t \<and> length t \<le> hi) ZodError) (\<lambda>_. return t))"

text \<open>\<open>z.string().min(lo).max(hi)\<close>\<close>

definition length_input :: "nat \<Rightarrow> nat \<Rightarrow> string \<Rightarrow> ('s, unit) prog" where
  "length_input lo hi s = require (lo \<le> length s \<and> length s \<le> hi) ZodError"

text \<open>\<open>[...new Set(values)]\<close>: the first occurrence of each value, in order.\<close>

definition unique :: "'a list \<Rightarrow> 'a list" where
  "unique xs = rev (remdups (rev xs))"

lemma set_unique [simp]: "set (unique xs) = set xs"
  by (simp add: unique_def)

lemma distinct_unique [simp]: "distinct (unique xs)"
  by (simp add: unique_def)

lemma length_unique_le: "length (unique xs) \<le> length xs"
  by (simp add: unique_def length_remdups_leq [of "rev xs", simplified])

lemma trim_idem [simp]: "trim (trim s) = trim s"
proof -
  have drop: "dropWhile P (dropWhile P xs) = dropWhile P xs" for P and xs :: string
    by (induction xs) auto
  let ?a = "dropWhile is_space s"
  let ?b = "dropWhile is_space (rev ?a)"
  have "dropWhile is_space (rev ?b) = rev ?b"
  proof (cases "rev ?b")
    case Nil
    show ?thesis unfolding Nil by simp
  next
    case (Cons c cs)
    obtain pre where "rev ?a = pre @ ?b" by (metis takeWhile_dropWhile_id)
    then have "?a = rev ?b @ rev pre" by (metis rev_append rev_rev_ident)
    with Cons have "\<not> is_space c" by (metis append_Cons hd_dropWhile list.distinct(1) list.sel(1))
    with Cons show ?thesis by simp
  qed
  then show ?thesis by (simp add: trim_def drop)
qed

lemma text_input_ok [prog_ok]:
  "text_input lo hi s w = (Inr t, v) \<longleftrightarrow> t = trim s \<and> lo \<le> length t \<and> length t \<le> hi \<and> v = w"
  by (auto simp: text_input_def Let_def prog_ok)

lemma text_input_fail [prog_fail]:
  "text_input lo hi s w = (Inl e, v) \<longleftrightarrow> \<not> (lo \<le> length (trim s) \<and> length (trim s) \<le> hi) \<and> e = ZodError \<and> v = w"
  by (auto simp: text_input_def Let_def prog_ok prog_fail bind_fail)

section \<open>Names\<close>

text \<open>\<open>/^[a-z0-9][a-z0-9_.-]{2,31}$/\<close> after trimming and lower-casing.\<close>

definition is_name_char :: "char \<Rightarrow> bool" where
  "is_name_char c \<longleftrightarrow> is_lower c \<or> is_digit c \<or> c \<in> set ''_.-''"

definition is_username :: "string \<Rightarrow> bool" where
  "is_username s \<longleftrightarrow> matches is_name_char 3 32 s \<and> (is_lower (hd s) \<or> is_digit (hd s))"

definition usernameInput :: "string \<Rightarrow> ('s, string) prog" where
  "usernameInput s =
     (let t = toLowerCase (trim s) in bind (require (is_username t) ZodError) (\<lambda>_. return t))"

definition passwordInput :: "string \<Rightarrow> ('s, unit) prog" where
  "passwordInput s = require (s \<noteq> []) ZodError"

lemma usernameInput_ok [prog_ok]:
  "usernameInput s w = (Inr t, v) \<longleftrightarrow> t = toLowerCase (trim s) \<and> is_username t \<and> v = w"
  by (auto simp: usernameInput_def Let_def prog_ok)

text \<open>\<open>/^[a-zA-Z0-9.:[\]-]+$/\<close> and \<open>/^[a-zA-Z0-9.:-]+$/\<close>\<close>

definition is_address_char :: "char \<Rightarrow> bool" where
  "is_address_char c \<longleftrightarrow> is_alnum c \<or> c \<in> set ''.:[]-''"

definition is_host_char :: "char \<Rightarrow> bool" where
  "is_host_char c \<longleftrightarrow> is_alnum c \<or> c \<in> set ''.:-''"

text \<open>\<open>/^[^\s@]+@[^\s@]+\.[^\s@]+$/\<close>\<close>

definition is_email :: "string \<Rightarrow> bool" where
  "is_email s \<longleftrightarrow> list_all (\<lambda>c. \<not> is_space c) s \<and>
     (case split_on (CHR ''@'') s of
        [local, domain] \<Rightarrow> local \<noteq> [] \<and> CHR ''.'' \<in> set (butlast (tl domain))
      | _ \<Rightarrow> False)"

text \<open>\<open>/^\/(?!.*(?:\x00|\r|\n))/\<close>\<close>

definition is_absolute_path :: "string \<Rightarrow> bool" where
  "is_absolute_path s \<longleftrightarrow> s \<noteq> [] \<and> hd s = CHR ''/'' \<and>
     list_all (\<lambda>c. of_char c \<notin> {0, 10, 13 :: nat}) s"

section \<open>Quotas\<close>

text \<open>\<open>BigInt(text)\<close>: \<open>StringToBigInt\<close> of ECMAScript; \<open>None\<close> is its \<open>SyntaxError\<close>.\<close>

definition digit_value :: "char \<Rightarrow> nat option" where
  "digit_value c =
     (let n = of_char c :: nat
      in if 48 \<le> n \<and> n \<le> 57 then Some (n - 48) else if 97 \<le> n \<and> n \<le> 122 then Some (n - 87)
         else if 65 \<le> n \<and> n \<le> 90 then Some (n - 55) else None)"

definition radix_value :: "nat \<Rightarrow> string \<Rightarrow> int option" where
  "radix_value r s =
     (if s = [] \<or> list_ex (\<lambda>c. case digit_value c of None \<Rightarrow> True | Some d \<Rightarrow> r \<le> d) s then None
      else Some (foldl (\<lambda>v c. int r * v + int (the (digit_value c))) 0 s))"

definition BigInt_text :: "string \<Rightarrow> int option" where
  "BigInt_text s =
     (let t = trim s; p = map lower_char (take 2 t)
      in if t = [] then Some 0
         else if p = ''0x'' then radix_value 16 (drop 2 t)
         else if p = ''0o'' then radix_value 8 (drop 2 t)
         else if p = ''0b'' then radix_value 2 (drop 2 t)
         else if hd t = CHR ''-'' then map_option uminus (radix_value 10 (tl t))
         else if hd t = CHR ''+'' then radix_value 10 (tl t)
         else radix_value 10 t)"

text \<open>
  \<open>z.string().regex(/^(0|[1-9]\d*)$/).refine((value) => BigInt(value) <= 9223372036854775807n)\<close>.
  The checks of a zod schema run one after the other even when an earlier one has failed, so the
  refinement also sees texts that are no numerals, and the \<open>SyntaxError\<close> of \<open>BigInt\<close> goes through.
\<close>

definition is_numeral :: "string \<Rightarrow> bool" where
  "is_numeral s \<longleftrightarrow> s = ''0'' \<or> s \<noteq> [] \<and> list_all is_digit s \<and> hd s \<noteq> CHR ''0''"

definition quotaInput :: "string \<Rightarrow> ('s, int) prog" where
  "quotaInput s =
     bind (the_or (BigInt_text s) JsError) (\<lambda>v.
     bind (require (is_numeral s \<and> v \<le> 9223372036854775807) ZodError) (\<lambda>_. return v))"

lemma quotaInput_ok [prog_ok]:
  "quotaInput s w = (Inr q, v) \<longleftrightarrow> BigInt_text s = Some q \<and> is_numeral s \<and> q \<le> 9223372036854775807 \<and> v = w"
  by (auto simp: quotaInput_def prog_ok)

lemma keeps_inputs [keeps_rules]:
  "keeps I (usernameInput s)" "keeps I (passwordInput s)" "keeps I (text_input lo hi s)"
  "keeps I (length_input lo hi s)" "keeps I (quotaInput s)"
  unfolding usernameInput_def passwordInput_def text_input_def length_input_def quotaInput_def Let_def
  by (intro keeps_rules)+

lemma passwordInput_ok [prog_ok]: "passwordInput s w = (Inr u, v) \<longleftrightarrow> s \<noteq> [] \<and> v = w"
  by (auto simp: passwordInput_def prog_ok)

lemma length_input_ok [prog_ok]: "length_input lo hi s w = (Inr u, v) \<longleftrightarrow> lo \<le> length s \<and> length s \<le> hi \<and> v = w"
  by (auto simp: length_input_def prog_ok)

end
