(* ===== verification/Identity.thy ===== *)
theory Identity
  imports Validation Policy
begin

text \<open>
  \<open>server/identity/service.ts\<close>, \<open>server/identity/setup.ts\<close> and \<open>server/users/service.ts\<close>: who a request
  comes from, sessions, passwords, API keys, the first administrator and the accounts. A call that
  awaits something between its checks and its commit is two programs: what it does before the last
  await, which returns what it remembers, and the commit, which runs in whatever world it then finds.
\<close>

section \<open>Principals\<close>

text \<open>The headers of a request that the code reads; \<open>None\<close> is \<open>null\<close>.\<close>

record headers =
  h_authorization :: "string option"
  h_cookie :: "string option"
  h_origin :: "string option"

datatype authentication = BySession | ByApiKey

text \<open>
  An account as the code passes it around. Where \<open>updateUser\<close> builds one, an entry can be \<open>undefined\<close>;
  \<open>null\<close> and \<open>undefined\<close> limits are both \<open>None\<close>.
\<close>

record user_dto =
  du_id :: string
  du_username :: string
  du_role :: "role option"
  du_status :: "user_status option"
  du_monthlyLimitBytes :: "int option"
  du_version :: int
  du_createdAt :: int

definition userDto :: "user_row \<Rightarrow> user_dto" where
  "userDto u = \<lparr>du_id = u_id u, du_username = u_username u, du_role = Some (u_role u), du_status = Some (u_status u),
     du_monthlyLimitBytes = u_monthlyLimitBytes u, du_version = u_version u, du_createdAt = u_createdAt u\<rparr>"

record principal =
  pr_user :: user_dto
  pr_authentication :: authentication
  pr_sessionHash :: "string option"
  pr_recentAuthentication :: bool

definition SESSION_COOKIE :: string where "SESSION_COOKIE = ''bifurcation_session''"

definition SESSION_TTL :: int where "SESSION_TTL = 30 * 24 * 60 * 60 * 1000"

definition RECENT_TTL :: int where "RECENT_TTL = 10 * 60 * 1000"

text \<open>\<open>/^Bearer ([A-Za-z0-9_-]{10,200})$/.exec(authorization)\<close>, the captured token.\<close>

definition api_bearer :: "string \<Rightarrow> string option" where
  "api_bearer h =
     (if startsWith h ''Bearer '' \<and> matches is_token_char 10 200 (drop 7 h) then Some (drop 7 h) else None)"

text \<open>The value of the session cookie: the first part of the header with its name.\<close>

definition session_token :: "string option \<Rightarrow> string option" where
  "session_token cookie =
     (case cookie of None \<Rightarrow> None
      | Some c \<Rightarrow> map_option (drop (length SESSION_COOKIE + 1))
          (find (\<lambda>part. startsWith part (SESSION_COOKIE @ ''='')) (map trim (split_on (CHR '';'') c))))"

definition find_session :: "string \<Rightarrow> database \<Rightarrow> session_row option" where
  "find_session hash d = find (\<lambda>s. ss_tokenHash s = hash) (sessions d)"

definition find_password :: "string \<Rightarrow> database \<Rightarrow> password_row option" where
  "find_password i d = find (\<lambda>p. pw_userId p = i) (passwords d)"

text \<open>The account of a key or session, when there is one and it is active.\<close>

definition active_account :: "string option \<Rightarrow> database \<Rightarrow> user_row option" where
  "active_account i d =
     (case Option.bind i (\<lambda>j. find_user j d) of
        Some u \<Rightarrow> if u_status u = Active then Some u else None
      | None \<Rightarrow> None)"

definition unauthenticated :: failure where
  "unauthenticated = AppError ''UNAUTHENTICATED'' 401"

definition authenticate_key :: "platform \<Rightarrow> string \<Rightarrow> principal app" where
  "authenticate_key P authorization =
     bind (the_or (api_bearer authorization) unauthenticated) (\<lambda>token.
     bind (db_get (\<lambda>d. find (\<lambda>k. k_tokenHash k = tokenHash P token \<and> k_revokedAt k = None) (apiKeys d))) (\<lambda>found.
     bind (db_get (active_account (map_option k_userId found))) (\<lambda>account.
     bind (the_or found unauthenticated) (\<lambda>key.
     bind (the_or account unauthenticated) (\<lambda>user.
     bind Date_now (\<lambda>now.
     bind (db_run (apiKeys_update (update_where (\<lambda>k. k_id k = k_id key) (\<lambda>k. k\<lparr>k_lastUsedAt := Some now\<rparr>)))) (\<lambda>_.
     return \<lparr>pr_user = userDto user, pr_authentication = ByApiKey, pr_sessionHash = None,
       pr_recentAuthentication = False\<rparr>)))))))"

definition authenticate_session :: "platform \<Rightarrow> string option \<Rightarrow> principal app" where
  "authenticate_session P cookie =
     bind (require (truthy (session_token cookie)) unauthenticated) (\<lambda>_.
     let sessionHash = tokenHash P (the (session_token cookie)) in
     bind (db_get (find_session sessionHash)) (\<lambda>found.
     bind (db_get (active_account (map_option ss_userId found))) (\<lambda>account.
     bind Date_now (\<lambda>now.
     bind (the_or found unauthenticated) (\<lambda>session.
     bind (require (now < ss_expiresAt session) unauthenticated) (\<lambda>_.
     bind (the_or account unauthenticated) (\<lambda>user.
     return \<lparr>pr_user = userDto user, pr_authentication = BySession, pr_sessionHash = Some sessionHash,
       pr_recentAuthentication = (now < ss_reauthAt session + RECENT_TTL)\<rparr>)))))))"

definition authenticate :: "platform \<Rightarrow> headers \<Rightarrow> principal app" where
  "authenticate P headers =
     (case h_authorization headers of
        Some authorization \<Rightarrow> authenticate_key P authorization
      | None \<Rightarrow> authenticate_session P (h_cookie headers))"

definition requireAdmin :: "principal \<Rightarrow> unit app" where
  "requireAdmin caller =
     bind (db_get (find_user (du_id (pr_user caller)))) (\<lambda>current.
     require (case current of Some u \<Rightarrow> u_status u = Active \<and> u_role u = Admin | None \<Rightarrow> False)
       (AppError ''FORBIDDEN'' 403))"

definition requireRecentSession :: "principal \<Rightarrow> ('s, unit) prog" where
  "requireRecentSession caller =
     bind (require (pr_authentication caller = BySession) (AppError ''SESSION_REQUIRED'' 403)) (\<lambda>_.
     require (pr_recentAuthentication caller) (AppError ''REAUTH_REQUIRED'' 403))"

section \<open>Sessions\<close>

definition insert_session :: "session_row \<Rightarrow> unit app" where
  "insert_session row =
     bind (db_get (\<lambda>d. has_row (\<lambda>s. ss_tokenHash s = ss_tokenHash row) (sessions d))) (\<lambda>taken.
     bind (require (\<not> taken) SqlError) (\<lambda>_.
     db_run (sessions_update (\<lambda>t. t @ [row]))))"

definition issueSession :: "platform \<Rightarrow> string \<Rightarrow> string app" where
  "issueSession P userId =
     bind (newToken P []) (\<lambda>token.
     bind Date_now (\<lambda>now.
     bind (insert_session \<lparr>ss_tokenHash = tokenHash P token, ss_userId = userId,
       ss_expiresAt = now + SESSION_TTL, ss_reauthAt = now\<rparr>) (\<lambda>_.
     return token)))"

definition sessionCookie :: "platform \<Rightarrow> string \<Rightarrow> string" where
  "sessionCookie P token =
     SESSION_COOKIE @ ''='' @ token @ ''; Path=/; HttpOnly; SameSite=Lax; Max-Age='' @
     decimal (if token \<noteq> [] then SESSION_TTL div 1000 else 0) @
     (if p_secureCookies P then ''; Secure'' else [])"

definition logout :: "principal \<Rightarrow> unit app" where
  "logout caller =
     (if truthy (pr_sessionHash caller)
      then db_run (sessions_update (delete_where (\<lambda>s. ss_tokenHash s = the (pr_sessionHash caller))))
      else return ())"

section \<open>Rate limits\<close>

definition find_rate_limit :: "string \<Rightarrow> database \<Rightarrow> rate_limit_row option" where
  "find_rate_limit key d = find (\<lambda>r. rl_key r = key) (rateLimits d)"

definition consumeRateLimit :: "string \<Rightarrow> int \<Rightarrow> int \<Rightarrow> unit app" where
  "consumeRateLimit key limit windowMs = transaction (
     bind Date_now (\<lambda>now.
     bind (db_get (find_rate_limit key)) (\<lambda>existing.
     case existing of
       Some r \<Rightarrow>
         if rl_resetsAt r \<le> now
         then db_run (rateLimits_update (upsert (\<lambda>q. rl_key q = key)
                (\<lambda>q. q\<lparr>rl_attempts := 1, rl_resetsAt := now + windowMs\<rparr>)
                \<lparr>rl_key = key, rl_attempts = 1, rl_resetsAt = now + windowMs\<rparr>))
         else
           bind (require (rl_attempts r < limit) (AppError ''RATE_LIMITED'' 429)) (\<lambda>_.
           db_run (rateLimits_update (update_where (\<lambda>q. rl_key q = key) (\<lambda>q. q\<lparr>rl_attempts := rl_attempts r + 1\<rparr>))))
     | None \<Rightarrow> db_run (rateLimits_update (upsert (\<lambda>q. rl_key q = key)
                (\<lambda>q. q\<lparr>rl_attempts := 1, rl_resetsAt := now + windowMs\<rparr>)
                \<lparr>rl_key = key, rl_attempts = 1, rl_resetsAt = now + windowMs\<rparr>)))))"

text \<open>The defaults: eight attempts in a quarter of an hour.\<close>

definition default_window :: int where "default_window = 15 * 60 * 1000"

section \<open>Passwords\<close>

text \<open>What a login remembers while the password is verified.\<close>

record pending_login =
  pl_username :: string
  pl_user :: user_row
  pl_hash :: string

definition find_username :: "string \<Rightarrow> database \<Rightarrow> user_row option" where
  "find_username name d = find (\<lambda>u. u_username u = name) (users d)"

definition dummyHash :: "platform \<Rightarrow> string app" where
  "dummyHash P =
     bind (gets w_dummyHash) (\<lambda>known.
     case known of Some h \<Rightarrow> return h
     | None \<Rightarrow>
         bind (newToken P []) (\<lambda>token.
         bind (hashPassword P token) (\<lambda>h.
         bind (modify (\<lambda>w. w\<lparr>w_dummyHash := Some h\<rparr>)) (\<lambda>_.
         return h))))"

definition passwordLogin_check :: "platform \<Rightarrow> string \<Rightarrow> string \<Rightarrow> pending_login app" where
  "passwordLogin_check P rawUsername password =
     bind (usernameInput rawUsername) (\<lambda>username.
     bind (passwordInput password) (\<lambda>_.
     bind (consumeRateLimit ''password:global'' 60 60000) (\<lambda>_.
     bind (consumeRateLimit (''password:'' @ username) 8 default_window) (\<lambda>_.
     bind (db_get (find_username username)) (\<lambda>user.
     bind (db_get (\<lambda>d. Option.bind user (\<lambda>u. find_password (u_id u) d))) (\<lambda>credential.
     bind (dummyHash P) (\<lambda>dummy.
     let hash = (case credential of Some c \<Rightarrow> pw_hash c | None \<Rightarrow> dummy) in
     bind (require (verifyPassword P hash password \<and> user \<noteq> None \<and> credential \<noteq> None \<and> u_status (the user) = Active)
             (AppError ''INVALID_CREDENTIALS'' 401)) (\<lambda>_.
     return \<lparr>pl_username = username, pl_user = the user, pl_hash = hash\<rparr>))))))))"

definition passwordLogin_commit :: "platform \<Rightarrow> pending_login \<Rightarrow> (user_dto \<times> string) app" where
  "passwordLogin_commit P begun = transaction (
     bind (db_get (active_account (Some (u_id (pl_user begun))))) (\<lambda>found.
     bind (db_get (find_password (u_id (pl_user begun)))) (\<lambda>currentPassword.
     bind (require (map_option pw_hash currentPassword = Some (pl_hash begun)) (AppError ''INVALID_CREDENTIALS'' 401)) (\<lambda>_.
     bind (the_or found (AppError ''INVALID_CREDENTIALS'' 401)) (\<lambda>fresh.
     bind (db_run (rateLimits_update (delete_where (\<lambda>r. rl_key r = ''password:'' @ pl_username begun)))) (\<lambda>_.
     bind (issueSession P (u_id (pl_user begun))) (\<lambda>token.
     return (userDto fresh, token))))))))"

definition reauthenticatePassword_check :: "platform \<Rightarrow> principal \<Rightarrow> string \<Rightarrow> unit app" where
  "reauthenticatePassword_check P caller password =
     bind (require (truthy (pr_sessionHash caller)) (AppError ''SESSION_REQUIRED'' 403)) (\<lambda>_.
     bind (passwordInput password) (\<lambda>_.
     bind (consumeRateLimit (''reauth:'' @ du_id (pr_user caller)) 8 default_window) (\<lambda>_.
     bind (db_get (find_password (du_id (pr_user caller)))) (\<lambda>credential.
     require (case credential of Some c \<Rightarrow> verifyPassword P (pw_hash c) password | None \<Rightarrow> False)
       (AppError ''INVALID_CREDENTIALS'' 401)))))"

definition own_session :: "principal \<Rightarrow> session_row \<Rightarrow> bool" where
  "own_session caller s \<longleftrightarrow> Some (ss_tokenHash s) = pr_sessionHash caller \<and> ss_userId s = du_id (pr_user caller)"

definition reauthenticatePassword_commit :: "principal \<Rightarrow> unit app" where
  "reauthenticatePassword_commit caller =
     bind Date_now (\<lambda>now.
     bind (db_get (\<lambda>d. has_row (own_session caller) (sessions d))) (\<lambda>changes.
     bind (db_run (sessions_update (update_where (own_session caller) (\<lambda>s. s\<lparr>ss_reauthAt := now\<rparr>)))) (\<lambda>_.
     require changes unauthenticated)))"

definition changePassword_check :: "platform \<Rightarrow> principal \<Rightarrow> string \<Rightarrow> string app" where
  "changePassword_check P caller password =
     bind (requireRecentSession caller) (\<lambda>_.
     bind (passwordInput password) (\<lambda>_.
     hashPassword P password))"

definition changePassword_commit :: "principal \<Rightarrow> string \<Rightarrow> unit app" where
  "changePassword_commit caller hash = transaction (
     bind Date_now (\<lambda>now.
     bind (db_get (\<lambda>d. Option.bind (pr_sessionHash caller) (\<lambda>h. find_session h d))) (\<lambda>session.
     bind (require (case session of Some s \<Rightarrow> now < ss_reauthAt s + RECENT_TTL | None \<Rightarrow> False)
             (AppError ''REAUTH_REQUIRED'' 403)) (\<lambda>_.
     bind (db_run (passwords_update (update_where (\<lambda>p. pw_userId p = du_id (pr_user caller))
             (\<lambda>p. p\<lparr>pw_hash := hash, pw_changedAt := now\<rparr>)))) (\<lambda>_.
     db_run (sessions_update (delete_where (\<lambda>s. ss_userId s = du_id (pr_user caller)))))))))"

section \<open>API keys and passkeys\<close>

record api_key_dto =
  ak_id :: string
  ak_name :: string
  ak_prefix :: string
  ak_createdAt :: int
  ak_lastUsedAt :: "int option"
  ak_revokedAt :: "int option"

definition api_key_dto_of :: "api_key_row \<Rightarrow> api_key_dto" where
  "api_key_dto_of k = \<lparr>ak_id = k_id k, ak_name = k_name k, ak_prefix = k_prefix k, ak_createdAt = k_createdAt k,
     ak_lastUsedAt = k_lastUsedAt k, ak_revokedAt = k_revokedAt k\<rparr>"

definition listApiKeys :: "principal \<Rightarrow> api_key_dto list app" where
  "listApiKeys caller =
     db_get (\<lambda>d. map api_key_dto_of (filter (\<lambda>k. k_userId k = du_id (pr_user caller)) (apiKeys d)))"

definition insert_api_key :: "api_key_row \<Rightarrow> unit app" where
  "insert_api_key row =
     bind (db_get (\<lambda>d. has_row (\<lambda>k. k_id k = k_id row \<or> k_tokenHash k = k_tokenHash row) (apiKeys d))) (\<lambda>taken.
     bind (require (\<not> taken) SqlError) (\<lambda>_.
     db_run (apiKeys_update (\<lambda>t. t @ [row]))))"

definition createApiKey :: "platform \<Rightarrow> principal \<Rightarrow> string \<Rightarrow> (api_key_dto \<times> string) app" where
  "createApiKey P caller rawName =
     bind (text_input 1 64 rawName) (\<lambda>name.
     bind (newToken P ''bf_key_'') (\<lambda>token.
     bind (newId P) (\<lambda>i.
     bind Date_now (\<lambda>now.
     bind (insert_api_key \<lparr>k_id = i, k_userId = du_id (pr_user caller), k_name = name, k_prefix = take 15 token,
       k_tokenHash = tokenHash P token, k_createdAt = now, k_lastUsedAt = None, k_revokedAt = None\<rparr>) (\<lambda>_.
     bind (listApiKeys caller) (\<lambda>keys.
     bind (the_or (find (\<lambda>k. ak_id k = i) keys) JsError) (\<lambda>apiKey.
     return (apiKey, token))))))))"

definition own_key :: "principal \<Rightarrow> string \<Rightarrow> api_key_row \<Rightarrow> bool" where
  "own_key caller i k \<longleftrightarrow> k_id k = i \<and> k_userId k = du_id (pr_user caller)"

definition revokeApiKey :: "principal \<Rightarrow> string \<Rightarrow> unit app" where
  "revokeApiKey caller i =
     bind Date_now (\<lambda>now.
     bind (db_get (\<lambda>d. has_row (own_key caller i) (apiKeys d))) (\<lambda>changes.
     bind (db_run (apiKeys_update (update_where (own_key caller i) (\<lambda>k. k\<lparr>k_revokedAt := Some now\<rparr>)))) (\<lambda>_.
     require changes (AppError ''NOT_FOUND'' 404))))"

record passkey_dto =
  pk_dto_id :: string
  pk_dto_name :: string
  pk_dto_backedUp :: bool
  pk_dto_createdAt :: int

definition passkey_dto_of :: "passkey_row \<Rightarrow> passkey_dto" where
  "passkey_dto_of k = \<lparr>pk_dto_id = pk_id k, pk_dto_name = pk_name k, pk_dto_backedUp = pk_backedUp k,
     pk_dto_createdAt = pk_createdAt k\<rparr>"

definition user_passkeys :: "string \<Rightarrow> database \<Rightarrow> passkey_row list" where
  "user_passkeys userId d = filter (\<lambda>k. pk_userId k = userId) (passkeys d)"

definition listPasskeys :: "principal \<Rightarrow> passkey_dto list app" where
  "listPasskeys caller = db_get (\<lambda>d. map passkey_dto_of (user_passkeys (du_id (pr_user caller)) d))"

definition deletePasskey :: "principal \<Rightarrow> string \<Rightarrow> unit app" where
  "deletePasskey caller i =
     bind (requireRecentSession caller) (\<lambda>_.
     transaction (
       bind (db_get (user_passkeys (du_id (pr_user caller)))) (\<lambda>keys.
       bind (require (list_ex (\<lambda>k. pk_id k = i) keys) (AppError ''NOT_FOUND'' 404)) (\<lambda>_.
       bind (require (1 < length keys) (AppError ''LAST_PASSKEY'' 409)) (\<lambda>_.
       db_run (passkeys_update (delete_where (\<lambda>k. pk_id k = i))))))))"

section \<open>One-time links\<close>

definition insert_flow :: "auth_flow_row \<Rightarrow> unit app" where
  "insert_flow row =
     bind (db_get (\<lambda>d. has_row (\<lambda>f. f_id f = f_id row \<or> f_tokenHash f \<noteq> None \<and> f_tokenHash f = f_tokenHash row)
                             (authFlows d))) (\<lambda>taken.
     bind (require (\<not> taken) SqlError) (\<lambda>_.
     db_run (authFlows_update (\<lambda>t. t @ [row]))))"

definition open_flow :: "string \<Rightarrow> flow_purpose \<Rightarrow> auth_flow_row \<Rightarrow> bool" where
  "open_flow userId purpose f \<longleftrightarrow> f_userId f = Some userId \<and> f_purpose f = purpose \<and> f_consumedAt f = None"

definition consume_flows :: "(auth_flow_row \<Rightarrow> bool) \<Rightarrow> int \<Rightarrow> database \<Rightarrow> database" where
  "consume_flows which now = authFlows_update (update_where which (\<lambda>f. f\<lparr>f_consumedAt := Some now\<rparr>))"

definition onboarding_url :: "platform \<Rightarrow> flow_purpose \<Rightarrow> string \<Rightarrow> string" where
  "onboarding_url P purpose token =
     p_publicUrl P @ ''/'' @ (if purpose = Activation then ''activate'' else ''recover'') @ ''?token='' @ token"

definition issueOnboarding :: "platform \<Rightarrow> string \<Rightarrow> flow_purpose \<Rightarrow> (string \<times> int) app" where
  "issueOnboarding P userId purpose =
     bind (newToken P []) (\<lambda>token.
     bind Date_now (\<lambda>now.
     let expiresAt = now + 24 * 60 * 60 * 1000 in
     bind (transaction (
       bind (db_run (consume_flows (open_flow userId purpose) now)) (\<lambda>_.
       bind (newId P) (\<lambda>i.
       insert_flow \<lparr>f_id = i, f_purpose = purpose, f_userId = Some userId, f_tokenHash = Some (tokenHash P token),
         f_challenge = None, f_sessionHash = None, f_expiresAt = expiresAt, f_consumedAt = None\<rparr>)))) (\<lambda>_.
     return (onboarding_url P purpose token, expiresAt))))"

section \<open>The first administrator\<close>

text \<open>\<open>INSERT INTO users\<close> and \<open>INSERT INTO password_credentials\<close> with their unique columns.\<close>

definition insert_user :: "user_row \<Rightarrow> unit app" where
  "insert_user row =
     bind (db_get (\<lambda>d. has_row (\<lambda>u. u_id u = u_id row \<or> u_username u = u_username row) (users d))) (\<lambda>taken.
     bind (require (\<not> taken) SqlError) (\<lambda>_.
     db_run (users_update (\<lambda>t. t @ [row]))))"

definition insert_password :: "password_row \<Rightarrow> unit app" where
  "insert_password row =
     bind (db_get (\<lambda>d. has_row (\<lambda>p. pw_userId p = pw_userId row) (passwords d))) (\<lambda>taken.
     bind (require (\<not> taken) SqlError) (\<lambda>_.
     db_run (passwords_update (\<lambda>t. t @ [row]))))"

definition needsSetup :: "database \<Rightarrow> bool" where
  "needsSetup d \<longleftrightarrow> users d = []"

definition requireSetup :: "unit app" where
  "requireSetup = bind (db_get needsSetup) (\<lambda>needed. require needed (AppError ''SETUP_COMPLETE'' 409))"

definition setup_check :: "platform \<Rightarrow> string \<Rightarrow> string \<Rightarrow> (string \<times> string) app" where
  "setup_check P rawUsername password =
     bind requireSetup (\<lambda>_.
     bind (usernameInput rawUsername) (\<lambda>username.
     bind (passwordInput password) (\<lambda>_.
     bind (consumeRateLimit ''setup'' 15 default_window) (\<lambda>_.
     bind (hashPassword P password) (\<lambda>hash.
     return (username, hash))))))"

definition setup_commit :: "platform \<Rightarrow> string \<Rightarrow> string \<Rightarrow> (user_dto \<times> string) app" where
  "setup_commit P username hash = transaction (
     bind requireSetup (\<lambda>_.
     bind (newId P) (\<lambda>i.
     bind Date_now (\<lambda>now.
     let user = \<lparr>u_id = i, u_username = username, u_role = Admin, u_status = Active,
       u_monthlyLimitBytes = None, u_version = 1, u_createdAt = now\<rparr> in
     bind (insert_user user) (\<lambda>_.
     bind (insert_password \<lparr>pw_userId = i, pw_hash = hash, pw_changedAt = now\<rparr>) (\<lambda>_.
     bind (initializeUserSecrets P i) (\<lambda>_.
     bind (policy_refresh P now) (\<lambda>_.
     bind (issueSession P i) (\<lambda>token.
     return (userDto user, token))))))))))"

section \<open>Accounts\<close>

definition listUsers :: "principal \<Rightarrow> user_dto list app" where
  "listUsers caller = bind (requireAdmin caller) (\<lambda>_. db_get (\<lambda>d. map userDto (users d)))"

record user_input =
  ui_username :: string
  ui_role :: "role option"
  ui_monthlyLimitBytes :: "string option"

text \<open>The transactions of \<open>createUser\<close> and \<open>updateUser\<close>.\<close>

definition pending_user :: "string \<Rightarrow> string \<Rightarrow> role option \<Rightarrow> int option \<Rightarrow> int \<Rightarrow> user_row" where
  "pending_user i username r limit now =
     \<lparr>u_id = i, u_username = username, u_role = (case r of None \<Rightarrow> User | Some r \<Rightarrow> r), u_status = Pending,
      u_monthlyLimitBytes = limit, u_version = 1, u_createdAt = now\<rparr>"

definition create_account :: "platform \<Rightarrow> string \<Rightarrow> role option \<Rightarrow> int option \<Rightarrow> (user_dto \<times> string) app" where
  "create_account P username r limit = transaction (
     bind (db_get (find_username username)) (\<lambda>existing.
     bind (require (existing = None) (AppError ''USERNAME_EXISTS'' 409)) (\<lambda>_.
     bind (db_get (\<lambda>d. length (users d))) (\<lambda>count.
     bind (require (count < 10) (AppError ''USER_LIMIT'' 409)) (\<lambda>_.
     bind (newId P) (\<lambda>i.
     bind Date_now (\<lambda>now.
     bind (insert_user (pending_user i username r limit now)) (\<lambda>_.
     bind (issueOnboarding P i Activation) (\<lambda>link.
     return (userDto (pending_user i username r limit now), fst link))))))))))"

definition createUser :: "platform \<Rightarrow> principal \<Rightarrow> user_input \<Rightarrow> (user_dto \<times> string) app" where
  "createUser P caller input =
     bind (requireAdmin caller) (\<lambda>_.
     bind (case ui_monthlyLimitBytes input of None \<Rightarrow> return None
           | Some q \<Rightarrow> bind (quotaInput q) (\<lambda>v. return (Some v))) (\<lambda>limit.
     bind (usernameInput (ui_username input)) (\<lambda>username.
     create_account P username (ui_role input) limit)))"

datatype quota_change = KeepQuota | ClearQuota | SetQuota string

text \<open>The status of a change is one of \<open>active\<close> and \<open>disabled\<close>.\<close>

record user_changes =
  uc_expectedVersion :: int
  uc_role :: "role option"
  uc_status :: "user_status option"
  uc_monthlyLimitBytes :: quota_change

definition quota_change_input :: "quota_change \<Rightarrow> ('s, int option option) prog" where
  "quota_change_input c =
     (case c of KeepQuota \<Rightarrow> return None | ClearQuota \<Rightarrow> return (Some None)
      | SetQuota q \<Rightarrow> bind (quotaInput q) (\<lambda>v. return (Some (Some v))))"

text \<open>
  \<open>{ ...user, ...changes, version }\<close>: the validated object keeps every key the service passes, so that
  a change that was not asked for is \<open>undefined\<close> in it and overwrites the account's value.
\<close>

definition updated_dto :: "user_changes \<Rightarrow> int option option \<Rightarrow> user_row \<Rightarrow> user_dto" where
  "updated_dto changes limit user =
     (userDto user)\<lparr>du_role := uc_role changes, du_status := uc_status changes,
       du_monthlyLimitBytes := (case limit of Some l \<Rightarrow> l | None \<Rightarrow> None), du_version := u_version user + 1\<rparr>"

text \<open>What the statement writes: Drizzle leaves out the columns that are \<open>undefined\<close>.\<close>

definition apply_changes :: "user_changes \<Rightarrow> int option option \<Rightarrow> user_row \<Rightarrow> user_row" where
  "apply_changes changes limit user =
     user\<lparr>u_role := (case uc_role changes of None \<Rightarrow> u_role user | Some r \<Rightarrow> r),
       u_status := (case uc_status changes of None \<Rightarrow> u_status user | Some s \<Rightarrow> s),
       u_monthlyLimitBytes := (case limit of None \<Rightarrow> u_monthlyLimitBytes user | Some l \<Rightarrow> l)\<rparr>"

definition active_admins :: "database \<Rightarrow> user_row list" where
  "active_admins d = filter (\<lambda>u. u_role u = Admin \<and> u_status u = Active) (users d)"

definition change_account ::
  "platform \<Rightarrow> string \<Rightarrow> user_changes \<Rightarrow> int option option \<Rightarrow> user_dto app" where
  "change_account P i changes limit = transaction (
     bind (db_get (find_user i)) (\<lambda>found.
     bind (the_or found (AppError ''NOT_FOUND'' 404)) (\<lambda>user.
     bind (require (u_version user = uc_expectedVersion changes) (AppError ''VERSION_CONFLICT'' 409)) (\<lambda>_.
     bind (db_get (find_password i)) (\<lambda>password.
     bind (require (\<not> (uc_status changes = Some Active \<and> password = None)) (AppError ''ACTIVATION_REQUIRED'' 409)) (\<lambda>_.
     bind (db_get active_admins) (\<lambda>admins.
     bind (require (\<not> (u_role user = Admin \<and> u_status user = Active \<and>
               (uc_role changes = Some User \<or> uc_status changes = Some Disabled) \<and> length admins \<le> 1))
             (AppError ''LAST_ADMIN'' 409)) (\<lambda>_.
     bind (db_run (users_update (update_where (\<lambda>u. u_id u = i)
       (\<lambda>u. (apply_changes changes limit u)\<lparr>u_version := u_version user + 1\<rparr>)))) (\<lambda>_.
     bind (if uc_status changes = Some Disabled
           then db_run (sessions_update (delete_where (\<lambda>s. ss_userId s = i))) else return ()) (\<lambda>_.
     bind Date_now (\<lambda>now.
     bind (policy_refresh P now) (\<lambda>_.
     return (updated_dto changes limit user)))))))))))))"

definition updateUser :: "platform \<Rightarrow> principal \<Rightarrow> string \<Rightarrow> user_changes \<Rightarrow> user_dto app" where
  "updateUser P caller i changes =
     bind (requireAdmin caller) (\<lambda>_.
     bind (quota_change_input (uc_monthlyLimitBytes changes)) (\<lambda>limit.
     bind (require (0 < uc_expectedVersion changes \<and> uc_status changes \<noteq> Some Pending) ZodError) (\<lambda>_.
     change_account P i changes limit)))"

definition createUserFlow :: "platform \<Rightarrow> principal \<Rightarrow> string \<Rightarrow> flow_purpose \<Rightarrow> (string \<times> int) app" where
  "createUserFlow P caller i purpose =
     bind (requireAdmin caller) (\<lambda>_.
     bind (db_get (find_user i)) (\<lambda>found.
     bind (the_or found (AppError ''NOT_FOUND'' 404)) (\<lambda>user.
     bind (require (\<not> (purpose = Activation \<and> u_status user \<noteq> Pending \<or> purpose = Recovery \<and> u_status user \<noteq> Active))
             (AppError ''INVALID_STATUS'' 409)) (\<lambda>_.
     issueOnboarding P i purpose))))"

section \<open>The administration script\<close>

text \<open>\<open>scripts/admin.ts\<close>: \<open>admin:init\<close> and \<open>admin:recover\<close>.\<close>

definition init_account :: "platform \<Rightarrow> string \<Rightarrow> (string \<times> int) app" where
  "init_account P username = transaction (
     bind (db_get (\<lambda>d. users d = [])) (\<lambda>empty.
     bind (require empty JsError) (\<lambda>_.
     bind (newId P) (\<lambda>i.
     bind Date_now (\<lambda>now.
     bind (insert_user (pending_user i username (Some Admin) None now)) (\<lambda>_.
     issueOnboarding P i Activation))))))"

definition admin_init :: "platform \<Rightarrow> string \<Rightarrow> string app" where
  "admin_init P rawUsername =
     bind (usernameInput rawUsername) (\<lambda>username.
     bind (init_account P username) (\<lambda>link.
     return (fst link)))"

definition admin_recover :: "platform \<Rightarrow> string \<Rightarrow> string app" where
  "admin_recover P rawUsername =
     bind (usernameInput rawUsername) (\<lambda>username.
     bind (db_get (find_username username)) (\<lambda>found.
     bind (the_or found JsError) (\<lambda>user.
     bind (require (u_role user = Admin \<and> u_status user \<noteq> Disabled) JsError) (\<lambda>_.
     bind (issueOnboarding P (u_id user) (if u_status user = Pending then Activation else Recovery)) (\<lambda>(url, expiresAt).
     return url)))))"

end
