(* ===== verification/Sing_Box.thy ===== *)
theory Sing_Box
  imports Policy Validation
begin

text \<open>
  \<open>server/adapters/sing-box/index.ts\<close>: the settings of a machine, their validation, and the
  configurations rendered from them for the daemon's core and for clients. Certificates and private
  keys are read by Node; what it tells of them is part of the platform.
\<close>

section \<open>Settings\<close>

text \<open>\<open>contracts/configuration.ts\<close>\<close>

datatype tls_settings =
    PemTls (tls_serverName: string) (tls_certificatePem: string) (tls_privateKeyPem: string)
  | PathTls (tls_serverName: string) (tls_certificatePath: string) (tls_privateKeyPath: string)
  | AcmeTls (tls_serverName: string) (tls_email: string)

record configuration =
  cfg_listen :: "string option"
  cfg_trojanPort :: int
  cfg_hysteria2Port :: int
  cfg_tls :: tls_settings
  cfg_baseJson :: "(string \<times> json) list"

text \<open>What a request carries: everything but the ports may be missing.\<close>

record configuration_input =
  ci_listen :: "string option"
  ci_trojanPort :: int
  ci_hysteria2Port :: int
  ci_tls :: "tls_settings option"
  ci_baseJson :: "(string \<times> json) list"

text \<open>\<open>serverName\<close>, \<open>pemTls\<close>, \<open>pathTls\<close>, \<open>acmeTls\<close>, \<open>port\<close>\<close>

definition serverName_input :: "string \<Rightarrow> ('s, string) prog" where
  "serverName_input s =
     bind (text_input 1 253 s) (\<lambda>t. bind (require (list_all is_host_char t) ZodError) (\<lambda>_. return t))"

definition path_input :: "string \<Rightarrow> ('s, unit) prog" where
  "path_input s = require (2 \<le> length s \<and> length s \<le> 1024 \<and> is_absolute_path s) ZodError"

definition tls_input :: "platform \<Rightarrow> tls_settings \<Rightarrow> ('s, tls_settings) prog" where
  "tls_input P tls = (case tls of
       PemTls name certificate key \<Rightarrow>
         bind (serverName_input name) (\<lambda>n.
         bind (length_input 1 (128 * 1024) certificate) (\<lambda>_.
         bind (length_input 1 (32 * 1024) key) (\<lambda>_.
         return (PemTls n certificate key))))
     | PathTls name certificate key \<Rightarrow>
         bind (serverName_input name) (\<lambda>n.
         bind (path_input certificate) (\<lambda>_.
         bind (path_input key) (\<lambda>_.
         return (PathTls n certificate key))))
     | AcmeTls name email \<Rightarrow>
         bind (serverName_input name) (\<lambda>n.
         bind (require (p_isIP P n = 0 \<and> CHR '':'' \<notin> set n) ZodError) (\<lambda>_.
         bind (text_input 3 254 email) (\<lambda>e.
         bind (require (is_email e) ZodError) (\<lambda>_.
         return (AcmeTls n e))))))"

definition is_port :: "int \<Rightarrow> bool" where
  "is_port p \<longleftrightarrow> 1 \<le> p \<and> p \<le> 65535"

definition configuration_input :: "platform \<Rightarrow> configuration_input \<Rightarrow> ('s, configuration) prog" where
  "configuration_input P input =
     bind (require (case ci_listen input of None \<Rightarrow> True | Some l \<Rightarrow> p_isIP P l \<noteq> 0) ZodError) (\<lambda>_.
     bind (require (is_port (ci_trojanPort input) \<and> is_port (ci_hysteria2Port input)) ZodError) (\<lambda>_.
     bind (the_or (ci_tls input) ZodError) (\<lambda>tls.
     bind (tls_input P tls) (\<lambda>t.
     return \<lparr>cfg_listen = Some (case ci_listen input of None \<Rightarrow> ''::'' | Some l \<Rightarrow> l),
       cfg_trojanPort = ci_trojanPort input, cfg_hysteria2Port = ci_hysteria2Port input,
       cfg_tls = t, cfg_baseJson = ci_baseJson input\<rparr>))))"

text \<open>The object that \<open>JSON.stringify(settings)\<close> sees, and what reading it back gives.\<close>

definition tls_json :: "tls_settings \<Rightarrow> json" where
  "tls_json tls = JObj (case tls of
       PemTls name certificate key \<Rightarrow> [(''mode'', JStr ''pem''), (''serverName'', JStr name),
         (''certificatePem'', JStr certificate), (''privateKeyPem'', JStr key)]
     | PathTls name certificate key \<Rightarrow> [(''mode'', JStr ''path''), (''serverName'', JStr name),
         (''certificatePath'', JStr certificate), (''privateKeyPath'', JStr key)]
     | AcmeTls name email \<Rightarrow> [(''mode'', JStr ''acme''), (''serverName'', JStr name), (''email'', JStr email)])"

definition configuration_json :: "configuration \<Rightarrow> json" where
  "configuration_json c = JObj ((case cfg_listen c of None \<Rightarrow> [] | Some l \<Rightarrow> [(''listen'', JStr l)]) @
     [(''trojanPort'', jint (cfg_trojanPort c)), (''hysteria2Port'', jint (cfg_hysteria2Port c)),
      (''tls'', tls_json (cfg_tls c)), (''baseJson'', JObj (cfg_baseJson c))])"

definition json_text :: "json option \<Rightarrow> string option" where
  "json_text j = (case j of Some (JStr s) \<Rightarrow> Some s | _ \<Rightarrow> None)"

definition json_int :: "json option \<Rightarrow> int option" where
  "json_int j = (case j of Some (JNum n) \<Rightarrow> parse_bigint n | _ \<Rightarrow> None)"

definition tls_from :: "(string \<times> json) list \<Rightarrow> tls_settings option" where
  "tls_from ps =
     (case (json_text (jprop ''mode'' ps), json_text (jprop ''serverName'' ps)) of
        (Some mode, Some name) \<Rightarrow>
          if mode = ''pem'' then
            (case (json_text (jprop ''certificatePem'' ps), json_text (jprop ''privateKeyPem'' ps)) of
               (Some c, Some k) \<Rightarrow> Some (PemTls name c k) | _ \<Rightarrow> None)
          else if mode = ''path'' then
            (case (json_text (jprop ''certificatePath'' ps), json_text (jprop ''privateKeyPath'' ps)) of
               (Some c, Some k) \<Rightarrow> Some (PathTls name c k) | _ \<Rightarrow> None)
          else if mode = ''acme'' then map_option (AcmeTls name) (json_text (jprop ''email'' ps))
          else None
      | _ \<Rightarrow> None)"

definition configuration_from :: "json \<Rightarrow> configuration option" where
  "configuration_from j =
     (case j of
        JObj ps \<Rightarrow>
          (case (json_int (jprop ''trojanPort'' ps), json_int (jprop ''hysteria2Port'' ps),
                 jprop ''tls'' ps, jprop ''baseJson'' ps) of
             (Some t, Some h, Some (JObj tls), Some (JObj base)) \<Rightarrow>
               map_option (\<lambda>s. \<lparr>cfg_listen = json_text (jprop ''listen'' ps), cfg_trojanPort = t,
                 cfg_hysteria2Port = h, cfg_tls = s, cfg_baseJson = base\<rparr>) (tls_from tls)
           | _ \<Rightarrow> None)
      | _ \<Rightarrow> None)"

lemma tls_roundtrip: "tls_from (case tls_json t of JObj ps \<Rightarrow> ps | _ \<Rightarrow> []) = Some t"
  by (cases t) (simp_all add: tls_json_def tls_from_def jprop_def json_text_def)

text \<open>What is stored of a configuration is read back as it was.\<close>

lemma configuration_roundtrip: "configuration_from (configuration_json c) = Some c"
proof -
  obtain ps where ps: "tls_json (cfg_tls c) = JObj ps" by (simp add: tls_json_def)
  with tls_roundtrip [of "cfg_tls c"] have "tls_from ps = Some (cfg_tls c)" by simp
  with ps show ?thesis
    by (cases "cfg_listen c")
      (simp_all add: configuration_json_def configuration_from_def jprop_def json_text_def json_int_def jint_def
        parse_decimal)
qed

section \<open>Validation\<close>

text \<open>
  \<open>validateCertificate\<close>: every exception inside becomes \<open>INVALID_CERTIFICATE\<close>. A date that does not
  parse is NaN in the code, and no comparison with it holds.
\<close>

definition validateCertificate :: "platform \<Rightarrow> string \<Rightarrow> string \<Rightarrow> string \<Rightarrow> int \<Rightarrow> bool" where
  "validateCertificate P name pem key now =
     (case (p_certificate P pem, p_privateKeyPublic P key) of
        (Some c, Some public) \<Rightarrow>
          x_publicKey c = public \<and>
          \<not> (case x_validTo c of Some t \<Rightarrow> t \<le> now | None \<Rightarrow> False) \<and>
          \<not> (case x_validFrom c of Some t \<Rightarrow> now < t | None \<Rightarrow> False) \<and>
          (if p_isIP P name \<noteq> 0 then x_checkIP c name else x_checkHost c name)
      | _ \<Rightarrow> False)"

definition is_object :: "json \<Rightarrow> bool" where
  "is_object j = (case j of JObj _ \<Rightarrow> True | _ \<Rightarrow> False)"

definition has_own :: "string \<Rightarrow> (string \<times> json) list \<Rightarrow> bool" where
  "has_own k ps \<longleftrightarrow> k \<in> fst ` set ps"

definition validateSettings :: "platform \<Rightarrow> configuration_input \<Rightarrow> configuration app" where
  "validateSettings P input =
     bind (configuration_input P input) (\<lambda>settings.
     let extra = cfg_baseJson settings; experimental = jprop ''experimental'' extra in
     bind (require (case experimental of None \<Rightarrow> True | Some e \<Rightarrow> is_object e)
             (AppError ''INVALID_BASE_CONFIG'' 422)) (\<lambda>_.
     bind (require (case experimental of Some (JObj ps) \<Rightarrow> \<not> has_own ''v2ray_api'' ps \<and> \<not> has_own ''clash_api'' ps | _ \<Rightarrow> True)
             (AppError ''UNSUPPORTED_CONTROL_API'' 422)) (\<lambda>_.
     bind (require (\<not> has_own ''inbounds'' extra \<and> \<not> has_own ''services'' extra)
             (AppError ''MANAGED_FIELD_CONFLICT'' 422)) (\<lambda>_.
     bind (require (length (stringify (configuration_json settings)) \<le> 3 * 1024 * 1024)
             (AppError ''CONFIG_TOO_LARGE'' 413)) (\<lambda>_.
     bind Date_now (\<lambda>now.
     bind (require (case cfg_tls settings of
               PemTls name pem key \<Rightarrow> validateCertificate P name pem key now | _ \<Rightarrow> True)
             (AppError ''INVALID_CERTIFICATE'' 422)) (\<lambda>_.
     return settings)))))))"

section \<open>Rendering\<close>

text \<open>\<open>text.trim().split(/\r?\n/)\<close>\<close>

definition chop_cr :: "string \<Rightarrow> string" where
  "chop_cr l = (if l \<noteq> [] \<and> last l = CHR 0x0D then butlast l else l)"

definition pem_lines :: "string \<Rightarrow> json" where
  "pem_lines s =
     (let parts = split_on (CHR 0x0A) (trim s)
      in JArr (map JStr (map chop_cr (butlast parts) @ [last parts])))"

definition inboundTls :: "tls_settings \<Rightarrow> json" where
  "inboundTls tls = JObj ([(''enabled'', JBool True), (''server_name'', JStr (tls_serverName tls)),
       (''min_version'', JStr ''1.3'')] @
     (case tls of
        AcmeTls name email \<Rightarrow> [(''certificate_provider'', JObj [(''type'', JStr ''acme''),
          (''domain'', JArr [JStr name]), (''email'', JStr email)])]
      | PemTls name pem key \<Rightarrow> [(''certificate'', pem_lines pem), (''key'', pem_lines key)]
      | PathTls name certificate key \<Rightarrow> [(''certificate_path'', JStr certificate), (''key_path'', JStr key)]))"

definition outboundTls :: "tls_settings \<Rightarrow> json" where
  "outboundTls tls = JObj ([(''enabled'', JBool True), (''server_name'', JStr (tls_serverName tls))] @
     (case tls of PemTls name pem key \<Rightarrow> [(''certificate'', pem_lines pem)] | _ \<Rightarrow> []))"

text \<open>A property whose value is \<open>undefined\<close> is not written.\<close>

definition field :: "string \<Rightarrow> json option \<Rightarrow> (string \<times> json) list" where
  "field k v = (case v of None \<Rightarrow> [] | Some j \<Rightarrow> [(k, j)])"

definition inbound_user :: "string \<Rightarrow> (string \<times> json) list \<Rightarrow> json" where
  "inbound_user secret user = JObj (field ''name'' (jprop ''id'' user) @ field ''password'' (jprop secret user))"

definition inbound :: "string \<Rightarrow> string \<Rightarrow> int \<Rightarrow> string \<Rightarrow> configuration \<Rightarrow> authorization_layer \<Rightarrow> json" where
  "inbound type tag port secret settings authorization =
     JObj [(''type'', JStr type), (''tag'', JStr tag),
       (''listen'', JStr (case cfg_listen settings of None \<Rightarrow> ''::'' | Some l \<Rightarrow> l)),
       (''listen_port'', jint port),
       (''users'', JArr (map (inbound_user secret) (al_users authorization))),
       (''tls'', inboundTls (cfg_tls settings))]"

definition renderServer :: "configuration \<Rightarrow> authorization_layer \<Rightarrow> (string \<times> json) list" where
  "renderServer settings authorization =
     set_prop ''inbounds'' (JArr [
       inbound ''trojan'' ''bifurcation-trojan'' (cfg_trojanPort settings) ''trojanPassword'' settings authorization,
       inbound ''hysteria2'' ''bifurcation-hysteria2'' (cfg_hysteria2Port settings) ''hysteria2Password'' settings authorization])
     (spread [(''log'', JObj [(''level'', JStr ''info''), (''timestamp'', JBool True)]),
        (''outbounds'', JArr [JObj [(''type'', JStr ''direct''), (''tag'', JStr ''direct'')]])]
       (cfg_baseJson settings))"

record client_node =
  cn_id :: string
  cn_name :: string
  cn_address :: string
  cn_settings :: configuration

definition client_outbound :: "string \<Rightarrow> string \<Rightarrow> int \<Rightarrow> string \<Rightarrow> client_node \<Rightarrow> (string \<times> json) list \<Rightarrow> (string \<times> json) list" where
  "client_outbound type label port secret node credentials =
     [(''type'', JStr type), (''tag'', JStr (cn_name node @ '' / '' @ label @ '' / '' @ take 8 (cn_id node))),
      (''server'', JStr (cn_address node)), (''server_port'', jint port)] @
     field ''password'' (jprop secret credentials) @ [(''tls'', outboundTls (cfg_tls (cn_settings node)))]"

definition node_outbounds :: "(string \<times> json) list \<Rightarrow> client_node \<Rightarrow> (string \<times> json) list list" where
  "node_outbounds credentials node =
     [client_outbound ''trojan'' ''Trojan'' (cfg_trojanPort (cn_settings node)) ''trojanPassword'' node credentials,
      client_outbound ''hysteria2'' ''Hysteria2'' (cfg_hysteria2Port (cn_settings node)) ''hysteria2Password'' node credentials]"

definition tag_of :: "(string \<times> json) list \<Rightarrow> json" where
  "tag_of o' = (case jprop ''tag'' o' of None \<Rightarrow> JNull | Some j \<Rightarrow> j)"

definition renderClient :: "client_node list \<Rightarrow> (string \<times> json) list \<Rightarrow> bool \<Rightarrow> (string \<times> json) list" where
  "renderClient nodes credentials blocked =
     (let outbounds = (if blocked then [] else concat (map (node_outbounds credentials) nodes)); tags = map tag_of outbounds in
      [(''log'', JObj [(''level'', JStr ''info'')]),
       (''dns'', JObj [(''servers'', JArr [JObj [(''type'', JStr ''local''), (''tag'', JStr ''dns-local'')]])]),
       (''inbounds'', JArr [JObj [(''type'', JStr ''mixed''), (''tag'', JStr ''mixed-in''),
          (''listen'', JStr ''127.0.0.1''), (''listen_port'', jint 2080)]]),
       (''outbounds'', JArr ((if outbounds = [] then [] else
          [JObj [(''type'', JStr ''selector''), (''tag'', JStr ''proxy''), (''outbounds'', JArr (JStr ''auto'' # tags)),
             (''default'', JStr ''auto'')],
           JObj [(''type'', JStr ''urltest''), (''tag'', JStr ''auto''), (''outbounds'', JArr tags),
             (''url'', JStr ''https://www.gstatic.com/generate_204''), (''interval'', JStr ''3m''), (''tolerance'', jint 50)]]) @
          map JObj outbounds @ [JObj [(''type'', JStr ''direct''), (''tag'', JStr ''direct'')]])),
       (''route'', JObj ((''default_domain_resolver'', JStr ''dns-local'') #
          (if outbounds = [] then [(''rules'', JArr [JObj [(''action'', JStr ''reject'')]]), (''final'', JStr ''direct'')]
           else [(''final'', JStr ''proxy'')])))])"

definition jsonBytes :: "json \<Rightarrow> bytes" where
  "jsonBytes j = stringify2 0 j @ [CHR 0x0A]"

text \<open>The layer as the daemon reads it: \<open>{ version, policyRevision, users }\<close>.\<close>

definition layer_json :: "authorization_layer \<Rightarrow> json" where
  "layer_json l = JObj [(''version'', jint 1), (''policyRevision'', JStr (decimal (al_policyRevision l))),
     (''users'', JArr (map JObj (al_users l)))]"

section \<open>What the renderings promise\<close>

lemma serverName_input_ok [prog_ok]:
  "serverName_input s w = (Inr t, v) \<longleftrightarrow> t = trim s \<and> 1 \<le> length t \<and> length t \<le> 253 \<and> list_all is_host_char t \<and> v = w"
  by (auto simp: serverName_input_def prog_ok)

lemma tls_input_ok:
  "tls_input P tls w = (Inr t, v) \<Longrightarrow>
    v = w \<and> 1 \<le> length (tls_serverName t) \<and> list_all is_host_char (tls_serverName t)"
  by (cases tls) (auto simp: tls_input_def length_input_def path_input_def prog_ok)

lemma configuration_input_ok:
  "configuration_input P input w = (Inr c, v) \<Longrightarrow>
    v = w \<and> is_port (cfg_trojanPort c) \<and> is_port (cfg_hysteria2Port c) \<and> cfg_baseJson c = ci_baseJson input \<and>
    cfg_listen c \<noteq> None \<and> 1 \<le> length (tls_serverName (cfg_tls c)) \<and> list_all is_host_char (tls_serverName (cfg_tls c))"
  by (auto simp: configuration_input_def prog_ok dest!: tls_input_ok)

lemma validateSettings_ok:
  assumes "validateSettings P input w = (Inr c, v)"
  shows "v = w \<and> is_port (cfg_trojanPort c) \<and> is_port (cfg_hysteria2Port c) \<and> cfg_baseJson c = ci_baseJson input \<and>
    \<not> has_own ''inbounds'' (cfg_baseJson c) \<and> \<not> has_own ''services'' (cfg_baseJson c) \<and>
    (case cfg_tls c of PemTls name pem key \<Rightarrow> validateCertificate P name pem key (w_now w) | _ \<Rightarrow> True)"
proof -
  obtain s x where x: "configuration_input P input w = (Inr s, x)"
    using assms unfolding validateSettings_def bind_ok by blast
  have "c = s \<and> v = x \<and> \<not> has_own ''inbounds'' (cfg_baseJson s) \<and> \<not> has_own ''services'' (cfg_baseJson s) \<and>
    (case cfg_tls s of PemTls name pem key \<Rightarrow> validateCertificate P name pem key (w_now x) | _ \<Rightarrow> True)"
    using assms x unfolding validateSettings_def Let_def bind_ok require_ok Date_now_ok return_ok
    by (elim exE conjE) (simp only: prod.inject sum.inject simp_thms HOL.conj_assoc)
  with configuration_input_ok [OF x] show ?thesis by auto
qed

text \<open>The managed listeners cannot be overridden, and they list the accounts of the layer.\<close>

lemma renderServer_inbounds:
  "jprop ''inbounds'' (renderServer c l) = Some (JArr [
     inbound ''trojan'' ''bifurcation-trojan'' (cfg_trojanPort c) ''trojanPassword'' c l,
     inbound ''hysteria2'' ''bifurcation-hysteria2'' (cfg_hysteria2Port c) ''hysteria2Password'' c l])"
  by (simp add: renderServer_def jprop_set_prop)

lemma renderServer_other:
  assumes "k \<noteq> ''inbounds''" and "distinct (map fst (cfg_baseJson c))" and "jprop k (cfg_baseJson c) = Some v"
  shows "jprop k (renderServer c l) = Some v"
  using assms by (simp add: renderServer_def jprop_set_prop prop_spread)

end
