(* ===== verification/Webauthn.thy ===== *)
theory Webauthn
  imports Identity Sing_Box
begin

text \<open>
  \<open>server/identity/webauthn.ts\<close>: passkey sign-in and re-authentication, new passkeys, and the links by
  which an account is activated or recovered. The ceremonies themselves (options and verification)
  are @simplewebauthn/server's and part of the platform. As in theory \<open>Identity\<close>, a call with an await
  before its commit is two programs.
\<close>

section \<open>Inputs\<close>

text \<open>\<open>responseInput\<close>: the identifier of the credential, when the response has the shape it must have.\<close>

definition responseInput :: "json option \<Rightarrow> ('s, string \<times> json) prog" where
  "responseInput response =
     (case response of
        Some (JObj ps) \<Rightarrow>
          (case (json_text (jprop ''id'' ps), json_text (jprop ''rawId'' ps)) of
             (Some i, Some rawId) \<Rightarrow>
               bind (require (i \<noteq> [] \<and> jprop ''type'' ps = Some (JStr ''public-key'') \<and>
                   (case jprop ''response'' ps of Some r \<Rightarrow> is_object r | None \<Rightarrow> False) \<and>
                   (case jprop ''clientExtensionResults'' ps of Some r \<Rightarrow> is_object r | None \<Rightarrow> False)) ZodError) (\<lambda>_.
               return (i, JObj ps))
           | _ \<Rightarrow> throw ZodError)
      | _ \<Rightarrow> throw ZodError)"

definition nameInput :: "string option \<Rightarrow> ('s, string) prog" where
  "nameInput name = (case name of None \<Rightarrow> return ''Passkey'' | Some n \<Rightarrow> text_input 1 64 n)"

record completion_input =
  ci_flowId :: string
  ci_response :: "json option"
  ci_name :: "string option"

definition completionInput :: "platform \<Rightarrow> completion_input \<Rightarrow> ('s, string \<times> (string \<times> json) \<times> string) prog" where
  "completionInput P input =
     bind (require (p_isUuid P (ci_flowId input)) ZodError) (\<lambda>_.
     bind (responseInput (ci_response input)) (\<lambda>response.
     bind (nameInput (ci_name input)) (\<lambda>name.
     return (ci_flowId input, response, name))))"

section \<open>Flows\<close>

definition invalidFlow :: failure where "invalidFlow = AppError ''INVALID_FLOW'' 400"

definition find_flow :: "string \<Rightarrow> database \<Rightarrow> auth_flow_row option" where
  "find_flow i d = find (\<lambda>f. f_id f = i) (authFlows d)"

definition loadFlow :: "string \<Rightarrow> auth_flow_row app" where
  "loadFlow i =
     bind Date_now (\<lambda>now.
     bind (db_get (find_flow i)) (\<lambda>found.
     bind (the_or found invalidFlow) (\<lambda>flow.
     bind (require (f_consumedAt flow = None \<and> now < f_expiresAt flow) invalidFlow) (\<lambda>_.
     return flow))))"

definition unconsumed :: "string \<Rightarrow> auth_flow_row \<Rightarrow> bool" where
  "unconsumed i f \<longleftrightarrow> f_id f = i \<and> f_consumedAt f = None"

definition consumeFlow :: "string \<Rightarrow> unit app" where
  "consumeFlow i =
     bind Date_now (\<lambda>now.
     bind (db_get (\<lambda>d. has_row (unconsumed i) (authFlows d))) (\<lambda>changes.
     bind (db_run (consume_flows (unconsumed i) now)) (\<lambda>_.
     require changes invalidFlow)))"

definition assertSession :: "principal \<Rightarrow> unit app" where
  "assertSession caller =
     bind (requireRecentSession caller) (\<lambda>_.
     bind Date_now (\<lambda>now.
     bind (db_get (\<lambda>d. Option.bind (pr_sessionHash caller) (\<lambda>h. find_session h d))) (\<lambda>session.
     require (case session of Some s \<Rightarrow> now < ss_expiresAt s \<and> now < ss_reauthAt s + RECENT_TTL | None \<Rightarrow> False)
       invalidFlow)))"

section \<open>Signing in with a passkey\<close>

text \<open>\<open>principal?.sessionHash\<close>\<close>

definition session_of :: "principal option \<Rightarrow> string option" where
  "session_of caller = Option.bind caller pr_sessionHash"

definition credential_list :: "string \<Rightarrow> database \<Rightarrow> (string \<times> string list) list" where
  "credential_list userId d = map (\<lambda>k. (pk_id k, pk_transports k)) (user_passkeys userId d)"

definition authenticationOptions_check :: "platform \<Rightarrow> flow_purpose \<Rightarrow> principal option \<Rightarrow> webauthn_options app" where
  "authenticationOptions_check P purpose caller =
     bind (require (purpose = Login \<or> purpose = Reauth) ZodError) (\<lambda>_.
     bind (require (\<not> (purpose = Reauth \<and> \<not> truthy (session_of caller))) (AppError ''SESSION_REQUIRED'' 401)) (\<lambda>_.
     bind (consumeRateLimit (if purpose = Reauth then ''webauthn-options:'' @ du_id (pr_user (the caller)) else ''webauthn-options'')
       60 60000) (\<lambda>_.
     bind (db_get (\<lambda>d. if purpose = Reauth then Some (credential_list (du_id (pr_user (the caller))) d) else None)) (\<lambda>allowed.
     draw (\<lambda>n. p_authenticationOptions P n allowed)))))"

definition authenticationOptions_commit ::
  "platform \<Rightarrow> flow_purpose \<Rightarrow> principal option \<Rightarrow> webauthn_options \<Rightarrow> (string \<times> webauthn_options) app" where
  "authenticationOptions_commit P purpose caller options =
     bind (newId P) (\<lambda>flowId.
     bind Date_now (\<lambda>now.
     bind (insert_flow \<lparr>f_id = flowId, f_purpose = purpose,
       f_userId = (if purpose = Reauth then Some (du_id (pr_user (the caller))) else None), f_tokenHash = None,
       f_challenge = Some (wo_challenge options),
       f_sessionHash = (if purpose = Reauth then session_of caller else None),
       f_expiresAt = now + 5 * 60000, f_consumedAt = None\<rparr>) (\<lambda>_.
     return (flowId, options))))"

text \<open>What a verification remembers: the flow, the key with its owner, and what the response proved.\<close>

record verified_passkey =
  vp_flow :: auth_flow_row
  vp_key :: passkey_row
  vp_user :: user_row
  vp_info :: authentication_info

definition foreign_session :: "auth_flow_row \<Rightarrow> principal option \<Rightarrow> bool" where
  "foreign_session flow caller \<longleftrightarrow> f_purpose flow = Reauth \<and>
     (\<not> truthy (session_of caller) \<or> f_sessionHash flow \<noteq> session_of caller \<or>
      f_userId flow \<noteq> Some (du_id (pr_user (the caller))))"

definition find_passkey :: "string \<Rightarrow> database \<Rightarrow> passkey_row option" where
  "find_passkey i d = find (\<lambda>k. pk_id k = i) (passkeys d)"

definition authenticationVerify_check ::
  "platform \<Rightarrow> completion_input \<Rightarrow> principal option \<Rightarrow> verified_passkey app" where
  "authenticationVerify_check P input caller =
     bind (completionInput P input) (\<lambda>(flowId, (credentialId, response), name).
     bind (loadFlow flowId) (\<lambda>flow.
     bind (require (truthy (f_challenge flow) \<and> f_purpose flow \<in> {Login, Reauth}) invalidFlow) (\<lambda>_.
     bind (require (\<not> foreign_session flow caller) invalidFlow) (\<lambda>_.
     bind (consumeRateLimit (''webauthn-verify:'' @ credentialId) 8 default_window) (\<lambda>_.
     bind (db_get (find_passkey credentialId)) (\<lambda>found.
     bind (the_or found invalidFlow) (\<lambda>key.
     bind (db_get (active_account (Some (pk_userId key)))) (\<lambda>account.
     bind (the_or account invalidFlow) (\<lambda>user.
     bind (require (\<not> (truthy (f_userId flow) \<and> f_userId flow \<noteq> Some (u_id user))) invalidFlow) (\<lambda>_.
     bind (the_or (p_verifyAuthentication P response (the (f_challenge flow)) key) (AppError ''INVALID_PASSKEY'' 400)) (\<lambda>info.
     bind (require (ai_verified info) (AppError ''INVALID_PASSKEY'' 400)) (\<lambda>_.
     return \<lparr>vp_flow = flow, vp_key = key, vp_user = user, vp_info = info\<rparr>))))))))))))"

definition same_key :: "passkey_row \<Rightarrow> passkey_row \<Rightarrow> bool" where
  "same_key a b \<longleftrightarrow> pk_counter a = pk_counter b \<and> pk_publicKey a = pk_publicKey b \<and> pk_userId a = pk_userId b"

text \<open>The account, and the token of a new session unless the flow was a re-authentication.\<close>

definition authenticationVerify_commit ::
  "platform \<Rightarrow> principal option \<Rightarrow> verified_passkey \<Rightarrow> (user_dto \<times> string option) app" where
  "authenticationVerify_commit P caller v = transaction (
     bind (loadFlow (f_id (vp_flow v))) (\<lambda>_.
     bind Date_now (\<lambda>now.
     bind (db_get (active_account (Some (u_id (vp_user v))))) (\<lambda>account.
     bind (the_or account invalidFlow) (\<lambda>fresh.
     bind (db_get (find_passkey (pk_id (vp_key v)))) (\<lambda>found.
     bind (require (case found of Some k \<Rightarrow> same_key k (vp_key v) | None \<Rightarrow> False) invalidFlow) (\<lambda>_.
     bind (consumeFlow (f_id (vp_flow v))) (\<lambda>_.
     bind (db_run (passkeys_update (update_where (\<lambda>k. pk_id k = pk_id (vp_key v))
             (\<lambda>k. k\<lparr>pk_counter := ai_newCounter (vp_info v), pk_backedUp := ai_backedUp (vp_info v)\<rparr>)))) (\<lambda>_.
     if f_purpose (vp_flow v) = Reauth
     then
       bind (db_get (\<lambda>d. has_row (\<lambda>s. Some (ss_tokenHash s) = session_of caller) (sessions d))) (\<lambda>changes.
       bind (db_run (sessions_update (update_where (\<lambda>s. Some (ss_tokenHash s) = session_of caller)
               (\<lambda>s. s\<lparr>ss_reauthAt := now\<rparr>)))) (\<lambda>_.
       bind (require changes invalidFlow) (\<lambda>_.
       return (userDto fresh, None))))
     else
       bind (issueSession P (u_id (vp_user v))) (\<lambda>token.
       return (userDto fresh, Some token)))))))))))"

section \<open>New passkeys\<close>

definition registrationOptions :: "platform \<Rightarrow> string \<Rightarrow> string \<Rightarrow> webauthn_options app" where
  "registrationOptions P username userId =
     bind (db_get (credential_list userId)) (\<lambda>excluded.
     draw (\<lambda>n. p_registrationOptions P n username userId excluded))"

definition newPasskeyOptions_check :: "platform \<Rightarrow> principal \<Rightarrow> webauthn_options app" where
  "newPasskeyOptions_check P caller =
     bind (assertSession caller) (\<lambda>_.
     registrationOptions P (du_username (pr_user caller)) (du_id (pr_user caller)))"

definition newPasskeyOptions_commit :: "platform \<Rightarrow> principal \<Rightarrow> webauthn_options \<Rightarrow> (string \<times> webauthn_options) app" where
  "newPasskeyOptions_commit P caller options =
     bind (newId P) (\<lambda>flowId.
     bind Date_now (\<lambda>now.
     bind (insert_flow \<lparr>f_id = flowId, f_purpose = Register, f_userId = Some (du_id (pr_user caller)),
       f_tokenHash = None, f_challenge = Some (wo_challenge options), f_sessionHash = pr_sessionHash caller,
       f_expiresAt = now + 5 * 60000, f_consumedAt = None\<rparr>) (\<lambda>_.
     return (flowId, options))))"

definition verifyRegistration :: "platform \<Rightarrow> json \<Rightarrow> string \<Rightarrow> registration_info app" where
  "verifyRegistration P response challenge =
     bind (the_or (p_verifyRegistration P response challenge) (AppError ''INVALID_PASSKEY'' 400)) (\<lambda>info.
     bind (require (ri_verified info) (AppError ''INVALID_PASSKEY'' 400)) (\<lambda>_.
     return info))"

definition new_passkey :: "string \<Rightarrow> string \<Rightarrow> registration_info \<Rightarrow> int \<Rightarrow> passkey_row" where
  "new_passkey userId name info now =
     \<lparr>pk_id = ri_credentialId info, pk_userId = userId, pk_publicKey = base64url (ri_publicKey info),
      pk_counter = ri_counter info, pk_transports = ri_transports info, pk_deviceType = ri_deviceType info,
      pk_backedUp = ri_backedUp info, pk_name = name, pk_createdAt = now\<rparr>"

definition insertPasskey :: "string \<Rightarrow> string \<Rightarrow> registration_info \<Rightarrow> passkey_dto app" where
  "insertPasskey userId name info =
     bind Date_now (\<lambda>now.
     let row = new_passkey userId name info now in
     bind (db_get (find_passkey (ri_credentialId info))) (\<lambda>existing.
     bind (require (existing = None) (AppError ''PASSKEY_EXISTS'' 409)) (\<lambda>_.
     bind (db_run (passkeys_update (\<lambda>t. t @ [row]))) (\<lambda>_.
     return (passkey_dto_of row)))))"

text \<open>The flow, the name and what the response proved.\<close>

definition newPasskeyVerify_check ::
  "platform \<Rightarrow> principal \<Rightarrow> completion_input \<Rightarrow> (string \<times> string \<times> registration_info) app" where
  "newPasskeyVerify_check P caller input =
     bind (assertSession caller) (\<lambda>_.
     bind (completionInput P input) (\<lambda>(flowId, (credentialId, response), name).
     bind (loadFlow flowId) (\<lambda>flow.
     bind (require (f_purpose flow = Register \<and> f_userId flow = Some (du_id (pr_user caller)) \<and>
             f_sessionHash flow = pr_sessionHash caller \<and> truthy (f_challenge flow)) invalidFlow) (\<lambda>_.
     bind (verifyRegistration P response (the (f_challenge flow))) (\<lambda>info.
     return (flowId, name, info))))))"

definition newPasskeyVerify_commit :: "principal \<Rightarrow> string \<Rightarrow> string \<Rightarrow> registration_info \<Rightarrow> passkey_dto app" where
  "newPasskeyVerify_commit caller flowId name info = transaction (
     bind (assertSession caller) (\<lambda>_.
     bind (loadFlow flowId) (\<lambda>_.
     bind (consumeFlow flowId) (\<lambda>_.
     insertPasskey (du_id (pr_user caller)) name info))))"

section \<open>Activation and recovery\<close>

definition onboardingFlow :: "platform \<Rightarrow> string \<Rightarrow> flow_purpose \<Rightarrow> (auth_flow_row \<times> user_row) app" where
  "onboardingFlow P token purpose =
     bind (db_get (\<lambda>d. find (\<lambda>f. f_tokenHash f = Some (tokenHash P token)) (authFlows d))) (\<lambda>found.
     bind (the_or found invalidFlow) (\<lambda>flow.
     bind (require (f_purpose flow = purpose \<and> truthy (f_userId flow)) invalidFlow) (\<lambda>_.
     bind (loadFlow (f_id flow)) (\<lambda>_.
     bind (db_get (find_user (the (f_userId flow)))) (\<lambda>account.
     bind (the_or account invalidFlow) (\<lambda>user.
     bind (require (u_status user = (if purpose = Activation then Pending else Active)) invalidFlow) (\<lambda>_.
     return (flow, user))))))))"

definition token_input :: "string \<Rightarrow> ('s, unit) prog" where
  "token_input token = length_input 32 128 token"

definition onboardingOptions_check ::
  "platform \<Rightarrow> flow_purpose \<Rightarrow> string \<Rightarrow> (auth_flow_row \<times> user_row \<times> webauthn_options) app" where
  "onboardingOptions_check P purpose token =
     bind (token_input token) (\<lambda>_.
     bind (consumeRateLimit (''onboarding:'' @ tokenHash P token) 15 default_window) (\<lambda>_.
     bind (onboardingFlow P token purpose) (\<lambda>(flow, user).
     bind (registrationOptions P (u_username user) (u_id user)) (\<lambda>options.
     return (flow, user, options)))))"

definition onboardingOptions_commit ::
  "auth_flow_row \<Rightarrow> user_row \<Rightarrow> webauthn_options \<Rightarrow> (string \<times> string \<times> webauthn_options) app" where
  "onboardingOptions_commit flow user options =
     bind (db_run (authFlows_update (update_where (\<lambda>f. f_id f = f_id flow)
             (\<lambda>f. f\<lparr>f_challenge := Some (wo_challenge options)\<rparr>)))) (\<lambda>_.
     return (f_id flow, u_username user, options))"

record onboarding_input =
  oi_token :: string
  oi_flowId :: string
  oi_password :: string
  oi_passwordOnly :: bool
  oi_response :: "json option"
  oi_name :: "string option"

text \<open>The two shapes of the input: without a passkey, or with its response and its name.\<close>

definition passkey_input :: "onboarding_input \<Rightarrow> ('s, (json \<times> string) option) prog" where
  "passkey_input input =
     (if oi_passwordOnly input
      then bind (require (oi_response input = None) ZodError) (\<lambda>_. return None)
      else
        bind (responseInput (oi_response input)) (\<lambda>(credentialId, response).
        bind (nameInput (oi_name input)) (\<lambda>name.
        return (Some (response, name)))))"

record pending_onboarding =
  po_token :: string
  po_flow :: auth_flow_row
  po_user :: user_row
  po_passkey :: "(registration_info \<times> string) option"
  po_hash :: string

definition onboardingComplete_check ::
  "platform \<Rightarrow> flow_purpose \<Rightarrow> onboarding_input \<Rightarrow> pending_onboarding app" where
  "onboardingComplete_check P purpose input =
     bind (token_input (oi_token input)) (\<lambda>_.
     bind (require (p_isUuid P (oi_flowId input)) ZodError) (\<lambda>_.
     bind (passwordInput (oi_password input)) (\<lambda>_.
     bind (passkey_input input) (\<lambda>passkey.
     bind (onboardingFlow P (oi_token input) purpose) (\<lambda>(flow, user).
     bind (require (f_id flow = oi_flowId input \<and> truthy (f_challenge flow)) invalidFlow) (\<lambda>_.
     bind (consumeRateLimit (''onboarding-complete:'' @ tokenHash P (oi_token input)) 15 default_window) (\<lambda>_.
     bind (case passkey of None \<Rightarrow> return None
           | Some (response, name) \<Rightarrow>
               bind (verifyRegistration P response (the (f_challenge flow))) (\<lambda>info. return (Some (info, name)))) (\<lambda>info.
     bind (hashPassword P (oi_password input)) (\<lambda>hash.
     return \<lparr>po_token = oi_token input, po_flow = flow, po_user = user, po_passkey = info, po_hash = hash\<rparr>)))))))))"

definition activated :: "user_row \<Rightarrow> user_row" where
  "activated user = user\<lparr>u_status := Active, u_version := u_version user + 1\<rparr>"

text \<open>An account is recovered by dropping what it could sign in with before.\<close>

definition drop_credentials :: "flow_purpose \<Rightarrow> string \<Rightarrow> database \<Rightarrow> database" where
  "drop_credentials purpose userId d =
     (if purpose = Recovery
      then sessions_update (delete_where (\<lambda>s. ss_userId s = userId))
             (passkeys_update (delete_where (\<lambda>k. pk_userId k = userId)) d)
      else d)"

definition put_password :: "string \<Rightarrow> string \<Rightarrow> int \<Rightarrow> database \<Rightarrow> database" where
  "put_password userId hash now = passwords_update (upsert (\<lambda>p. pw_userId p = userId)
     (\<lambda>p. p\<lparr>pw_hash := hash, pw_changedAt := now\<rparr>) \<lparr>pw_userId = userId, pw_hash = hash, pw_changedAt = now\<rparr>)"

definition own_flow :: "string \<Rightarrow> auth_flow_row \<Rightarrow> bool" where
  "own_flow userId f \<longleftrightarrow> f_userId f = Some userId \<and> f_consumedAt f = None"

definition addPasskey :: "string \<Rightarrow> (registration_info \<times> string) option \<Rightarrow> unit app" where
  "addPasskey userId passkey =
     (case passkey of None \<Rightarrow> return ()
      | Some (info, name) \<Rightarrow> bind (insertPasskey userId name info) (\<lambda>_. return ()))"

text \<open>The transaction after it has read its flow and account again.\<close>

definition finish_onboarding ::
  "platform \<Rightarrow> flow_purpose \<Rightarrow> pending_onboarding \<Rightarrow> auth_flow_row \<Rightarrow> user_row \<Rightarrow> (user_dto \<times> string) app" where
  "finish_onboarding P purpose begun flow user =
     bind (require (f_challenge flow = f_challenge (po_flow begun)) invalidFlow) (\<lambda>_.
     bind (consumeFlow (f_id (po_flow begun))) (\<lambda>_.
     let userId = u_id (po_user begun) in
     bind (db_run (drop_credentials purpose userId)) (\<lambda>_.
     bind (addPasskey userId (po_passkey begun)) (\<lambda>_.
     bind Date_now (\<lambda>now.
     bind (db_run (put_password userId (po_hash begun) now)) (\<lambda>_.
     bind (db_run (users_update (update_where (\<lambda>u. u_id u = userId)
             (\<lambda>u. u\<lparr>u_status := Active, u_version := u_version user + 1\<rparr>)))) (\<lambda>_.
     bind (initializeUserSecrets P userId) (\<lambda>_.
     bind (policy_refresh P now) (\<lambda>_.
     bind (db_run (consume_flows (own_flow userId) now)) (\<lambda>_.
     bind (issueSession P userId) (\<lambda>token.
     return (userDto (activated user), token))))))))))))"

definition onboardingComplete_commit ::
  "platform \<Rightarrow> flow_purpose \<Rightarrow> pending_onboarding \<Rightarrow> (user_dto \<times> string) app" where
  "onboardingComplete_commit P purpose begun = transaction (
     bind (onboardingFlow P (po_token begun) purpose) (\<lambda>(flow, user).
     finish_onboarding P purpose begun flow user))"

section \<open>Cleaning up\<close>

text \<open>\<open>cleanExpiredIdentityState\<close> of \<open>server/runtime/lifecycle.ts\<close>\<close>

definition cleanExpiredIdentityState :: "int \<Rightarrow> unit app" where
  "cleanExpiredIdentityState now = transaction (
     bind (db_run (authFlows_update (delete_where (\<lambda>f. f_expiresAt f \<le> now)))) (\<lambda>_.
     bind (db_run (sessions_update (delete_where (\<lambda>s. ss_expiresAt s \<le> now)))) (\<lambda>_.
     db_run (rateLimits_update (delete_where (\<lambda>r. rl_resetsAt r \<le> now))))))"

end
