(* ===== verification/Identity_Facts.thy ===== *)
theory Identity_Facts
  imports Webauthn Policy_Facts
begin

text \<open>
  What the operations of identity and account management keep: an account name is taken once, there
  are at most ten accounts, an active account has a password, a session belongs to an active account,
  and a panel that has an active administrator keeps one. The step relation has every operation, with
  the commits of the calls that await something in any world and with anything remembered.
\<close>

section \<open>Frames\<close>

text \<open>Invariants that do not look at rate limits, flows, keys, passkeys and the tables of the policy.\<close>

definition identity_frame :: "(database \<Rightarrow> bool) \<Rightarrow> bool" where
  "identity_frame I \<longleftrightarrow> policy_frame I \<and> (\<forall>d. I d \<longrightarrow> (\<forall>f. I (rateLimits_update f d)) \<and>
     (\<forall>f. I (authFlows_update f d)) \<and> (\<forall>f. I (apiKeys_update f d)) \<and> (\<forall>f. I (passkeys_update f d)))"

lemma identity_frameD:
  assumes "identity_frame I" and "I d"
  shows "I (rateLimits_update f d)" and "I (authFlows_update g d)" and "I (apiKeys_update h d)"
    and "I (passkeys_update k d)"
  using assms by (auto simp: identity_frame_def)

lemma keeps_consumeRateLimit:
  "identity_frame I \<Longrightarrow> keeps (on_db I) (consumeRateLimit key limit windowMs)"
  unfolding consumeRateLimit_def by (intro keeps_rules) (simp_all add: identity_frameD)

lemma keeps_dummyHash: "keeps (on_db I) (dummyHash P)"
  unfolding dummyHash_def hashPassword_def by (intro keeps_rules) simp

lemma keeps_requireRecentSession [keeps_rules]: "keeps I (requireRecentSession caller)"
  unfolding requireRecentSession_def by (intro keeps_rules)

lemma keeps_requireAdmin [keeps_rules]: "keeps I (requireAdmin caller)"
  unfolding requireAdmin_def by (intro keeps_rules)

lemma keeps_hashPassword [keeps_rules]: "keeps (on_db I) (hashPassword P v)"
  unfolding hashPassword_def by (intro keeps_rules)

lemma keeps_loadFlow [keeps_rules]: "keeps I (loadFlow i)"
  unfolding loadFlow_def by (intro keeps_rules)

lemma keeps_assertSession [keeps_rules]: "keeps I (assertSession caller)"
  unfolding assertSession_def by (intro keeps_rules)

lemma keeps_responseInput [keeps_rules]: "keeps I (responseInput r)"
  unfolding responseInput_def by (auto intro!: keeps_rules split: option.split json.split prod.split)

lemma keeps_nameInput [keeps_rules]: "keeps I (nameInput n)"
  unfolding nameInput_def by (intro keeps_rules)

lemma keeps_completionInput [keeps_rules]: "keeps I (completionInput P c)"
  unfolding completionInput_def by (intro keeps_rules)

lemma keeps_verifyRegistration [keeps_rules]: "keeps I (verifyRegistration P r c)"
  unfolding verifyRegistration_def by (intro keeps_rules)

lemma keeps_registrationOptions [keeps_rules]: "keeps (on_db I) (registrationOptions P u i)"
  unfolding registrationOptions_def by (intro keeps_rules)

lemma keeps_onboardingFlow [keeps_rules]: "keeps I (onboardingFlow P token purpose)"
  unfolding onboardingFlow_def by (intro keeps_rules)

lemma keeps_passkey_input [keeps_rules]: "keeps I (passkey_input c)"
  unfolding passkey_input_def case_prod_unfold by (intro keeps_rules)

lemma keeps_token_input [keeps_rules]: "keeps I (token_input c)"
  unfolding token_input_def by (intro keeps_rules)

lemma keeps_authenticate:
  "identity_frame I \<Longrightarrow> keeps (on_db I) (authenticate P h)"
  unfolding authenticate_def authenticate_key_def authenticate_session_def Let_def
  by (intro keeps_rules) (simp_all add: identity_frameD)

lemma keeps_insert_flow: "identity_frame I \<Longrightarrow> keeps (on_db I) (insert_flow row)"
  unfolding insert_flow_def by (intro keeps_rules) (simp add: identity_frameD)

lemma keeps_consumeFlow: "identity_frame I \<Longrightarrow> keeps (on_db I) (consumeFlow i)"
  unfolding consumeFlow_def consume_flows_def by (intro keeps_rules) (simp add: identity_frameD)

lemma keeps_insertPasskey: "identity_frame I \<Longrightarrow> keeps (on_db I) (insertPasskey u n i)"
  unfolding insertPasskey_def Let_def by (intro keeps_rules) (simp add: identity_frameD)

lemma keeps_issueOnboarding: "identity_frame I \<Longrightarrow> keeps (on_db I) (issueOnboarding P i p)"
  unfolding issueOnboarding_def Let_def consume_flows_def
  by (intro keeps_rules keeps_insert_flow) (simp_all add: identity_frameD)

lemmas keeps_identity_parts = keeps_consumeRateLimit keeps_dummyHash keeps_insert_flow keeps_consumeFlow
  keeps_insertPasskey keeps_issueOnboarding

text \<open>Every check, and the operations on keys, passkeys and flows.\<close>

lemma keeps_checks:
  assumes "identity_frame I"
  shows "keeps (on_db I) (passwordLogin_check P u p)"
    and "keeps (on_db I) (reauthenticatePassword_check P caller p)"
    and "keeps (on_db I) (changePassword_check P caller p)"
    and "keeps (on_db I) (setup_check P u p)"
    and "keeps (on_db I) (authenticationOptions_check P purpose caller')"
    and "keeps (on_db I) (authenticationVerify_check P input caller')"
    and "keeps (on_db I) (newPasskeyOptions_check P caller)"
    and "keeps (on_db I) (newPasskeyVerify_check P caller input)"
    and "keeps (on_db I) (onboardingOptions_check P purpose token)"
    and "keeps (on_db I) (onboardingComplete_check P purpose begun)"
  unfolding passwordLogin_check_def reauthenticatePassword_check_def changePassword_check_def
    setup_check_def requireSetup_def authenticationOptions_check_def authenticationVerify_check_def
    newPasskeyOptions_check_def newPasskeyVerify_check_def onboardingOptions_check_def
    onboardingComplete_check_def Let_def case_prod_unfold
  using assms by (auto intro!: keeps_rules keeps_identity_parts split: option.split)

lemma keeps_key_operations:
  assumes "identity_frame I"
  shows "keeps (on_db I) (createApiKey P caller name)"
    and "keeps (on_db I) (revokeApiKey caller i)"
    and "keeps (on_db I) (deletePasskey caller i)"
    and "keeps (on_db I) (authenticationOptions_commit P purpose caller' options)"
    and "keeps (on_db I) (newPasskeyOptions_commit P caller options)"
    and "keeps (on_db I) (newPasskeyVerify_commit caller flowId n info)"
    and "keeps (on_db I) (onboardingOptions_commit flow user options)"
    and "keeps (on_db I) (createUserFlow P caller i purpose)"
    and "keeps (on_db I) (admin_recover P u)"
  unfolding createApiKey_def insert_api_key_def listApiKeys_def revokeApiKey_def deletePasskey_def
    authenticationOptions_commit_def newPasskeyOptions_commit_def newPasskeyVerify_commit_def
    onboardingOptions_commit_def createUserFlow_def admin_recover_def case_prod_unfold
  using assms by (auto intro!: keeps_rules keeps_identity_parts intro: identity_frameD)

section \<open>The invariant of the accounts\<close>

definition accounts_inv :: "database \<Rightarrow> bool" where
  "accounts_inv d \<longleftrightarrow> distinct (map u_id (users d)) \<and> distinct (map u_username (users d)) \<and>
     length (users d) \<le> 10 \<and>
     (\<forall>u \<in> set (users d). u_status u = Active \<longrightarrow> u_id u \<in> pw_userId ` set (passwords d)) \<and>
     (\<forall>s \<in> set (sessions d). \<exists>u \<in> set (users d). u_id u = ss_userId s \<and> u_status u = Active)"

text \<open>With \<open>A\<close>, there is an active administrator as well; the accounts of \<open>U\<close> exist.\<close>

definition identity_inv :: "bool \<Rightarrow> string set \<Rightarrow> database \<Rightarrow> bool" where
  "identity_inv A U d \<longleftrightarrow> accounts_inv d \<and> (A \<longrightarrow> active_admins d \<noteq> []) \<and> U \<subseteq> u_id ` set (users d)"

lemma identity_frame_inv: "identity_frame (identity_inv A U)"
  by (simp add: identity_frame_def policy_frame_def identity_inv_def accounts_inv_def active_admins_def)

lemma identity_inv_empty: "identity_inv False {} empty_db"
  by (simp add: identity_inv_def accounts_inv_def empty_db_def)

lemma active_account_Some:
  "active_account (Some i) d = Some u \<longleftrightarrow> find_user i d = Some u \<and> u_status u = Active"
  by (auto simp: active_account_def split: option.splits if_splits)

lemma find_user_Some: "find_user i d = Some u \<Longrightarrow> u \<in> set (users d) \<and> u_id u = i"
  unfolding find_user_def by (drule find_Some_mem) simp

lemma find_user_unique:
  "accounts_inv d \<Longrightarrow> u \<in> set (users d) \<Longrightarrow> find_user (u_id u) d = Some u"
  using user_tbl.unique_lookup [of d u] by (simp add: accounts_inv_def find_user_def)

lemma same_id_same_user:
  "accounts_inv d \<Longrightarrow> u \<in> set (users d) \<Longrightarrow> v \<in> set (users d) \<Longrightarrow> u_id u = u_id v \<Longrightarrow> u = v"
  by (metis find_user_unique option.inject)

text \<open>Statements on the sessions.\<close>

lemma inv_delete_sessions: "identity_inv A U d \<Longrightarrow> identity_inv A U (sessions_update (delete_where Q) d)"
  by (simp add: identity_inv_def accounts_inv_def active_admins_def)

lemma inv_touch_sessions:
  "identity_inv A U d \<Longrightarrow> (\<And>s. ss_userId (f s) = ss_userId s) \<Longrightarrow>
    identity_inv A U (sessions_update (update_where Q f) d)"
  by (auto simp: identity_inv_def accounts_inv_def active_admins_def set_update_where)

lemma inv_new_session:
  assumes "identity_inv A U d" and "active_account (Some (ss_userId s)) d \<noteq> None"
  shows "identity_inv A U (sessions_update (\<lambda>t. t @ [s]) d)"
proof -
  from assms(2) obtain u where "active_account (Some (ss_userId s)) d = Some u" by blast
  then have "u \<in> set (users d) \<and> u_id u = ss_userId s \<and> u_status u = Active"
    unfolding active_account_Some by (blast dest: find_user_Some)
  with assms(1) show ?thesis
    by (auto simp: identity_inv_def accounts_inv_def active_admins_def)
qed

text \<open>Statements on the passwords.\<close>

lemma inv_touch_passwords:
  assumes "identity_inv A U d" and "\<And>p. pw_userId (f p) = pw_userId p"
  shows "identity_inv A U (passwords_update (update_where Q f) d)"
proof -
  have "pw_userId ` set (update_where Q f (passwords d)) = pw_userId ` set (passwords d)"
    using assms(2) map_update_where [of "passwords d" Q pw_userId f] by (metis set_map)
  with assms(1) show ?thesis by (simp add: identity_inv_def accounts_inv_def active_admins_def)
qed

lemma put_password_mem:
  "pw_userId ` set (passwords (put_password i h now d)) = insert i (pw_userId ` set (passwords d))"
proof -
  have "pw_userId ` set (update_where Q (\<lambda>p. p\<lparr>pw_hash := h, pw_changedAt := now\<rparr>) t) = pw_userId ` set t" for Q t
    using map_update_where [of t Q pw_userId "\<lambda>p. p\<lparr>pw_hash := h, pw_changedAt := now\<rparr>"] by (metis (no_types, lifting) password_row.select_convs(1) password_row.surjective password_row.update_convs(2,3) set_map)
  then show ?thesis
    by (auto simp: put_password_def upsert_def has_row_iff)
qed

lemma inv_put_password: "identity_inv A U d \<Longrightarrow> identity_inv A U (put_password i h now d)"
  unfolding identity_inv_def accounts_inv_def active_admins_def put_password_mem
  by (simp add: put_password_def)

lemma inv_append_password: "identity_inv A U d \<Longrightarrow> identity_inv A U (passwords_update (\<lambda>t. t @ [p]) d)"
  by (auto simp: identity_inv_def accounts_inv_def active_admins_def)

text \<open>A new account; and one account changed, which keeps the identifiers and the names.\<close>

lemma inv_new_user:
  assumes "identity_inv A U d" and "\<not> has_row (\<lambda>v. u_id v = u_id u \<or> u_username v = u_username u) (users d)"
    and "length (users d) < 10"
    and "u_status u = Active \<Longrightarrow> u_id u \<in> pw_userId ` set (passwords d)"
  shows "identity_inv A U (users_update (\<lambda>t. t @ [u]) d)"
  using assms by (auto simp: identity_inv_def accounts_inv_def active_admins_def has_row_iff)

lemma inv_change_user:
  assumes inv: "identity_inv A U d" and f: "\<And>u. u_id (f u) = u_id u" "\<And>u. u_username (f u) = u_username u"
    and password: "\<And>u. u \<in> set (users d) \<Longrightarrow> u_id u = i \<Longrightarrow> u_status (f u) = Active \<Longrightarrow>
      i \<in> pw_userId ` set (passwords d)"
    and session: "\<And>u. u \<in> set (users d) \<Longrightarrow> u_id u = i \<Longrightarrow> u_status u = Active \<Longrightarrow>
      u_status (f u) = Active \<or> (\<forall>s \<in> set (sessions d). ss_userId s \<noteq> i)"
    and admin: "A \<Longrightarrow> \<exists>u \<in> set (users d). if u_id u = i then u_role (f u) = Admin \<and> u_status (f u) = Active
      else u_role u = Admin \<and> u_status u = Active"
  shows "identity_inv A U (users_update (update_where (\<lambda>u. u_id u = i) f) d)"
proof -
  let ?t = "update_where (\<lambda>u. u_id u = i) f (users d)"
  have keys: "map u_id ?t = map u_id (users d)" "map u_username ?t = map u_username (users d)"
    by (simp_all add: map_update_where f)
  have pass: "u_id u \<in> pw_userId ` set (passwords d)" if "u \<in> set ?t" "u_status u = Active" for u
    using that inv password f by (auto simp: set_update_where identity_inv_def accounts_inv_def)
  have sess: "\<exists>u \<in> set ?t. u_id u = ss_userId s \<and> u_status u = Active" if s: "s \<in> set (sessions d)" for s
  proof -
    from inv s obtain u where u: "u \<in> set (users d)" "u_id u = ss_userId s" "u_status u = Active"
      unfolding identity_inv_def accounts_inv_def by blast
    show ?thesis
    proof (cases "u_id u = i")
      case True
      with session [OF u(1) True u(3)] s u(2) have "u_status (f u) = Active" by auto
      with u True f show ?thesis by (intro bexI [of _ "f u"]) (auto simp: set_update_where)
    next
      case False
      with u show ?thesis by (intro bexI [of _ u]) (auto simp: set_update_where)
    qed
  qed
  have "\<exists>u \<in> set ?t. u_role u = Admin \<and> u_status u = Active" if A
    using admin [OF that] by (auto simp: set_update_where split: if_splits)
  then have "A \<longrightarrow> filter (\<lambda>u. u_role u = Admin \<and> u_status u = Active) ?t \<noteq> []"
    by (auto simp: filter_empty_conv)
  moreover have "distinct (map u_id (users d)) \<and> distinct (map u_username (users d)) \<and> length (users d) \<le> 10"
    using inv by (simp add: identity_inv_def accounts_inv_def)
  moreover have "U \<subseteq> u_id ` set ?t"
    using inv keys(1) by (metis identity_inv_def set_map)
  ultimately show ?thesis
    using pass sess by (simp add: identity_inv_def accounts_inv_def active_admins_def keys)
qed

lemma active_admins_iff: "active_admins d \<noteq> [] \<longleftrightarrow> (\<exists>u \<in> set (users d). u_role u = Admin \<and> u_status u = Active)"
  by (auto simp: active_admins_def filter_empty_conv)

text \<open>The checks of \<open>updateUser\<close> are what its statement needs.\<close>

lemma inv_update_user:
  assumes inv: "identity_inv A U d" and user: "find_user i d = Some user"
    and password: "\<not> (uc_status changes = Some Active \<and> find_password i d = None)"
    and pending: "uc_status changes \<noteq> Some Pending"
    and last: "\<not> (u_role user = Admin \<and> u_status user = Active \<and>
      (uc_role changes = Some User \<or> uc_status changes = Some Disabled) \<and> length (active_admins d) \<le> 1)"
  shows "identity_inv A U (users_update (update_where (\<lambda>u. u_id u = i)
    (\<lambda>u. (apply_changes changes limit u)\<lparr>u_version := v\<rparr>))
    (if uc_status changes = Some Disabled then sessions_update (delete_where (\<lambda>s. ss_userId s = i)) d else d))"
    (is "identity_inv A U (users_update (update_where _ ?f) ?e)")
proof (rule inv_change_user)
  show "identity_inv A U ?e" using inv by (simp add: inv_delete_sessions)
next
  fix u assume u: "u \<in> set (users ?e)" "u_id u = i" "u_status (?f u) = Active"
  show "i \<in> pw_userId ` set (passwords ?e)"
  proof (cases "uc_status changes")
    case None
    with u inv show ?thesis
      by (auto simp: apply_changes_def identity_inv_def accounts_inv_def)
  next
    case (Some s)
    with u have "uc_status changes = Some Active" by (simp add: apply_changes_def)
    with password obtain p where "find_password i d = Some p" by auto
    then have "p \<in> set (passwords d)" "pw_userId p = i" unfolding find_password_def by (auto dest: find_Some_mem)
    then show ?thesis by auto
  qed
next
  fix u assume u: "u \<in> set (users ?e)" "u_id u = i" "u_status u = Active"
  show "u_status (?f u) = Active \<or> (\<forall>s \<in> set (sessions ?e). ss_userId s \<noteq> i)"
  proof (cases "uc_status changes = Some Disabled")
    case True
    then show ?thesis by simp
  next
    case False
    with u pending show ?thesis
      by (cases "uc_status changes") (auto simp: apply_changes_def intro: user_status.exhaust)
  qed
next
  assume A
  from user have me: "user \<in> set (users d)" "u_id user = i" by (auto dest: find_user_Some)
  have acc: "accounts_inv d" using inv by (simp add: identity_inv_def)
  show "\<exists>u \<in> set (users ?e). if u_id u = i then u_role (?f u) = Admin \<and> u_status (?f u) = Active
      else u_role u = Admin \<and> u_status u = Active"
  proof (cases "\<exists>u \<in> set (active_admins d). u_id u \<noteq> i")
    case True
    then obtain u where "u \<in> set (users d)" "u_role u = Admin" "u_status u = Active" "u_id u \<noteq> i"
      by (auto simp: active_admins_def)
    then show ?thesis by (intro bexI [of _ u]) auto
  next
    case False
    have "distinct (map u_id (active_admins d))"
      using acc by (simp add: accounts_inv_def active_admins_def distinct_map_filter)
    with False have "length (active_admins d) \<le> 1"
      by (cases "active_admins d"; cases "tl (active_admins d)") auto
    moreover from \<open>A\<close> inv obtain u where "u \<in> set (active_admins d)"
      unfolding identity_inv_def by (cases "active_admins d") auto
    with False me acc have "u_role user = Admin \<and> u_status user = Active"
      by (auto simp: active_admins_def dest: same_id_same_user)
    ultimately have "uc_role changes \<noteq> Some User \<and> uc_status changes \<noteq> Some Disabled" using last by auto
    with \<open>u_role user = Admin \<and> u_status user = Active\<close> pending
    have "u_role (?f user) = Admin \<and> u_status (?f user) = Active"
      by (cases "uc_role changes"; cases "uc_status changes")
        (auto simp: apply_changes_def intro: role.exhaust user_status.exhaust)
    with me show ?thesis by (intro bexI [of _ user]) auto
  qed
qed (simp_all add: apply_changes_def)

section \<open>What a statement that returns has done\<close>

lemma insert_session_ok [prog_ok]:
  "insert_session row w = (Inr u, v) \<longleftrightarrow> \<not> has_row (\<lambda>s. ss_tokenHash s = ss_tokenHash row) (sessions (w_db w)) \<and>
    v = w\<lparr>w_db := sessions_update (\<lambda>t. t @ [row]) (w_db w)\<rparr>"
  by (auto simp: insert_session_def prog_ok)

lemma insert_user_ok [prog_ok]:
  "insert_user row w = (Inr u, v) \<longleftrightarrow>
    \<not> has_row (\<lambda>u. u_id u = u_id row \<or> u_username u = u_username row) (users (w_db w)) \<and>
    v = w\<lparr>w_db := users_update (\<lambda>t. t @ [row]) (w_db w)\<rparr>"
  by (auto simp: insert_user_def prog_ok)

lemma insert_password_ok [prog_ok]:
  "insert_password row w = (Inr u, v) \<longleftrightarrow> \<not> has_row (\<lambda>p. pw_userId p = pw_userId row) (passwords (w_db w)) \<and>
    v = w\<lparr>w_db := passwords_update (\<lambda>t. t @ [row]) (w_db w)\<rparr>"
  by (auto simp: insert_password_def prog_ok)

lemma insert_flow_ok [prog_ok]:
  "insert_flow row w = (Inr u, v) \<longleftrightarrow> \<not> has_row (\<lambda>f. f_id f = f_id row \<or>
      f_tokenHash f \<noteq> None \<and> f_tokenHash f = f_tokenHash row) (authFlows (w_db w)) \<and>
    v = w\<lparr>w_db := authFlows_update (\<lambda>t. t @ [row]) (w_db w)\<rparr>"
  by (auto simp: insert_flow_def prog_ok)

definition session_row_of :: "platform \<Rightarrow> string \<Rightarrow> world \<Rightarrow> session_row" where
  "session_row_of P i w = \<lparr>ss_tokenHash = tokenHash P (base64url (p_randomBytes P (w_draws w) 32)), ss_userId = i,
     ss_expiresAt = w_now w + SESSION_TTL, ss_reauthAt = w_now w\<rparr>"

lemma issueSession_ok [prog_ok]:
  "issueSession P i w = (Inr token, v) \<longleftrightarrow> token = base64url (p_randomBytes P (w_draws w) 32) \<and>
    \<not> has_row (\<lambda>s. ss_tokenHash s = tokenHash P token) (sessions (w_db w)) \<and>
    v = w\<lparr>w_db := sessions_update (\<lambda>t. t @ [session_row_of P i w]) (w_db w), w_draws := w_draws w + 1\<rparr>"
  by (auto simp: issueSession_def prog_ok session_row_of_def)

lemma requireRecentSession_ok [prog_ok]:
  "requireRecentSession caller w = (Inr u, v) \<longleftrightarrow>
    pr_authentication caller = BySession \<and> pr_recentAuthentication caller \<and> v = w"
  by (auto simp: requireRecentSession_def prog_ok)

definition is_admin :: "string \<Rightarrow> database \<Rightarrow> bool" where
  "is_admin i d \<longleftrightarrow> (case find_user i d of Some u \<Rightarrow> u_status u = Active \<and> u_role u = Admin | None \<Rightarrow> False)"

lemma requireAdmin_ok [prog_ok]:
  "requireAdmin caller w = (Inr u, v) \<longleftrightarrow> is_admin (du_id (pr_user caller)) (w_db w) \<and> v = w"
  by (auto simp: requireAdmin_def prog_ok is_admin_def)

lemma loadFlow_ok [prog_ok]:
  "loadFlow i w = (Inr f, v) \<longleftrightarrow> find_flow i (w_db w) = Some f \<and> f_consumedAt f = None \<and>
    w_now w < f_expiresAt f \<and> v = w"
  by (auto simp: loadFlow_def prog_ok)

lemma consumeFlow_ok [prog_ok]:
  "consumeFlow i w = (Inr u, v) \<longleftrightarrow> has_row (unconsumed i) (authFlows (w_db w)) \<and>
    v = w\<lparr>w_db := consume_flows (unconsumed i) (w_now w) (w_db w)\<rparr>"
  by (auto simp: consumeFlow_def prog_ok)

lemma assertSession_ok [prog_ok]:
  "assertSession caller w = (Inr u, v) \<longleftrightarrow> pr_authentication caller = BySession \<and> pr_recentAuthentication caller \<and>
    (\<exists>h s. pr_sessionHash caller = Some h \<and> find_session h (w_db w) = Some s \<and>
       w_now w < ss_expiresAt s \<and> w_now w < ss_reauthAt s + RECENT_TTL) \<and> v = w"
  by (auto simp: assertSession_def prog_ok split: option.splits bind_splits)

lemma onboardingFlow_ok [prog_ok]:
  "onboardingFlow P token purpose w = (Inr (f, u), v) \<longleftrightarrow>
    find (\<lambda>f. f_tokenHash f = Some (tokenHash P token)) (authFlows (w_db w)) = Some f \<and>
    f_purpose f = purpose \<and> truthy (f_userId f) \<and>
    (\<exists>g. find_flow (f_id f) (w_db w) = Some g \<and> f_consumedAt g = None \<and> w_now w < f_expiresAt g) \<and>
    find_user (the (f_userId f)) (w_db w) = Some u \<and>
    u_status u = (if purpose = Activation then Pending else Active) \<and> v = w"
  by (auto simp: onboardingFlow_def prog_ok)

text \<open>The policy touches nothing of the identities.\<close>

definition same_identity :: "database \<Rightarrow> database \<Rightarrow> bool" where
  "same_identity d e \<longleftrightarrow> users e = users d \<and> passwords e = passwords d \<and> sessions e = sessions d \<and>
     apiKeys e = apiKeys d \<and> passkeys e = passkeys d \<and> authFlows e = authFlows d"

lemma same_identity_frame: "policy_frame (same_identity d)"
  by (simp add: policy_frame_def same_identity_def)

lemma refresh_same_identity:
  assumes "policy_refresh P now w = (r, v)"
  shows "same_identity (w_db w) (w_db v)"
  by (rule keepsD [OF keeps_policy_refresh [OF same_identity_frame] _ assms]) (simp add: same_identity_def)

lemma initialize_same_identity:
  assumes "initializeUserSecrets P i w = (r, v)"
  shows "same_identity (w_db w) (w_db v)"
  by (rule keepsD [OF keeps_initializeUserSecrets [OF same_identity_frame] _ assms]) (simp add: same_identity_def)

lemma same_identity_inv:
  "same_identity d e \<Longrightarrow> identity_inv A U e = identity_inv A U d \<and> active_account i e = active_account i d \<and>
    find_user j e = find_user j d"
  by (simp add: same_identity_def identity_inv_def accounts_inv_def active_admins_def active_account_def find_user_def)

section \<open>Every commit keeps the invariant\<close>

lemma keeps_session_operations:
  "keeps (on_db (identity_inv A U)) (logout caller)"
  "keeps (on_db (identity_inv A U)) (reauthenticatePassword_commit caller)"
  "keeps (on_db (identity_inv A U)) (changePassword_commit caller hash)"
  "keeps (on_db (identity_inv A U)) (cleanExpiredIdentityState now)"
  unfolding logout_def reauthenticatePassword_commit_def changePassword_commit_def cleanExpiredIdentityState_def
  by (intro keeps_rules inv_delete_sessions inv_touch_sessions inv_touch_passwords
      identity_frameD [OF identity_frame_inv]; simp)+

lemma keeps_passwordLogin_commit: "keeps (on_db (identity_inv A U)) (passwordLogin_commit P begun)"
  unfolding passwordLogin_commit_def
proof (rule keeps_transactionI, goal_cases)
  case (1 w a t)
  from 1(2) obtain u where u: "active_account (Some (u_id (pl_user begun))) (w_db w) = Some u"
    and t: "w_db t = sessions_update (\<lambda>t. t @ [session_row_of P (u_id (pl_user begun)) w])
      (rateLimits_update (delete_where (\<lambda>r. rl_key r = ''password:'' @ pl_username begun)) (w_db w))"
    by (auto simp: prog_ok session_row_of_def)
  have "identity_inv A U (rateLimits_update f (w_db w))" for f
    using 1(1) by (rule identity_frameD [OF identity_frame_inv])
  moreover have "active_account i (rateLimits_update f d) = active_account i d" for i f d
    by (simp add: active_account_def find_user_def)
  ultimately show ?case
    unfolding t using u by (intro inv_new_session) (simp_all add: session_row_of_def)
qed

lemma keeps_authenticationVerify_commit:
  "keeps (on_db (identity_inv A U)) (authenticationVerify_commit P caller v)"
  unfolding authenticationVerify_commit_def
proof (rule keeps_transactionI, goal_cases)
  case (1 w a t)
  let ?u = "u_id (vp_user v)" and ?f = "f_id (vp_flow v)"
  obtain x where account: "active_account (Some ?u) (w_db w) \<noteq> None" and
    x: "w_db x = passkeys_update (update_where (\<lambda>k. pk_id k = pk_id (vp_key v))
             (\<lambda>k. k\<lparr>pk_counter := ai_newCounter (vp_info v), pk_backedUp := ai_backedUp (vp_info v)\<rparr>))
             (consume_flows (unconsumed ?f) (w_now w) (w_db w))"
    and t: "(\<exists>f. (\<forall>s. ss_userId (f s) = ss_userId s) \<and>
        w_db t = sessions_update (update_where (\<lambda>s. Some (ss_tokenHash s) = session_of caller) f) (w_db x)) \<or>
      w_db t = sessions_update (\<lambda>t. t @ [session_row_of P ?u x]) (w_db x)"
  proof -
    let ?x = "w\<lparr>w_db := passkeys_update (update_where (\<lambda>k. pk_id k = pk_id (vp_key v))
             (\<lambda>k. k\<lparr>pk_counter := ai_newCounter (vp_info v), pk_backedUp := ai_backedUp (vp_info v)\<rparr>))
             (consume_flows (unconsumed ?f) (w_now w) (w_db w))\<rparr>"
    have "active_account (Some ?u) (w_db w) \<noteq> None \<and>
      ((\<exists>f. (\<forall>s. ss_userId (f s) = ss_userId s) \<and>
        w_db t = sessions_update (update_where (\<lambda>s. Some (ss_tokenHash s) = session_of caller) f) (w_db ?x)) \<or>
      w_db t = sessions_update (\<lambda>t. t @ [session_row_of P ?u ?x]) (w_db ?x))"
      using 1(2) unfolding prog_ok
      by (auto simp: prog_ok split: if_splits intro!: exI [of _ "\<lambda>s. s\<lparr>ss_reauthAt := w_now w\<rparr>"])
    then show ?thesis by (intro that [of ?x]) simp_all
  qed
  have inv: "identity_inv A U (w_db x)"
    unfolding x consume_flows_def by (intro identity_frameD [OF identity_frame_inv] 1(1))
  have "active_account (Some ?u) (w_db x) \<noteq> None"
    using account by (simp add: x consume_flows_def active_account_def find_user_def)
  with inv have "identity_inv A U (sessions_update (\<lambda>t. t @ [session_row_of P ?u x]) (w_db x))"
    by (intro inv_new_session) (simp_all add: session_row_of_def)
  with t inv show ?case by (elim disjE exE conjE) (simp_all add: inv_touch_sessions)
qed

lemma keeps_setup_commit: "keeps (on_db (identity_inv A U)) (setup_commit P username hash)"
  unfolding setup_commit_def
proof (rule keeps_transactionI, goal_cases)
  case (1 w a t)
  let ?i = "p_randomUUID P (w_draws w)"
  let ?u = "\<lparr>u_id = ?i, u_username = username, u_role = Admin, u_status = Active,
       u_monthlyLimitBytes = None, u_version = 1, u_createdAt = w_now w\<rparr>"
  let ?p = "\<lparr>pw_userId = ?i, pw_hash = hash, pw_changedAt = w_now w\<rparr>"
  let ?x = "w\<lparr>w_draws := Suc (w_draws w),
    w_db := passwords_update (\<lambda>t. t @ [?p]) (users_update (\<lambda>t. t @ [?u]) (w_db w))\<rparr>"
  obtain y z l where empty: "users (w_db w) = []"
    and y: "initializeUserSecrets P ?i ?x = (Inr (), y)"
    and z: "policy_refresh P (w_now w) y = (Inr l, z)"
    and t: "w_db t = sessions_update (\<lambda>t. t @ [session_row_of P ?i z]) (w_db z)"
    using 1(2) unfolding requireSetup_def needsSetup_def Let_def prog_ok by (auto simp: prog_ok)
  have "identity_inv A U (users_update (\<lambda>t. t @ [?u]) (passwords_update (\<lambda>t. t @ [?p]) (w_db w)))"
    by (intro inv_new_user inv_append_password 1(1)) (simp_all add: empty has_row_iff)
  then have inv: "identity_inv A U (w_db ?x)"
    by (simp add: identity_inv_def accounts_inv_def active_admins_def)
  have same: "same_identity (w_db ?x) (w_db z)"
    using initialize_same_identity [OF y] refresh_same_identity [OF z] by (simp add: same_identity_def)
  have "active_account (Some ?i) (w_db ?x) = Some ?u"
    by (simp add: active_account_def find_user_def empty)
  with inv same_identity_inv [OF same] have "identity_inv A U (w_db z)" "active_account (Some ?i) (w_db z) \<noteq> None"
    by simp_all
  then show ?case unfolding t by (intro inv_new_session) (simp_all add: session_row_of_def)
qed

lemma keeps_create_account: "keeps (on_db (identity_inv A U)) (create_account P username r limit)"
  unfolding create_account_def
proof (rule keeps_transactionI, goal_cases)
  case (1 w a t)
  let ?u = "pending_user (p_randomUUID P (w_draws w)) username r limit (w_now w)"
  let ?x = "w\<lparr>w_draws := Suc (w_draws w), w_db := users_update (\<lambda>t. t @ [?u]) (w_db w)\<rparr>"
  obtain l where *: "length (users (w_db w)) < 10"
    "\<not> has_row (\<lambda>v. u_id v = u_id ?u \<or> u_username v = u_username ?u) (users (w_db w))"
    "issueOnboarding P (p_randomUUID P (w_draws w)) Activation ?x = (Inr l, t)"
    using 1(2) unfolding prog_ok by (auto simp: prog_ok)
  have "on_db (identity_inv A U) ?x"
    using inv_new_user [OF 1(1) *(2,1)] by (simp add: pending_user_def)
  then show ?case by (rule keepsD [OF keeps_issueOnboarding [OF identity_frame_inv] _ *(3)])
qed

lemma keeps_init_account: "keeps (on_db (identity_inv A U)) (init_account P username)"
  unfolding init_account_def
proof (rule keeps_transactionI, goal_cases)
  case (1 w a t)
  let ?u = "pending_user (p_randomUUID P (w_draws w)) username (Some Admin) None (w_now w)"
  let ?x = "w\<lparr>w_draws := Suc (w_draws w), w_db := users_update (\<lambda>t. t @ [?u]) (w_db w)\<rparr>"
  have *: "users (w_db w) = []"
    "issueOnboarding P (p_randomUUID P (w_draws w)) Activation ?x = (Inr a, t)"
    using 1(2) unfolding prog_ok by (auto simp: prog_ok)
  have "on_db (identity_inv A U) ?x"
    using inv_new_user [OF 1(1), of ?u] *(1) by (simp add: pending_user_def has_row_iff)
  then show ?case by (rule keepsD [OF keeps_issueOnboarding [OF identity_frame_inv] _ *(2)])
qed

lemma keeps_createUser: "keeps (on_db (identity_inv A U)) (createUser P caller input)"
  unfolding createUser_def by (intro keeps_rules keeps_create_account)

lemma keeps_admin_init: "keeps (on_db (identity_inv A U)) (admin_init P u)"
  unfolding admin_init_def by (intro keeps_rules keeps_init_account)

text \<open>What \<open>updateUser\<close> does when it returns: the statement on the account, its sessions, a refresh.\<close>

definition changed_users :: "string \<Rightarrow> user_changes \<Rightarrow> int option option \<Rightarrow> int \<Rightarrow> database \<Rightarrow> database" where
  "changed_users i changes limit v d =
     (let e = users_update (update_where (\<lambda>u. u_id u = i) (\<lambda>u. (apply_changes changes limit u)\<lparr>u_version := v\<rparr>)) d
      in if uc_status changes = Some Disabled then sessions_update (delete_where (\<lambda>s. ss_userId s = i)) e else e)"

lemma change_account_ok:
  assumes "change_account P i changes limit w = (Inr r, t)"
  obtains user l where "find_user i (w_db w) = Some user" and "u_version user = uc_expectedVersion changes"
    and "\<not> (uc_status changes = Some Active \<and> find_password i (w_db w) = None)"
    and "\<not> (u_role user = Admin \<and> u_status user = Active \<and>
      (uc_role changes = Some User \<or> uc_status changes = Some Disabled) \<and> length (active_admins (w_db w)) \<le> 1)"
    and "policy_refresh P (w_now w) (w\<lparr>w_db := changed_users i changes limit (u_version user + 1) (w_db w)\<rparr>) = (Inr l, t)"
    and "r = updated_dto changes limit user"
  using assms unfolding change_account_def prog_ok
  by (auto simp: prog_ok changed_users_def Let_def split: if_splits)

lemma inv_changed_users:
  assumes "identity_inv A U d" and "find_user i d = Some user"
    and "\<not> (uc_status changes = Some Active \<and> find_password i d = None)" and "uc_status changes \<noteq> Some Pending"
    and "\<not> (u_role user = Admin \<and> u_status user = Active \<and>
      (uc_role changes = Some User \<or> uc_status changes = Some Disabled) \<and> length (active_admins d) \<le> 1)"
  shows "identity_inv A U (changed_users i changes limit v d)"
proof -
  have "changed_users i changes limit v d = users_update (update_where (\<lambda>u. u_id u = i)
    (\<lambda>u. (apply_changes changes limit u)\<lparr>u_version := v\<rparr>))
    (if uc_status changes = Some Disabled then sessions_update (delete_where (\<lambda>s. ss_userId s = i)) d else d)"
    by (cases d) (simp add: changed_users_def)
  with inv_update_user [OF assms] show ?thesis by simp
qed

lemma change_account_keeps:
  assumes "uc_status changes \<noteq> Some Pending"
  shows "keeps (on_db (identity_inv A U)) (change_account P i changes limit)"
proof (rule keepsI)
  fix w :: world assume inv: "on_db (identity_inv A U) w"
  show "on_db (identity_inv A U) (snd (change_account P i changes limit w))"
  proof (cases "change_account P i changes limit w")
    case (Pair r t)
    show ?thesis
    proof (cases r)
      case (Inl e)
      with Pair inv show ?thesis by (simp add: change_account_def transaction_fail_db)
    next
      case (Inr u)
      with Pair have "change_account P i changes limit w = (Inr u, t)" by simp
      then show ?thesis
      proof (rule change_account_ok)
        fix user l
        assume *: "find_user i (w_db w) = Some user"
          "\<not> (uc_status changes = Some Active \<and> find_password i (w_db w) = None)"
          "\<not> (u_role user = Admin \<and> u_status user = Active \<and>
            (uc_role changes = Some User \<or> uc_status changes = Some Disabled) \<and> length (active_admins (w_db w)) \<le> 1)"
          "policy_refresh P (w_now w) (w\<lparr>w_db := changed_users i changes limit (u_version user + 1) (w_db w)\<rparr>) = (Inr l, t)"
        from inv_changed_users [OF inv *(1,2) assms *(3), of limit "u_version user + 1"]
          same_identity_inv [OF refresh_same_identity [OF *(4)]] Pair
        show ?thesis by simp
      qed
    qed
  qed
qed

lemma keeps_updateUser: "keeps (on_db (identity_inv A U)) (updateUser P caller i changes)"
proof -
  have "keeps (on_db (identity_inv A U)) (bind (require (0 < uc_expectedVersion changes \<and> uc_status changes \<noteq> Some Pending) ZodError)
     (\<lambda>_. change_account P i changes limit))" for limit
  proof (cases "uc_status changes = Some Pending")
    case True
    then show ?thesis by (simp add: keeps_throw)
  next
    case False
    then show ?thesis by (intro keeps_rules change_account_keeps)
  qed
  moreover have "keeps (on_db (identity_inv A U)) (quota_change_input q)" for q
    unfolding quota_change_input_def by (cases q) (auto intro: keeps_rules)
  ultimately show ?thesis
    unfolding updateUser_def by - (rule keeps_bind [OF keeps_requireAdmin], rule keeps_bind)
qed

end
