(* ===== verification/Identity_System.thy ===== *)
theory Identity_System
  imports Identity_Facts
begin

text \<open>
  The identity services as one transition system. A call that awaits something has run its checks and
  is then one of the \<open>calls\<close> that are under way; its commit runs later, after whatever other calls
  have done meanwhile. Time may pass at any moment. The accounts invariant holds in every state.
\<close>

section \<open>Activation\<close>

definition added_passkeys :: "string \<Rightarrow> (registration_info \<times> string) option \<Rightarrow> int \<Rightarrow> passkey_row list" where
  "added_passkeys i p now = (case p of None \<Rightarrow> [] | Some (info, name) \<Rightarrow> [new_passkey i name info now])"

lemma addPasskey_ok [prog_ok]:
  "addPasskey i p w = (Inr u, v) \<longleftrightarrow>
    (case p of None \<Rightarrow> True | Some (info, name) \<Rightarrow> find_passkey (ri_credentialId info) (w_db w) = None) \<and>
    v = w\<lparr>w_db := passkeys_update (\<lambda>t. t @ added_passkeys i p (w_now w)) (w_db w)\<rparr>"
  by (cases p) (auto simp: addPasskey_def added_passkeys_def insertPasskey_def Let_def prog_ok)

text \<open>The database with the account activated, before its secrets and the policy are brought up to date.\<close>

definition onboarded :: "flow_purpose \<Rightarrow> pending_onboarding \<Rightarrow> int \<Rightarrow> int \<Rightarrow> database \<Rightarrow> database" where
  "onboarded purpose begun version now d =
     users_update (update_where (\<lambda>u. u_id u = u_id (po_user begun)) (\<lambda>u. u\<lparr>u_status := Active, u_version := version\<rparr>))
       (put_password (u_id (po_user begun)) (po_hash begun) now
         (passkeys_update (\<lambda>t. t @ added_passkeys (u_id (po_user begun)) (po_passkey begun) now)
           (drop_credentials purpose (u_id (po_user begun))
             (consume_flows (unconsumed (f_id (po_flow begun))) now d))))"

lemma finish_onboarding_ok:
  assumes "finish_onboarding P purpose begun flow user w = (Inr r, t)"
  obtains y z l where "f_challenge flow = f_challenge (po_flow begun)"
    and "has_row (unconsumed (f_id (po_flow begun))) (authFlows (w_db w))"
    and "initializeUserSecrets P (u_id (po_user begun))
      (w\<lparr>w_db := onboarded purpose begun (u_version user + 1) (w_now w) (w_db w)\<rparr>) = (Inr (), y)"
    and "policy_refresh P (w_now w) y = (Inr l, z)"
    and "w_db t = sessions_update (\<lambda>t. t @ [session_row_of P (u_id (po_user begun)) z])
      (consume_flows (own_flow (u_id (po_user begun))) (w_now w) (w_db z))"
    and "r = (userDto (activated user), base64url (p_randomBytes P (w_draws z) 32))"
proof -
  let ?x = "w\<lparr>w_db := onboarded purpose begun (u_version user + 1) (w_now w) (w_db w)\<rparr>"
  let ?y = "snd (initializeUserSecrets P (u_id (po_user begun)) ?x)"
  let ?z = "snd (policy_refresh P (w_now w) ?y)"
  have "f_challenge flow = f_challenge (po_flow begun) \<and> has_row (unconsumed (f_id (po_flow begun))) (authFlows (w_db w)) \<and>
    fst (initializeUserSecrets P (u_id (po_user begun)) ?x) = Inr () \<and> (\<exists>l. fst (policy_refresh P (w_now w) ?y) = Inr l) \<and>
    w_db t = sessions_update (\<lambda>t. t @ [session_row_of P (u_id (po_user begun)) ?z])
      (consume_flows (own_flow (u_id (po_user begun))) (w_now w) (w_db ?z)) \<and>
    r = (userDto (activated user), base64url (p_randomBytes P (w_draws ?z) 32))"
    using assms unfolding finish_onboarding_def Let_def bind_ok require_ok consumeFlow_ok db_run_ok
      addPasskey_ok Date_now_ok return_ok issueSession_ok
    by (elim exE conjE, hypsubst) (simp add: onboarded_def session_row_of_def)
  then show ?thesis
    by (elim conjE exE) (rule that [of ?y _ ?z], auto simp: prod_eq_iff)
qed

lemma onboardingComplete_commit_ok:
  assumes "onboardingComplete_commit P purpose begun w = (Inr r, t)"
  obtains flow user where "onboardingFlow P (po_token begun) purpose w = (Inr (flow, user), w)"
    and "finish_onboarding P purpose begun flow user w = (Inr r, t)"
  using assms unfolding onboardingComplete_commit_def by (auto simp: prog_ok)

lemma inv_onboarded:
  assumes "identity_inv A U d"
  shows "identity_inv A U (onboarded purpose begun v now d)"
  unfolding onboarded_def
proof (rule inv_change_user)
  have "identity_inv A U (drop_credentials purpose i (consume_flows Q now d))" for i Q
    using assms by (simp add: drop_credentials_def consume_flows_def inv_delete_sessions
        identity_frameD [OF identity_frame_inv])
  then show "identity_inv A U (put_password (u_id (po_user begun)) (po_hash begun) now
      (passkeys_update (\<lambda>t. t @ added_passkeys (u_id (po_user begun)) (po_passkey begun) now)
        (drop_credentials purpose (u_id (po_user begun)) (consume_flows (unconsumed (f_id (po_flow begun))) now d))))"
    by (intro inv_put_password identity_frameD [OF identity_frame_inv])
next
  assume A
  with assms obtain u where "u \<in> set (users d)" "u_role u = Admin" "u_status u = Active"
    unfolding identity_inv_def active_admins_iff by blast
  then show "\<exists>u \<in> set (users (put_password (u_id (po_user begun)) (po_hash begun) now
      (passkeys_update (\<lambda>t. t @ added_passkeys (u_id (po_user begun)) (po_passkey begun) now)
        (drop_credentials purpose (u_id (po_user begun)) (consume_flows (unconsumed (f_id (po_flow begun))) now d))))).
     if u_id u = u_id (po_user begun)
     then u_role (u\<lparr>u_status := Active, u_version := v\<rparr>) = Admin \<and> u_status (u\<lparr>u_status := Active, u_version := v\<rparr>) = Active
     else u_role u = Admin \<and> u_status u = Active"
    by (intro bexI [of _ u]) (auto simp: put_password_def drop_credentials_def consume_flows_def)
qed (simp_all add: put_password_mem)

lemma users_onboarded:
  "users (onboarded purpose begun v now d) = update_where (\<lambda>u. u_id u = u_id (po_user begun))
     (\<lambda>u. u\<lparr>u_status := Active, u_version := v\<rparr>) (users d)"
  by (simp add: onboarded_def put_password_def drop_credentials_def consume_flows_def)

lemma onboarded_active:
  assumes "u_id (po_user begun) \<in> u_id ` set (users d)"
  shows "active_account (Some (u_id (po_user begun))) (onboarded purpose begun v now d) \<noteq> None"
proof -
  let ?i = "u_id (po_user begun)" and ?f = "\<lambda>u. u\<lparr>u_status := Active, u_version := v\<rparr>"
  have "find (\<lambda>u. u_id u = i) (update_where (\<lambda>u. u_id u = i) ?f t) = map_option ?f (find (\<lambda>u. u_id u = i) t)" for i and t :: "user_row list"
    by (induction t) auto
  moreover have "find (\<lambda>u. u_id u = ?i) (users d) \<noteq> None"
    using assms by (auto simp: find_None_all)
  ultimately show ?thesis
    by (auto simp: active_account_def find_user_def users_onboarded)
qed

lemma keeps_onboardingComplete_commit:
  assumes "u_id (po_user begun) \<in> U"
  shows "keeps (on_db (identity_inv A U)) (onboardingComplete_commit P purpose begun)"
proof -
  have "identity_inv A U (w_db t)" if inv: "identity_inv A U (w_db w)"
    and run: "onboardingComplete_commit P purpose begun w = (Inr r, t)" for w t r
  proof -
    let ?i = "u_id (po_user begun)"
    from run obtain flow user where "finish_onboarding P purpose begun flow user w = (Inr r, t)"
      by (rule onboardingComplete_commit_ok)
    then obtain y z l where
      y: "initializeUserSecrets P ?i (w\<lparr>w_db := onboarded purpose begun (u_version user + 1) (w_now w) (w_db w)\<rparr>) = (Inr (), y)"
      and z: "policy_refresh P (w_now w) y = (Inr l, z)"
      and t: "w_db t = sessions_update (\<lambda>t. t @ [session_row_of P ?i z]) (consume_flows (own_flow ?i) (w_now w) (w_db z))"
      by (rule finish_onboarding_ok)
    have same: "same_identity (onboarded purpose begun (u_version user + 1) (w_now w) (w_db w)) (w_db z)"
      using initialize_same_identity [OF y] refresh_same_identity [OF z] by (simp add: same_identity_def)
    have "?i \<in> u_id ` set (users (w_db w))" using inv assms by (auto simp: identity_inv_def)
    from onboarded_active [OF this] inv_onboarded [OF inv] same_identity_inv [OF same]
    have "identity_inv A U (w_db z)" "active_account (Some ?i) (w_db z) \<noteq> None" by simp_all
    moreover have "active_account j (consume_flows Q now d) = active_account j d" for j Q now d
      by (simp add: active_account_def consume_flows_def find_user_def)
    moreover have "identity_inv A U (consume_flows Q now d)" if "identity_inv A U d" for Q now d
      using that by (simp add: consume_flows_def identity_frameD [OF identity_frame_inv])
    ultimately show ?thesis
      unfolding t by (intro inv_new_session) (simp_all add: session_row_of_def)
  qed
  then show ?thesis
    unfolding onboardingComplete_commit_def [of P purpose begun] transaction_ok
    by (intro keeps_transactionI) blast
qed

section \<open>Calls under way\<close>

text \<open>What a call that awaits something remembers until its commit.\<close>

datatype call =
    LoginCall pending_login
  | ReauthCall principal
  | PasswordCall principal string
  | SetupCall string string
  | SignInOptionsCall flow_purpose "principal option" webauthn_options
  | SignInCall "principal option" verified_passkey
  | PasskeyOptionsCall principal webauthn_options
  | PasskeyCall principal string string registration_info
  | OnboardingOptionsCall auth_flow_row user_row webauthn_options
  | OnboardingCall flow_purpose pending_onboarding

text \<open>The requests that start one: the checks, up to the await.\<close>

datatype begin_request =
    BeginLogin string string
  | BeginReauth principal string
  | BeginPassword principal string
  | BeginSetup string string
  | BeginSignInOptions flow_purpose "principal option"
  | BeginSignIn completion_input "principal option"
  | BeginPasskeyOptions principal
  | BeginPasskey principal completion_input
  | BeginOnboardingOptions flow_purpose string
  | BeginOnboarding flow_purpose onboarding_input

text \<open>The requests that await nothing.\<close>

datatype request =
    Authenticate headers
  | Logout principal
  | CreateKey principal string
  | RevokeKey principal string
  | DeletePasskey principal string
  | CreateUser principal user_input
  | UpdateUser principal string user_changes
  | UserFlow principal string flow_purpose
  | AdminInit string
  | AdminRecover string
  | CleanExpired

definition yielding :: "('a \<Rightarrow> 'b) \<Rightarrow> 'a app \<Rightarrow> 'b app" where
  "yielding f p = bind p (\<lambda>a. return (f a))"

fun begin_call :: "platform \<Rightarrow> begin_request \<Rightarrow> call app" where
  "begin_call P (BeginLogin u p) = yielding LoginCall (passwordLogin_check P u p)"
| "begin_call P (BeginReauth c p) = yielding (\<lambda>_. ReauthCall c) (reauthenticatePassword_check P c p)"
| "begin_call P (BeginPassword c p) = yielding (PasswordCall c) (changePassword_check P c p)"
| "begin_call P (BeginSetup u p) = yielding (\<lambda>(n, h). SetupCall n h) (setup_check P u p)"
| "begin_call P (BeginSignInOptions q c) = yielding (SignInOptionsCall q c) (authenticationOptions_check P q c)"
| "begin_call P (BeginSignIn i c) = yielding (SignInCall c) (authenticationVerify_check P i c)"
| "begin_call P (BeginPasskeyOptions c) = yielding (PasskeyOptionsCall c) (newPasskeyOptions_check P c)"
| "begin_call P (BeginPasskey c i) = yielding (\<lambda>(f, n, x). PasskeyCall c f n x) (newPasskeyVerify_check P c i)"
| "begin_call P (BeginOnboardingOptions q t) =
     yielding (\<lambda>(f, u, x). OnboardingOptionsCall f u x) (onboardingOptions_check P q t)"
| "begin_call P (BeginOnboarding q i) = yielding (OnboardingCall q) (onboardingComplete_check P q i)"

fun commit_call :: "platform \<Rightarrow> call \<Rightarrow> unit app" where
  "commit_call P (LoginCall b) = yielding (\<lambda>_. ()) (passwordLogin_commit P b)"
| "commit_call P (ReauthCall c) = reauthenticatePassword_commit c"
| "commit_call P (PasswordCall c h) = changePassword_commit c h"
| "commit_call P (SetupCall n h) = yielding (\<lambda>_. ()) (setup_commit P n h)"
| "commit_call P (SignInOptionsCall q c x) = yielding (\<lambda>_. ()) (authenticationOptions_commit P q c x)"
| "commit_call P (SignInCall c v) = yielding (\<lambda>_. ()) (authenticationVerify_commit P c v)"
| "commit_call P (PasskeyOptionsCall c x) = yielding (\<lambda>_. ()) (newPasskeyOptions_commit P c x)"
| "commit_call P (PasskeyCall c f n x) = yielding (\<lambda>_. ()) (newPasskeyVerify_commit c f n x)"
| "commit_call P (OnboardingOptionsCall f u x) = yielding (\<lambda>_. ()) (onboardingOptions_commit f u x)"
| "commit_call P (OnboardingCall q b) = yielding (\<lambda>_. ()) (onboardingComplete_commit P q b)"

fun run_request :: "platform \<Rightarrow> request \<Rightarrow> unit app" where
  "run_request P (Authenticate h) = yielding (\<lambda>_. ()) (authenticate P h)"
| "run_request P (Logout c) = logout c"
| "run_request P (CreateKey c n) = yielding (\<lambda>_. ()) (createApiKey P c n)"
| "run_request P (RevokeKey c i) = revokeApiKey c i"
| "run_request P (DeletePasskey c i) = deletePasskey c i"
| "run_request P (CreateUser c i) = yielding (\<lambda>_. ()) (createUser P c i)"
| "run_request P (UpdateUser c i x) = yielding (\<lambda>_. ()) (updateUser P c i x)"
| "run_request P (UserFlow c i q) = yielding (\<lambda>_. ()) (createUserFlow P c i q)"
| "run_request P (AdminInit n) = yielding (\<lambda>_. ()) (admin_init P n)"
| "run_request P (AdminRecover n) = yielding (\<lambda>_. ()) (admin_recover P n)"
| "run_request P CleanExpired = bind Date_now (\<lambda>now. cleanExpiredIdentityState now)"

text \<open>A state is the world with the calls under way; the rest of the panel leaves the identities alone.\<close>

type_synonym panel = "world \<times> call list"

inductive identity_step :: "platform \<Rightarrow> panel \<Rightarrow> panel \<Rightarrow> bool" for P where
  request: "run_request P q w = (r, t) \<Longrightarrow> identity_step P (w, cs) (t, cs)"
| begins: "begin_call P b w = (Inr c, t) \<Longrightarrow> identity_step P (w, cs) (t, c # cs)"
| rejected: "begin_call P b w = (Inl e, t) \<Longrightarrow> identity_step P (w, cs) (t, cs)"
| commits: "c \<in> set cs \<Longrightarrow> commit_call P c w = (r, t) \<Longrightarrow> identity_step P (w, cs) (t, remove1 c cs)"
| time: "w_now w \<le> now \<Longrightarrow> identity_step P (w, cs) (w\<lparr>w_now := now\<rparr>, cs)"
| elsewhere: "same_identity (w_db w) (w_db t) \<Longrightarrow> w_now t = w_now w \<Longrightarrow> w_draws w \<le> w_draws t \<Longrightarrow>
    identity_step P (w, cs) (t, cs)"

lemma keeps_yielding [keeps_rules]: "keeps I p \<Longrightarrow> keeps I (yielding f p)"
  unfolding yielding_def by (intro keeps_rules)

lemma yielding_ok [prog_ok]: "yielding f p w = (Inr b, t) \<longleftrightarrow> (\<exists>a. p w = (Inr a, t) \<and> b = f a)"
  by (auto simp: yielding_def prog_ok)

lemma keeps_begin_call: "identity_frame I \<Longrightarrow> keeps (on_db I) (begin_call P b)"
  by (cases b) (auto intro!: keeps_yielding keeps_checks)

text \<open>The accounts that calls under way are about to activate.\<close>

definition awaited :: "call list \<Rightarrow> string set" where
  "awaited cs = {u_id (po_user b) | q b. OnboardingCall q b \<in> set cs}"

lemma keeps_commit_call:
  assumes "c \<in> set cs"
  shows "keeps (on_db (identity_inv A (awaited cs))) (commit_call P c)"
proof (cases c)
  case (OnboardingCall q b)
  with assms have "u_id (po_user b) \<in> awaited cs" by (auto simp: awaited_def)
  with OnboardingCall show ?thesis by (simp add: keeps_yielding keeps_onboardingComplete_commit)
qed (auto intro!: keeps_yielding keeps_session_operations keeps_passwordLogin_commit keeps_setup_commit
    keeps_key_operations keeps_authenticationVerify_commit identity_frame_inv)

lemma keeps_run_request: "keeps (on_db (identity_inv A U)) (run_request P q)"
  by (cases q) (auto intro!: keeps_rules keeps_yielding keeps_session_operations keeps_key_operations
      keeps_createUser keeps_updateUser keeps_admin_init keeps_authenticate identity_frame_inv)

text \<open>A completion that is under way has read its account.\<close>

lemma onboardingComplete_check_user:
  assumes "onboardingComplete_check P purpose input w = (Inr b, t)"
  shows "u_id (po_user b) \<in> u_id ` set (users (w_db t))"
proof -
  have "identity_frame (\<lambda>d. users d = users (w_db w))" by (simp add: identity_frame_def policy_frame_def)
  from keepsD [OF keeps_checks(10) [OF this] _ assms] have "users (w_db t) = users (w_db w)" by simp
  moreover have "po_user b \<in> set (users (w_db w))"
  proof -
    obtain flow user x where "onboardingFlow P (oi_token input) purpose w = (Inr (flow, user), x)" "po_user b = user"
      using assms unfolding onboardingComplete_check_def passkey_input_def responseInput_def nameInput_def
      by (auto simp: prog_ok token_input_def split: if_splits option.splits json.splits prod.splits)
    then show ?thesis by (auto simp: onboardingFlow_ok dest: find_user_Some)
  qed
  ultimately show ?thesis by simp
qed

section \<open>The invariant of the system\<close>

definition panel_inv :: "bool \<Rightarrow> panel \<Rightarrow> bool" where
  "panel_inv A s \<longleftrightarrow> identity_inv A (awaited (snd s)) (w_db (fst s))"

lemma inv_less_awaited: "identity_inv A U d \<Longrightarrow> V \<subseteq> U \<Longrightarrow> identity_inv A V d"
  by (auto simp: identity_inv_def)

lemma awaited_remove: "awaited (remove1 c cs) \<subseteq> awaited cs"
  using set_remove1_subset [of c cs] by (auto simp: awaited_def)

lemma begin_call_awaited:
  assumes "identity_inv A (awaited cs) (w_db w)" and "begin_call P b w = (Inr c, t)"
  shows "identity_inv A (awaited (c # cs)) (w_db t)"
proof -
  have inv: "identity_inv A (awaited cs) (w_db t)"
    using keepsD [OF keeps_begin_call [OF identity_frame_inv] _ assms(2)] assms(1) by simp
  show ?thesis
  proof (cases "\<exists>q x. c = OnboardingCall q x")
    case True
    then obtain q x where c: "c = OnboardingCall q x" by blast
    with assms(2) obtain i where "onboardingComplete_check P q i w = (Inr x, t)"
      by (cases b) (auto simp: prog_ok split: prod.splits)
    then have "u_id (po_user x) \<in> u_id ` set (users (w_db t))" by (rule onboardingComplete_check_user)
    moreover have "awaited (c # cs) = insert (u_id (po_user x)) (awaited cs)"
      by (auto simp: awaited_def c)
    ultimately show ?thesis using inv by (simp add: identity_inv_def)
  next
    case False
    then have "awaited (c # cs) = awaited cs" by (auto simp: awaited_def)
    with inv show ?thesis by simp
  qed
qed

lemma panel_step_inv:
  assumes "identity_step P s t" and "panel_inv A s"
  shows "panel_inv A t"
  using assms
proof (induction rule: identity_step.induct)
  case (request q w r t cs)
  from keepsD [OF keeps_run_request _ request(1)] request(2) show ?case by (simp add: panel_inv_def)
next
  case (begins b w c t cs)
  from begin_call_awaited [OF _ begins(1)] begins(2) show ?case by (simp add: panel_inv_def)
next
  case (rejected b w e t cs)
  from keepsD [OF keeps_begin_call [OF identity_frame_inv] _ rejected(1)] rejected(2)
  show ?case by (simp add: panel_inv_def)
next
  case (commits c cs w r t)
  from keepsD [OF keeps_commit_call [OF commits(1)] _ commits(2)] commits(3)
  show ?case by (auto simp: panel_inv_def intro: inv_less_awaited [OF _ awaited_remove])
next
  case (time w now cs)
  then show ?case by (simp add: panel_inv_def)
next
  case (elsewhere w t cs)
  then show ?case by (simp add: panel_inv_def same_identity_inv)
qed

text \<open>The start, and a panel that has an active administrator.\<close>

definition fresh_panel :: "panel \<Rightarrow> bool" where
  "fresh_panel s \<longleftrightarrow> w_db (fst s) = empty_db \<and> snd s = []"

interpretation accounts: transition_system fresh_panel "identity_step P" "panel_inv False" for P
proof
  fix s assume "fresh_panel s"
  then show "panel_inv False s"
    using identity_inv_empty by (simp add: fresh_panel_def panel_inv_def awaited_def)
qed (rule panel_step_inv)

interpretation administered: transition_system "panel_inv True" "identity_step P" "panel_inv True" for P
  by unfold_locales (auto intro: panel_step_inv)

end
