(* ===== verification/Identity_Guards.thy ===== *)
theory Identity_Guards
  imports Identity_System
begin

text \<open>
  Facts that hold from some moment on, such as that a key is revoked or a flow is used up. What such a
  fact has to survive is the interface \<open>step_guard\<close>: the statements that may touch it. Its client fact
  is that every step of the identity services preserves it. The two interpretations are on the API keys
  and on the one-time flows.
\<close>

locale step_guard =
  fixes P :: platform and I :: "world \<Rightarrow> bool"
  assumes draws: "I w \<Longrightarrow> I (w\<lparr>w_draws := w_draws w + 1\<rparr>)"
    and dummy: "I w \<Longrightarrow> I (w\<lparr>w_dummyHash := dummy_hash\<rparr>)"
    and rollback: "I w \<Longrightarrow> I t \<Longrightarrow> I (t\<lparr>w_db := w_db w\<rparr>)"
    and clock: "I w \<Longrightarrow> I (w\<lparr>w_now := now\<rparr>)"
    and other: "I w \<Longrightarrow> apiKeys (w_db t) = apiKeys (w_db w) \<Longrightarrow> authFlows (w_db t) = authFlows (w_db w) \<Longrightarrow>
      w_draws w \<le> w_draws t \<Longrightarrow> I t"
    and key_used: "keeps I (authenticate P h)"
    and key_created: "keeps I (createApiKey P c n)"
    and key_revoked: "keeps I (revokeApiKey c i)"
    and flow_used: "keeps I (db_run (consume_flows Q now))"
    and flow_challenged: "keeps I (onboardingOptions_commit f u x)"
    and flow_expired: "keeps I (db_run (authFlows_update (delete_where Q)))"
    and sign_in_flow: "keeps I (authenticationOptions_commit P q c' x)"
    and passkey_flow: "keeps I (newPasskeyOptions_commit P c x)"
    and link_flow: "keeps I (issueOnboarding P i q)"
begin

lemma guards_draw: "keeps I (draw f)"
  using draws by (auto simp: keeps_def)

lemma guards_db:
  "(\<And>d. apiKeys (f d) = apiKeys d \<and> authFlows (f d) = authFlows d) \<Longrightarrow> keeps I (db_run f)"
  by (auto simp: keeps_def intro: other)

lemma guards_transaction: "keeps I p \<Longrightarrow> keeps I (transaction p)"
  by (auto simp: keeps_def transaction_run rollback split: sum.split)

lemma guards_read: "keeps I (db_get f)" "keeps I Date_now"
  by (simp_all add: keeps_def)

lemma guards_random: "keeps I (newId P)" "keeps I (newToken P p)" "keeps I (encryptSecret P v)" "keeps I (hashPassword P v)"
  by (auto simp: newId_def newToken_def hashPassword_def encryptSecret_def Let_def case_prod_unfold
      intro!: guards_draw keeps_rules)

lemmas guards = guards_transaction guards_read guards_random guards_draw keeps_return keeps_throw keeps_gets
  keeps_lift_sum keeps_require keeps_the_or keeps_bind keeps_if keeps_option keeps_attempt keeps_for_each
  keeps_fold_each keeps_inputs keeps_requireRecentSession keeps_requireAdmin keeps_loadFlow keeps_assertSession
  keeps_completionInput keeps_responseInput keeps_nameInput keeps_verifyRegistration keeps_onboardingFlow
  keeps_passkey_input keeps_token_input keeps_yielding

lemma guards_secrets: "keeps I (initializeUserSecrets P i)"
  unfolding initializeUserSecrets_def initialize_credential_def initialize_token_def insert_subscription_token_def
  by (intro guards guards_db) simp_all

lemma guards_refresh: "keeps I (policy_refresh P now)"
  unfolding policy_refresh_def Let_def authorize_user_def case_prod_unfold
  by (intro guards guards_db guards_secrets keeps_readProxyCredentials keeps_userQuota)
    (simp_all add: put_quota_def put_policy_def)

lemma guards_session: "keeps I (issueSession P i)"
  unfolding issueSession_def insert_session_def by (intro guards guards_db) simp_all

lemma guards_limit: "keeps I (consumeRateLimit key limit windowMs)"
  unfolding consumeRateLimit_def by (intro guards guards_db) simp_all

lemma guards_dummy: "keeps I (dummyHash P)"
  unfolding dummyHash_def by (intro guards keeps_modify dummy)

lemma guards_consume: "keeps I (consumeFlow i)"
  unfolding consumeFlow_def by (intro guards flow_used)

lemma guards_passkey: "keeps I (insertPasskey i n x)"
  unfolding insertPasskey_def Let_def by (intro guards guards_db) simp_all

lemma guards_options: "keeps I (registrationOptions P n i)"
  unfolding registrationOptions_def by (intro guards)

lemma guards_quota: "keeps I (quota_change_input q)"
  unfolding quota_change_input_def by (cases q) (auto intro!: guards)

lemmas guards_parts = guards_secrets guards_refresh guards_session guards_limit guards_dummy guards_consume
  guards_passkey guards_options guards_quota link_flow flow_used flow_expired

lemma guards_begin_call: "keeps I (begin_call P b)"
  by (cases b)
    (auto simp: passwordLogin_check_def reauthenticatePassword_check_def changePassword_check_def
      setup_check_def requireSetup_def authenticationOptions_check_def authenticationVerify_check_def
      newPasskeyOptions_check_def newPasskeyVerify_check_def onboardingOptions_check_def
      onboardingComplete_check_def Let_def case_prod_unfold
      intro!: guards guards_parts split: option.split)

lemma guards_commit_onboarding: "keeps I (onboardingComplete_commit P q b)"
  unfolding onboardingComplete_commit_def finish_onboarding_def addPasskey_def Let_def case_prod_unfold
  by (intro guards guards_parts guards_db) (auto simp: drop_credentials_def put_password_def)

lemma guards_commit_call: "keeps I (commit_call P c)"
  by (cases c)
    (auto simp: passwordLogin_commit_def reauthenticatePassword_commit_def changePassword_commit_def
      setup_commit_def requireSetup_def authenticationVerify_commit_def newPasskeyVerify_commit_def
      insert_user_def insert_password_def Let_def case_prod_unfold
      intro!: guards guards_parts guards_db sign_in_flow passkey_flow flow_challenged guards_commit_onboarding)

lemma guards_run_request: "keeps I (run_request P q)"
  by (cases q)
    (auto simp: logout_def deletePasskey_def createUser_def create_account_def updateUser_def change_account_def
      createUserFlow_def admin_init_def init_account_def admin_recover_def cleanExpiredIdentityState_def
      insert_user_def Let_def case_prod_unfold
      intro!: guards guards_parts guards_db key_used key_created key_revoked)

text \<open>Every step preserves the fact.\<close>

lemma step_guarded: "identity_step P s t \<Longrightarrow> I (fst s) \<Longrightarrow> I (fst t)"
proof (induction rule: identity_step.induct)
  case (request q w r t cs)
  from keepsD [OF guards_run_request _ request(1)] request(2) show ?case by simp
next
  case (begins b w c t cs)
  from keepsD [OF guards_begin_call _ begins(1)] begins(2) show ?case by simp
next
  case (rejected b w e t cs)
  from keepsD [OF guards_begin_call _ rejected(1)] rejected(2) show ?case by simp
next
  case (commits c cs w r t)
  from keepsD [OF guards_commit_call _ commits(2)] commits(3) show ?case by simp
next
  case (time w now cs)
  then show ?case by (simp add: clock)
next
  case (elsewhere w t cs)
  then show ?case by (auto simp: same_identity_def intro: other)
qed

lemma steps_guarded: "(identity_step P)\<^sup>*\<^sup>* s t \<Longrightarrow> I (fst s) \<Longrightarrow> I (fst t)"
  by (induction rule: rtranclp_induct) (auto intro: step_guarded)

end

section \<open>Revoked keys\<close>

text \<open>A key with this digest exists, and no such key is in force.\<close>

definition key_dead :: "string \<Rightarrow> database \<Rightarrow> bool" where
  "key_dead hash d \<longleftrightarrow> (\<exists>k \<in> set (apiKeys d). k_tokenHash k = hash) \<and>
     (\<forall>k \<in> set (apiKeys d). k_tokenHash k = hash \<longrightarrow> k_revokedAt k \<noteq> None)"

lemma key_dead_touch:
  assumes "key_dead hash d"
    and "\<And>k. k_tokenHash (f k) = k_tokenHash k" and "\<And>k. k_revokedAt k \<noteq> None \<Longrightarrow> k_revokedAt (f k) \<noteq> None"
  shows "key_dead hash (apiKeys_update (update_where Q f) d)"
proof -
  from assms(1) obtain k where "k \<in> set (apiKeys d)" "k_tokenHash k = hash" by (auto simp: key_dead_def)
  then have "(if Q k then f k else k) \<in> set (update_where Q f (apiKeys d))"
    "k_tokenHash (if Q k then f k else k) = hash"
    by (auto simp: set_update_where assms(2))
  moreover have "k_revokedAt r \<noteq> None" if "r \<in> set (update_where Q f (apiKeys d))" "k_tokenHash r = hash" for r
    using that assms by (auto simp: set_update_where key_dead_def)
  ultimately show ?thesis unfolding key_dead_def by auto
qed

lemma keeps_key_dead_insert: "keeps (on_db (key_dead hash)) (insert_api_key row)"
proof (rule keepsI)
  fix w :: world assume "on_db (key_dead hash) w"
  then show "on_db (key_dead hash) (snd (insert_api_key row w))"
    by (cases "k_tokenHash row = hash")
      (auto simp: insert_api_key_def bind_run require_run key_dead_def has_row_iff)
qed

interpretation revoked: step_guard P "on_db (key_dead hash)" for P hash
proof
  show "keeps (on_db (key_dead hash)) (authenticate P h)" for h
    unfolding authenticate_def authenticate_key_def authenticate_session_def Let_def
    by (intro keeps_rules key_dead_touch) auto
  show "keeps (on_db (key_dead hash)) (createApiKey P c n)" for c n
    unfolding createApiKey_def listApiKeys_def by (intro keeps_rules keeps_key_dead_insert)
  show "keeps (on_db (key_dead hash)) (revokeApiKey c i)" for c i
    unfolding revokeApiKey_def by (intro keeps_rules key_dead_touch) auto
  show "keeps (on_db (key_dead hash)) (onboardingOptions_commit f u x)" for f u x
    unfolding onboardingOptions_commit_def by (intro keeps_rules) (simp add: key_dead_def)
  show "keeps (on_db (key_dead hash)) (authenticationOptions_commit P q c' x)" for q c' x
    unfolding authenticationOptions_commit_def insert_flow_def by (intro keeps_rules) (simp add: key_dead_def)
  show "keeps (on_db (key_dead hash)) (newPasskeyOptions_commit P c x)" for c x
    unfolding newPasskeyOptions_commit_def insert_flow_def by (intro keeps_rules) (simp add: key_dead_def)
  show "keeps (on_db (key_dead hash)) (issueOnboarding P i q)" for i q
    unfolding issueOnboarding_def insert_flow_def consume_flows_def Let_def
    by (intro keeps_rules) (simp_all add: key_dead_def)
qed (auto simp: key_dead_def keeps_def consume_flows_def)

section \<open>Used flows\<close>

text \<open>
  The \<open>n\<close>-th identifier has been drawn, and no flow with it is open. Identifiers do not repeat: this is
  what \<open>randomUUID\<close> promises.
\<close>

definition flow_spent :: "platform \<Rightarrow> nat \<Rightarrow> world \<Rightarrow> bool" where
  "flow_spent P n w \<longleftrightarrow> inj (p_randomUUID P) \<and> n < w_draws w \<and>
     \<not> has_row (unconsumed (p_randomUUID P n)) (authFlows (w_db w))"

lemma spent_db:
  "(\<And>d. authFlows (f d) = authFlows d) \<Longrightarrow> keeps (flow_spent P n) (db_run f)"
  by (simp add: keeps_def flow_spent_def)

lemma spent_draw: "keeps (flow_spent P n) (draw f)"
  by (auto simp: keeps_def flow_spent_def)

lemma spent_transaction: "keeps (flow_spent P n) p \<Longrightarrow> keeps (flow_spent P n) (transaction p)"
  by (auto simp: keeps_def flow_spent_def transaction_run split: sum.split)

lemma spent_consume: "keeps (flow_spent P n) (db_run (consume_flows Q now))"
  by (auto simp: keeps_def flow_spent_def consume_flows_def has_row_iff set_update_where unconsumed_def)

lemma spent_insert:
  assumes "\<And>i now. f_id (row i now) = i"
  shows "keeps (flow_spent P n) (bind (newId P) (\<lambda>i. bind Date_now (\<lambda>now. bind (insert_flow (row i now)) (\<lambda>_. return (g i)))))"
    and "keeps (flow_spent P n) (bind (newId P) (\<lambda>i. insert_flow (row i now)))"
proof -
  have new: "p_randomUUID P (w_draws w) \<noteq> p_randomUUID P n" if "flow_spent P n w" for w
    using that by (auto simp: flow_spent_def dest: injD)
  have insert: "flow_spent P n (snd (insert_flow (row (p_randomUUID P (w_draws w)) now) (w\<lparr>w_draws := w_draws w + 1\<rparr>)))"
    if "flow_spent P n w" for w now
    using that new [OF that] assms
    by (auto simp: insert_flow_def bind_run require_run flow_spent_def has_row_iff unconsumed_def)
  then show "keeps (flow_spent P n) (bind (newId P) (\<lambda>i. insert_flow (row i now)))"
    by (auto simp: keeps_def bind_run newId_run)
  from insert show "keeps (flow_spent P n) (bind (newId P) (\<lambda>i. bind Date_now (\<lambda>now. bind (insert_flow (row i now)) (\<lambda>_. return (g i)))))"
    by (auto simp: keeps_def bind_run newId_run split: sum.split)
qed

lemma spent_reads: "keeps (flow_spent P n) (db_get f)" "keeps (flow_spent P n) Date_now"
  by (simp_all add: keeps_def)

lemma spent_random: "keeps (flow_spent P n) (newToken P p)" "keeps (flow_spent P n) (newId P)"
  unfolding newToken_def newId_def by (rule spent_draw)+

text \<open>Identifiers that have been drawn stay drawn.\<close>

lemma drawn_transaction: "keeps (\<lambda>w. n < w_draws w) p \<Longrightarrow> keeps (\<lambda>w. n < w_draws w) (transaction p)"
  by (auto simp: keeps_def transaction_run split: sum.split)

interpretation drawn: step_guard P "\<lambda>w. n < w_draws w" for P n
proof
  show "keeps (\<lambda>w. n < w_draws w) (authenticate P h)" for h
    unfolding authenticate_def authenticate_key_def authenticate_session_def Let_def
    by (intro keeps_rules) (auto simp: keeps_def)
  show "keeps (\<lambda>w. n < w_draws w) (createApiKey P c m)" for c m
    unfolding createApiKey_def listApiKeys_def insert_api_key_def newToken_def newId_def
    by (intro keeps_rules) (auto simp: keeps_def)
  show "keeps (\<lambda>w. n < w_draws w) (revokeApiKey c i)" for c i
    unfolding revokeApiKey_def by (intro keeps_rules) (auto simp: keeps_def)
  show "keeps (\<lambda>w. n < w_draws w) (onboardingOptions_commit f u x)" for f u x
    unfolding onboardingOptions_commit_def by (intro keeps_rules) (auto simp: keeps_def)
  show "keeps (\<lambda>w. n < w_draws w) (authenticationOptions_commit P q c' x)" for q c' x
    unfolding authenticationOptions_commit_def insert_flow_def newId_def by (intro keeps_rules) (auto simp: keeps_def)
  show "keeps (\<lambda>w. n < w_draws w) (newPasskeyOptions_commit P c x)" for c x
    unfolding newPasskeyOptions_commit_def insert_flow_def newId_def by (intro keeps_rules) (auto simp: keeps_def)
  show "keeps (\<lambda>w. n < w_draws w) (issueOnboarding P i q)" for i q
    unfolding issueOnboarding_def insert_flow_def newToken_def newId_def Let_def
    by (intro keeps_rules drawn_transaction) (auto simp: keeps_def)
qed (auto simp: keeps_def)

interpretation spent: step_guard P "flow_spent P n" for P n
proof
  show "keeps (flow_spent P n) (authenticate P h)" for h
    unfolding authenticate_def authenticate_key_def authenticate_session_def Let_def
    by (intro keeps_rules spent_db spent_reads) simp
  show "keeps (flow_spent P n) (createApiKey P c m)" for c m
    unfolding createApiKey_def listApiKeys_def insert_api_key_def
    by (intro keeps_rules spent_db spent_reads spent_random) simp
  show "keeps (flow_spent P n) (revokeApiKey c i)" for c i
    unfolding revokeApiKey_def by (intro keeps_rules spent_db spent_reads) simp
  show "keeps (flow_spent P n) (onboardingOptions_commit f u x)" for f u x
    unfolding onboardingOptions_commit_def
    by (auto simp: keeps_def flow_spent_def has_row_iff set_update_where unconsumed_def bind_run)
  show "keeps (flow_spent P n) (authenticationOptions_commit P q c' x)" for q c' x
    unfolding authenticationOptions_commit_def by (rule spent_insert) simp
  show "keeps (flow_spent P n) (newPasskeyOptions_commit P c x)" for c x
    unfolding newPasskeyOptions_commit_def by (rule spent_insert) simp
  show "keeps (flow_spent P n) (issueOnboarding P i q)" for i q
  proof -
    have link: "keeps (flow_spent P n) (bind (newId P) (\<lambda>j. insert_flow \<lparr>f_id = j, f_purpose = q, f_userId = Some i,
        f_tokenHash = Some h, f_challenge = None, f_sessionHash = None, f_expiresAt = e, f_consumedAt = None\<rparr>))" for h e
      by (rule spent_insert(2) [of "\<lambda>j _. \<lparr>f_id = j, f_purpose = q, f_userId = Some i,
        f_tokenHash = Some h, f_challenge = None, f_sessionHash = None, f_expiresAt = e, f_consumedAt = None\<rparr>"]) simp
    show ?thesis
      unfolding issueOnboarding_def Let_def
      by (rule keeps_bind [OF spent_random(1)], rule keeps_bind [OF spent_reads(2)], rule keeps_bind,
          rule spent_transaction, rule keeps_bind [OF spent_consume], rule link, rule keeps_return)
  qed
qed (auto simp: flow_spent_def keeps_def consume_flows_def has_row_iff set_update_where unconsumed_def)

end
