(* ===== verification/Identity_Props.thy ===== *)
theory Identity_Props
  imports Identity_Guards Policy_Props
begin

text \<open>
  What identity management guarantees: who a request is taken for, that the accounts stay well formed
  and administered, that logins, password changes, recoveries and revocations do what they promise in
  every interleaving, and where the code falls short.
\<close>

section \<open>Examples\<close>

text \<open>A panel with an administrator, who is signed in and has an API key, and a member who is not active yet.\<close>

definition sample_admin :: user_row where
  "sample_admin = \<lparr>u_id = ''u0'', u_username = ''admin'', u_role = Admin, u_status = Active,
     u_monthlyLimitBytes = None, u_version = 1, u_createdAt = 1000\<rparr>"

definition sample_member :: user_row where
  "sample_member = \<lparr>u_id = ''u1'', u_username = ''member'', u_role = User, u_status = Pending,
     u_monthlyLimitBytes = Some 5, u_version = 1, u_createdAt = 1000\<rparr>"

definition sample_session :: session_row where
  "sample_session = \<lparr>ss_tokenHash = ''token'', ss_userId = ''u0'', ss_expiresAt = 5000, ss_reauthAt = 1000\<rparr>"

definition sample_key :: api_key_row where
  "sample_key = \<lparr>k_id = ''k0'', k_userId = ''u0'', k_name = ''key'', k_prefix = ''bf_key_'', k_tokenHash = ''bf_key_0123456789'',
     k_createdAt = 1000, k_lastUsedAt = None, k_revokedAt = None\<rparr>"

definition member_world :: world where
  "member_world = empty_world\<lparr>w_db := empty_db\<lparr>users := [sample_admin, sample_member],
     passwords := [\<lparr>pw_userId = ''u0'', pw_hash = sample_argon 0 ''pw'', pw_changedAt = 1000\<rparr>],
     sessions := [sample_session], apiKeys := [sample_key]\<rparr>\<rparr>"

definition sample_caller :: principal where
  "sample_caller = \<lparr>pr_user = userDto sample_admin, pr_authentication = BySession,
     pr_sessionHash = Some ''token'', pr_recentAuthentication = True\<rparr>"

definition cookie_headers :: "string \<Rightarrow> headers" where
  "cookie_headers token = \<lparr>h_authorization = None, h_cookie = Some (''theme=dark; bifurcation_session='' @ token), h_origin = None\<rparr>"

definition key_headers :: "string \<Rightarrow> headers" where
  "key_headers token = \<lparr>h_authorization = Some (''Bearer '' @ token), h_cookie = None, h_origin = None\<rparr>"

lemmas sample_identity_defs = sample_admin_def sample_member_def sample_session_def sample_key_def member_world_def
  sample_caller_def empty_world_def empty_db_def userDto_def

lemma sample_crypto [simp]:
  "tokenHash sample v = v" "verifyPassword sample h v = (h = ''argon:'' @ v)"
  "hashPassword sample v w = (Inr (''argon:'' @ v), w\<lparr>w_draws := w_draws w + 1\<rparr>)"
  by (simp_all add: tokenHash_def sha256_def sample_def sample_digest_def verifyPassword_def sample_verify_def
      hashPassword_def sample_argon_def)

section \<open>Who a request comes from\<close>

definition may_act :: "platform \<Rightarrow> headers \<Rightarrow> principal \<Rightarrow> world \<Rightarrow> bool" where
  "may_act P h p w \<longleftrightarrow>
     (\<exists>u \<in> set (users (w_db w)). u_status u = Active \<and> pr_user p = userDto u \<and>
       (case h_authorization h of
          Some a \<Rightarrow> (\<exists>k token. api_bearer a = Some token \<and> k \<in> set (apiKeys (w_db w)) \<and> k_tokenHash k = tokenHash P token \<and>
            k_revokedAt k = None \<and> k_userId k = u_id u \<and> pr_authentication p = ByApiKey \<and>
            pr_sessionHash p = None \<and> \<not> pr_recentAuthentication p)
        | None \<Rightarrow> (\<exists>s token. session_token (h_cookie h) = Some token \<and> s \<in> set (sessions (w_db w)) \<and>
            ss_tokenHash s = tokenHash P token \<and> w_now w < ss_expiresAt s \<and> ss_userId s = u_id u \<and>
            pr_authentication p = BySession \<and> pr_sessionHash p = Some (ss_tokenHash s) \<and>
            (pr_recentAuthentication p \<longleftrightarrow> w_now w < ss_reauthAt s + RECENT_TTL))))"

lemma active_account_bind:
  "active_account (map_option f x) d = Some u \<longleftrightarrow>
    (\<exists>r. x = Some r \<and> find_user (f r) d = Some u \<and> u_status u = Active)"
  by (cases x) (auto simp: active_account_def split: option.splits if_splits)

lemma authenticate_acts:
  assumes "authenticate P h w = (Inr p, v)"
  shows "may_act P h p w \<and> w_now v = w_now w \<and>
    (\<exists>f. (\<forall>k. k_revokedAt (f k) = k_revokedAt k \<and> k_tokenHash (f k) = k_tokenHash k \<and> k_userId (f k) = k_userId k) \<and>
      w_db v = apiKeys_update (map f) (w_db w))"
proof (cases "h_authorization h")
  case (Some a)
  from assms Some obtain token k u where *: "api_bearer a = Some token"
    "find (\<lambda>k. k_tokenHash k = tokenHash P token \<and> k_revokedAt k = None) (apiKeys (w_db w)) = Some k"
    "find_user (k_userId k) (w_db w) = Some u" "u_status u = Active"
    and p: "p = \<lparr>pr_user = userDto u, pr_authentication = ByApiKey, pr_sessionHash = None, pr_recentAuthentication = False\<rparr>"
    and v: "v = w\<lparr>w_db := apiKeys_update (update_where (\<lambda>q. k_id q = k_id k) (\<lambda>k. k\<lparr>k_lastUsedAt := Some (w_now w)\<rparr>)) (w_db w)\<rparr>"
    by (auto simp: authenticate_def authenticate_key_def prog_ok active_account_bind)
  from *(2) have "k \<in> set (apiKeys (w_db w))" "k_tokenHash k = tokenHash P token" "k_revokedAt k = None"
    by (auto dest: find_Some_mem)
  with * p Some find_user_Some [OF *(3)] have "may_act P h p w"
    unfolding may_act_def by (intro bexI [of _ u]) (auto intro!: exI [of _ k])
  moreover have "w_db v = apiKeys_update (map (\<lambda>q. if k_id q = k_id k then q\<lparr>k_lastUsedAt := Some (w_now w)\<rparr> else q)) (w_db w)"
    by (simp add: v update_where_def cong: if_cong)
  ultimately show ?thesis
    by (intro conjI exI [of _ "\<lambda>q. if k_id q = k_id k then q\<lparr>k_lastUsedAt := Some (w_now w)\<rparr> else q"])
      (simp_all add: v)
next
  case None
  from assms None obtain token s u where *: "session_token (h_cookie h) = Some token"
    "find_session (tokenHash P token) (w_db w) = Some s" "w_now w < ss_expiresAt s"
    "find_user (ss_userId s) (w_db w) = Some u" "u_status u = Active"
    and p: "p = \<lparr>pr_user = userDto u, pr_authentication = BySession, pr_sessionHash = Some (tokenHash P token),
      pr_recentAuthentication = (w_now w < ss_reauthAt s + RECENT_TTL)\<rparr>" and v: "v = w"
    by (auto simp: authenticate_def authenticate_session_def prog_ok active_account_bind truthy_def Let_def)
  from *(2) have "s \<in> set (sessions (w_db w))" "ss_tokenHash s = tokenHash P token"
    unfolding find_session_def by (auto dest: find_Some_mem)
  with * p None find_user_Some [OF *(4)] have "may_act P h p w"
    unfolding may_act_def by (intro bexI [of _ u]) (auto intro!: exI [of _ s])
  then show ?thesis by (intro conjI exI [of _ id]) (simp_all add: v)
qed

text \<open>
  C14. A request is taken for an account only on the strength of an unrevoked API key or an unexpired session
  that this account owns, and only while the account is active; a request with an authorization header is
  never taken for the owner of its cookie. Authenticating changes at most the time a key was last used.
\<close>

theorem authenticate_sound:
  assumes "authenticate P h w = (Inr p, v)"
  shows "may_act P h p w \<and> w_now v = w_now w \<and>
    (\<exists>f. (\<forall>k. k_revokedAt (f k) = k_revokedAt k \<and> k_tokenHash (f k) = k_tokenHash k \<and> k_userId (f k) = k_userId k) \<and>
      w_db v = apiKeys_update (map f) (w_db w))"
  using assms by (rule authenticate_acts)

lemma sample_cookie: "session_token (h_cookie (cookie_headers ''token'')) = Some ''token''"
  by (simp add: session_token_def cookie_headers_def) code_simp

lemma authenticate_sound_witness:
  "\<exists>p v. authenticate sample (cookie_headers ''token'') member_world = (Inr p, v) \<and> pr_recentAuthentication p \<and>
    may_act sample (cookie_headers ''token'') p member_world"
proof -
  have "\<exists>p v. authenticate sample (cookie_headers ''token'') member_world = (Inr p, v) \<and> pr_recentAuthentication p"
    using sample_cookie
    by (simp add: authenticate_def authenticate_session_def cookie_headers_def sample_identity_defs
        bind_run require_run the_or_run truthy_def find_session_def active_account_def find_user_def RECENT_TTL_def Let_def)
  with authenticate_sound [of sample "cookie_headers ''token''" member_world] show ?thesis by blast
qed

section \<open>The accounts\<close>

text \<open>
  C11. Whatever requests run, fail or overlap, with logins, setups, activations and passkey ceremonies under
  way: account identifiers and names are never taken twice, there are at most ten accounts, every active
  account has a password, and every session belongs to an account that is active.
\<close>

theorem accounts_safe:
  assumes "reach fresh_panel (identity_step P) (w, cs)"
  shows "distinct (map u_id (users (w_db w))) \<and> distinct (map u_username (users (w_db w))) \<and>
    length (users (w_db w)) \<le> 10 \<and>
    (\<forall>u \<in> set (users (w_db w)). u_status u = Active \<longrightarrow> u_id u \<in> pw_userId ` set (passwords (w_db w))) \<and>
    (\<forall>s \<in> set (sessions (w_db w)). \<exists>u \<in> set (users (w_db w)). u_id u = ss_userId s \<and> u_status u = Active)"
  using accounts.reach_inv [OF assms]
  by (simp add: panel_inv_def identity_inv_def accounts_inv_def)

definition setting_up :: world where
  "setting_up = after (begin_call sample (BeginSetup '' Admin '' ''pw'')) empty_world"

definition setup_world :: world where
  "setup_world = after (commit_call sample (SetupCall ''admin'' ''argon:pw'')) setting_up"

lemma setup_begins:
  "begin_call sample (BeginSetup '' Admin '' ''pw'') empty_world = (Inr (SetupCall ''admin'' ''argon:pw''), setting_up)"
proof -
  have name: "usernameInput '' Admin '' w = (Inr ''admin'', w)" for w :: world
    by (simp add: usernameInput_def bind_def require_def) code_simp
  have "fst (begin_call sample (BeginSetup '' Admin '' ''pw'') empty_world) = Inr (SetupCall ''admin'' ''argon:pw'')"
    by (simp add: yielding_def setup_check_def requireSetup_def needsSetup_def passwordInput_def consumeRateLimit_def
        find_rate_limit_def empty_world_def empty_db_def name bind_run require_run transaction_run)
  then show ?thesis by (simp add: setting_up_def after_def prod_eq_iff)
qed

lemma setup_reached: "reach fresh_panel (identity_step sample) (setup_world, [])"
proof -
  have "reach fresh_panel (identity_step sample) (empty_world, [])"
    by (rule reach_init) (simp add: fresh_panel_def empty_world_def)
  then have "reach fresh_panel (identity_step sample) (setting_up, [SetupCall ''admin'' ''argon:pw''])"
    by (rule reach_step) (rule identity_step.begins [OF setup_begins])
  then have "reach fresh_panel (identity_step sample)
      (setup_world, remove1 (SetupCall ''admin'' ''argon:pw'') [SetupCall ''admin'' ''argon:pw''])"
    by (rule reach_step) (rule identity_step.commits, simp, simp only: setup_world_def, rule after_pair)
  then show ?thesis by simp
qed

lemma accounts_safe_witness:
  "reach fresh_panel (identity_step sample) (setup_world, []) \<and> length (users (w_db setup_world)) \<le> 10"
  using setup_reached accounts_safe [OF setup_reached] by blast

lemma admin_stays:
  assumes "panel_inv False (w, cs)" and "active_admins (w_db w) \<noteq> []"
    and "(identity_step P)\<^sup>*\<^sup>* (w, cs) (v, ds)"
  shows "\<exists>u \<in> set (users (w_db v)). u_role u = Admin \<and> u_status u = Active"
proof -
  have "panel_inv True (w, cs)" using assms(1,2) by (simp add: panel_inv_def identity_inv_def)
  from administered.steps_inv [OF assms(3) this] show ?thesis
    by (simp add: panel_inv_def identity_inv_def active_admins_iff)
qed

text \<open>
  C12. Once there is an active administrator there always is one: no request, however it overlaps with
  others, disables or demotes the last of them.
\<close>

theorem last_admin_stays:
  assumes "panel_inv False (w, cs)" and "active_admins (w_db w) \<noteq> []"
    and "(identity_step P)\<^sup>*\<^sup>* (w, cs) (v, ds)"
  shows "\<exists>u \<in> set (users (w_db v)). u_role u = Admin \<and> u_status u = Active"
  using assms by (rule admin_stays)

definition disable :: "int \<Rightarrow> user_changes" where
  "disable v = \<lparr>uc_expectedVersion = v, uc_role = None, uc_status = Some Disabled, uc_monthlyLimitBytes = KeepQuota\<rparr>"

lemma member_world_inv: "panel_inv False (member_world, [])" "active_admins (w_db member_world) \<noteq> []"
  by (simp_all add: panel_inv_def identity_inv_def accounts_inv_def awaited_def active_admins_def sample_identity_defs)

lemma last_admin_stays_witness:
  "\<exists>u \<in> set (users (w_db (after (run_request sample (UpdateUser sample_caller ''u0'' (disable 1))) member_world))).
    u_role u = Admin \<and> u_status u = Active"
proof (rule last_admin_stays [OF member_world_inv])
  show "(identity_step sample)\<^sup>*\<^sup>* (member_world, [])
      (after (run_request sample (UpdateUser sample_caller ''u0'' (disable 1))) member_world, [])"
    by (intro r_into_rtranclp identity_step.request) (rule after_pair)
qed

text \<open>
  C13. Setting up: it succeeds only in a panel without accounts, and then makes the caller its active
  administrator with the chosen password and a session. From then on, whatever happens and however many setups
  were under way, every setup is refused and its commit changes no account.
\<close>

theorem setup_once:
  assumes "setup_commit P name hash w = (Inr (u, token), t)" and "panel_inv False (w, cs)"
    and "(identity_step P)\<^sup>*\<^sup>* (t, ds) (v, es)" and "set ds \<subseteq> set cs"
  shows "users (w_db w) = [] \<and>
    (\<exists>a. users (w_db t) = [a] \<and> u = userDto a \<and> u_username a = name \<and> u_role a = Admin \<and> u_status a = Active \<and>
      find_password (u_id a) (w_db t) = Some \<lparr>pw_userId = u_id a, pw_hash = hash, pw_changedAt = w_now w\<rparr> \<and>
      (\<exists>s \<in> set (sessions (w_db t)). ss_tokenHash s = tokenHash P token \<and> ss_userId s = u_id a)) \<and>
    setup_check P name' password v = (Inl (AppError ''SETUP_COMPLETE'' 409), v) \<and>
    setup_commit P name' hash' v = (Inl (AppError ''SETUP_COMPLETE'' 409), v)"
proof -
  let ?i = "p_randomUUID P (w_draws w)"
  let ?u = "\<lparr>u_id = ?i, u_username = name, u_role = Admin, u_status = Active,
       u_monthlyLimitBytes = None, u_version = 1, u_createdAt = w_now w\<rparr>"
  let ?p = "\<lparr>pw_userId = ?i, pw_hash = hash, pw_changedAt = w_now w\<rparr>"
  let ?x = "w\<lparr>w_draws := Suc (w_draws w),
    w_db := passwords_update (\<lambda>t. t @ [?p]) (users_update (\<lambda>t. t @ [?u]) (w_db w))\<rparr>"
  obtain y z l where empty: "users (w_db w) = []"
    and free: "\<not> has_row (\<lambda>p. pw_userId p = ?i) (passwords (w_db w))"
    and y: "initializeUserSecrets P ?i ?x = (Inr (), y)"
    and z: "policy_refresh P (w_now w) y = (Inr l, z)"
    and t: "w_db t = sessions_update (\<lambda>t. t @ [session_row_of P ?i z]) (w_db z)"
    and u: "u = userDto ?u" and token: "token = base64url (p_randomBytes P (w_draws z) 32)"
    using assms(1) unfolding setup_commit_def requireSetup_def needsSetup_def Let_def prog_ok by (auto simp: prog_ok)
  have same: "same_identity (w_db ?x) (w_db z)"
    using initialize_same_identity [OF y] refresh_same_identity [OF z] by (simp add: same_identity_def)
  then have ut: "users (w_db t) = [?u]" and pt: "passwords (w_db t) = passwords (w_db w) @ [?p]"
    by (simp_all add: t same_identity_def empty)
  have pass: "find_password ?i (w_db t) = Some ?p"
    using free by (simp add: find_password_def pt find_append has_row_def)
  have sess: "session_row_of P ?i z \<in> set (sessions (w_db t))" by (simp add: t)
  have "panel_inv False (t, ds)"
  proof -
    have "awaited ds \<subseteq> {}"
      using assms(2,4) empty by (fastforce simp: panel_inv_def identity_inv_def awaited_def)
    moreover have "identity_inv False {} (w_db t)"
      using keepsD [OF keeps_setup_commit _ assms(1), of False "{}"] assms(2)
      by (auto simp: panel_inv_def intro: inv_less_awaited)
    ultimately show ?thesis by (auto simp: panel_inv_def)
  qed
  moreover have "active_admins (w_db t) \<noteq> []" by (simp add: active_admins_def ut)
  ultimately have "users (w_db v) \<noteq> []" using admin_stays [OF _ _ assms(3)] by fastforce
  then have "\<not> needsSetup (w_db v)" by (simp add: needsSetup_def)
  then have "setup_check P name' password v = (Inl (AppError ''SETUP_COMPLETE'' 409), v) \<and>
    setup_commit P name' hash' v = (Inl (AppError ''SETUP_COMPLETE'' 409), v)"
    by (simp add: setup_check_def setup_commit_def requireSetup_def bind_run require_run transaction_run)
  with empty ut pass sess u token show ?thesis
    by (intro conjI exI [of _ ?u] bexI [of _ "session_row_of P ?i z"]) (auto simp: session_row_of_def)
qed

text \<open>In the examples the secrets of an account can be created and the policy refreshed.\<close>

lemma sample_initialize:
  assumes "find_credential i (w_db w) = None" and "subscriptionTokens (w_db w) = []"
  shows "\<exists>v. initializeUserSecrets sample i w = (Inr (), v) \<and> cred sample i (w_db v) \<noteq> None"
proof -
  have none: "find_subscription_token i d = None" if "subscriptionTokens d = []" for d
    using that by (simp add: find_subscription_token_def)
  have parse: "p_jsonParse sample s = Some (JStr s)" for s by (simp add: sample_def sample_parse_def)
  show ?thesis
    using assms
    by (simp add: initializeUserSecrets_def initialize_credential_def initialize_token_def insert_subscription_token_def
        bind_run transaction_run require_run newToken_run sample_runs(3) none has_row_iff
        cred_def find_credential_def find_append sample_unseal parse)
qed

lemma sample_refresh:
  assumes "active_users (w_db w) = [u]" and "find_user (u_id u) (w_db w) = Some u" and "usageBuckets (w_db w) = []"
    and "policyState (w_db w) = None" and "find_credential (u_id u) (w_db w) = None" and "subscriptionTokens (w_db w) = []"
  shows "\<exists>x l v. initializeUserSecrets sample (u_id u) w = (Inr (), x) \<and> policy_refresh sample now x = (Inr l, v)"
proof -
  from sample_initialize [OF assms(5,6)] obtain x where x: "initializeUserSecrets sample (u_id u) w = (Inr (), x)"
    "cred sample (u_id u) (w_db x) \<noteq> None" by blast
  have same: "users (w_db x) = users (w_db w) \<and> usageBuckets (w_db x) = usageBuckets (w_db w) \<and>
    policyState (w_db x) = policyState (w_db w)"
    using initialize_same_accounts [OF x(1)] by (simp add: same_accounts_def)
  have "ready sample now (w_db x) u"
    using initializeUserSecrets_ok [OF x(1)] x(2) same assms(2,3)
    by (simp add: ready_def find_user_def month_usage_def MAX_BYTES_def)
  moreover have "active_users (w_db x) = [u]" using assms(1) same by (simp add: active_users_def)
  ultimately obtain l v where "policy_refresh sample now x = (Inr l, v)"
    using refresh_ready [of x sample now] same assms(4) by auto
  with x show ?thesis by blast
qed

lemma setup_succeeds: "\<exists>u token. setup_commit sample ''admin'' ''argon:pw'' empty_world = (Inr (u, token), after (setup_commit sample ''admin'' ''argon:pw'') empty_world)"
proof -
  let ?i = "sample_uuid 0"
  let ?u = "\<lparr>u_id = ?i, u_username = ''admin'', u_role = Admin, u_status = Active,
       u_monthlyLimitBytes = None, u_version = 1, u_createdAt = 1000\<rparr>"
  let ?x = "empty_world\<lparr>w_draws := 1, w_db := empty_db\<lparr>users := [?u],
     passwords := [\<lparr>pw_userId = ?i, pw_hash = ''argon:pw'', pw_changedAt = 1000\<rparr>]\<rparr>\<rparr>"
  have "\<exists>x l v. initializeUserSecrets sample (u_id ?u) ?x = (Inr (), x) \<and> policy_refresh sample 1000 x = (Inr l, v)"
    by (rule sample_refresh) (simp_all add: active_users_def find_user_def find_credential_def empty_world_def empty_db_def)
  then obtain x l v where x: "initializeUserSecrets sample ?i ?x = (Inr (), x)" and v: "policy_refresh sample 1000 x = (Inr l, v)"
    by auto
  have "sessions (w_db v) = []"
    using initialize_same_identity [OF x] refresh_same_identity [OF v] by (simp add: same_identity_def empty_db_def)
  then have "\<exists>token t. issueSession sample ?i v = (Inr token, t)"
    by (simp add: issueSession_ok has_row_iff)
  then obtain token t where t: "issueSession sample ?i v = (Inr token, t)" by blast
  have "setup_commit sample ''admin'' ''argon:pw'' empty_world = (Inr (userDto ?u, token), t)"
    using x v t unfolding setup_commit_def
    by (simp add: bind_run require_run transaction_run requireSetup_def needsSetup_def insert_user_def insert_password_def
        has_row_iff empty_world_def empty_db_def sample_runs(2) Let_def)
  then show ?thesis by (simp add: after_def)
qed

lemma setup_once_witness:
  "\<exists>u token t. setup_commit sample ''admin'' ''argon:pw'' empty_world = (Inr (u, token), t) \<and>
    setup_commit sample ''eve'' ''argon:pw2'' t = (Inl (AppError ''SETUP_COMPLETE'' 409), t)"
proof -
  from setup_succeeds obtain u token t where
    *: "setup_commit sample ''admin'' ''argon:pw'' empty_world = (Inr (u, token), t)" by blast
  have inv: "panel_inv False (empty_world, [])"
    by (rule accounts.init_inv) (simp add: fresh_panel_def)
  from setup_once [OF * inv, of "[]" t "[]" "''eve''" _ "''argon:pw2''"] * show ?thesis by blast
qed

section \<open>Keys and links\<close>

lemma dead_key_refused:
  assumes "key_dead (tokenHash P token) (w_db v)" and "h_authorization h = Some a" and "api_bearer a = Some token"
  shows "authenticate P h v = (Inl unauthenticated, v)"
proof -
  have "find (\<lambda>k. k_tokenHash k = tokenHash P token \<and> k_revokedAt k = None) (apiKeys (w_db v)) = None"
    using assms(1) by (auto simp: find_None_all key_dead_def)
  with assms(2,3) show ?thesis
    by (simp add: authenticate_def authenticate_key_def bind_run)
qed

text \<open>
  C18. Revoking is final: once a caller has revoked a key of theirs, every request that presents it is refused,
  whatever else has happened in the meantime.
\<close>

theorem revocation_final:
  assumes "revokeApiKey caller i w = (Inr u, t)"
    and "k \<in> set (apiKeys (w_db w))" and "k_id k = i" and "k_userId k = du_id (pr_user caller)"
    and "distinct (map k_tokenHash (apiKeys (w_db w)))"
    and "(identity_step P)\<^sup>*\<^sup>* (t, cs) (v, ds)"
    and "h_authorization h = Some a" and "api_bearer a = Some token" and "tokenHash P token = k_tokenHash k"
  shows "authenticate P h v = (Inl unauthenticated, v)"
proof -
  let ?f = "\<lambda>k. k\<lparr>k_revokedAt := Some (w_now w)\<rparr>"
  have t: "w_db t = apiKeys_update (update_where (own_key caller i) ?f) (w_db w)"
    using assms(1) by (auto simp: revokeApiKey_def prog_ok)
  have own: "own_key caller i k" using assms(3,4) by (simp add: own_key_def)
  have "r = k" if "r \<in> set (apiKeys (w_db w))" "k_tokenHash r = k_tokenHash k" for r
    using that assms(2,5) by (metis distinct_map inj_onD)
  then have "k_revokedAt r \<noteq> None" if "r \<in> set (update_where (own_key caller i) ?f (apiKeys (w_db w)))"
    "k_tokenHash r = k_tokenHash k" for r
    using that own by (auto simp: set_update_where)
  moreover have "?f k \<in> set (update_where (own_key caller i) ?f (apiKeys (w_db w)))"
    using assms(2) own by (auto simp: set_update_where)
  ultimately have "key_dead (k_tokenHash k) (w_db t)"
    unfolding key_dead_def t by (auto intro!: bexI [of _ "?f k"])
  with revoked.steps_guarded [OF assms(6)] have "key_dead (tokenHash P token) (w_db v)"
    by (simp add: assms(9))
  from dead_key_refused [OF this assms(7,8)] show ?thesis .
qed

lemma revocation_final_witness:
  "authenticate sample (key_headers ''bf_key_0123456789'') (after (revokeApiKey sample_caller ''k0'') member_world) =
    (Inl unauthenticated, after (revokeApiKey sample_caller ''k0'') member_world)"
proof -
  have run: "revokeApiKey sample_caller ''k0'' member_world = (Inr (), after (revokeApiKey sample_caller ''k0'') member_world)"
    by (simp add: after_def revokeApiKey_def own_key_def bind_run require_run has_row_iff sample_identity_defs)
  have "api_bearer (''Bearer '' @ ''bf_key_0123456789'') = Some ''bf_key_0123456789''" by code_simp
  then show ?thesis
    using revocation_final [OF run, of sample_key sample "[]" _ "[]" "key_headers ''bf_key_0123456789''" _ "''bf_key_0123456789''"]
    by (simp add: key_headers_def sample_identity_defs)
qed

text \<open>The flow that a call under way is going to use up.\<close>

fun call_flow :: "call \<Rightarrow> string option" where
  "call_flow (SignInCall c v) = Some (f_id (vp_flow v))"
| "call_flow (PasskeyCall c f n x) = Some f"
| "call_flow (OnboardingCall q b) = Some (f_id (po_flow b))"
| "call_flow _ = None"

lemma not_unconsumed_after: "\<not> has_row (unconsumed i) (authFlows (consume_flows (unconsumed i) now d))"
proof -
  have "\<not> has_row (unconsumed i) (update_where (unconsumed i) (\<lambda>f. f\<lparr>f_consumedAt := Some now\<rparr>) t)" for t
    unfolding has_row_code by (induction t) (auto simp: unconsumed_def)
  then show ?thesis by (simp add: consume_flows_def)
qed

lemma not_unconsumed_again:
  "\<not> has_row (unconsumed i) (authFlows d) \<Longrightarrow> \<not> has_row (unconsumed i) (authFlows (consume_flows Q now d))"
proof -
  have "\<not> has_row (unconsumed i) (update_where Q (\<lambda>f. f\<lparr>f_consumedAt := Some now\<rparr>) t)"
    if "\<not> has_row (unconsumed i) t" for t
    using that unfolding has_row_code by (induction t) (auto simp: unconsumed_def)
  then show "\<not> has_row (unconsumed i) (authFlows d) \<Longrightarrow> ?thesis" by (simp add: consume_flows_def)
qed

lemma commit_uses_flow:
  assumes "commit_call P c w = (Inr u, t)" and "call_flow c = Some i"
  shows "has_row (unconsumed i) (authFlows (w_db w)) \<and> \<not> has_row (unconsumed i) (authFlows (w_db t))"
proof (cases c)
  case (SignInCall p v)
  with assms show ?thesis
    by (auto simp: authenticationVerify_commit_def prog_ok not_unconsumed_after split: if_splits)
next
  case (PasskeyCall p f n x)
  with assms show ?thesis
    by (auto simp: newPasskeyVerify_commit_def insertPasskey_def Let_def prog_ok not_unconsumed_after)
next
  case (OnboardingCall q b)
  with assms obtain r where r: "onboardingComplete_commit P q b w = (Inr r, t)" and i: "i = f_id (po_flow b)"
    by (auto simp: prog_ok)
  from r obtain flow user where "finish_onboarding P q b flow user w = (Inr r, t)"
    by (rule onboardingComplete_commit_ok)
  then obtain y z l where has: "has_row (unconsumed i) (authFlows (w_db w))"
    and y: "initializeUserSecrets P (u_id (po_user b))
      (w\<lparr>w_db := onboarded q b (u_version user + 1) (w_now w) (w_db w)\<rparr>) = (Inr (), y)"
    and z: "policy_refresh P (w_now w) y = (Inr l, z)"
    and t: "w_db t = sessions_update (\<lambda>t. t @ [session_row_of P (u_id (po_user b)) z])
      (consume_flows (own_flow (u_id (po_user b))) (w_now w) (w_db z))"
    unfolding i by (rule finish_onboarding_ok)
  have "authFlows (w_db z) = authFlows (onboarded q b (u_version user + 1) (w_now w) (w_db w))"
    using initialize_same_identity [OF y] refresh_same_identity [OF z] by (simp add: same_identity_def)
  also have "\<dots> = authFlows (consume_flows (unconsumed i) (w_now w) (w_db w))"
    by (simp add: onboarded_def put_password_def drop_credentials_def i)
  finally have "\<not> has_row (unconsumed i) (authFlows (w_db z))" by (simp add: not_unconsumed_after)
  with has show ?thesis by (simp add: t not_unconsumed_again)
qed (use assms in simp_all)

lemma commit_rolls_back:
  assumes "commit_call P c w = (Inl e, t)" and "call_flow c = Some i"
  shows "w_db t = w_db w"
  using assms
  by (cases c) (auto simp: yielding_def prog_fail authenticationVerify_commit_def newPasskeyVerify_commit_def
      onboardingComplete_commit_def)


text \<open>A sign-in of the administrator with a passkey, verified and about to be committed.\<close>

definition sample_flow :: auth_flow_row where
  "sample_flow = \<lparr>f_id = ''id0'', f_purpose = Login, f_userId = None, f_tokenHash = None, f_challenge = Some ''c'',
     f_sessionHash = None, f_expiresAt = 2000, f_consumedAt = None\<rparr>"

definition sample_passkey :: passkey_row where
  "sample_passkey = \<lparr>pk_id = ''p'', pk_userId = ''u0'', pk_publicKey = ''key'', pk_counter = 0, pk_transports = [],
     pk_deviceType = ''singleDevice'', pk_backedUp = False, pk_name = ''Passkey'', pk_createdAt = 0\<rparr>"

definition signing_world :: world where
  "signing_world = member_world\<lparr>w_draws := 1,
     w_db := (w_db member_world)\<lparr>authFlows := [sample_flow], passkeys := [sample_passkey]\<rparr>\<rparr>"

definition sample_sign_in :: call where
  "sample_sign_in = SignInCall None \<lparr>vp_flow = sample_flow, vp_key = sample_passkey, vp_user = sample_admin,
     vp_info = \<lparr>ai_verified = True, ai_newCounter = 1, ai_backedUp = False\<rparr>\<rparr>"

lemma sample_sign_in_commits:
  "commit_call sample sample_sign_in signing_world = (Inr (), after (commit_call sample sample_sign_in) signing_world)"
proof -
  have "fst (commit_call sample sample_sign_in signing_world) = Inr ()"
    by (simp add: sample_sign_in_def yielding_def authenticationVerify_commit_def loadFlow_def consumeFlow_def
        issueSession_def insert_session_def consume_flows_def find_flow_def find_passkey_def same_key_def unconsumed_def
        active_account_def find_user_def signing_world_def sample_flow_def sample_passkey_def sample_identity_defs
        bind_run require_run the_or_run transaction_run has_row_code newToken_run base64url_def)
      (simp add: sample_def sample_random_def, code_simp)
  then show ?thesis by (simp add: after_def prod_eq_iff)
qed

lemma sample_uuid_inj: "inj (p_randomUUID sample)"
proof (rule injI)
  fix m n assume "p_randomUUID sample m = p_randomUUID sample n"
  then have "decimal (int m) = decimal (int n)" by (simp add: sample_def sample_uuid_def)
  then have "parse_bigint (decimal (int m)) = parse_bigint (decimal (int n))" by simp
  then show "m = n" by (simp add: parse_decimal)
qed


section \<open>Passwords\<close>

text \<open>
  C17. A password login that completes has verified the given password against the password hash that the
  account has at the moment the session is issued, even when other calls ran in between: the account
  is active then, the session is new and belongs to it, and no other session or password changes.
\<close>

theorem login_current_password:
  assumes "passwordLogin_check P rawUsername password w = (Inr b, x)"
    and "passwordLogin_commit P b v = (Inr (u, token), t)"
  shows "\<exists>a c s. find_user (u_id a) (w_db v) = Some a \<and> u_status a = Active \<and> u = userDto a \<and>
    (\<exists>a' \<in> set (users (w_db w)). u_id a' = u_id a \<and> u_username a' = toLowerCase (trim rawUsername) \<and> u_status a' = Active) \<and>
    find_password (u_id a) (w_db v) = Some c \<and> verifyPassword P (pw_hash c) password \<and>
    ss_userId s = u_id a \<and> ss_tokenHash s = tokenHash P token \<and> ss_expiresAt s = w_now v + SESSION_TTL \<and>
    sessions (w_db t) = sessions (w_db v) @ [s] \<and> passwords (w_db t) = passwords (w_db v)"
proof -
  have frame: "keeps (on_db (\<lambda>d. users d = users (w_db w))) (consumeRateLimit k l m)" for k l m
    by (rule keeps_consumeRateLimit) (simp add: identity_frame_def policy_frame_def)
  have dummy: "keeps (on_db (\<lambda>d. users d = users (w_db w))) (dummyHash P)" by (rule keeps_dummyHash)
  obtain y z dh where name: "is_username (toLowerCase (trim rawUsername))"
    and y: "consumeRateLimit ''password:global'' 60 60000 w = (Inr (), y)"
    and z: "consumeRateLimit (''password:'' @ toLowerCase (trim rawUsername)) 8 default_window y = (Inr (), z)"
    and valid: "verifyPassword P (pl_hash b) password"
    and user: "find_username (toLowerCase (trim rawUsername)) (w_db z) = Some (pl_user b)" "u_status (pl_user b) = Active"
    using assms(1) unfolding passwordLogin_check_def prog_ok by (auto simp: prog_ok Let_def)
  have "users (w_db z) = users (w_db w)"
    using keepsD [OF frame _ z] keepsD [OF frame _ y] by simp
  with user have old: "pl_user b \<in> set (users (w_db w))" "u_username (pl_user b) = toLowerCase (trim rawUsername)"
    unfolding find_username_def by (auto dest: find_Some_mem)
  obtain a c where a: "find_user (u_id (pl_user b)) (w_db v) = Some a" "u_status a = Active" "u = userDto a"
    and c: "find_password (u_id (pl_user b)) (w_db v) = Some c" "pw_hash c = pl_hash b"
    and t: "w_db t = sessions_update (\<lambda>t. t @ [session_row_of P (u_id (pl_user b)) v])
      (rateLimits_update (delete_where (\<lambda>r. rl_key r = ''password:'' @ pl_username b)) (w_db v))"
    and token: "token = base64url (p_randomBytes P (w_draws v) 32)"
    using assms(2) unfolding passwordLogin_commit_def
    by (auto simp: prog_ok active_account_Some session_row_of_def)
  from a(1) have "u_id a = u_id (pl_user b)" by (auto dest: find_user_Some)
  with a c old valid user(2) show ?thesis
    by (intro exI [of _ a] exI [of _ c] exI [of _ "session_row_of P (u_id (pl_user b)) v"])
      (auto simp: t token session_row_of_def)
qed

text \<open>
  C19. Changing the password takes a session that has authenticated within the last ten minutes; it replaces
  the account's hash, ends every session of the account and touches no other account's. From then on no
  cookie is taken for the account until a new session is issued to it.
\<close>

theorem password_change_ends_sessions:
  assumes "changePassword_commit caller hash w = (Inr u, t)"
  shows "(\<exists>h s. pr_sessionHash caller = Some h \<and> find_session h (w_db w) = Some s \<and> w_now w < ss_reauthAt s + RECENT_TTL) \<and>
    (\<forall>p \<in> set (passwords (w_db t)). pw_userId p = du_id (pr_user caller) \<longrightarrow> pw_hash p = hash) \<and>
    filter (\<lambda>p. pw_userId p \<noteq> du_id (pr_user caller)) (passwords (w_db t)) =
      filter (\<lambda>p. pw_userId p \<noteq> du_id (pr_user caller)) (passwords (w_db w)) \<and>
    sessions (w_db t) = filter (\<lambda>s. ss_userId s \<noteq> du_id (pr_user caller)) (sessions (w_db w)) \<and>
    (\<forall>headers p v. h_authorization headers = None \<longrightarrow> authenticate P headers t = (Inr p, v) \<longrightarrow>
       du_id (pr_user p) \<noteq> du_id (pr_user caller))"
proof -
  let ?i = "du_id (pr_user caller)"
  obtain h s where s: "pr_sessionHash caller = Some h" "find_session h (w_db w) = Some s" "w_now w < ss_reauthAt s + RECENT_TTL"
    and t: "w_db t = sessions_update (delete_where (\<lambda>s. ss_userId s = ?i)) (passwords_update (update_where (\<lambda>p. pw_userId p = ?i)
        (\<lambda>p. p\<lparr>pw_hash := hash, pw_changedAt := w_now w\<rparr>)) (w_db w))"
    using assms unfolding changePassword_commit_def by (auto simp: prog_ok split: option.splits bind_splits)
  have sess: "sessions (w_db t) = filter (\<lambda>s. ss_userId s \<noteq> ?i) (sessions (w_db w))"
    by (simp add: t delete_where_def)
  have "filter (\<lambda>p. pw_userId p \<noteq> ?i) (passwords (w_db t)) = filter (\<lambda>p. pw_userId p \<noteq> ?i) (passwords (w_db w))"
    unfolding t by (simp add: filter_update_where_out)
  moreover have "\<forall>p \<in> set (passwords (w_db t)). pw_userId p = ?i \<longrightarrow> pw_hash p = hash"
    by (auto simp: t set_update_where)
  moreover have "du_id (pr_user p) \<noteq> ?i"
    if "h_authorization headers = None" "authenticate P headers t = (Inr p, v)" for headers p v
  proof -
    from that obtain s' where "s' \<in> set (sessions (w_db t))" "ss_userId s' = du_id (pr_user p)"
      by (auto simp: authenticate_def authenticate_session_def Let_def prog_ok active_account_bind find_session_def userDto_def
          dest!: find_user_Some find_Some_mem)
    then show ?thesis by (auto simp: sess)
  qed
  ultimately show ?thesis using s sess by blast
qed

text \<open>The administrator signs in with his password; and changes it.\<close>

definition login_world :: world where
  "login_world = after (passwordLogin_check sample ''Admin '' ''pw'') member_world"

definition sample_login :: pending_login where
  "sample_login = \<lparr>pl_username = ''admin'', pl_user = sample_admin, pl_hash = sample_argon 0 ''pw''\<rparr>"

lemma sample_login_checks:
  "passwordLogin_check sample ''Admin '' ''pw'' member_world = (Inr sample_login, login_world)"
proof -
  have name: "is_username ''admin''" "toLowerCase (trim ''Admin '') = ''admin''" by code_simp+
  have "fst (passwordLogin_check sample ''Admin '' ''pw'' member_world) = Inr sample_login"
    by (simp add: passwordLogin_check_def usernameInput_def passwordInput_def name consumeRateLimit_def find_rate_limit_def
        find_username_def find_password_def dummyHash_def sample_identity_defs sample_login_def sample_argon_def
        bind_run require_run the_or_run transaction_run newToken_run Let_def upsert_def has_row_code return_run gets_run modify_run)
  then show ?thesis by (simp add: login_world_def after_def prod_eq_iff)
qed

lemma login_current_password_witness:
  "\<exists>t token a s. passwordLogin_commit sample sample_login member_world = (Inr (userDto a, token), t) \<and>
    sessions (w_db t) = [sample_session, s] \<and> ss_userId s = u_id a"
proof -
  have "\<exists>token. fst (passwordLogin_commit sample sample_login member_world) = Inr (userDto sample_admin, token)"
    by (simp add: passwordLogin_commit_def sample_login_def active_account_def find_user_def find_password_def
        issueSession_def insert_session_def sample_identity_defs sample_argon_def has_row_code
        bind_run require_run the_or_run transaction_run newToken_run base64url_def)
      (simp add: sample_def sample_random_def, code_simp)
  then obtain token t where run: "passwordLogin_commit sample sample_login member_world = (Inr (userDto sample_admin, token), t)"
    by (auto simp: prod_eq_iff)
  moreover have "sessions (w_db member_world) = [sample_session]" by (simp add: member_world_def)
  ultimately show ?thesis using login_current_password [OF sample_login_checks run] by auto
qed

lemma password_change_ends_sessions_witness:
  "\<exists>t. changePassword_commit sample_caller ''new'' member_world = (Inr (), t) \<and> sessions (w_db t) = []"
proof -
  have run: "changePassword_commit sample_caller ''new'' member_world =
      (Inr (), after (changePassword_commit sample_caller ''new'') member_world)"
    by (simp add: after_def prod_eq_iff changePassword_commit_def find_session_def RECENT_TTL_def sample_identity_defs
        bind_run require_run transaction_run)
  from password_change_ends_sessions [OF run, of sample] run show ?thesis
    by (auto simp: sample_identity_defs)
qed

section \<open>Recovery\<close>

definition own_rows :: "('a \<Rightarrow> string) \<Rightarrow> string \<Rightarrow> 'a list \<Rightarrow> 'a list" where
  "own_rows owner i t = filter (\<lambda>r. owner r = i) t"

definition foreign_rows :: "('a \<Rightarrow> string) \<Rightarrow> string \<Rightarrow> 'a list \<Rightarrow> 'a list" where
  "foreign_rows owner i t = filter (\<lambda>r. owner r \<noteq> i) t"

lemma own_rows_simps [simp]:
  "own_rows owner i (t @ [r]) = own_rows owner i t @ (if owner r = i then [r] else [])"
  "foreign_rows owner i (t @ [r]) = foreign_rows owner i t @ (if owner r = i then [] else [r])"
  "own_rows owner i (delete_where (\<lambda>r. owner r = i) t) = []"
  "foreign_rows owner i (delete_where (\<lambda>r. owner r = i) t) = foreign_rows owner i t"
  by (simp_all add: own_rows_def foreign_rows_def delete_where_def)

lemma own_rows_added [simp]:
  "own_rows pk_userId i (t @ added_passkeys i p now) = own_rows pk_userId i t @ added_passkeys i p now"
  "foreign_rows pk_userId i (t @ added_passkeys i p now) = foreign_rows pk_userId i t"
  by (auto simp: own_rows_def foreign_rows_def added_passkeys_def new_passkey_def split: option.splits)

lemma recovered_credentials:
  "own_rows ss_userId (u_id (po_user begun)) (sessions (onboarded Recovery begun v now d)) = []"
  "foreign_rows ss_userId (u_id (po_user begun)) (sessions (onboarded Recovery begun v now d)) =
     foreign_rows ss_userId (u_id (po_user begun)) (sessions d)"
  "own_rows pk_userId (u_id (po_user begun)) (passkeys (onboarded Recovery begun v now d)) =
     added_passkeys (u_id (po_user begun)) (po_passkey begun) now"
  "foreign_rows pk_userId (u_id (po_user begun)) (passkeys (onboarded Recovery begun v now d)) =
     foreign_rows pk_userId (u_id (po_user begun)) (passkeys d)"
  by (simp_all add: onboarded_def drop_credentials_def put_password_def consume_flows_def)

lemma onboarded_password:
  "find_password (u_id (po_user begun)) (onboarded q begun v now d) = Some p \<Longrightarrow> pw_hash p = po_hash begun"
  "find_password (u_id (po_user begun)) (onboarded q begun v now d) \<noteq> None"
proof -
  have *: "find P (upsert P f r t) = Some x \<Longrightarrow> (\<And>y. P y \<Longrightarrow> P (f y)) \<Longrightarrow> x = r \<or> (\<exists>y. x = f y)"
    "P r \<Longrightarrow> (\<And>y. P y \<Longrightarrow> P (f y)) \<Longrightarrow> find P (upsert P f r t) \<noteq> None"
    for P and f :: "password_row \<Rightarrow> password_row" and r t x
    unfolding upsert_def has_row_code by (induction t) (auto split: if_splits)
  let ?p = "\<lparr>pw_userId = u_id (po_user begun), pw_hash = po_hash begun, pw_changedAt = now\<rparr>"
  show "pw_hash p = po_hash begun" if "find_password (u_id (po_user begun)) (onboarded q begun v now d) = Some p"
    using that *(1) [of "\<lambda>p. pw_userId p = u_id (po_user begun)" "\<lambda>p. p\<lparr>pw_hash := po_hash begun, pw_changedAt := now\<rparr>" ?p]
    by (fastforce simp: find_password_def onboarded_def put_password_def)
  show "find_password (u_id (po_user begun)) (onboarded q begun v now d) \<noteq> None"
    using *(2) [of "\<lambda>p. pw_userId p = u_id (po_user begun)" ?p "\<lambda>p. p\<lparr>pw_hash := po_hash begun, pw_changedAt := now\<rparr>"]
    by (simp add: find_password_def onboarded_def put_password_def)
qed


text \<open>An account with its secrets recovers by a link, with a password only.\<close>

definition recovery_flow :: auth_flow_row where
  "recovery_flow = \<lparr>f_id = ''f0'', f_purpose = Recovery, f_userId = Some ''u1'', f_tokenHash = Some ''link'',
     f_challenge = Some ''c'', f_sessionHash = None, f_expiresAt = 2000, f_consumedAt = None\<rparr>"

definition recovery_world :: world where
  "recovery_world = empty_world\<lparr>w_db := empty_db\<lparr>users := [sample_user ''u1'' Active None],
     proxyCredentials := [\<lparr>pc_userId = ''u1'', pc_secretsCiphertext = sample_sealed 0 ''s'', pc_generation = 1, pc_changedAt = 0\<rparr>],
     subscriptionTokens := [\<lparr>st_userId = ''u1'', st_tokenHash = ''t'', st_tokenCiphertext = [], st_generation = 1, st_changedAt = 0\<rparr>],
     sessions := [\<lparr>ss_tokenHash = ''old'', ss_userId = ''u1'', ss_expiresAt = 5000, ss_reauthAt = 1000\<rparr>],
     authFlows := [recovery_flow]\<rparr>\<rparr>"

definition sample_recovery :: pending_onboarding where
  "sample_recovery = \<lparr>po_token = ''link'', po_flow = recovery_flow, po_user = sample_user ''u1'' Active None,
     po_passkey = None, po_hash = ''argon:new''\<rparr>"

lemma sample_recovery_simps [simp]:
  "po_token sample_recovery = ''link''" "po_flow sample_recovery = recovery_flow" "f_id recovery_flow = ''f0''"
  "po_user sample_recovery = sample_user ''u1'' Active None" "po_passkey sample_recovery = None"
  "w_now recovery_world = 1000" "u_version (sample_user i s m) = 1"
  by (simp_all add: sample_recovery_def recovery_flow_def recovery_world_def empty_world_def sample_user_def)

definition recovered_world :: world where
  "recovered_world = recovery_world\<lparr>w_db := onboarded Recovery sample_recovery 2 1000 (w_db recovery_world)\<rparr>"

lemmas recovered_defs = recovered_world_def recovery_world_def onboarded_def sample_recovery_def recovery_flow_def
  empty_world_def empty_db_def put_password_def drop_credentials_def consume_flows_def added_passkeys_def

lemma recovered_refresh: "\<exists>l v. policy_refresh sample 1000 recovered_world = (Inr l, v)"
proof (rule refresh_ready)
  have "cred sample ''u1'' (w_db recovered_world) \<noteq> None"
    by (simp add: cred_def find_credential_def recovered_defs sample_unseal) (simp add: sample_def sample_parse_def)
  moreover have "active_users (w_db recovered_world) = [(sample_user ''u1'' Active None)\<lparr>u_version := 2\<rparr>]"
    by (simp add: active_users_def recovered_defs sample_user_def)
  ultimately show "\<forall>u \<in> set (active_users (w_db recovered_world)). ready sample 1000 (w_db recovered_world) u"
    by (simp add: ready_def find_credential_def find_subscription_token_def find_user_def month_usage_def recovered_defs
        MAX_BYTES_def sample_user_def)
  show "policyState (w_db recovered_world) = None" by (simp add: recovered_defs)
qed

lemma no_update: "passkeys_update (\<lambda>t. t) d = d"
  by (cases d) simp

lemma recovery_commits:
  "\<exists>u token t. onboardingComplete_commit sample Recovery sample_recovery recovery_world = (Inr (u, token), t)"
proof -
  obtain l v where refresh: "policy_refresh sample 1000 recovered_world = (Inr l, v)" using recovered_refresh by blast
  have secrets: "initializeUserSecrets sample ''u1'' recovered_world = (Inr (), recovered_world)"
    by (rule initializeUserSecrets_again)
      (simp_all add: find_credential_def find_subscription_token_def recovered_defs)
  have "sessions (w_db v) = []"
    using refresh_same_identity [OF refresh] by (simp add: same_identity_def recovered_defs delete_where_def)
  moreover have flow: "onboardingFlow sample ''link'' Recovery recovery_world =
      (Inr (recovery_flow, sample_user ''u1'' Active None), recovery_world)"
    by (simp add: onboardingFlow_def loadFlow_def find_flow_def find_user_def recovery_world_def recovery_flow_def
        empty_world_def empty_db_def bind_run require_run the_or_run truthy_def)
  moreover have "consumeFlow ''f0'' recovery_world =
      (Inr (), recovery_world\<lparr>w_db := consume_flows (unconsumed ''f0'') 1000 (w_db recovery_world)\<rparr>)"
    by (simp add: consumeFlow_ok has_row_code unconsumed_def recovery_world_def recovery_flow_def empty_world_def empty_db_def)
  ultimately have "\<exists>r t. finish_onboarding sample Recovery sample_recovery recovery_flow (sample_user ''u1'' Active None) recovery_world
      = (Inr r, t)"
    using refresh secrets
    by (simp add: finish_onboarding_def Let_def bind_run require_run addPasskey_def issueSession_def insert_session_def
        newToken_run has_row_code recovered_world_def onboarded_def added_passkeys_def db_run_def no_update)
      (simp add: consume_flows_def)
  with flow show ?thesis
    by (force simp: onboardingComplete_commit_def transaction_run bind_run)
qed


section \<open>Rate limits\<close>

text \<open>The answers to a sequence of attempts at the given times: was the attempt admitted?\<close>

fun admitted :: "string \<Rightarrow> int \<Rightarrow> int \<Rightarrow> int list \<Rightarrow> world \<Rightarrow> bool list" where
  "admitted key limit window [] w = []"
| "admitted key limit window (t # ts) w =
     (case consumeRateLimit key limit window (w\<lparr>w_now := t\<rparr>) of (r, v) \<Rightarrow> (\<not> isl r) # admitted key limit window ts v)"

lemma consume_open:
  assumes "find_rate_limit key (w_db w) = Some r" and "w_now w < rl_resetsAt r" and "rl_attempts r < limit"
  shows "\<exists>v. consumeRateLimit key limit window w = (Inr (), v) \<and>
    find_rate_limit key (w_db v) = Some (r\<lparr>rl_attempts := rl_attempts r + 1\<rparr>)"
proof -
  have "find (\<lambda>q. rl_key q = key) (update_where (\<lambda>q. rl_key q = key) f t) = map_option f (find (\<lambda>q. rl_key q = key) t)"
    if "\<And>q. rl_key (f q) = rl_key q" for f and t :: "rate_limit_row list"
    using that by (induction t) auto
  then show ?thesis
    using assms by (simp add: consumeRateLimit_def transaction_run bind_run require_run find_rate_limit_def)
qed

lemma consume_spent:
  assumes "find_rate_limit key (w_db w) = Some r" and "w_now w < rl_resetsAt r" and "limit \<le> rl_attempts r"
  shows "\<exists>v. consumeRateLimit key limit window w = (Inl (AppError ''RATE_LIMITED'' 429), v) \<and> w_db v = w_db w"
  using assms by (simp add: consumeRateLimit_def transaction_run bind_run require_run)

lemma consume_first:
  assumes "\<forall>r. find_rate_limit key (w_db w) = Some r \<longrightarrow> rl_resetsAt r \<le> w_now w"
  shows "\<exists>v r. consumeRateLimit key limit window w = (Inr (), v) \<and> find_rate_limit key (w_db v) = Some r \<and>
    rl_attempts r = 1 \<and> rl_resetsAt r = w_now w + window"
proof -
  have "\<exists>r. find (\<lambda>q. rl_key q = key) (upsert (\<lambda>q. rl_key q = key) (\<lambda>q. q\<lparr>rl_attempts := 1, rl_resetsAt := z\<rparr>)
      \<lparr>rl_key = key, rl_attempts = 1, rl_resetsAt = z\<rparr> t) = Some r \<and> rl_attempts r = 1 \<and> rl_resetsAt r = z"
    for z and t :: "rate_limit_row list"
    unfolding upsert_def has_row_code by (induction t) auto
  with assms show ?thesis
    by (cases "find_rate_limit key (w_db w)")
      (simp_all add: consumeRateLimit_def transaction_run bind_run find_rate_limit_def)
qed

lemma admitted_open:
  assumes "find_rate_limit key (w_db w) = Some r" and "\<forall>t \<in> set ts. t < rl_resetsAt r" and "rl_attempts r \<le> limit"
  shows "admitted key limit window ts w = map (\<lambda>i. rl_attempts r + int i < limit) [0..<length ts]"
  using assms
proof (induction ts arbitrary: w r)
  case (Cons t ts)
  let ?w = "w\<lparr>w_now := t\<rparr>"
  show ?case
  proof (cases "rl_attempts r < limit")
    case True
    obtain v where v: "consumeRateLimit key limit window ?w = (Inr (), v)"
      "find_rate_limit key (w_db v) = Some (r\<lparr>rl_attempts := rl_attempts r + 1\<rparr>)"
      using consume_open [of key ?w r limit window] Cons.prems True by auto
    from Cons.IH [OF v(2)] Cons.prems True
    have "admitted key limit window ts v = map (\<lambda>i. rl_attempts r + 1 + int i < limit) [0..<length ts]" by simp
    with v(1) True show ?thesis
      by (simp add: upt_conv_Cons map_Suc_upt [symmetric] add.assoc del: upt_Suc)
  next
    case False
    obtain v where v: "consumeRateLimit key limit window ?w = (Inl (AppError ''RATE_LIMITED'' 429), v)" "w_db v = w_db w"
      using consume_spent [of key ?w r limit window] Cons.prems False by auto
    from Cons.IH [of v r] v(2) Cons.prems
    have "admitted key limit window ts v = map (\<lambda>i. rl_attempts r + int i < limit) [0..<length ts]" by simp
    with v(1) False show ?thesis
      by (simp add: upt_conv_Cons map_Suc_upt [symmetric] del: upt_Suc)
  qed
qed simp

text \<open>
  C20. A rate limit admits exactly its number of attempts per window: when no window is open for a key,
  the next attempt opens one, and of all the attempts made before that window ends precisely the first
  \<open>limit\<close> are admitted, whatever their times are.
\<close>

theorem rate_limit_exact:
  assumes "\<forall>r. find_rate_limit key (w_db w) = Some r \<longrightarrow> rl_resetsAt r \<le> t" and "1 \<le> limit"
    and "\<forall>x \<in> set ts. x < t + window"
  shows "admitted key limit window (t # ts) w = map (\<lambda>i. int i < limit) [0..<length (t # ts)]"
proof -
  obtain v r where v: "consumeRateLimit key limit window (w\<lparr>w_now := t\<rparr>) = (Inr (), v)"
    "find_rate_limit key (w_db v) = Some r" "rl_attempts r = 1" "rl_resetsAt r = t + window"
    using consume_first [of key "w\<lparr>w_now := t\<rparr>" limit window] assms(1) by auto
  from admitted_open [OF v(2)] v(3,4) assms(2,3)
  have "admitted key limit window ts v = map (\<lambda>i. 1 + int i < limit) [0..<length ts]" by simp
  with v(1) assms(2) show ?thesis
    by (simp add: upt_conv_Cons map_Suc_upt [symmetric] del: upt_Suc)
qed

lemma rate_limit_exact_witness:
  "admitted ''password:admin'' 2 default_window [1000, 2000, 3000] empty_world = [True, True, False]"
  by (subst rate_limit_exact) (simp_all add: default_window_def find_rate_limit_def empty_world_def empty_db_def upt_rec numeral_eq_Suc)

section \<open>Divergences\<close>

text \<open>
  An update that changes only the status answers with an account that has no role and no quota, although
  the stored account keeps both: the validated input has an \<open>undefined\<close> for what was not asked for, and it is
  spread over the row.
\<close>

lemma status_change_answer:
  assumes "updateUser P caller i \<lparr>uc_expectedVersion = n, uc_role = None, uc_status = Some st, uc_monthlyLimitBytes = KeepQuota\<rparr> w
      = (Inr u, t)"
  shows "du_role u = None \<and> du_monthlyLimitBytes u = None \<and>
    (\<exists>before after. find_user i (w_db w) = Some before \<and> find_user i (w_db t) = Some after \<and>
       u_role after = u_role before \<and> u_monthlyLimitBytes after = u_monthlyLimitBytes before)"
proof -
  let ?c = "\<lparr>uc_expectedVersion = n, uc_role = None, uc_status = Some st, uc_monthlyLimitBytes = KeepQuota\<rparr>"
  have "change_account P i ?c None w = (Inr u, t)"
    using assms unfolding updateUser_def by (auto simp: prog_ok quota_change_input_def)
  then obtain user l where user: "find_user i (w_db w) = Some user" and u: "u = updated_dto ?c None user"
    and t: "policy_refresh P (w_now w) (w\<lparr>w_db := changed_users i ?c None (u_version user + 1) (w_db w)\<rparr>) = (Inr l, t)"
    by (rule change_account_ok)
  have "find (\<lambda>u. u_id u = i) (update_where (\<lambda>u. u_id u = i) f us) = map_option f (find (\<lambda>u. u_id u = i) us)"
    if "\<And>u. u_id (f u) = u_id u" for f and us :: "user_row list"
    using that by (induction us) auto
  then have "find_user i (changed_users i ?c None v (w_db w)) = Some ((apply_changes ?c None user)\<lparr>u_version := v\<rparr>)" for v
    using user by (auto simp: find_user_def changed_users_def Let_def apply_changes_def)
  with same_identity_inv [OF refresh_same_identity [OF t]] have
    "find_user i (w_db t) = Some ((apply_changes ?c None user)\<lparr>u_version := u_version user + 1\<rparr>)" by simp
  with user u show ?thesis by (simp add: updated_dto_def apply_changes_def)
qed

text \<open>A quota that is not a number is an internal error, not a validation error.\<close>

lemma quota_not_a_number: "quotaInput ''abc'' w = (Inl JsError, w)"
proof -
  have "BigInt_text ''abc'' = None" by code_simp
  then show ?thesis by (simp add: quotaInput_def bind_run the_or_run)
qed

lemma quota_change_same: "quota_change_input c w = (Inr l, v) \<Longrightarrow> v = w"
  by (cases c) (auto simp: quota_change_input_def prog_ok)

text \<open>An account that was disabled before its activation can neither be activated nor recovered.\<close>

lemma disabled_without_password:
  assumes "find_user i (w_db w) = Some user" and "u_status user = Disabled" and "find_password i (w_db w) = None"
  shows "\<nexists>u t. uc_status changes = Some Active \<and> updateUser P caller i changes w = (Inr u, t)"
    and "\<nexists>r t. purpose \<in> {Activation, Recovery} \<and> createUserFlow P caller i purpose w = (Inr r, t)"
proof -
  show "\<nexists>u t. uc_status changes = Some Active \<and> updateUser P caller i changes w = (Inr u, t)"
    using assms(3) unfolding updateUser_def by (auto simp: prog_ok dest!: quota_change_same elim!: change_account_ok)
  show "\<nexists>r t. purpose \<in> {Activation, Recovery} \<and> createUserFlow P caller i purpose w = (Inr r, t)"
    using assms(1,2) unfolding createUserFlow_def by (auto simp: prog_ok)
qed

end
