(* ===== verification/Releases.thy ===== *)
theory Releases
  imports Machine_Ops Validation Sing_Box
begin

text \<open>
  \<open>server/releases/artifacts.ts\<close>, \<open>server/releases/store.ts\<close> and \<open>contracts/upgrades.ts\<close>: which daemon
  the panel offers to a machine, why an upgrade is not possible, and the tasks that upgrade or uninstall
  a daemon. The text of the release manifest is part of the platform.
\<close>

section \<open>The release on offer\<close>

text \<open>\<open>/^\d+\.\d+\.\d+(?:-[a-zA-Z0-9.-]+)?$/\<close>\<close>

definition is_version :: "string \<Rightarrow> bool" where
  "is_version s \<longleftrightarrow>
     (let core = takeWhile (\<lambda>c. c \<noteq> CHR ''-'') s; rest = dropWhile (\<lambda>c. c \<noteq> CHR ''-'') s;
          parts = split_on (CHR ''.'') core
      in length parts = 3 \<and> list_all (\<lambda>p. p \<noteq> [] \<and> list_all is_digit p) parts \<and>
         (rest = [] \<or> tl rest \<noteq> [] \<and> list_all (\<lambda>c. is_alnum c \<or> c \<in> set ''.-'') (tl rest)))"

record artifact_entry =
  ae_filename :: string
  ae_sha256 :: string
  ae_sizeBytes :: int

definition artifact_entry_of :: "json option \<Rightarrow> artifact_entry option" where
  "artifact_entry_of j =
     (case j of
        Some (JObj ps) \<Rightarrow>
          (case (json_text (jprop ''filename'' ps), json_text (jprop ''sha256'' ps), json_int (jprop ''sizeBytes'' ps)) of
             (Some filename, Some hash, Some sizeBytes) \<Rightarrow>
               if is_sha256_hex hash \<and> 0 < sizeBytes \<and> sizeBytes \<le> 512 * 1024 * 1024
               then Some \<lparr>ae_filename = filename, ae_sha256 = hash, ae_sizeBytes = sizeBytes\<rparr> else None
           | _ \<Rightarrow> None)
      | _ \<Rightarrow> None)"

record release_manifest =
  rm_version :: string
  rm_bundledCoreVersion :: string
  rm_amd64 :: artifact_entry
  rm_arm64 :: artifact_entry

definition manifest_of :: "json \<Rightarrow> release_manifest option" where
  "manifest_of j =
     (case j of
        JObj ps \<Rightarrow>
          (case (json_text (jprop ''version'' ps), json_text (jprop ''bundledCoreVersion'' ps), jprop ''artifacts'' ps) of
             (Some version, Some core, Some (JObj qs)) \<Rightarrow>
               (case (artifact_entry_of (jprop ''amd64'' qs), artifact_entry_of (jprop ''arm64'' qs)) of
                  (Some amd64, Some arm64) \<Rightarrow>
                    if is_version version \<and> is_version core \<and> jprop ''protocolVersion'' ps = Some (JNum ''1'')
                    then Some \<lparr>rm_version = version, rm_bundledCoreVersion = core, rm_amd64 = amd64, rm_arm64 = arm64\<rparr>
                    else None
                | _ \<Rightarrow> None)
           | _ \<Rightarrow> None)
      | _ \<Rightarrow> None)"

record daemon_release =
  dr_artifact :: artifact
  dr_bundledCoreVersion :: string

text \<open>The release of an architecture, when the manifest can be read and names the expected file.\<close>

definition release_of :: "platform \<Rightarrow> string \<Rightarrow> daemon_release option" where
  "release_of P arch =
     Option.bind (p_artifactManifest P) (\<lambda>text.
     Option.bind (p_jsonParse P text) (\<lambda>j.
     Option.bind (manifest_of j) (\<lambda>m.
     let entry = (if arch = ''amd64'' then rm_amd64 m else rm_arm64 m) in
     if ae_filename entry \<noteq> ''daemon-linux-'' @ arch then None
     else Some
       \<lparr>dr_artifact = \<lparr>a_id = ''daemon-'' @ rm_version m @ ''-linux-'' @ arch, a_version = rm_version m,
          a_url = p_publicUrl P @ ''/artifacts/'' @ ae_filename entry, a_sha256 = ae_sha256 entry,
          a_sizeBytes = ae_sizeBytes entry, a_os = ''linux'', a_arch = arch\<rparr>,
        dr_bundledCoreVersion = rm_bundledCoreVersion m\<rparr>)))"

definition getDaemonRelease :: "platform \<Rightarrow> string option \<Rightarrow> ('s, daemon_release) prog" where
  "getDaemonRelease P arch =
     bind (require (arch = Some ''amd64'' \<or> arch = Some ''arm64'') (AppError ''UNSUPPORTED_ARCH'' 422)) (\<lambda>_.
     the_or (release_of P (the arch)) (AppError ''DAEMON_ARTIFACT_NOT_READY'' 503))"

section \<open>Whether a machine can be upgraded\<close>

text \<open>The localized reasons, by what they say; the last is the message of the release's error.\<close>

datatype disabled_reason =
    ReasonUninstalled | ReasonNotEnrolled | ReasonNotLinux | ReasonMaintenance maintenance_note
  | ReasonTaskActive | ReasonCurrent | ReasonRelease failure

record upgrade_candidate =
  uc_currentVersion :: "string option"
  uc_availableVersion :: "string option"
  uc_sha256 :: "string option"
  uc_sizeBytes :: "int option"
  uc_executable :: bool
  uc_disabledReason :: "disabled_reason option"
  uc_sameVersion :: bool

definition maintenance_active :: "string \<Rightarrow> database \<Rightarrow> task_row option" where
  "maintenance_active machineId d =
     (case sort_key (\<lambda>t. if t_state t = Running then 0 else if t_state t = Accepted then 1 else (2 :: int))
        (sort_key t_createdAt (filter (\<lambda>t. t_machineId t = machineId \<and>
           t_kind t \<in> {UPGRADE_DAEMON, UNINSTALL} \<and> t_state t \<in> {Queued, Accepted, Running}) (tasks d))) of
        [] \<Rightarrow> None
      | t # _ \<Rightarrow> Some t)"

definition disabled_reason_of ::
  "machine_row \<Rightarrow> bool \<Rightarrow> maintenance_note \<times> bool \<Rightarrow> bool \<Rightarrow> string option \<Rightarrow> disabled_reason option \<Rightarrow>
     disabled_reason option" where
  "disabled_reason_of machine uninstalled maintenance active available unavailableReason =
     (if uninstalled then Some ReasonUninstalled
      else if \<not> truthy (m_installationId machine) then Some ReasonNotEnrolled
      else if m_os machine \<noteq> Some ''linux'' then Some ReasonNotLinux
      else if \<not> snd maintenance then Some (ReasonMaintenance (fst maintenance))
      else if active then Some ReasonTaskActive
      else if available \<noteq> None \<and> available = m_daemonVersion machine then Some ReasonCurrent
      else unavailableReason)"

text \<open>\<open>artifact?.version === currentVersion\<close> compares \<open>undefined\<close> with \<open>null\<close> when both are missing: not equal.\<close>

definition candidate ::
  "platform \<Rightarrow> machine_row \<Rightarrow> bool \<Rightarrow> daemon_release option \<Rightarrow> disabled_reason option \<Rightarrow> upgrade_candidate app" where
  "candidate P machine active release unavailableReason =
     bind (status_of P (m_statusJson machine)) (\<lambda>status.
     bind (db_get (isUninstalled (m_id machine) (m_bindingEpoch machine))) (\<lambda>uninstalled.
     let artifact = map_option dr_artifact release;
         maintenance = maintenanceInfo (case status of None \<Rightarrow> MS_UNSPECIFIED | Some s \<Rightarrow> s_maintenanceStatus s)
           (UPGRADE_DAEMON \<in> set (m_supportedTasks machine));
         disabledReason = disabled_reason_of machine uninstalled maintenance active (map_option a_version artifact)
           unavailableReason
     in return \<lparr>uc_currentVersion = m_daemonVersion machine, uc_availableVersion = map_option a_version artifact,
          uc_sha256 = map_option a_sha256 artifact, uc_sizeBytes = map_option a_sizeBytes artifact,
          uc_executable = (artifact \<noteq> None \<and> disabledReason = None), uc_disabledReason = disabledReason,
          uc_sameVersion = (artifact \<noteq> None \<and> map_option a_version artifact = m_daemonVersion machine)\<rparr>))"

record machine_upgrades =
  mu_machineId :: string
  mu_bundledCoreVersion :: "string option"
  mu_availableBundledCoreVersion :: "string option"
  mu_daemon :: upgrade_candidate
  mu_activeTask :: "task_dto option"

text \<open>\<open>try { release = getDaemonRelease(arch) } catch\<close>: the release, or why there is none.\<close>

definition offered_release :: "platform \<Rightarrow> machine_row \<Rightarrow> (daemon_release option \<times> disabled_reason option) app" where
  "offered_release P machine = attempt
     (bind (getDaemonRelease P (m_arch machine)) (\<lambda>release. return (Some release, None)))
     (\<lambda>e. case e of AppError c n \<Rightarrow> return (None, Some (ReasonRelease e)) | _ \<Rightarrow> throw e)"

definition release_get :: "platform \<Rightarrow> string \<Rightarrow> machine_upgrades app" where
  "release_get P machineId =
     bind (store_get machineId) (\<lambda>machine.
     bind (db_get (maintenance_active machineId)) (\<lambda>active.
     bind (offered_release P machine) (\<lambda>(release, unavailableReason).
     bind (status_of P (m_statusJson machine)) (\<lambda>status.
     bind (candidate P machine (active \<noteq> None) release unavailableReason) (\<lambda>daemon.
     bind (case active of None \<Rightarrow> return None
           | Some t \<Rightarrow> bind (getTask P machineId (t_id t)) (\<lambda>shown. return (Some shown))) (\<lambda>activeTask.
     return \<lparr>mu_machineId = machineId, mu_bundledCoreVersion = status_text status s_coreVersion,
       mu_availableBundledCoreVersion = map_option dr_bundledCoreVersion release, mu_daemon = daemon,
       mu_activeTask = activeTask\<rparr>))))))"

section \<open>Upgrading and uninstalling\<close>

definition same_upgrade :: "string \<Rightarrow> task_spec \<Rightarrow> bool" where
  "same_upgrade expected spec = (case spec of UpgradeDaemon (Some a) \<Rightarrow> a_sha256 a = expected | _ \<Rightarrow> False)"

text \<open>The transaction of \<open>enqueue\<close>.\<close>

definition enqueue_release :: "platform \<Rightarrow> string \<Rightarrow> string \<Rightarrow> string \<Rightarrow> task_dto app" where
  "enqueue_release P machineId expectedSha256 requestKey = transaction (
     bind (store_get machineId) (\<lambda>machine.
     bind (db_get (find_request machineId requestKey)) (\<lambda>existing.
     case existing of
       Some task \<Rightarrow>
         bind (the_or (p_specFromBinary P (t_payload task)) JsError) (\<lambda>spec.
         bind (require (same_upgrade expectedSha256 spec) (AppError ''REQUEST_CONFLICT'' 409)) (\<lambda>_.
         getTask P machineId (t_id task)))
     | None \<Rightarrow>
         bind (getDaemonRelease P (m_arch machine)) (\<lambda>release.
         bind (require (a_sha256 (dr_artifact release) = expectedSha256) (AppError ''ARTIFACT_CHANGED'' 409)) (\<lambda>_.
         bind (db_get (maintenance_active machineId)) (\<lambda>active.
         bind (candidate P machine (active \<noteq> None) (Some release) None) (\<lambda>offer.
         bind (require (uc_executable offer) (AppError ''UPGRADE_UNAVAILABLE'' 409)) (\<lambda>_.
         enqueueTask P machineId (UpgradeDaemon (Some (dr_artifact release))) requestKey))))))))"

definition release_enqueue :: "platform \<Rightarrow> string \<Rightarrow> string \<Rightarrow> string \<Rightarrow> task_dto app" where
  "release_enqueue P machineId expectedSha256 requestKey =
     bind (require (is_sha256_hex expectedSha256 \<and> p_isUuid P requestKey) ZodError) (\<lambda>_.
     bind (enqueue_release P machineId expectedSha256 requestKey) (\<lambda>result.
     bind (hub_run (hub_wake machineId)) (\<lambda>_.
     return result)))"

definition release_uninstall :: "platform \<Rightarrow> string \<Rightarrow> string \<Rightarrow> task_dto app" where
  "release_uninstall P machineId requestKey =
     bind (require (p_isUuid P requestKey) ZodError) (\<lambda>_.
     bind (store_get machineId) (\<lambda>machine.
     bind (db_get (find_request machineId requestKey)) (\<lambda>existing.
     bind (db_get (isUninstalled machineId (m_bindingEpoch machine))) (\<lambda>gone.
     bind (require (\<not> (existing = None \<and> gone)) (AppError ''MACHINE_UNINSTALLED'' 409)) (\<lambda>_.
     bind (enqueueTask P machineId Uninstall requestKey) (\<lambda>task.
     bind (hub_run (hub_wake machineId)) (\<lambda>_.
     return task)))))))"

end
