(* ===== verification/Panel_Messages.thy ===== *)
theory Panel_Messages
  imports Releases
begin

text \<open>
  The messages of \<open>bifurcation.panel.v1\<close> (\<open>packages/rpc/src/gen/bifurcation/panel/v1/\<close>) by which the
  web console and the holders of API keys talk to the panel: the requests of the modelled services,
  their responses and the enumerations. An optional field is \<open>None\<close> when it is absent, a message with no
  field is \<^typ>\<open>unit\<close>, a \<open>google.protobuf.Struct\<close> the properties of its object. Enumerations are open: a
  number the panel does not know arrives as that number. A localized text is represented by what it says.
\<close>

section \<open>Shared types\<close>

datatype panel_role = ROLE_UNSPECIFIED | ROLE_ADMIN | ROLE_USER | ROLE_UNRECOGNIZED int

datatype panel_user_status =
    USER_STATUS_UNSPECIFIED | USER_STATUS_PENDING | USER_STATUS_ACTIVE | USER_STATUS_DISABLED
  | USER_STATUS_UNRECOGNIZED int

record panel_user =
  pu_id :: string
  pu_username :: string
  pu_role :: panel_role
  pu_status :: panel_user_status
  pu_monthlyLimitBytes :: "string option"  \<comment> \<open>decimal; absent means unlimited\<close>
  pu_version :: int
  pu_createdAt :: int

record panel_api_key =
  pkey_id :: string
  pkey_name :: string
  pkey_prefix :: string
  pkey_createdAt :: int
  pkey_lastUsedAt :: "int option"
  pkey_revokedAt :: "int option"

record panel_passkey =
  ppk_id :: string
  ppk_name :: string
  ppk_createdAt :: int
  ppk_backedUp :: bool

text \<open>The messages of a form's fields are not part of the model of a failed validation.\<close>

record error_detail =
  ed_code :: string
  ed_requestId :: string

section \<open>Accounts\<close>

datatype panel_flow_purpose =
    FLOW_PURPOSE_UNSPECIFIED | FLOW_PURPOSE_ACTIVATION | FLOW_PURPOSE_RECOVERY | FLOW_PURPOSE_UNRECOGNIZED int

record list_users_response =
  listUsers_users :: "panel_user list"

record create_user_request =
  createUser_username :: string
  createUser_role :: panel_role
  createUser_monthlyLimitBytes :: "string option"

record create_user_response =
  createdUser_user :: "panel_user option"
  createdUser_activationUrl :: string

record update_user_request =
  updateUser_id :: string
  updateUser_expectedVersion :: int
  updateUser_role :: "panel_role option"
  updateUser_status :: "panel_user_status option"
  updateUser_monthlyLimitBytes :: "string option"
  updateUser_clearMonthlyLimit :: bool

record update_user_response =
  updatedUser_user :: "panel_user option"

record create_user_flow_request =
  createUserFlow_id :: string
  createUserFlow_purpose :: panel_flow_purpose

record create_user_flow_response =
  userFlow_url :: string
  userFlow_expiresAt :: int

section \<open>Signing in\<close>

datatype panel_passkey_purpose =
    PASSKEY_PURPOSE_UNSPECIFIED | PASSKEY_PURPOSE_LOGIN | PASSKEY_PURPOSE_REAUTH | PASSKEY_PURPOSE_UNRECOGNIZED int

record setup_administrator_request =
  setupAdministrator_username :: string
  setupAdministrator_password :: string

record setup_administrator_response =
  administrator_user :: "panel_user option"

record password_login_request =
  passwordLogin_username :: string
  passwordLogin_password :: string

record password_login_response =
  loggedIn_user :: "panel_user option"

record passkey_options_request =
  passkeyOptions_purpose :: panel_passkey_purpose

record passkey_options_response =
  passkeyOptions_flowId :: string
  passkeyOptions_options :: "json option"

record passkey_verify_request =
  passkeyVerify_flowId :: string
  passkeyVerify_response :: "json option"
  passkeyVerify_name :: string

record passkey_verify_response =
  passkeyVerified_user :: "panel_user option"

record activation_options_request =
  activationOptions_token :: string

record activation_options_response =
  activationOptions_flowId :: string
  activationOptions_username :: string
  activationOptions_options :: "json option"

record activation_complete_request =
  activationComplete_token :: string
  activationComplete_flowId :: string
  activationComplete_response :: "json option"
  activationComplete_name :: string
  activationComplete_password :: string
  activationComplete_passwordOnly :: bool

record activation_complete_response =
  activated_user :: "panel_user option"

record recovery_options_request =
  recoveryOptions_token :: string

record recovery_options_response =
  recoveryOptions_flowId :: string
  recoveryOptions_username :: string
  recoveryOptions_options :: "json option"

record recovery_complete_request =
  recoveryComplete_token :: string
  recoveryComplete_flowId :: string
  recoveryComplete_response :: "json option"
  recoveryComplete_name :: string
  recoveryComplete_password :: string
  recoveryComplete_passwordOnly :: bool

record recovery_complete_response =
  recovered_user :: "panel_user option"

record reauth_password_request =
  reauthPassword_password :: string

section \<open>The own account\<close>

datatype panel_authentication =
    AUTHENTICATION_UNSPECIFIED | AUTHENTICATION_SESSION | AUTHENTICATION_API_KEY | AUTHENTICATION_UNRECOGNIZED int

record get_me_response =
  me_user :: "panel_user option"
  me_authentication :: panel_authentication
  me_recentAuthentication :: bool

record change_password_request =
  changePassword_password :: string

record list_api_keys_response =
  listApiKeys_apiKeys :: "panel_api_key list"

record create_api_key_request =
  createApiKey_name :: string

record create_api_key_response =
  createdApiKey_apiKey :: "panel_api_key option"
  createdApiKey_token :: string

record revoke_api_key_request =
  revokeApiKey_id :: string

record list_passkeys_response =
  listPasskeys_passkeys :: "panel_passkey list"

record new_passkey_options_response =
  newPasskeyOptions_flowId :: string
  newPasskeyOptions_options :: "json option"

record new_passkey_verify_request =
  newPasskeyVerify_flowId :: string
  newPasskeyVerify_response :: "json option"
  newPasskeyVerify_name :: string

record new_passkey_verify_response =
  newPasskeyVerified_passkey :: "panel_passkey option"

record delete_passkey_request =
  deletePasskey_id :: string

section \<open>Machines\<close>

datatype panel_connection =
    CONNECTION_UNSPECIFIED | CONNECTION_WAITING | CONNECTION_ONLINE | CONNECTION_OFFLINE | CONNECTION_UNRECOGNIZED int

datatype panel_task_state =
    TASK_STATE_UNSPECIFIED | TASK_STATE_QUEUED | TASK_STATE_ACCEPTED | TASK_STATE_RUNNING | TASK_STATE_SUCCEEDED
  | TASK_STATE_FAILED | TASK_STATE_CANCELED | TASK_STATE_SUPERSEDED | TASK_STATE_UNRECOGNIZED int

datatype panel_rollback_state =
    ROLLBACK_STATE_UNSPECIFIED | ROLLBACK_STATE_NOT_NEEDED | ROLLBACK_STATE_SUCCEEDED | ROLLBACK_STATE_FAILED
  | ROLLBACK_STATE_UNRECOGNIZED int

record panel_resources =
  prs_cpuUsagePercent :: "double option"
  prs_memoryUsedBytes :: "int option"
  prs_memoryTotalBytes :: "int option"
  prs_diskFreeBytes :: "int option"
  prs_connections :: "int option"
  prs_networkRxBytes :: "int option"
  prs_networkTxBytes :: "int option"
  prs_networkInterface :: "string option"

record panel_task =
  ptk_id :: string
  ptk_machineId :: string
  ptk_kind :: task_kind
  ptk_state :: panel_task_state
  ptk_phase :: "string option"
  ptk_progressPercent :: "int option"
  ptk_message :: "string option"
  ptk_errorCode :: "string option"
  ptk_rollback :: panel_rollback_state
  ptk_diagnostic :: "json option"
  ptk_createdAt :: int
  ptk_updatedAt :: int

record panel_machine =
  pmc_id :: string
  pmc_name :: string
  pmc_address :: string
  pmc_region :: string
  pmc_connection :: panel_connection
  pmc_streamConnected :: bool
  pmc_uninstalled :: bool
  pmc_lastSeenAt :: "int option"
  pmc_daemonVersion :: "string option"
  pmc_coreVersion :: "string option"
  pmc_coreHealth :: core_health
  pmc_installationId :: "string option"
  pmc_createdAt :: int
  pmc_version :: int
  pmc_activeTaskCount :: nat
  pmc_os :: "string option"
  pmc_arch :: "string option"
  pmc_capabilities :: "task_kind list"
  pmc_appliedRevisionId :: "string option"
  pmc_appliedPolicyRevision :: int
  pmc_appliedConfigSha256 :: "string option"
  pmc_resources :: "panel_resources option"
  pmc_tags :: "string list"
  pmc_maintenanceStatus :: maintenance_status

text \<open>\<open>MachineDetail\<close> repeats the fields of \<open>Machine\<close>.\<close>

record panel_machine_detail = panel_machine +
  pmd_token :: string
  pmd_installCommand :: string
  pmd_tasks :: "panel_task list"
  pmd_issue :: "string option"

record panel_upgrade_candidate =
  puc_currentVersion :: "string option"
  puc_availableVersion :: "string option"
  puc_sha256 :: "string option"
  puc_sizeBytes :: "int option"
  puc_executable :: bool
  puc_disabledReason :: "disabled_reason option"
  puc_sameVersion :: bool

record panel_machine_upgrades =
  pmu_machineId :: string
  pmu_bundledCoreVersion :: "string option"
  pmu_availableBundledCoreVersion :: "string option"
  pmu_daemon :: "panel_upgrade_candidate option"
  pmu_activeTask :: "panel_task option"

record list_machines_response =
  listMachines_machines :: "panel_machine list"

record create_machine_request =
  createMachine_name :: string
  createMachine_address :: string
  createMachine_region :: string
  createMachine_tags :: "string list"

record create_machine_response =
  createdMachine_machine :: "panel_machine_detail option"

record get_machine_request =
  getMachine_machineId :: string

record get_machine_response =
  gotMachine_machine :: "panel_machine_detail option"

record machine_tags =
  machineTags_values :: "string list"

record update_machine_request =
  updateMachine_machineId :: string
  updateMachine_expectedVersion :: int
  updateMachine_name :: "string option"
  updateMachine_address :: "string option"
  updateMachine_region :: "string option"
  updateMachine_tags :: "machine_tags option"

record update_machine_response =
  updatedMachine_machine :: "panel_machine_detail option"

record delete_machine_request =
  deleteMachine_machineId :: string

record delete_machine_response =
  deletedMachine_removed :: bool
  deletedMachine_localUninstallConfirmed :: bool

record reset_machine_token_request =
  resetMachineToken_machineId :: string

record reset_machine_token_response =
  resetMachineToken_machine :: "panel_machine_detail option"

record rebind_machine_request =
  rebindMachine_machineId :: string
  rebindMachine_expectedVersion :: int

record rebind_machine_response =
  reboundMachine_machine :: "panel_machine_detail option"

record uninstall_machine_request =
  uninstallMachine_machineId :: string
  uninstallMachine_requestKey :: string

record uninstall_machine_response =
  uninstallMachine_task :: "panel_task option"

record list_machine_tasks_request =
  listMachineTasks_machineId :: string

record list_machine_tasks_response =
  listMachineTasks_tasks :: "panel_task list"

record enqueue_inspect_task_request =
  enqueueInspect_machineId :: string
  enqueueInspect_requestKey :: string
  enqueueInspect_includeLogs :: bool
  enqueueInspect_maxLogLines :: int
  enqueueInspect_maxBytes :: int

record enqueue_inspect_task_response =
  enqueuedInspect_task :: "panel_task option"

record get_machine_upgrades_request =
  getMachineUpgrades_machineId :: string

record get_machine_upgrades_response =
  gotMachineUpgrades_upgrades :: "panel_machine_upgrades option"

record enqueue_upgrade_request =
  enqueueUpgrade_machineId :: string
  enqueueUpgrade_expectedSha256 :: string
  enqueueUpgrade_requestKey :: string

record enqueue_upgrade_response =
  enqueuedUpgrade_task :: "panel_task option"

section \<open>Configuration\<close>

datatype panel_reconciliation =
    RECONCILIATION_UNSPECIFIED | RECONCILIATION_NOT_CONFIGURED | RECONCILIATION_PENDING | RECONCILIATION_APPLIED
  | RECONCILIATION_FAILED | RECONCILIATION_UNRECOGNIZED int

record pem_tls =
  pem_certificatePem :: string
  pem_privateKeyPem :: string

record path_tls =
  path_certificatePath :: string
  path_privateKeyPath :: string

record acme_tls =
  acme_email :: string

text \<open>The \<open>oneof mode\<close>; no case is set in \<open>None\<close>.\<close>

datatype tls_mode = ModePem pem_tls | ModePath path_tls | ModeAcme acme_tls

record panel_tls_settings =
  ptls_serverName :: string
  ptls_mode :: "tls_mode option"

record panel_configuration_input =
  pci_listen :: "string option"
  pci_trojanPort :: int
  pci_hysteria2Port :: int
  pci_tls :: "panel_tls_settings option"
  pci_baseJson :: "(string \<times> json) list option"

record panel_configuration =
  pcf_settings :: "panel_configuration_input option"
  pcf_version :: int
  pcf_desiredRevisionId :: "string option"
  pcf_desiredPolicyRevision :: "int option"
  pcf_appliedRevisionId :: "string option"
  pcf_appliedPolicyRevision :: "int option"
  pcf_reconciliation :: panel_reconciliation
  pcf_latestTask :: "panel_task option"
  pcf_bundledCoreVersion :: "string option"

record panel_configuration_preview =
  pcp_previewId :: string
  pcp_expectedVersion :: int
  pcp_policyRevision :: int
  pcp_digest :: string
  pcp_finalJson :: string
  pcp_expiresAt :: int

record get_machine_configuration_request =
  getConfiguration_machineId :: string

record get_machine_configuration_response =
  gotConfiguration_configuration :: "panel_configuration option"

record preview_configuration_request =
  previewConfiguration_machineId :: string
  previewConfiguration_expectedVersion :: int
  previewConfiguration_settings :: "panel_configuration_input option"

record preview_configuration_response =
  previewConfiguration_preview :: "panel_configuration_preview option"

record publish_configuration_request =
  publishConfiguration_machineId :: string
  publishConfiguration_previewId :: string
  publishConfiguration_expectedVersion :: int
  publishConfiguration_requestKey :: string

record publish_configuration_response =
  publishedConfiguration_revisionId :: string
  publishedConfiguration_version :: int
  publishedConfiguration_task :: "panel_task option"

end
