(* ===== verification/Configuration.thy ===== *)
theory Configuration
  imports Sing_Box Usage Machine_Ops
begin

text \<open>
  \<open>server/configuration/store.ts\<close> and the periodic work of \<open>server/configuration/maintenance.ts\<close>:
  previews and publication of a machine's configuration as an immutable revision with a durable
  task, what a daemon is handed, and the reconciliation of every machine with the current policy.
\<close>

section \<open>Reading\<close>

definition find_config :: "string \<Rightarrow> database \<Rightarrow> machine_config_row option" where
  "find_config i d = find (\<lambda>c. mc_machineId c = i) (machineConfigs d)"

definition update_config :: "string \<Rightarrow> (machine_config_row \<Rightarrow> machine_config_row) \<Rightarrow> database \<Rightarrow> database" where
  "update_config i f = machineConfigs_update (update_where (\<lambda>c. mc_machineId c = i) f)"

definition markForRebind :: "string \<Rightarrow> nat app" where
  "markForRebind i =
     bind (store_get i) (\<lambda>_.
     bind (db_get (\<lambda>d. length (filter (\<lambda>c. mc_machineId c = i) (machineConfigs d)))) (\<lambda>changes.
     bind (db_run (update_config i (\<lambda>c. c\<lparr>mc_desiredPolicyRevision := 0\<rparr>))) (\<lambda>_.
     return changes)))"

datatype reconciliation = NotConfigured | ReconcilePending | Applied | ReconcileFailed

record configuration_dto =
  cd_settings :: "configuration option"
  cd_version :: int
  cd_desiredRevisionId :: "string option"
  cd_desiredPolicyRevision :: "int option"
  cd_appliedRevisionId :: "string option"
  cd_appliedPolicyRevision :: "int option"
  cd_reconciliation :: reconciliation
  cd_latestTask :: "task_dto option"
  cd_bundledCoreVersion :: "string option"

definition latest_revision :: "database \<Rightarrow> int" where
  "latest_revision d = (case policyState d of None \<Rightarrow> 0 | Some s \<Rightarrow> ps_revision s)"

definition latest_apply :: "machine_row \<Rightarrow> database \<Rightarrow> task_row option" where
  "latest_apply machine d =
     (case order_desc t_createdAt (filter (\<lambda>t. t_machineId t = m_id machine \<and>
             t_bindingEpoch t = m_bindingEpoch machine \<and> t_kind t = APPLY_CONFIG) (tasks d)) of
        [] \<Rightarrow> None | t # _ \<Rightarrow> Some t)"

text \<open>\<open>JSON.parse(decryptSecret(text)) as MachineConfigurationInput\<close>\<close>

definition read_configuration :: "platform \<Rightarrow> string \<Rightarrow> ('s, configuration) prog" where
  "read_configuration P ciphertext =
     bind (lift_sum (decryptSecret P ciphertext)) (\<lambda>plain.
     bind (the_or (p_jsonParse P plain) JsError) (\<lambda>j.
     the_or (configuration_from j) JsError))"

definition has_applied :: "machine_config_row option \<Rightarrow> machine_status option \<Rightarrow> int \<Rightarrow> bool" where
  "has_applied row status desiredPolicy =
     (case (row, status) of
        (Some r, Some s) \<Rightarrow> truthy (mc_desiredRevisionId r) \<and>
          mc_desiredRevisionId r = Some (s_appliedRevisionId s) \<and> desiredPolicy \<le> s_appliedPolicyRevision s
      | _ \<Rightarrow> False)"

definition configuration_get :: "platform \<Rightarrow> string \<Rightarrow> configuration_dto app" where
  "configuration_get P i =
     bind (store_get i) (\<lambda>machine.
     bind (db_get (find_config i)) (\<lambda>row.
     bind (db_get latest_revision) (\<lambda>latestPolicy.
     bind (status_of P (m_statusJson machine)) (\<lambda>status.
     bind (db_get (latest_apply machine)) (\<lambda>latest.
     let desiredPolicy = max (or_default 0 mc_desiredPolicyRevision row) latestPolicy;
         desired = Option.bind row mc_desiredRevisionId;
         applied = has_applied row status desiredPolicy in
     bind (case Option.bind row mc_settingsCiphertext of
             None \<Rightarrow> return None
           | Some c \<Rightarrow> if c = [] then return None else bind (read_configuration P c) (\<lambda>s. return (Some s))) (\<lambda>settings.
     bind (case latest of None \<Rightarrow> return None | Some t \<Rightarrow> bind (getTask P i (t_id t)) (\<lambda>dto. return (Some dto))) (\<lambda>latestTask.
     return \<lparr>cd_settings = settings, cd_version = or_default 0 mc_version row, cd_desiredRevisionId = desired,
       cd_desiredPolicyRevision = (if truthy desired then Some desiredPolicy else None),
       cd_appliedRevisionId = status_text status s_appliedRevisionId,
       cd_appliedPolicyRevision = (case status of None \<Rightarrow> None
         | Some s \<Rightarrow> if s_appliedPolicyRevision s = 0 then None else Some (s_appliedPolicyRevision s)),
       cd_reconciliation = (if \<not> truthy desired then NotConfigured else if applied then Applied
         else if map_option t_state latest = Some Failed then ReconcileFailed else ReconcilePending),
       cd_latestTask = latestTask, cd_bundledCoreVersion = status_text status s_coreVersion\<rparr>)))))))"

section \<open>Preview\<close>

definition new_config_row :: "string \<Rightarrow> machine_config_row" where
  "new_config_row i = \<lparr>mc_machineId = i, mc_settingsCiphertext = None, mc_version = 0,
     mc_desiredRevisionId = None, mc_desiredPolicyRevision = 0\<rparr>"

definition ensureMachine :: "string \<Rightarrow> machine_config_row app" where
  "ensureMachine i =
     bind (store_get i) (\<lambda>machine.
     bind (db_get (isUninstalled i (m_bindingEpoch machine))) (\<lambda>gone.
     bind (require (\<not> gone) (AppError ''MACHINE_UNINSTALLED'' 409)) (\<lambda>_.
     bind (db_run (machineConfigs_update (insert_new (\<lambda>c. mc_machineId c = i) (new_config_row i)))) (\<lambda>_.
     bind (db_get (find_config i)) (\<lambda>row. the_or row JsError)))))"

record preview_input =
  pi_expectedVersion :: int
  pi_settings :: "configuration_input option"

record preview_dto =
  pd_previewId :: string
  pd_expectedVersion :: int
  pd_policyRevision :: int
  pd_digest :: string
  pd_finalJson :: string
  pd_expiresAt :: int

definition insert_preview :: "config_preview_row \<Rightarrow> unit app" where
  "insert_preview row =
     bind (db_get (\<lambda>d. has_row (\<lambda>p. cp_id p = cp_id row) (configPreviews d))) (\<lambda>taken.
     bind (require (\<not> taken) SqlError) (\<lambda>_.
     db_run (configPreviews_update (\<lambda>t. t @ [row]))))"

definition rendered :: "configuration \<Rightarrow> authorization_layer \<Rightarrow> bytes" where
  "rendered settings authorization = jsonBytes (JObj (renderServer settings authorization))"

definition preview_configuration :: "platform \<Rightarrow> string \<Rightarrow> preview_input \<Rightarrow> string \<Rightarrow> preview_dto app" where
  "preview_configuration P i input createdBy =
     bind (require (0 \<le> pi_expectedVersion input) ZodError) (\<lambda>_.
     bind (the_or (pi_settings input) ZodError) (\<lambda>raw.
     bind (validateSettings P raw) (\<lambda>settings.
     transaction (
       bind (ensureMachine i) (\<lambda>row.
       bind (require (mc_version row = pi_expectedVersion input) (AppError ''VERSION_CONFLICT'' 409)) (\<lambda>_.
       bind Date_now (\<lambda>now.
       bind (policy_refresh P now) (\<lambda>authorization.
       let bytes = rendered settings authorization in
       bind (newId P) (\<lambda>previewId.
       let result = \<lparr>pd_previewId = previewId, pd_expectedVersion = mc_version row,
         pd_policyRevision = al_policyRevision authorization, pd_digest = sha256 P bytes,
         pd_finalJson = bytes, pd_expiresAt = now + 10 * 60000\<rparr> in
       bind (encryptSecret P (stringify (configuration_json settings))) (\<lambda>settingsCiphertext.
       bind (encryptSecret P bytes) (\<lambda>renderedCiphertext.
       bind (insert_preview \<lparr>cp_id = previewId, cp_machineId = i, cp_settingsCiphertext = settingsCiphertext,
         cp_renderedCiphertext = renderedCiphertext, cp_digest = pd_digest result, cp_expectedVersion = mc_version row,
         cp_policyRevision = al_policyRevision authorization, cp_expiresAt = pd_expiresAt result,
         cp_createdBy = createdBy, cp_publishedRevisionId = None\<rparr>) (\<lambda>_.
       return result))))))))))))"

section \<open>Publication\<close>

record publish_input =
  bi_previewId :: string
  bi_expectedVersion :: int
  bi_requestKey :: string

record publish_dto =
  bd_revisionId :: string
  bd_version :: int
  bd_task :: task_dto

definition find_preview :: "string \<Rightarrow> string \<Rightarrow> string \<Rightarrow> database \<Rightarrow> config_preview_row option" where
  "find_preview previewId i createdBy d =
     find (\<lambda>p. cp_id p = previewId \<and> cp_machineId p = i \<and> cp_createdBy p = createdBy) (configPreviews d)"

definition find_revision :: "string \<Rightarrow> database \<Rightarrow> config_revision_row option" where
  "find_revision r d = find (\<lambda>c. cr_id c = r) (configRevisions d)"

definition insert_revision :: "config_revision_row \<Rightarrow> unit app" where
  "insert_revision row =
     bind (db_get (\<lambda>d. has_row (\<lambda>r. cr_id r = cr_id row \<or>
       cr_machineId r = cr_machineId row \<and> cr_version r = cr_version row) (configRevisions d))) (\<lambda>taken.
     bind (require (\<not> taken) SqlError) (\<lambda>_.
     db_run (configRevisions_update (\<lambda>t. t @ [row]))))"

text \<open>\<open>authorization.users.map((user) => user.id)\<close>\<close>

definition user_ids :: "authorization_layer \<Rightarrow> string list" where
  "user_ids l = map (\<lambda>u. case json_text (jprop ''id'' u) of None \<Rightarrow> [] | Some s \<Rightarrow> s) (al_users l)"

definition rememberUsers :: "string \<Rightarrow> authorization_layer \<Rightarrow> unit app" where
  "rememberUsers i authorization =
     for_each (user_ids authorization) (\<lambda>u.
       db_run (machineUserHistory_update (insert_new (\<lambda>h. mu_machineId h = i \<and> mu_userId h = u)
         \<lparr>mu_machineId = i, mu_userId = u\<rparr>)))"

text \<open>A preview that has been published: a retry of its request gets its task.\<close>

definition published_before :: "platform \<Rightarrow> string \<Rightarrow> publish_input \<Rightarrow> string \<Rightarrow> publish_dto app" where
  "published_before P i input publishedRevisionId =
     bind (db_get (find_request i (bi_requestKey input))) (\<lambda>existing.
     bind (case existing of None \<Rightarrow> return None
           | Some t \<Rightarrow> bind (the_or (p_specFromBinary P (t_payload t)) JsError) (\<lambda>spec. return (Some spec))) (\<lambda>spec.
     let revisionId = (case spec of Some (ApplyConfig v) \<Rightarrow> Some (ac_revisionId v) | _ \<Rightarrow> None) in
     bind (require (existing \<noteq> None \<and> revisionId = Some publishedRevisionId) (AppError ''PREVIEW_USED'' 409)) (\<lambda>_.
     bind (db_get (find_revision publishedRevisionId)) (\<lambda>found.
     bind (the_or found JsError) (\<lambda>revision.
     bind (getTask P i (t_id (the existing))) (\<lambda>task.
     return \<lparr>bd_revisionId = cr_id revision, bd_version = cr_version revision, bd_task = task\<rparr>))))))"

definition apply_spec :: "string \<Rightarrow> int \<Rightarrow> task_spec" where
  "apply_spec revisionId policyRevision =
     ApplyConfig \<lparr>ac_revisionId = revisionId, ac_policyRevision = policyRevision\<rparr>"

definition publish_new :: "platform \<Rightarrow> machine_row \<Rightarrow> string \<Rightarrow> config_preview_row \<Rightarrow> publish_input \<Rightarrow> string \<Rightarrow> publish_dto app" where
  "publish_new P machine i preview input createdBy =
     bind Date_now (\<lambda>now.
     bind (require (now < cp_expiresAt preview) (AppError ''PREVIEW_EXPIRED'' 409)) (\<lambda>_.
     bind (ensureMachine i) (\<lambda>row.
     bind (require (mc_version row = bi_expectedVersion input \<and> cp_expectedVersion preview = mc_version row)
             (AppError ''VERSION_CONFLICT'' 409)) (\<lambda>_.
     bind (policy_refresh P now) (\<lambda>authorization.
     bind (require (al_policyRevision authorization = cp_policyRevision preview) (AppError ''STALE_POLICY'' 409)) (\<lambda>_.
     bind (require (m_os machine = Some ''linux'') (AppError ''UNSUPPORTED_OS'' 422)) (\<lambda>_.
     bind (newId P) (\<lambda>revisionId.
     let version = mc_version row + 1 in
     bind (insert_revision \<lparr>cr_id = revisionId, cr_machineId = i, cr_version = version,
       cr_settingsCiphertext = cp_settingsCiphertext preview, cr_renderedCiphertext = cp_renderedCiphertext preview,
       cr_digest = cp_digest preview, cr_policyRevision = cp_policyRevision preview,
       cr_authorizedUserIds = user_ids authorization, cr_createdAt = now, cr_createdBy = Some createdBy\<rparr>) (\<lambda>_.
     bind (db_run (update_config i (\<lambda>c. c\<lparr>mc_settingsCiphertext := Some (cp_settingsCiphertext preview),
       mc_version := version, mc_desiredRevisionId := Some revisionId,
       mc_desiredPolicyRevision := cp_policyRevision preview\<rparr>))) (\<lambda>_.
     bind (db_run (configPreviews_update (update_where (\<lambda>p. cp_id p = cp_id preview)
       (\<lambda>p. p\<lparr>cp_publishedRevisionId := Some revisionId\<rparr>)))) (\<lambda>_.
     bind (rememberUsers i authorization) (\<lambda>_.
     bind (enqueueTask P i (apply_spec revisionId (cp_policyRevision preview)) (bi_requestKey input)) (\<lambda>task.
     return \<lparr>bd_revisionId = revisionId, bd_version = version, bd_task = task\<rparr>)))))))))))))"

definition publish_configuration :: "platform \<Rightarrow> string \<Rightarrow> publish_input \<Rightarrow> string \<Rightarrow> publish_dto app" where
  "publish_configuration P i input createdBy =
     bind (require (p_isUuid P (bi_previewId input) \<and> 0 \<le> bi_expectedVersion input \<and> p_isUuid P (bi_requestKey input)) ZodError) (\<lambda>_.
     bind (transaction (
       bind (store_get i) (\<lambda>machine.
       bind (db_get (find_preview (bi_previewId input) i createdBy)) (\<lambda>found.
       bind (the_or found (AppError ''PREVIEW_NOT_FOUND'' 404)) (\<lambda>preview.
       case cp_publishedRevisionId preview of
         Some r \<Rightarrow> if r = [] then publish_new P machine i preview input createdBy else published_before P i input r
       | None \<Rightarrow> publish_new P machine i preview input createdBy))))) (\<lambda>result.
     bind (hub_run (hub_wake i)) (\<lambda>_.
     return result)))"

section \<open>What a daemon is handed\<close>

definition getConfig :: "platform \<Rightarrow> string \<Rightarrow> get_config_request \<Rightarrow> get_config_response app" where
  "getConfig P i request =
     bind (store_get i) (\<lambda>machine.
     bind (db_get (isUninstalled i (m_bindingEpoch machine))) (\<lambda>gone.
     bind (require (\<not> gone) (AppError ''MACHINE_UNINSTALLED'' 403)) (\<lambda>_.
     bind Date_now (\<lambda>now.
     bind (policy_refresh P now) (\<lambda>latest.
     let only = \<lparr>gr_revisionId = [], gr_configJson = [], gr_configSha256 = [], gr_policyRevision = 0,
       gr_latestAuthorizationJson = jsonBytes (layer_json latest), gr_latestPolicyRevision = al_policyRevision latest\<rparr> in
     if gc_authorizationOnly request then return only
     else
       bind (db_get (find_config i)) (\<lambda>target.
       let revisionId = (if gc_revisionId request \<noteq> [] then Some (gc_revisionId request)
                         else Option.bind target mc_desiredRevisionId) in
       bind (db_get (\<lambda>d. case revisionId of None \<Rightarrow> None
               | Some r \<Rightarrow> if r = [] then None else find (\<lambda>c. cr_id c = r \<and> cr_machineId c = i) (configRevisions d))) (\<lambda>found.
       bind (the_or found (AppError ''CONFIG_NOT_FOUND'' 404)) (\<lambda>revision.
       bind (lift_sum (decryptSecret P (cr_renderedCiphertext revision))) (\<lambda>configJson.
       return (only\<lparr>gr_revisionId := cr_id revision, gr_configJson := configJson,
         gr_configSha256 := cr_digest revision, gr_policyRevision := cr_policyRevision revision\<rparr>))))))))))"

section \<open>Reconciliation\<close>

definition configured :: "database \<Rightarrow> (machine_config_row \<times> machine_row) list" where
  "configured d = concat (map (\<lambda>c. map (Pair c)
     (filter (\<lambda>m. m_id m = mc_machineId c \<and> m_removedAt m = None) (machines d))) (machineConfigs d))"

definition behind :: "machine_config_row \<Rightarrow> authorization_layer \<Rightarrow> bool" where
  "behind c authorization \<longleftrightarrow> truthy (mc_settingsCiphertext c) \<and>
     mc_desiredPolicyRevision c < al_policyRevision authorization"

definition policy_key :: "machine_row \<Rightarrow> authorization_layer \<Rightarrow> string" where
  "policy_key machine authorization = ''policy:'' @ m_id machine @ '':'' @
     decimal (m_bindingEpoch machine) @ '':'' @ decimal (al_policyRevision authorization)"

text \<open>The transaction for one machine; it tells whether it gave the machine a new target.\<close>

definition retarget :: "platform \<Rightarrow> authorization_layer \<Rightarrow> int \<Rightarrow> machine_row \<Rightarrow> bool app" where
  "retarget P authorization now machine = transaction (
     bind (db_get (find_config (m_id machine))) (\<lambda>found.
     bind (the_or found JsError) (\<lambda>current.
     if \<not> behind current authorization then return False
     else
       bind (read_configuration P (the (mc_settingsCiphertext current))) (\<lambda>settings.
       let bytes = rendered settings authorization in
       bind (newId P) (\<lambda>revisionId.
       let version = mc_version current + 1 in
       bind (encryptSecret P bytes) (\<lambda>renderedCiphertext.
       bind (insert_revision \<lparr>cr_id = revisionId, cr_machineId = m_id machine, cr_version = version,
         cr_settingsCiphertext = the (mc_settingsCiphertext current), cr_renderedCiphertext = renderedCiphertext,
         cr_digest = sha256 P bytes, cr_policyRevision = al_policyRevision authorization,
         cr_authorizedUserIds = user_ids authorization, cr_createdAt = now, cr_createdBy = None\<rparr>) (\<lambda>_.
       bind (db_run (update_config (m_id machine) (\<lambda>c. c\<lparr>mc_version := version,
         mc_desiredRevisionId := Some revisionId, mc_desiredPolicyRevision := al_policyRevision authorization\<rparr>))) (\<lambda>_.
       bind (rememberUsers (m_id machine) authorization) (\<lambda>_.
       bind (enqueueTask P (m_id machine) (apply_spec revisionId (al_policyRevision authorization))
         (policy_key machine authorization)) (\<lambda>_.
       return True))))))))))"

definition reconcile_one :: "platform \<Rightarrow> authorization_layer \<Rightarrow> int \<Rightarrow> machine_config_row \<times> machine_row \<Rightarrow> string list \<Rightarrow> string list app" where
  "reconcile_one P authorization now = (\<lambda>(configuration, machine) changed.
     bind (db_get (isUninstalled (m_id machine) (m_bindingEpoch machine))) (\<lambda>gone.
     if gone \<or> \<not> behind configuration authorization \<or> APPLY_CONFIG \<notin> set (m_supportedTasks machine) \<or>
        \<not> truthy (m_installationId machine)
     then return changed
     else
       bind (attempt (retarget P authorization now machine) (\<lambda>_. return False)) (\<lambda>done.
       return (if done then changed @ [m_id machine] else changed))))"

definition reconcile :: "platform \<Rightarrow> int \<Rightarrow> string list app" where
  "reconcile P now =
     bind (policy_refresh P now) (\<lambda>authorization.
     bind (db_get configured) (\<lambda>pairs.
     bind (fold_each pairs [] (reconcile_one P authorization now)) (\<lambda>changed.
     bind (for_each changed (\<lambda>i. hub_run (hub_wake i))) (\<lambda>_.
     return changed))))"

section \<open>Periodic work\<close>

text \<open>
  The body of the interval: it reconciles, and once a minute drops old minutes and previews that
  expired a day ago; a failure is logged and the time of the last cleanup then stays.
\<close>

definition maintenance_tick :: "platform \<Rightarrow> int \<Rightarrow> int app" where
  "maintenance_tick P lastCleanup =
     attempt (
       bind Date_now (\<lambda>now.
       bind (reconcile P now) (\<lambda>_.
       if 60000 < now - lastCleanup
       then
         bind (cleanMinutes now) (\<lambda>_.
         bind (db_run (configPreviews_update (delete_where (\<lambda>p. cp_expiresAt p \<le> now - 24 * 60 * 60000)))) (\<lambda>_.
         return now))
       else return lastCleanup)))
     (\<lambda>_. return lastCleanup)"

end
