(* ===== verification/Mappers.thy ===== *)
theory Mappers
  imports Panel_Messages Webauthn Configuration
begin

text \<open>
  \<open>server/rpc/panel/mappers.ts\<close>: what the services hold as the messages the panel answers with. A table
  looked up with a key it does not have gives \<open>undefined\<close>, which a message takes for its default.
\<close>

section \<open>Enumerations\<close>

definition role_to_proto :: "role \<Rightarrow> panel_role" where
  "role_to_proto r = (case r of Admin \<Rightarrow> ROLE_ADMIN | User \<Rightarrow> ROLE_USER)"

definition user_status_to_proto :: "user_status \<Rightarrow> panel_user_status" where
  "user_status_to_proto s = (case s of Pending \<Rightarrow> USER_STATUS_PENDING | Active \<Rightarrow> USER_STATUS_ACTIVE
     | Disabled \<Rightarrow> USER_STATUS_DISABLED)"

definition authentication_to_proto :: "authentication \<Rightarrow> panel_authentication" where
  "authentication_to_proto a = (case a of BySession \<Rightarrow> AUTHENTICATION_SESSION | ByApiKey \<Rightarrow> AUTHENTICATION_API_KEY)"

definition connection_to_proto :: "machine_connection \<Rightarrow> panel_connection" where
  "connection_to_proto c = (case c of Waiting \<Rightarrow> CONNECTION_WAITING | Online \<Rightarrow> CONNECTION_ONLINE
     | Offline \<Rightarrow> CONNECTION_OFFLINE)"

definition task_kind_to_proto :: "string option \<Rightarrow> task_kind" where
  "task_kind_to_proto k =
     (if k = Some ''inspect'' then INSPECT else if k = Some ''apply_config'' then APPLY_CONFIG
      else if k = Some ''upgrade_daemon'' then UPGRADE_DAEMON else if k = Some ''uninstall'' then UNINSTALL
      else KIND_UNSPECIFIED)"

definition task_state_to_proto :: "task_state \<Rightarrow> panel_task_state" where
  "task_state_to_proto s = (case s of Queued \<Rightarrow> TASK_STATE_QUEUED | Accepted \<Rightarrow> TASK_STATE_ACCEPTED
     | Running \<Rightarrow> TASK_STATE_RUNNING | Succeeded \<Rightarrow> TASK_STATE_SUCCEEDED | Failed \<Rightarrow> TASK_STATE_FAILED
     | Canceled \<Rightarrow> TASK_STATE_CANCELED | Superseded \<Rightarrow> TASK_STATE_SUPERSEDED)"

definition rollback_to_proto :: "string \<Rightarrow> panel_rollback_state" where
  "rollback_to_proto r =
     (if r = ''not_needed'' then ROLLBACK_STATE_NOT_NEEDED else if r = ''succeeded'' then ROLLBACK_STATE_SUCCEEDED
      else if r = ''failed'' then ROLLBACK_STATE_FAILED else ROLLBACK_STATE_UNSPECIFIED)"

definition core_health_to_proto :: "string \<Rightarrow> core_health" where
  "core_health_to_proto h =
     (if h = ''not_configured'' then NOT_CONFIGURED else if h = ''stopped'' then STOPPED
      else if h = ''healthy'' then HEALTHY else if h = ''unhealthy'' then UNHEALTHY else HEALTH_UNSPECIFIED)"

definition reconciliation_to_proto :: "reconciliation \<Rightarrow> panel_reconciliation" where
  "reconciliation_to_proto r = (case r of NotConfigured \<Rightarrow> RECONCILIATION_NOT_CONFIGURED
     | ReconcilePending \<Rightarrow> RECONCILIATION_PENDING | Applied \<Rightarrow> RECONCILIATION_APPLIED
     | ReconcileFailed \<Rightarrow> RECONCILIATION_FAILED)"

section \<open>Accounts\<close>

definition toProtoUser :: "user_dto \<Rightarrow> panel_user" where
  "toProtoUser u = \<lparr>pu_id = du_id u, pu_username = du_username u,
     pu_role = (case du_role u of None \<Rightarrow> ROLE_UNSPECIFIED | Some r \<Rightarrow> role_to_proto r),
     pu_status = (case du_status u of None \<Rightarrow> USER_STATUS_UNSPECIFIED | Some s \<Rightarrow> user_status_to_proto s),
     pu_monthlyLimitBytes = map_option decimal (du_monthlyLimitBytes u), pu_version = du_version u,
     pu_createdAt = du_createdAt u\<rparr>"

definition toProtoApiKey :: "api_key_dto \<Rightarrow> panel_api_key" where
  "toProtoApiKey k = \<lparr>pkey_id = ak_id k, pkey_name = ak_name k, pkey_prefix = ak_prefix k,
     pkey_createdAt = ak_createdAt k, pkey_lastUsedAt = ak_lastUsedAt k, pkey_revokedAt = ak_revokedAt k\<rparr>"

definition toProtoPasskey :: "passkey_dto \<Rightarrow> panel_passkey" where
  "toProtoPasskey k = \<lparr>ppk_id = pk_dto_id k, ppk_name = pk_dto_name k, ppk_createdAt = pk_dto_createdAt k,
     ppk_backedUp = pk_dto_backedUp k\<rparr>"

section \<open>Machines\<close>

definition toProtoTask :: "task_dto \<Rightarrow> panel_task" where
  "toProtoTask t = \<lparr>ptk_id = td_id t, ptk_machineId = td_machineId t, ptk_kind = task_kind_to_proto (td_kind t),
     ptk_state = task_state_to_proto (td_state t), ptk_phase = td_phase t,
     ptk_progressPercent = td_progressPercent t, ptk_message = td_message t, ptk_errorCode = td_errorCode t,
     ptk_rollback = rollback_to_proto (td_rollback t), ptk_diagnostic = td_diagnostic t,
     ptk_createdAt = td_createdAt t, ptk_updatedAt = td_updatedAt t\<rparr>"

definition toProtoResources :: "machine_resources \<Rightarrow> panel_resources" where
  "toProtoResources r = \<lparr>prs_cpuUsagePercent = r_cpuUsagePercent r, prs_memoryUsedBytes = r_memoryUsedBytes r,
     prs_memoryTotalBytes = r_memoryTotalBytes r, prs_diskFreeBytes = r_diskFreeBytes r,
     prs_connections = r_connections r, prs_networkRxBytes = r_networkRxBytes r,
     prs_networkTxBytes = r_networkTxBytes r, prs_networkInterface = r_networkInterface r\<rparr>"

definition machineFields :: "'a machine_dto_scheme \<Rightarrow> panel_machine" where
  "machineFields m = \<lparr>pmc_id = md_id m, pmc_name = md_name m, pmc_address = md_address m, pmc_region = md_region m,
     pmc_connection = connection_to_proto (md_connection m), pmc_streamConnected = md_streamConnected m,
     pmc_uninstalled = md_uninstalled m, pmc_lastSeenAt = md_lastSeenAt m,
     pmc_daemonVersion = md_daemonVersion m, pmc_coreVersion = md_coreVersion m,
     pmc_coreHealth = core_health_to_proto (md_coreHealth m), pmc_installationId = md_installationId m,
     pmc_createdAt = md_createdAt m, pmc_version = md_version m, pmc_activeTaskCount = md_activeTaskCount m,
     pmc_os = md_os m, pmc_arch = md_arch m,
     pmc_capabilities = map (\<lambda>k. task_kind_to_proto (Some k)) (md_capabilities m),
     pmc_appliedRevisionId = md_appliedRevisionId m, pmc_appliedPolicyRevision = md_appliedPolicyRevision m,
     pmc_appliedConfigSha256 = md_appliedConfigSha256 m, pmc_resources = Some (toProtoResources (md_resources m)),
     pmc_tags = md_tags m, pmc_maintenanceStatus = md_maintenanceStatus m\<rparr>"

definition toProtoMachine :: "machine_dto \<Rightarrow> panel_machine" where
  "toProtoMachine m = machineFields m"

definition toProtoMachineDetail :: "machine_detail_dto \<Rightarrow> panel_machine_detail" where
  "toProtoMachineDetail m = panel_machine.extend (machineFields m)
     \<lparr>pmd_token = md_token m, pmd_installCommand = md_installCommand m, pmd_tasks = map toProtoTask (md_tasks m),
      pmd_issue = md_issue m\<rparr>"

definition toProtoMachineUpgrades :: "machine_upgrades \<Rightarrow> panel_machine_upgrades" where
  "toProtoMachineUpgrades u = \<lparr>pmu_machineId = mu_machineId u, pmu_bundledCoreVersion = mu_bundledCoreVersion u,
     pmu_availableBundledCoreVersion = mu_availableBundledCoreVersion u,
     pmu_daemon = Some \<lparr>puc_currentVersion = uc_currentVersion (mu_daemon u),
       puc_availableVersion = uc_availableVersion (mu_daemon u), puc_sha256 = uc_sha256 (mu_daemon u),
       puc_sizeBytes = uc_sizeBytes (mu_daemon u), puc_executable = uc_executable (mu_daemon u),
       puc_disabledReason = uc_disabledReason (mu_daemon u), puc_sameVersion = uc_sameVersion (mu_daemon u)\<rparr>,
     pmu_activeTask = map_option toProtoTask (mu_activeTask u)\<rparr>"

section \<open>Configuration\<close>

definition settingsToProto :: "configuration \<Rightarrow> panel_configuration_input" where
  "settingsToProto s = \<lparr>pci_listen = cfg_listen s, pci_trojanPort = cfg_trojanPort s,
     pci_hysteria2Port = cfg_hysteria2Port s,
     pci_tls = Some \<lparr>ptls_serverName = tls_serverName (cfg_tls s),
       ptls_mode = Some (case cfg_tls s of
           PemTls _ c k \<Rightarrow> ModePem \<lparr>pem_certificatePem = c, pem_privateKeyPem = k\<rparr>
         | PathTls _ c k \<Rightarrow> ModePath \<lparr>path_certificatePath = c, path_privateKeyPath = k\<rparr>
         | AcmeTls _ e \<Rightarrow> ModeAcme \<lparr>acme_email = e\<rparr>)\<rparr>,
     pci_baseJson = Some (cfg_baseJson s)\<rparr>"

definition toProtoConfiguration :: "configuration_dto \<Rightarrow> panel_configuration" where
  "toProtoConfiguration c = \<lparr>pcf_settings = map_option settingsToProto (cd_settings c), pcf_version = cd_version c,
     pcf_desiredRevisionId = cd_desiredRevisionId c, pcf_desiredPolicyRevision = cd_desiredPolicyRevision c,
     pcf_appliedRevisionId = cd_appliedRevisionId c, pcf_appliedPolicyRevision = cd_appliedPolicyRevision c,
     pcf_reconciliation = reconciliation_to_proto (cd_reconciliation c),
     pcf_latestTask = map_option toProtoTask (cd_latestTask c), pcf_bundledCoreVersion = cd_bundledCoreVersion c\<rparr>"

definition toProtoPreview :: "preview_dto \<Rightarrow> panel_configuration_preview" where
  "toProtoPreview p = \<lparr>pcp_previewId = pd_previewId p, pcp_expectedVersion = pd_expectedVersion p,
     pcp_policyRevision = pd_policyRevision p, pcp_digest = pd_digest p, pcp_finalJson = pd_finalJson p,
     pcp_expiresAt = pd_expiresAt p\<rparr>"

end
