(* ===== verification/Panel_Gate.thy ===== *)
theory Panel_Gate
  imports Mappers
begin

text \<open>
  \<open>server/rpc/panel/common.ts\<close>: who may call which procedure of the panel, and how failures are answered.
  A procedure is a program that ends with its response or with the error that Connect sends; the caller
  the gate found is its argument, where the code keeps it among the values of the context. Connect runs
  the gate twice, before it reads the message and right before the procedure.
\<close>

section \<open>Answers\<close>

text \<open>A \<open>ConnectError\<close>: its code and its \<open>ErrorDetail\<close>; localized messages are left out.\<close>

record panel_error =
  pe_code :: connect_code
  pe_detail :: "error_detail option"

type_synonym 'a rpc = "world \<Rightarrow> (panel_error + 'a) \<times> world"

definition rpc_bind :: "'a rpc \<Rightarrow> ('a \<Rightarrow> 'b rpc) \<Rightarrow> 'b rpc" where
  "rpc_bind p f w = (case p w of (Inl e, v) \<Rightarrow> (Inl e, v) | (Inr a, v) \<Rightarrow> f a v)"

definition status_codes :: "int \<Rightarrow> connect_code option" where
  "status_codes n = map_of
     [(400, CInvalidArgument), (401, CUnauthenticated), (403, CPermissionDenied), (404, CNotFound),
      (409, CFailedPrecondition), (413, CResourceExhausted), (415, CInvalidArgument), (422, CInvalidArgument),
      (429, CResourceExhausted)] n"

definition toConnectError :: "platform \<Rightarrow> failure \<Rightarrow> world \<Rightarrow> panel_error \<times> world" where
  "toConnectError P e w =
     (let requestId = p_randomUUID P (w_draws w); v = w\<lparr>w_draws := w_draws w + 1\<rparr>;
          answer = (\<lambda>code detail. \<lparr>pe_code = code, pe_detail = Some \<lparr>ed_code = detail, ed_requestId = requestId\<rparr>\<rparr>)
      in case e of
           ConnectError message code \<Rightarrow> (\<lparr>pe_code = code, pe_detail = None\<rparr>, v)
         | ZodError \<Rightarrow> (answer CInvalidArgument ''VALIDATION_ERROR'', v)
         | AppError code status \<Rightarrow> (answer (or_else (status_codes status) CInternal) code, v)
         | _ \<Rightarrow> (answer CInternal ''INTERNAL_ERROR'', v))"

definition panelCall :: "platform \<Rightarrow> 'a app \<Rightarrow> 'a rpc" where
  "panelCall P action w =
     (case action w of
        (Inr a, v) \<Rightarrow> (Inr a, v)
      | (Inl e, v) \<Rightarrow> (case toConnectError P e v of (answer, u) \<Rightarrow> (Inl answer, u)))"

section \<open>Tiers\<close>

datatype tier = TierPublic | TierAuthenticated | TierRecent | TierAdmin

definition service_tiers :: "string \<Rightarrow> (string \<times> tier) list \<Rightarrow> (string \<times> tier) list" where
  "service_tiers name ms = map (\<lambda>(m, t). (''bifurcation.panel.v1.'' @ name @ ''.'' @ m, t)) ms"

definition tiers :: "(string \<times> tier) list" where
  "tiers =
     service_tiers ''AuthService''
       [(''SetupAdministrator'', TierPublic), (''PasswordLogin'', TierPublic), (''Logout'', TierAuthenticated),
        (''PasskeyOptions'', TierPublic), (''PasskeyVerify'', TierPublic), (''ActivationOptions'', TierPublic),
        (''ActivationComplete'', TierPublic), (''RecoveryOptions'', TierPublic), (''RecoveryComplete'', TierPublic),
        (''ReauthPassword'', TierAuthenticated)] @
     service_tiers ''MeService''
       [(''GetMe'', TierAuthenticated), (''GetMyUsage'', TierAuthenticated), (''GetSubscription'', TierAuthenticated),
        (''ListSubscriptionProfiles'', TierAuthenticated), (''GetSubscriptionProfile'', TierAuthenticated),
        (''CreateSubscriptionProfile'', TierAuthenticated), (''SaveSubscriptionDraft'', TierAuthenticated),
        (''PreviewSubscriptionProfile'', TierAuthenticated), (''PublishSubscriptionProfile'', TierAuthenticated),
        (''UpdateSubscriptionProfile'', TierAuthenticated), (''ResetSubscriptionToken'', TierAuthenticated),
        (''ResetProxyCredentials'', TierAuthenticated), (''ChangePassword'', TierRecent),
        (''ListApiKeys'', TierAuthenticated), (''CreateApiKey'', TierAuthenticated), (''RevokeApiKey'', TierAuthenticated),
        (''ListPasskeys'', TierAuthenticated), (''NewPasskeyOptions'', TierRecent), (''NewPasskeyVerify'', TierRecent),
        (''DeletePasskey'', TierRecent)] @
     service_tiers ''AdminMachineService''
       [(''ListMachines'', TierAdmin), (''CreateMachine'', TierAdmin), (''GetMachine'', TierAdmin),
        (''UpdateMachine'', TierAdmin), (''DeleteMachine'', TierAdmin), (''ResetMachineToken'', TierAdmin),
        (''RebindMachine'', TierAdmin), (''UninstallMachine'', TierAdmin), (''ListMachineTasks'', TierAdmin),
        (''EnqueueInspectTask'', TierAdmin), (''GetMachineUpgrades'', TierAdmin), (''EnqueueUpgrade'', TierAdmin)] @
     service_tiers ''AdminConfigurationService''
       [(''GetMachineConfiguration'', TierAdmin), (''PreviewConfiguration'', TierAdmin),
        (''PublishConfiguration'', TierAdmin)] @
     service_tiers ''AdminUserService''
       [(''ListUsers'', TierAdmin), (''CreateUser'', TierAdmin), (''UpdateUser'', TierAdmin),
        (''CreateUserFlow'', TierAdmin)] @
     service_tiers ''UsageService'' [(''QueryUsage'', TierAdmin)]"

definition tier_of :: "string \<Rightarrow> string \<Rightarrow> tier option" where
  "tier_of service method = map_of tiers (service @ ''.'' @ method)"

section \<open>The gate\<close>

definition foreign_origin :: "platform \<Rightarrow> headers \<Rightarrow> bool" where
  "foreign_origin P h \<longleftrightarrow> h_authorization h = None \<and> h_origin h \<noteq> Some (p_publicUrl P)"

text \<open>The caller, or \<open>None\<close> for a public procedure.\<close>

definition gate_program :: "platform \<Rightarrow> tier option \<Rightarrow> headers \<Rightarrow> principal option app" where
  "gate_program P found h =
     bind (the_or found (AppError ''INTERNAL_ERROR'' 500)) (\<lambda>tier.
     bind (require (\<not> foreign_origin P h) (AppError ''INVALID_ORIGIN'' 403)) (\<lambda>_.
     if tier = TierPublic
     then
       bind (require (h_authorization h = None) (AppError ''INVALID_AUTHORIZATION'' 400)) (\<lambda>_. return None)
     else
       bind (authenticate P h) (\<lambda>caller.
       bind (if tier = TierAdmin then requireAdmin caller else return ()) (\<lambda>_.
       bind (if tier = TierRecent then requireRecentSession caller else return ()) (\<lambda>_.
       return (Some caller))))))"

definition panelGate :: "platform \<Rightarrow> string \<Rightarrow> string \<Rightarrow> headers \<Rightarrow> principal option rpc" where
  "panelGate P service method h = panelCall P (gate_program P (tier_of service method) h)"

text \<open>The gate before the message is read; and, with the message there, the gate again and the procedure.\<close>

definition request_gate :: "platform \<Rightarrow> string \<Rightarrow> string \<Rightarrow> headers \<Rightarrow> unit rpc" where
  "request_gate P service method h = rpc_bind (panelGate P service method h) (\<lambda>_ w. (Inr (), w))"

definition panelAuthorizationInterceptor ::
  "platform \<Rightarrow> string \<Rightarrow> string \<Rightarrow> headers \<Rightarrow> (principal option \<Rightarrow> 'a rpc) \<Rightarrow> 'a rpc" where
  "panelAuthorizationInterceptor P service method h next = rpc_bind (panelGate P service method h) next"

definition requirePrincipal :: "principal option \<Rightarrow> ('s, principal) prog" where
  "requirePrincipal caller = the_or caller (AppError ''UNAUTHENTICATED'' 401)"

text \<open>Public flows may still read a session.\<close>

definition optionalPrincipal :: "platform \<Rightarrow> headers \<Rightarrow> principal option app" where
  "optionalPrincipal P h = attempt (bind (authenticate P h) (\<lambda>caller. return (Some caller)))
     (\<lambda>e. case e of AppError code status \<Rightarrow> if status = 401 then return None else throw e | _ \<Rightarrow> throw e)"

section \<open>The HTTP envelope\<close>

text \<open>
  \<open>server/http/errors.ts\<close> and \<open>server/http/route.ts\<close>: the few routes outside Connect. A response is its
  status and the code in its body.
\<close>

record http_error =
  he_status :: int
  he_code :: string
  he_requestId :: string

definition errorResponse :: "platform \<Rightarrow> failure \<Rightarrow> world \<Rightarrow> http_error \<times> world" where
  "errorResponse P e w =
     (let requestId = p_randomUUID P (w_draws w); v = w\<lparr>w_draws := w_draws w + 1\<rparr>
      in case e of
           ZodError \<Rightarrow> (\<lparr>he_status = 422, he_code = ''VALIDATION_ERROR'', he_requestId = requestId\<rparr>, v)
         | AppError code status \<Rightarrow> (\<lparr>he_status = status, he_code = code, he_requestId = requestId\<rparr>, v)
         | _ \<Rightarrow> (\<lparr>he_status = 500, he_code = ''INTERNAL_ERROR'', he_requestId = requestId\<rparr>, v))"

definition checkOrigin :: "platform \<Rightarrow> string \<Rightarrow> headers \<Rightarrow> ('s, unit) prog" where
  "checkOrigin P method h =
     require (method \<in> {''GET'', ''HEAD'', ''OPTIONS''} \<or> \<not> foreign_origin P h) (AppError ''INVALID_ORIGIN'' 403)"

text \<open>
  \<open>withApi\<close>: the checks in front of a large body, and the ones behind the wait for the body, with the
  handler.
\<close>

record api_options =
  ao_admin :: bool
  ao_recent :: bool
  ao_maxBodyBytes :: "int option"

definition api_checks :: "platform \<Rightarrow> headers \<Rightarrow> api_options \<Rightarrow> principal app" where
  "api_checks P h options =
     bind (authenticate P h) (\<lambda>caller.
     bind (if ao_admin options then requireAdmin caller else return ()) (\<lambda>_.
     bind (if ao_recent options then requireRecentSession caller else return ()) (\<lambda>_.
     return caller)))"

definition api_begin :: "platform \<Rightarrow> string \<Rightarrow> headers \<Rightarrow> api_options \<Rightarrow> unit app" where
  "api_begin P method h options =
     bind (checkOrigin P method h) (\<lambda>_.
     if 64 * 1024 < or_else (ao_maxBodyBytes options) 0
     then bind (api_checks P h options) (\<lambda>_. return ()) else return ())"

definition api_handle :: "platform \<Rightarrow> headers \<Rightarrow> api_options \<Rightarrow> (principal \<Rightarrow> 'a app) \<Rightarrow> 'a app" where
  "api_handle P h options handler = bind (api_checks P h options) handler"

definition withPublicApi :: "platform \<Rightarrow> string \<Rightarrow> headers \<Rightarrow> 'a app \<Rightarrow> 'a app" where
  "withPublicApi P method h handler =
     bind (require (h_authorization h = None) (AppError ''INVALID_AUTHORIZATION'' 400)) (\<lambda>_.
     bind (checkOrigin P method h) (\<lambda>_. handler))"

end
