(* ===== verification/Panel_Services.thy ===== *)
theory Panel_Services
  imports Panel_Gate
begin

text \<open>
  \<open>server/rpc/panel/users-service.ts\<close>, \<open>auth-service.ts\<close> and the account part of \<open>me-service.ts\<close>: the procedures on
  accounts and sign-in. The first argument of a procedure is the caller of the gate; where the answer
  sets the session cookie, its value comes with the response. A procedure that awaits is two
  programs, as the operation it calls is.
\<close>

section \<open>Accounts\<close>

definition roleNames :: "panel_role \<Rightarrow> role option" where
  "roleNames r = (case r of ROLE_ADMIN \<Rightarrow> Some Admin | ROLE_USER \<Rightarrow> Some User | _ \<Rightarrow> None)"

definition statusNames :: "panel_user_status \<Rightarrow> user_status option" where
  "statusNames s = (case s of USER_STATUS_ACTIVE \<Rightarrow> Some Active | USER_STATUS_DISABLED \<Rightarrow> Some Disabled | _ \<Rightarrow> None)"

definition purposeNames :: "panel_flow_purpose \<Rightarrow> flow_purpose option" where
  "purposeNames p = (case p of FLOW_PURPOSE_UNSPECIFIED \<Rightarrow> Some Activation | FLOW_PURPOSE_ACTIVATION \<Rightarrow> Some Activation
     | FLOW_PURPOSE_RECOVERY \<Rightarrow> Some Recovery | FLOW_PURPOSE_UNRECOGNIZED _ \<Rightarrow> None)"

text \<open>\<open>listUsers\<close> of \<open>server/users/queries.ts\<close> and the procedure of the same name.\<close>

definition query_listUsers :: "principal \<Rightarrow> list_users_response app" where
  "query_listUsers caller =
     bind (listUsers caller) (\<lambda>us. return \<lparr>listUsers_users = map toProtoUser us\<rparr>)"

definition rpc_listUsers :: "platform \<Rightarrow> principal option \<Rightarrow> list_users_response rpc" where
  "rpc_listUsers P caller = panelCall P (bind (requirePrincipal caller) query_listUsers)"

definition rpc_createUser :: "platform \<Rightarrow> principal option \<Rightarrow> create_user_request \<Rightarrow> create_user_response rpc" where
  "rpc_createUser P caller request = panelCall P (
     bind (requirePrincipal caller) (\<lambda>p.
     bind (createUser P p \<lparr>ui_username = createUser_username request, ui_role = roleNames (createUser_role request),
       ui_monthlyLimitBytes = createUser_monthlyLimitBytes request\<rparr>) (\<lambda>(user, activationUrl).
     return \<lparr>createdUser_user = Some (toProtoUser user), createdUser_activationUrl = activationUrl\<rparr>)))"

definition changes_of :: "update_user_request \<Rightarrow> user_changes" where
  "changes_of request = \<lparr>uc_expectedVersion = updateUser_expectedVersion request,
     uc_role = Option.bind (updateUser_role request) roleNames,
     uc_status = Option.bind (updateUser_status request) statusNames,
     uc_monthlyLimitBytes = (if updateUser_clearMonthlyLimit request then ClearQuota
       else case updateUser_monthlyLimitBytes request of None \<Rightarrow> KeepQuota | Some q \<Rightarrow> SetQuota q)\<rparr>"

definition rpc_updateUser :: "platform \<Rightarrow> principal option \<Rightarrow> update_user_request \<Rightarrow> update_user_response rpc" where
  "rpc_updateUser P caller request = panelCall P (
     bind (requirePrincipal caller) (\<lambda>p.
     bind (updateUser P p (updateUser_id request) (changes_of request)) (\<lambda>user.
     return \<lparr>updatedUser_user = Some (toProtoUser user)\<rparr>)))"

text \<open>A purpose the panel does not know is \<open>undefined\<close>, which the statement refuses to bind.\<close>

definition rpc_createUserFlow ::
  "platform \<Rightarrow> principal option \<Rightarrow> create_user_flow_request \<Rightarrow> create_user_flow_response rpc" where
  "rpc_createUserFlow P caller request = panelCall P (
     bind (requirePrincipal caller) (\<lambda>p.
     bind (case purposeNames (createUserFlow_purpose request) of
             Some purpose \<Rightarrow> createUserFlow P p (createUserFlow_id request) purpose
           | None \<Rightarrow>
               bind (requireAdmin p) (\<lambda>_.
               bind (db_get (find_user (createUserFlow_id request))) (\<lambda>found.
               bind (the_or found (AppError ''NOT_FOUND'' 404)) (\<lambda>_. throw JsError)))) (\<lambda>(url, expiresAt).
     return \<lparr>userFlow_url = url, userFlow_expiresAt = expiresAt\<rparr>)))"

section \<open>Signing in\<close>

type_synonym cookie = "string option"

definition with_cookie :: "platform \<Rightarrow> string \<Rightarrow> 'a \<Rightarrow> 'a \<times> cookie" where
  "with_cookie P token response = (response, Some (sessionCookie P token))"

definition rpc_setupAdministrator_check :: "platform \<Rightarrow> setup_administrator_request \<Rightarrow> (string \<times> string) rpc" where
  "rpc_setupAdministrator_check P request = panelCall P
     (setup_check P (setupAdministrator_username request) (setupAdministrator_password request))"

definition rpc_setupAdministrator_commit ::
  "platform \<Rightarrow> string \<times> string \<Rightarrow> (setup_administrator_response \<times> cookie) rpc" where
  "rpc_setupAdministrator_commit P begun = panelCall P (
     bind (setup_commit P (fst begun) (snd begun)) (\<lambda>(user, token).
     return (with_cookie P token \<lparr>administrator_user = Some (toProtoUser user)\<rparr>)))"

definition rpc_passwordLogin_check :: "platform \<Rightarrow> password_login_request \<Rightarrow> pending_login rpc" where
  "rpc_passwordLogin_check P request = panelCall P
     (passwordLogin_check P (passwordLogin_username request) (passwordLogin_password request))"

definition rpc_passwordLogin_commit :: "platform \<Rightarrow> pending_login \<Rightarrow> (password_login_response \<times> cookie) rpc" where
  "rpc_passwordLogin_commit P begun = panelCall P (
     bind (passwordLogin_commit P begun) (\<lambda>(user, token).
     return (with_cookie P token \<lparr>loggedIn_user = Some (toProtoUser user)\<rparr>)))"

definition rpc_logout :: "platform \<Rightarrow> principal option \<Rightarrow> (unit \<times> cookie) rpc" where
  "rpc_logout P caller = panelCall P (
     bind (requirePrincipal caller) (\<lambda>p.
     bind (logout p) (\<lambda>_.
     return (with_cookie P [] ()))))"

definition passkeyPurposes :: "panel_passkey_purpose \<Rightarrow> flow_purpose" where
  "passkeyPurposes p = (case p of PASSKEY_PURPOSE_REAUTH \<Rightarrow> Reauth | _ \<Rightarrow> Login)"

text \<open>\<open>webauthnOptionsJson\<close> only drops what is undefined; the options are JSON here.\<close>

definition webauthnOptionsJson :: "webauthn_options \<Rightarrow> json" where
  "webauthnOptionsJson options = wo_json options"

text \<open>The caller is read before the await and used again behind it.\<close>

definition rpc_passkeyOptions_check ::
  "platform \<Rightarrow> headers \<Rightarrow> passkey_options_request \<Rightarrow> (flow_purpose \<times> principal option \<times> webauthn_options) rpc" where
  "rpc_passkeyOptions_check P h request = panelCall P (
     let purpose = passkeyPurposes (passkeyOptions_purpose request) in
     bind (if purpose = Reauth then optionalPrincipal P h else return None) (\<lambda>caller.
     bind (authenticationOptions_check P purpose caller) (\<lambda>options.
     return (purpose, caller, options))))"

definition rpc_passkeyOptions_commit ::
  "platform \<Rightarrow> flow_purpose \<times> principal option \<times> webauthn_options \<Rightarrow> passkey_options_response rpc" where
  "rpc_passkeyOptions_commit P = (\<lambda>(purpose, caller, options). panelCall P (
     bind (authenticationOptions_commit P purpose caller options) (\<lambda>(flowId, options).
     return \<lparr>passkeyOptions_flowId = flowId, passkeyOptions_options = Some (webauthnOptionsJson options)\<rparr>)))"

definition completion_of :: "string \<Rightarrow> json option \<Rightarrow> string \<Rightarrow> completion_input" where
  "completion_of flowId response name = \<lparr>ci_flowId = flowId, ci_response = response, ci_name = or_null name\<rparr>"

definition rpc_passkeyVerify_check ::
  "platform \<Rightarrow> headers \<Rightarrow> passkey_verify_request \<Rightarrow> (principal option \<times> verified_passkey) rpc" where
  "rpc_passkeyVerify_check P h request = panelCall P (
     bind (optionalPrincipal P h) (\<lambda>caller.
     bind (authenticationVerify_check P (completion_of (passkeyVerify_flowId request) (passkeyVerify_response request)
             (passkeyVerify_name request)) caller) (\<lambda>v.
     return (caller, v))))"

definition rpc_passkeyVerify_commit ::
  "platform \<Rightarrow> principal option \<times> verified_passkey \<Rightarrow> (passkey_verify_response \<times> cookie) rpc" where
  "rpc_passkeyVerify_commit P begun = panelCall P (
     bind (authenticationVerify_commit P (fst begun) (snd begun)) (\<lambda>(user, token).
     return (\<lparr>passkeyVerified_user = Some (toProtoUser user)\<rparr>,
             if truthy token then Some (sessionCookie P (the token)) else None)))"

definition rpc_activationOptions_check ::
  "platform \<Rightarrow> activation_options_request \<Rightarrow> (auth_flow_row \<times> user_row \<times> webauthn_options) rpc" where
  "rpc_activationOptions_check P request = panelCall P
     (onboardingOptions_check P Activation (activationOptions_token request))"

definition rpc_activationOptions_commit ::
  "platform \<Rightarrow> auth_flow_row \<times> user_row \<times> webauthn_options \<Rightarrow> activation_options_response rpc" where
  "rpc_activationOptions_commit P = (\<lambda>(flow, user, options). panelCall P (
     bind (onboardingOptions_commit flow user options) (\<lambda>(flowId, username, options).
     return \<lparr>activationOptions_flowId = flowId, activationOptions_username = username,
       activationOptions_options = Some (webauthnOptionsJson options)\<rparr>)))"

definition rpc_activationComplete_check :: "platform \<Rightarrow> activation_complete_request \<Rightarrow> pending_onboarding rpc" where
  "rpc_activationComplete_check P request = panelCall P (onboardingComplete_check P Activation
     \<lparr>oi_token = activationComplete_token request, oi_flowId = activationComplete_flowId request,
      oi_password = activationComplete_password request, oi_passwordOnly = activationComplete_passwordOnly request,
      oi_response = activationComplete_response request, oi_name = or_null (activationComplete_name request)\<rparr>)"

definition rpc_activationComplete_commit ::
  "platform \<Rightarrow> pending_onboarding \<Rightarrow> (activation_complete_response \<times> cookie) rpc" where
  "rpc_activationComplete_commit P begun = panelCall P (
     bind (onboardingComplete_commit P Activation begun) (\<lambda>(user, token).
     return (with_cookie P token \<lparr>activated_user = Some (toProtoUser user)\<rparr>)))"

definition rpc_recoveryOptions_check ::
  "platform \<Rightarrow> recovery_options_request \<Rightarrow> (auth_flow_row \<times> user_row \<times> webauthn_options) rpc" where
  "rpc_recoveryOptions_check P request = panelCall P
     (onboardingOptions_check P Recovery (recoveryOptions_token request))"

definition rpc_recoveryOptions_commit ::
  "platform \<Rightarrow> auth_flow_row \<times> user_row \<times> webauthn_options \<Rightarrow> recovery_options_response rpc" where
  "rpc_recoveryOptions_commit P = (\<lambda>(flow, user, options). panelCall P (
     bind (onboardingOptions_commit flow user options) (\<lambda>(flowId, username, options).
     return \<lparr>recoveryOptions_flowId = flowId, recoveryOptions_username = username,
       recoveryOptions_options = Some (webauthnOptionsJson options)\<rparr>)))"

definition rpc_recoveryComplete_check :: "platform \<Rightarrow> recovery_complete_request \<Rightarrow> pending_onboarding rpc" where
  "rpc_recoveryComplete_check P request = panelCall P (onboardingComplete_check P Recovery
     \<lparr>oi_token = recoveryComplete_token request, oi_flowId = recoveryComplete_flowId request,
      oi_password = recoveryComplete_password request, oi_passwordOnly = recoveryComplete_passwordOnly request,
      oi_response = recoveryComplete_response request, oi_name = or_null (recoveryComplete_name request)\<rparr>)"

definition rpc_recoveryComplete_commit ::
  "platform \<Rightarrow> pending_onboarding \<Rightarrow> (recovery_complete_response \<times> cookie) rpc" where
  "rpc_recoveryComplete_commit P begun = panelCall P (
     bind (onboardingComplete_commit P Recovery begun) (\<lambda>(user, token).
     return (with_cookie P token \<lparr>recovered_user = Some (toProtoUser user)\<rparr>)))"

definition rpc_reauthPassword_check :: "platform \<Rightarrow> principal option \<Rightarrow> reauth_password_request \<Rightarrow> principal rpc" where
  "rpc_reauthPassword_check P caller request = panelCall P (
     bind (requirePrincipal caller) (\<lambda>p.
     bind (reauthenticatePassword_check P p (reauthPassword_password request)) (\<lambda>_.
     return p)))"

definition rpc_reauthPassword_commit :: "platform \<Rightarrow> principal \<Rightarrow> unit rpc" where
  "rpc_reauthPassword_commit P caller = panelCall P (reauthenticatePassword_commit caller)"

section \<open>The own account\<close>

definition rpc_getMe :: "platform \<Rightarrow> principal option \<Rightarrow> get_me_response rpc" where
  "rpc_getMe P caller = panelCall P (
     bind (requirePrincipal caller) (\<lambda>p.
     return \<lparr>me_user = Some (toProtoUser (pr_user p)), me_authentication = authentication_to_proto (pr_authentication p),
       me_recentAuthentication = pr_recentAuthentication p\<rparr>))"

definition rpc_changePassword_check ::
  "platform \<Rightarrow> principal option \<Rightarrow> change_password_request \<Rightarrow> (principal \<times> string) rpc" where
  "rpc_changePassword_check P caller request = panelCall P (
     bind (requirePrincipal caller) (\<lambda>p.
     bind (changePassword_check P p (changePassword_password request)) (\<lambda>hash.
     return (p, hash))))"

definition rpc_changePassword_commit :: "platform \<Rightarrow> principal \<times> string \<Rightarrow> (unit \<times> cookie) rpc" where
  "rpc_changePassword_commit P begun = panelCall P (
     bind (changePassword_commit (fst begun) (snd begun)) (\<lambda>_.
     return (with_cookie P [] ())))"

definition query_listApiKeys :: "principal \<Rightarrow> list_api_keys_response app" where
  "query_listApiKeys caller =
     bind (listApiKeys caller) (\<lambda>ks. return \<lparr>listApiKeys_apiKeys = map toProtoApiKey ks\<rparr>)"

definition rpc_listApiKeys :: "platform \<Rightarrow> principal option \<Rightarrow> list_api_keys_response rpc" where
  "rpc_listApiKeys P caller = panelCall P (bind (requirePrincipal caller) query_listApiKeys)"

definition rpc_createApiKey :: "platform \<Rightarrow> principal option \<Rightarrow> create_api_key_request \<Rightarrow> create_api_key_response rpc" where
  "rpc_createApiKey P caller request = panelCall P (
     bind (requirePrincipal caller) (\<lambda>p.
     bind (createApiKey P p (createApiKey_name request)) (\<lambda>(apiKey, token).
     return \<lparr>createdApiKey_apiKey = Some (toProtoApiKey apiKey), createdApiKey_token = token\<rparr>)))"

definition rpc_revokeApiKey :: "platform \<Rightarrow> principal option \<Rightarrow> revoke_api_key_request \<Rightarrow> unit rpc" where
  "rpc_revokeApiKey P caller request = panelCall P (
     bind (requirePrincipal caller) (\<lambda>p. revokeApiKey p (revokeApiKey_id request)))"

definition query_listPasskeys :: "principal \<Rightarrow> list_passkeys_response app" where
  "query_listPasskeys caller =
     bind (listPasskeys caller) (\<lambda>ks. return \<lparr>listPasskeys_passkeys = map toProtoPasskey ks\<rparr>)"

definition rpc_listPasskeys :: "platform \<Rightarrow> principal option \<Rightarrow> list_passkeys_response rpc" where
  "rpc_listPasskeys P caller = panelCall P (bind (requirePrincipal caller) query_listPasskeys)"

definition rpc_newPasskeyOptions_check :: "platform \<Rightarrow> principal option \<Rightarrow> (principal \<times> webauthn_options) rpc" where
  "rpc_newPasskeyOptions_check P caller = panelCall P (
     bind (requirePrincipal caller) (\<lambda>p.
     bind (newPasskeyOptions_check P p) (\<lambda>options.
     return (p, options))))"

definition rpc_newPasskeyOptions_commit :: "platform \<Rightarrow> principal \<times> webauthn_options \<Rightarrow> new_passkey_options_response rpc" where
  "rpc_newPasskeyOptions_commit P begun = panelCall P (
     bind (newPasskeyOptions_commit P (fst begun) (snd begun)) (\<lambda>(flowId, options).
     return \<lparr>newPasskeyOptions_flowId = flowId, newPasskeyOptions_options = Some (webauthnOptionsJson options)\<rparr>))"

definition rpc_newPasskeyVerify_check ::
  "platform \<Rightarrow> principal option \<Rightarrow> new_passkey_verify_request \<Rightarrow> (principal \<times> string \<times> string \<times> registration_info) rpc" where
  "rpc_newPasskeyVerify_check P caller request = panelCall P (
     bind (requirePrincipal caller) (\<lambda>p.
     bind (newPasskeyVerify_check P p (completion_of (newPasskeyVerify_flowId request)
             (newPasskeyVerify_response request) (newPasskeyVerify_name request))) (\<lambda>begun.
     return (p, begun))))"

definition rpc_newPasskeyVerify_commit ::
  "platform \<Rightarrow> principal \<times> string \<times> string \<times> registration_info \<Rightarrow> new_passkey_verify_response rpc" where
  "rpc_newPasskeyVerify_commit P = (\<lambda>(p, flowId, name, info). panelCall P (
     bind (newPasskeyVerify_commit p flowId name info) (\<lambda>passkey.
     return \<lparr>newPasskeyVerified_passkey = Some (toProtoPasskey passkey)\<rparr>)))"

definition rpc_deletePasskey :: "platform \<Rightarrow> principal option \<Rightarrow> delete_passkey_request \<Rightarrow> unit rpc" where
  "rpc_deletePasskey P caller request = panelCall P (
     bind (requirePrincipal caller) (\<lambda>p. deletePasskey p (deletePasskey_id request)))"

section \<open>Pages\<close>

text \<open>
  \<open>server/identity/queries.ts\<close>: who a page is rendered for. A redirect is the path it leads to; an error
  other than a failed authentication is thrown on.
\<close>

record current_user =
  cu_user :: panel_user
  cu_authentication :: panel_authentication
  cu_recentAuthentication :: bool
  cu_principal :: principal

definition getCurrentUser :: "platform \<Rightarrow> headers \<Rightarrow> current_user option app" where
  "getCurrentUser P h = attempt
     (bind (authenticate P h) (\<lambda>p.
      return (Some \<lparr>cu_user = toProtoUser (pr_user p), cu_authentication = authentication_to_proto (pr_authentication p),
        cu_recentAuthentication = pr_recentAuthentication p, cu_principal = p\<rparr>)))
     (\<lambda>e. case e of AppError code status \<Rightarrow> if status = 401 then return None else throw e | _ \<Rightarrow> throw e)"

definition requirePageUser :: "platform \<Rightarrow> headers \<Rightarrow> (string + current_user) app" where
  "requirePageUser P h =
     bind (getCurrentUser P h) (\<lambda>me. return (case me of None \<Rightarrow> Inl ''/login'' | Some u \<Rightarrow> Inr u))"

definition requireAdminPageUser :: "platform \<Rightarrow> headers \<Rightarrow> (string + current_user) app" where
  "requireAdminPageUser P h =
     bind (requirePageUser P h) (\<lambda>me.
     return (case me of Inl path \<Rightarrow> Inl path
       | Inr u \<Rightarrow> if pu_role (cu_user u) = ROLE_ADMIN then Inr u else Inl ''/overview''))"

end
