(* ===== verification/Panel_Machines.thy ===== *)
theory Panel_Machines
  imports Panel_Gate
begin

text \<open>
  \<open>server/rpc/panel/machines-service.ts\<close> and \<open>configuration-service.ts\<close> with the queries they use: the
  procedures of the administrators on machines, their tasks, upgrades and configurations.
\<close>

section \<open>Inputs\<close>

definition tag_input :: "string \<Rightarrow> ('s, string) prog" where
  "tag_input t = text_input 1 32 t"

definition tagsInput :: "string list \<Rightarrow> ('s, string list) prog" where
  "tagsInput ts =
     bind (map_prog tag_input ts) (\<lambda>trimmed.
     bind (require (length ts \<le> 20) ZodError) (\<lambda>_.
     return (unique trimmed)))"

definition address_input :: "string \<Rightarrow> ('s, string) prog" where
  "address_input a =
     bind (text_input 1 253 a) (\<lambda>t.
     bind (require (list_all is_address_char t) ZodError) (\<lambda>_.
     return t))"

definition createInput :: "create_machine_request \<Rightarrow> ('s, machine_input) prog" where
  "createInput request =
     bind (tagsInput (createMachine_tags request)) (\<lambda>ts.
     bind (text_input 1 80 (createMachine_name request)) (\<lambda>name.
     bind (address_input (createMachine_address request)) (\<lambda>address.
     bind (text_input 0 80 (createMachine_region request)) (\<lambda>region.
     return \<lparr>mi_name = name, mi_address = address, mi_region = region, mi_tags = Some ts\<rparr>))))"

text \<open>\<open>.optional()\<close>\<close>

definition optional_input :: "('a \<Rightarrow> ('s, 'b) prog) \<Rightarrow> 'a option \<Rightarrow> ('s, 'b option) prog" where
  "optional_input check x = (case x of None \<Rightarrow> return None | Some a \<Rightarrow> bind (check a) (\<lambda>b. return (Some b)))"

definition updateInput :: "update_machine_request \<Rightarrow> ('s, machine_update) prog" where
  "updateInput request =
     bind (optional_input tagsInput (map_option machineTags_values (updateMachine_tags request))) (\<lambda>ts.
     bind (require (0 < updateMachine_expectedVersion request) ZodError) (\<lambda>_.
     bind (optional_input (text_input 1 80) (updateMachine_name request)) (\<lambda>name.
     bind (optional_input address_input (updateMachine_address request)) (\<lambda>address.
     bind (optional_input (text_input 0 80) (updateMachine_region request)) (\<lambda>region.
     return \<lparr>up_expectedVersion = updateMachine_expectedVersion request, up_name = name, up_address = address,
       up_region = region, up_tags = ts\<rparr>)))))"

text \<open>\<open>x === 0 ? undefined : x\<close> with the default of the schema.\<close>

definition zero_default :: "int \<Rightarrow> int \<Rightarrow> int" where
  "zero_default d x = (if x = 0 then d else x)"

definition inspectInput :: "platform \<Rightarrow> enqueue_inspect_task_request \<Rightarrow> ('s, int \<times> int) prog" where
  "inspectInput P request =
     (let lines = zero_default 100 (enqueueInspect_maxLogLines request);
          size = zero_default 262144 (enqueueInspect_maxBytes request)
      in bind (require (p_isUuid P (enqueueInspect_requestKey request) \<and> 1 \<le> lines \<and> lines \<le> 1000 \<and>
                 1024 \<le> size \<and> size \<le> 262144) ZodError) (\<lambda>_.
         return (lines, size)))"

section \<open>Reads shared with the pages\<close>

definition query_listMachines :: "platform \<Rightarrow> principal \<Rightarrow> list_machines_response app" where
  "query_listMachines P caller =
     bind (requireAdmin caller) (\<lambda>_.
     bind (store_list P) (\<lambda>ms.
     return \<lparr>listMachines_machines = map toProtoMachine ms\<rparr>))"

definition query_getMachine :: "platform \<Rightarrow> principal \<Rightarrow> string \<Rightarrow> panel_machine_detail app" where
  "query_getMachine P caller machineId =
     bind (requireAdmin caller) (\<lambda>_.
     bind (detail P machineId) (\<lambda>m.
     return (toProtoMachineDetail m)))"

definition query_getMachineUpgrades :: "platform \<Rightarrow> principal \<Rightarrow> string \<Rightarrow> panel_machine_upgrades app" where
  "query_getMachineUpgrades P caller machineId =
     bind (requireAdmin caller) (\<lambda>_.
     bind (release_get P machineId) (\<lambda>u.
     return (toProtoMachineUpgrades u)))"

definition query_getMachineConfiguration :: "platform \<Rightarrow> principal \<Rightarrow> string \<Rightarrow> panel_configuration app" where
  "query_getMachineConfiguration P caller machineId =
     bind (requireAdmin caller) (\<lambda>_.
     bind (configuration_get P machineId) (\<lambda>c.
     return (toProtoConfiguration c)))"

section \<open>Machines\<close>

text \<open>\<open>taskHub.close(machineId)\<close> with its default reason\<close>

definition close_stream :: "string \<Rightarrow> unit app" where
  "close_stream machineId = hub_run (hub_close machineId Task_Hub.revoked)"

definition rpc_listMachines :: "platform \<Rightarrow> principal option \<Rightarrow> list_machines_response rpc" where
  "rpc_listMachines P caller = panelCall P (bind (requirePrincipal caller) (query_listMachines P))"

definition rpc_createMachine :: "platform \<Rightarrow> create_machine_request \<Rightarrow> create_machine_response rpc" where
  "rpc_createMachine P request = panelCall P (
     bind (createInput request) (\<lambda>input.
     bind (store_create P input) (\<lambda>m.
     return \<lparr>createdMachine_machine = Some (toProtoMachineDetail m)\<rparr>)))"

definition rpc_getMachine :: "platform \<Rightarrow> principal option \<Rightarrow> get_machine_request \<Rightarrow> get_machine_response rpc" where
  "rpc_getMachine P caller request = panelCall P (
     bind (requirePrincipal caller) (\<lambda>p.
     bind (query_getMachine P p (getMachine_machineId request)) (\<lambda>m.
     return \<lparr>gotMachine_machine = Some m\<rparr>)))"

definition rpc_updateMachine :: "platform \<Rightarrow> update_machine_request \<Rightarrow> update_machine_response rpc" where
  "rpc_updateMachine P request = panelCall P (
     bind (updateInput request) (\<lambda>input.
     bind (store_update P (updateMachine_machineId request) input) (\<lambda>m.
     return \<lparr>updatedMachine_machine = Some (toProtoMachineDetail m)\<rparr>)))"

definition rpc_deleteMachine :: "platform \<Rightarrow> delete_machine_request \<Rightarrow> delete_machine_response rpc" where
  "rpc_deleteMachine P request = panelCall P (
     bind (store_remove (deleteMachine_machineId request)) (\<lambda>_.
     bind (close_stream (deleteMachine_machineId request)) (\<lambda>_.
     return \<lparr>deletedMachine_removed = True, deletedMachine_localUninstallConfirmed = False\<rparr>)))"

definition rpc_resetMachineToken :: "platform \<Rightarrow> reset_machine_token_request \<Rightarrow> reset_machine_token_response rpc" where
  "rpc_resetMachineToken P request = panelCall P (
     let i = resetMachineToken_machineId request in
     bind (resetToken P i) (\<lambda>_.
     bind (close_stream i) (\<lambda>_.
     bind (detail P i) (\<lambda>m.
     return \<lparr>resetMachineToken_machine = Some (toProtoMachineDetail m)\<rparr>))))"

definition rpc_rebindMachine :: "platform \<Rightarrow> rebind_machine_request \<Rightarrow> rebind_machine_response rpc" where
  "rpc_rebindMachine P request = panelCall P (
     let i = rebindMachine_machineId request in
     bind (require (0 < rebindMachine_expectedVersion request) ZodError) (\<lambda>_.
     bind (transaction (
       bind (rebind P i (rebindMachine_expectedVersion request)) (\<lambda>rebound.
       bind (markForRebind i) (\<lambda>_.
       return rebound)))) (\<lambda>machine.
     bind (close_stream i) (\<lambda>_.
     return \<lparr>reboundMachine_machine = Some (toProtoMachineDetail machine)\<rparr>))))"

definition rpc_uninstallMachine :: "platform \<Rightarrow> uninstall_machine_request \<Rightarrow> uninstall_machine_response rpc" where
  "rpc_uninstallMachine P request = panelCall P (
     bind (release_uninstall P (uninstallMachine_machineId request) (uninstallMachine_requestKey request)) (\<lambda>task.
     return \<lparr>uninstallMachine_task = Some (toProtoTask task)\<rparr>))"

definition rpc_listMachineTasks :: "platform \<Rightarrow> list_machine_tasks_request \<Rightarrow> list_machine_tasks_response rpc" where
  "rpc_listMachineTasks P request = panelCall P (
     bind (listTasks P (listMachineTasks_machineId request)) (\<lambda>ts.
     return \<lparr>listMachineTasks_tasks = map toProtoTask ts\<rparr>))"

definition rpc_enqueueInspectTask ::
  "platform \<Rightarrow> enqueue_inspect_task_request \<Rightarrow> enqueue_inspect_task_response rpc" where
  "rpc_enqueueInspectTask P request = panelCall P (
     let i = enqueueInspect_machineId request in
     bind (inspectInput P request) (\<lambda>(lines, size).
     bind (enqueueInspect P i (enqueueInspect_requestKey request) (Some (enqueueInspect_includeLogs request))
             (Some (Finite (of_int lines))) (Some (Finite (of_int size)))) (\<lambda>task.
     bind (hub_run (hub_wake i)) (\<lambda>_.
     return \<lparr>enqueuedInspect_task = Some (toProtoTask task)\<rparr>))))"

definition rpc_getMachineUpgrades ::
  "platform \<Rightarrow> principal option \<Rightarrow> get_machine_upgrades_request \<Rightarrow> get_machine_upgrades_response rpc" where
  "rpc_getMachineUpgrades P caller request = panelCall P (
     bind (requirePrincipal caller) (\<lambda>p.
     bind (query_getMachineUpgrades P p (getMachineUpgrades_machineId request)) (\<lambda>u.
     return \<lparr>gotMachineUpgrades_upgrades = Some u\<rparr>)))"

definition rpc_enqueueUpgrade :: "platform \<Rightarrow> enqueue_upgrade_request \<Rightarrow> enqueue_upgrade_response rpc" where
  "rpc_enqueueUpgrade P request = panelCall P (
     bind (release_enqueue P (enqueueUpgrade_machineId request) (enqueueUpgrade_expectedSha256 request)
             (enqueueUpgrade_requestKey request)) (\<lambda>task.
     return \<lparr>enqueuedUpgrade_task = Some (toProtoTask task)\<rparr>))"

section \<open>Configuration\<close>

definition tls_from_proto :: "panel_tls_settings \<Rightarrow> tls_settings option" where
  "tls_from_proto t =
     (case ptls_mode t of
        None \<Rightarrow> None
      | Some (ModePem m) \<Rightarrow> Some (PemTls (ptls_serverName t) (pem_certificatePem m) (pem_privateKeyPem m))
      | Some (ModePath m) \<Rightarrow> Some (PathTls (ptls_serverName t) (path_certificatePath m) (path_privateKeyPath m))
      | Some (ModeAcme m) \<Rightarrow> Some (AcmeTls (ptls_serverName t) (acme_email m)))"

definition settingsFromProto :: "panel_configuration_input option \<Rightarrow> configuration_input option" where
  "settingsFromProto settings = map_option (\<lambda>s.
     \<lparr>ci_listen = pci_listen s, ci_trojanPort = pci_trojanPort s, ci_hysteria2Port = pci_hysteria2Port s,
      ci_tls = Option.bind (pci_tls s) tls_from_proto, ci_baseJson = or_else (pci_baseJson s) []\<rparr>) settings"

definition rpc_getMachineConfiguration ::
  "platform \<Rightarrow> principal option \<Rightarrow> get_machine_configuration_request \<Rightarrow> get_machine_configuration_response rpc" where
  "rpc_getMachineConfiguration P caller request = panelCall P (
     bind (requirePrincipal caller) (\<lambda>p.
     bind (query_getMachineConfiguration P p (getConfiguration_machineId request)) (\<lambda>c.
     return \<lparr>gotConfiguration_configuration = Some c\<rparr>)))"

definition rpc_previewConfiguration ::
  "platform \<Rightarrow> principal option \<Rightarrow> preview_configuration_request \<Rightarrow> preview_configuration_response rpc" where
  "rpc_previewConfiguration P caller request = panelCall P (
     bind (requirePrincipal caller) (\<lambda>p.
     bind (preview_configuration P (previewConfiguration_machineId request)
             \<lparr>pi_expectedVersion = previewConfiguration_expectedVersion request,
              pi_settings = settingsFromProto (previewConfiguration_settings request)\<rparr> (du_id (pr_user p))) (\<lambda>shown.
     return \<lparr>previewConfiguration_preview = Some (toProtoPreview shown)\<rparr>)))"

definition rpc_publishConfiguration ::
  "platform \<Rightarrow> principal option \<Rightarrow> publish_configuration_request \<Rightarrow> publish_configuration_response rpc" where
  "rpc_publishConfiguration P caller request = panelCall P (
     bind (requirePrincipal caller) (\<lambda>p.
     bind (publish_configuration P (publishConfiguration_machineId request)
             \<lparr>bi_previewId = publishConfiguration_previewId request,
              bi_expectedVersion = publishConfiguration_expectedVersion request,
              bi_requestKey = publishConfiguration_requestKey request\<rparr> (du_id (pr_user p))) (\<lambda>result.
     return \<lparr>publishedConfiguration_revisionId = bd_revisionId result, publishedConfiguration_version = bd_version result,
       publishedConfiguration_task = Some (toProtoTask (bd_task result))\<rparr>)))"

end
