(* ===== verification/Machine_Service.thy ===== *)
theory Machine_Service
  imports Configuration
begin

text \<open>
  \<open>server/rpc/machine-service.ts\<close>: the procedures the daemons call. Each authenticates the machine token of the
  request again, after Connect's gate has done so before the message was read. The procedure that
  streams is cut where it yields or waits: opening the stream, looking for a task, the heartbeat,
  the wait and the end are programs of their own, between which anything else may run.
\<close>

section \<open>Checks\<close>

definition domain_codes :: "int \<Rightarrow> connect_code option" where
  "domain_codes n = map_of
     [(400, CInvalidArgument), (401, CUnauthenticated), (403, CPermissionDenied), (404, CNotFound),
      (409, CFailedPrecondition), (413, CResourceExhausted), (422, CInvalidArgument), (429, CResourceExhausted)] n"

text \<open>The message of the error is its code and the localized text, which is left out.\<close>

definition domainCall :: "'a app \<Rightarrow> 'a app" where
  "domainCall action = attempt action
     (\<lambda>e. case e of AppError code status \<Rightarrow> throw (ConnectError code (or_else (domain_codes status) CInternal))
          | _ \<Rightarrow> throw e)"

definition invalid_status :: "string \<Rightarrow> failure" where
  "invalid_status message = ConnectError message CInvalidArgument"

definition status_counters :: "machine_status \<Rightarrow> int option list" where
  "status_counters s = [s_memoryUsedBytes s, s_memoryTotalBytes s, s_diskFreeBytes s, s_connections s,
     s_networkRxBytes s, s_networkTxBytes s]"

definition cpu_ok :: "double option \<Rightarrow> bool" where
  "cpu_ok x = (case x of None \<Rightarrow> True | Some NonFinite \<Rightarrow> False | Some (Finite q) \<Rightarrow> 0 \<le> q \<and> q \<le> 100)"

definition validateStatus :: "machine_status option \<Rightarrow> machine_status app" where
  "validateStatus status =
     bind (the_or status (invalid_status ''status is required'')) (\<lambda>s.
     bind (integerSequence (s_observedAtUnixMs s) ''observed time'' False) (\<lambda>_.
     bind Date_now (\<lambda>now.
     bind (require (s_observedAtUnixMs s \<le> now + 300000) (invalid_status ''clock is too far ahead'')) (\<lambda>_.
     bind (require (length (s_issue s) \<le> 4096 \<and> length (s_daemonVersion s) \<le> 128 \<and> length (s_coreVersion s) \<le> 128)
             (invalid_status ''status field too long'')) (\<lambda>_.
     bind (require (s_appliedConfigSha256 s = [] \<or> is_sha256_hex (s_appliedConfigSha256 s))
             (invalid_status ''invalid applied configuration hash'')) (\<lambda>_.
     bind (require (list_all (\<lambda>v. case v of None \<Rightarrow> True | Some n \<Rightarrow> 0 \<le> n) (status_counters s))
             (invalid_status ''negative status counter'')) (\<lambda>_.
     bind (require (cpu_ok (s_cpuUsagePercent s)) (invalid_status ''invalid CPU percentage'')) (\<lambda>_.
     return s))))))))"

text \<open>The methods of the service; an uninstalled machine may only report its tasks.\<close>

datatype machine_method = WatchTasks | AcceptTask | ReportStatus | ReportTask | GetConfig | ReportUsage

definition service_authenticate :: "platform \<Rightarrow> machine_method \<Rightarrow> string option \<Rightarrow> machine_row app" where
  "service_authenticate P method authorization =
     bind (store_authenticate P authorization) (\<lambda>machine.
     bind (db_get (isUninstalled (m_id machine) (m_bindingEpoch machine))) (\<lambda>gone.
     bind (require (\<not> (method \<noteq> ReportTask \<and> gone)) (ConnectError ''MACHINE_UNINSTALLED'' CFailedPrecondition)) (\<lambda>_.
     return machine)))"

definition machine_gate :: "platform \<Rightarrow> machine_method \<Rightarrow> string option \<Rightarrow> unit app" where
  "machine_gate P method authorization = bind (service_authenticate P method authorization) (\<lambda>_. return ())"

section \<open>The task stream\<close>

text \<open>What the generator remembers between its steps: the bound row, the subscription and two variables.\<close>

record watch =
  wx_bound :: machine_row
  wx_subscription :: nat
  wx_announced :: string
  wx_lastHeartbeat :: int

definition hub_prog :: "(hub, 'a) prog \<Rightarrow> 'a app" where
  "hub_prog p w = (case p (w_hub w) of (r, h) \<Rightarrow> (r, w\<lparr>w_hub := h\<rparr>))"

definition check_watch :: "watch_tasks_request \<Rightarrow> ('s, unit) prog" where
  "check_watch request =
     bind (require (wt_protocolVersion request = 1) (ConnectError ''unsupported protocol version'' CFailedPrecondition)) (\<lambda>_.
     require (wt_daemonVersion request \<noteq> [] \<and> length (wt_daemonVersion request) \<le> 128 \<and> length (wt_os request) \<le> 32 \<and>
              length (wt_arch request) \<le> 32 \<and> length (wt_supportedTasks request) \<le> 32)
       (ConnectError ''invalid daemon information'' CInvalidArgument))"

text \<open>\<open>Math.ceil(heartbeatMs / 1000)\<close>\<close>

definition heartbeat_seconds :: "int \<Rightarrow> int" where
  "heartbeat_seconds heartbeatMs = - ((- heartbeatMs) div 1000)"

definition session_event :: "int \<Rightarrow> machine_row \<Rightarrow> watch_event" where
  "session_event heartbeatMs bound = Session \<lparr>so_machineId = m_id bound, so_bindingEpoch = m_bindingEpoch bound,
     so_sessionEpoch = m_sessionEpoch bound, so_heartbeatSeconds = heartbeat_seconds heartbeatMs,
     so_statusIntervalSeconds = 10\<rparr>"

definition watch_open ::
  "platform \<Rightarrow> int \<Rightarrow> string option \<Rightarrow> watch_tasks_request \<Rightarrow> (watch \<times> watch_event) app" where
  "watch_open P heartbeatMs authorization request =
     bind (check_watch request) (\<lambda>_.
     bind (service_authenticate P WatchTasks authorization) (\<lambda>machine.
     bind (hub_prog assertRunning) (\<lambda>_.
     bind (store_bind (m_id machine) (wt_installation request) request) (\<lambda>bound.
     bind (hub_prog (hub_open (m_id bound))) (\<lambda>subscription.
     bind Date_now (\<lambda>now.
     return (\<lparr>wx_bound = bound, wx_subscription = subscription, wx_announced = [], wx_lastHeartbeat = now\<rparr>,
             session_event heartbeatMs bound)))))))"

text \<open>
  The part of a round up to the announcement of a task: the stream must not be aborted, the token must
  still name the same session and binding, and a task that was not the last one announced is.
\<close>

definition stream_alive :: "nat \<Rightarrow> (hub, unit) prog" where
  "stream_alive r h =
     (case sub_aborted (hub_objects h ! r) of None \<Rightarrow> (Inr (), h) | Some e \<Rightarrow> (Inl e, h))"

definition announcement :: "watch \<Rightarrow> task_row list \<Rightarrow> watch \<times> watch_event option" where
  "announcement x pendingTasks =
     (case pendingTasks of
        task # _ \<Rightarrow>
          if t_id task \<noteq> wx_announced x
          then (x\<lparr>wx_announced := t_id task\<rparr>,
                Some (Task \<lparr>ta_taskId = t_id task, ta_payloadSha256 = t_payloadHash task, ta_kind = t_kind task\<rparr>))
          else (x, None)
      | [] \<Rightarrow> (x, None))"

definition watch_poll :: "platform \<Rightarrow> string option \<Rightarrow> watch \<Rightarrow> (watch \<times> watch_event option) app" where
  "watch_poll P authorization x =
     bind (hub_prog (stream_alive (wx_subscription x))) (\<lambda>_.
     bind (service_authenticate P WatchTasks authorization) (\<lambda>current.
     bind (require (m_sessionEpoch current = m_sessionEpoch (wx_bound x) \<and>
                    m_bindingEpoch current = m_bindingEpoch (wx_bound x))
             (ConnectError ''STALE_SESSION'' CCanceled)) (\<lambda>_.
     bind (db_get (pending (m_id (wx_bound x)) (m_bindingEpoch (wx_bound x)))) (\<lambda>found.
     return (announcement x found)))))"

definition watch_heartbeat :: "int \<Rightarrow> watch \<Rightarrow> (watch \<times> watch_event option) app" where
  "watch_heartbeat heartbeatMs x =
     bind Date_now (\<lambda>now.
     return (if heartbeatMs \<le> now - wx_lastHeartbeat x
             then (x\<lparr>wx_lastHeartbeat := now\<rparr>, Some (Heartbeat now)) else (x, None)))"

text \<open>The start of the wait, with the request's own signal, and the \<open>finally\<close> block.\<close>

definition watch_wait :: "failure option \<Rightarrow> watch \<Rightarrow> wait_start app" where
  "watch_wait signal x =
     bind (gets (\<lambda>w. sub_wait signal (hub_objects (w_hub w) ! wx_subscription x))) (\<lambda>(start, s).
     bind (hub_run (hub_update (wx_subscription x) (\<lambda>_. s))) (\<lambda>_.
     return start))"

definition watch_close :: "watch \<Rightarrow> unit app" where
  "watch_close x = hub_run (hub_release (m_id (wx_bound x)) (wx_subscription x))"

section \<open>Tasks, status, configuration and usage\<close>

definition rpc_acceptTask :: "platform \<Rightarrow> string option \<Rightarrow> accept_task_request \<Rightarrow> accept_task_response app" where
  "rpc_acceptTask P authorization request =
     bind (service_authenticate P AcceptTask authorization) (\<lambda>machine.
     bind (assertInstallation machine (at_installation request) False) (\<lambda>_.
     bind (store_accept machine (at_sessionEpoch request) (at_taskId request) (at_payloadSha256 request)) (\<lambda>task.
     return \<lparr>ar_taskId = t_id task, ar_bindingEpoch = t_bindingEpoch task, ar_kind = t_kind task,
       ar_payload = t_payload task, ar_payloadSha256 = t_payloadHash task\<rparr>)))"

text \<open>The answer \<open>committedSequence\<close>.\<close>

definition rpc_reportStatus :: "platform \<Rightarrow> string option \<Rightarrow> report_status_request \<Rightarrow> int app" where
  "rpc_reportStatus P authorization request =
     bind (service_authenticate P ReportStatus authorization) (\<lambda>machine.
     bind (assertInstallation machine (rs_installation request) False) (\<lambda>_.
     bind (validateStatus (rs_status request)) (\<lambda>status.
     store_reportStatus P machine (rs_sessionEpoch request) (rs_sequence request) status)))"

definition check_report :: "report_task_request \<Rightarrow> unit app" where
  "check_report request =
     bind (require (case rt_progressPercent request of None \<Rightarrow> True | Some p \<Rightarrow> p \<le> 100)
             (ConnectError ''invalid progress'' CInvalidArgument)) (\<lambda>_.
     bind (require (length (rt_message request) \<le> 8192 \<and> length (rt_errorCode request) \<le> 128 \<and>
                    length (rt_phase request) \<le> 128)
             (ConnectError ''task field too long'' CInvalidArgument)) (\<lambda>_.
     if rt_actualStatus request \<noteq> None
     then bind (validateStatus (rt_actualStatus request)) (\<lambda>_. return ()) else return ()))"

definition rpc_reportTask :: "platform \<Rightarrow> string option \<Rightarrow> report_task_request \<Rightarrow> report_task_response app" where
  "rpc_reportTask P authorization request =
     bind (service_authenticate P ReportTask authorization) (\<lambda>machine.
     bind (assertInstallation machine (rt_installation request) False) (\<lambda>_.
     bind (check_report request) (\<lambda>_.
     bind (store_reportTask P machine request) (\<lambda>result.
     bind (hub_run (hub_wake (m_id machine))) (\<lambda>_.
     return result)))))"

definition rpc_getConfig :: "platform \<Rightarrow> string option \<Rightarrow> get_config_request \<Rightarrow> get_config_response app" where
  "rpc_getConfig P authorization request =
     bind (service_authenticate P GetConfig authorization) (\<lambda>machine.
     bind (assertInstallation machine (gc_installation request) False) (\<lambda>_.
     domainCall (getConfig P (m_id machine) request)))"

text \<open>A committed batch is answered even when the reconciliation behind it fails.\<close>

definition try_reconcile :: "platform \<Rightarrow> unit app" where
  "try_reconcile P = attempt
     (bind Date_now (\<lambda>now. bind (reconcile P now) (\<lambda>_. return ()))) (\<lambda>_. return ())"

definition rpc_reportUsage :: "platform \<Rightarrow> string option \<Rightarrow> report_usage_request \<Rightarrow> report_usage_response app" where
  "rpc_reportUsage P authorization request =
     bind (service_authenticate P ReportUsage authorization) (\<lambda>machine.
     bind (assertInstallation machine (ru_installation request) False) (\<lambda>_.
     bind Date_now (\<lambda>now.
     bind (domainCall (reportUsage P machine request now)) (\<lambda>result.
     bind (try_reconcile P) (\<lambda>_.
     return result)))))"

end
