(* ===== verification/Usage_Query.thy ===== *)
theory Usage_Query
  imports Usage
begin

text \<open>
  \<open>query\<close> of \<open>server/usage/store.ts\<close>: what the panel shows of the ledger, per bucket, per account and machine, and
  compared with the period before. The counters are texts in the code and integers here. The peak rate and
  the change in percent, which the code computes in floating point for display, are exact quotients here.
\<close>

section \<open>Filters\<close>

record usage_query =
  uq_start :: "int option"
  uq_end :: "int option"
  uq_grain :: "grain option"
  uq_userId :: "string option"
  uq_machineId :: "string option"

definition queryInput :: "platform \<Rightarrow> usage_query \<Rightarrow> ('s, usage_query) prog" where
  "queryInput P q =
     bind (require (case uq_start q of None \<Rightarrow> True | Some s \<Rightarrow> 0 \<le> s \<and> s \<le> MAX_SAFE_INTEGER) ZodError) (\<lambda>_.
     bind (require (case uq_end q of None \<Rightarrow> True | Some e \<Rightarrow> 0 < e \<and> e \<le> MAX_SAFE_INTEGER) ZodError) (\<lambda>_.
     bind (require (case uq_userId q of None \<Rightarrow> True | Some i \<Rightarrow> p_isUuid P i) ZodError) (\<lambda>_.
     bind (require (case uq_machineId q of None \<Rightarrow> True | Some i \<Rightarrow> p_isUuid P i) ZodError) (\<lambda>_.
     return (q\<lparr>uq_grain := Some (or_default Day id (uq_grain q))\<rparr>)))))"

text \<open>A filter that is only applied when its value is there.\<close>

definition wanted :: "string option \<Rightarrow> string \<Rightarrow> bool" where
  "wanted x v \<longleftrightarrow> \<not> truthy x \<or> x = Some v"

definition usage_filter ::
  "grain \<Rightarrow> int \<Rightarrow> int \<Rightarrow> string option \<Rightarrow> string option \<Rightarrow> usage_bucket_row \<Rightarrow> bool" where
  "usage_filter g start stop userId machineId b \<longleftrightarrow>
     ub_grain b = g \<and> start \<le> ub_bucketStart b \<and> ub_bucketStart b < stop \<and>
     wanted userId (ub_userId b) \<and> wanted machineId (ub_machineId b)"

section \<open>Reporting issues\<close>

definition reporting_machines :: "string option \<Rightarrow> string option \<Rightarrow> database \<Rightarrow> machine_row list" where
  "reporting_machines userId machineId d =
     filter (\<lambda>m. m_removedAt m = None \<and> m_installationId m \<noteq> None \<and> wanted machineId (m_id m) \<and>
                 has_row (\<lambda>h. mu_machineId h = m_id m \<and> wanted userId (mu_userId h)) (machineUserHistory d))
       (machines d)"

definition has_issue :: "int \<Rightarrow> machine_row \<Rightarrow> machine_status option \<Rightarrow> bool" where
  "has_issue now m status \<longleftrightarrow>
     (case status of None \<Rightarrow> True | Some s \<Rightarrow> s_usageIncomplete s) \<or> m_statusSequence m = 0 \<or>
     (case m_lastSeenAt m of None \<Rightarrow> True | Some seen \<Rightarrow> seen \<le> now - 60000)"

definition add_issue :: "platform \<Rightarrow> int \<Rightarrow> machine_row \<Rightarrow> string list \<Rightarrow> string list app" where
  "add_issue P now m issues =
     bind (db_get (isUninstalled (m_id m) (m_bindingEpoch m))) (\<lambda>gone.
     if gone then return issues
     else
       bind (status_of P (m_statusJson m)) (\<lambda>status.
       return (if has_issue now m status then List.insert (m_id m) issues else issues)))"

definition currentReportingIssues ::
  "platform \<Rightarrow> int \<Rightarrow> int \<Rightarrow> int \<Rightarrow> string option \<Rightarrow> string option \<Rightarrow> string list app" where
  "currentReportingIssues P start stop now userId machineId =
     (if now < start \<or> stop \<le> now then return []
      else bind (db_get (reporting_machines userId machineId)) (\<lambda>related. fold_each related [] (add_issue P now)))"

section \<open>Sums and the peak\<close>

record period_sum =
  sm_upload :: int
  sm_download :: int
  sm_hasData :: bool
  sm_incomplete :: bool

definition add_row :: "usage_bucket_row \<Rightarrow> period_sum \<Rightarrow> period_sum" where
  "add_row b s = \<lparr>sm_upload = sm_upload s + ub_uploadBytes b, sm_download = sm_download s + ub_downloadBytes b,
     sm_hasData = True, sm_incomplete = (sm_incomplete s \<or> ub_incomplete b)\<rparr>"

definition no_sum :: period_sum where
  "no_sum = \<lparr>sm_upload = 0, sm_download = 0, sm_hasData = False, sm_incomplete = False\<rparr>"

definition sumPeriod ::
  "grain \<Rightarrow> int \<Rightarrow> int \<Rightarrow> string option \<Rightarrow> string option \<Rightarrow> database \<Rightarrow> period_sum" where
  "sumPeriod g start stop userId machineId d =
     fold add_row (filter (usage_filter g start stop userId machineId) (usageBuckets d)) no_sum"

definition minute_total :: "usage_bucket_row list \<Rightarrow> int \<Rightarrow> int" where
  "minute_total rows s = (\<Sum>b\<leftarrow>filter (\<lambda>b. ub_bucketStart b = s) rows. ub_uploadBytes b + ub_downloadBytes b)"

definition minutePeak ::
  "int \<Rightarrow> int \<Rightarrow> int \<Rightarrow> string option \<Rightarrow> string option \<Rightarrow> database \<Rightarrow> rat option" where
  "minutePeak start stop now userId machineId d =
     (if start < minute_floor now then None
      else let rows = filter (usage_filter Minute start stop userId machineId) (usageBuckets d) in
        if list_ex ub_incomplete rows \<or> rows = [] then None
        else Some (of_int (foldr max (map (minute_total rows) (map ub_bucketStart rows))
                     (minute_total rows (ub_bucketStart (hd rows)))) / 60))"

section \<open>Points and groups\<close>

record usage_point =
  pt_bucketStart :: int
  pt_uploadBytes :: int
  pt_downloadBytes :: int
  pt_estimated :: bool
  pt_incomplete :: bool

record usage_group =
  gr_userId :: string
  gr_username :: string
  gr_machineId :: string
  gr_machineName :: string
  gr_uploadBytes :: int
  gr_downloadBytes :: int
  gr_estimated :: bool
  gr_incomplete :: bool

text \<open>\<open>map.set(key, f(map.get(key) ?? fresh))\<close>\<close>

fun map_update :: "'k \<Rightarrow> 'v \<Rightarrow> ('v \<Rightarrow> 'v) \<Rightarrow> ('k \<times> 'v) list \<Rightarrow> ('k \<times> 'v) list" where
  "map_update k fresh f [] = [(k, f fresh)]"
| "map_update k fresh f ((k', v) # m) = (if k' = k then (k', f v) # m else (k', v) # map_update k fresh f m)"

text \<open>A row of the ledger with the names of its account and its machine.\<close>

type_synonym named_row = "usage_bucket_row \<times> string \<times> string"

definition add_point :: "named_row \<Rightarrow> (int \<times> usage_point) list \<Rightarrow> (int \<times> usage_point) list" where
  "add_point row points = (case row of (b, _, _) \<Rightarrow>
     map_update (ub_bucketStart b)
       \<lparr>pt_bucketStart = ub_bucketStart b, pt_uploadBytes = 0, pt_downloadBytes = 0, pt_estimated = False,
        pt_incomplete = False\<rparr>
       (\<lambda>p. p\<lparr>pt_uploadBytes := pt_uploadBytes p + ub_uploadBytes b,
              pt_downloadBytes := pt_downloadBytes p + ub_downloadBytes b,
              pt_estimated := pt_estimated p \<or> ub_estimated b, pt_incomplete := pt_incomplete p \<or> ub_incomplete b\<rparr>)
       points)"

text \<open>The key \<open>userId:machineId\<close>.\<close>

definition group_key :: "usage_bucket_row \<Rightarrow> string" where
  "group_key b = ub_userId b @ '':'' @ ub_machineId b"

definition add_group :: "string list \<Rightarrow> named_row \<Rightarrow> (string \<times> usage_group) list \<Rightarrow> (string \<times> usage_group) list" where
  "add_group issues row groups = (case row of (b, username, machineName) \<Rightarrow>
     map_update (group_key b)
       \<lparr>gr_userId = ub_userId b, gr_username = username, gr_machineId = ub_machineId b, gr_machineName = machineName,
        gr_uploadBytes = 0, gr_downloadBytes = 0, gr_estimated = False, gr_incomplete = False\<rparr>
       (\<lambda>g. g\<lparr>gr_uploadBytes := gr_uploadBytes g + ub_uploadBytes b,
              gr_downloadBytes := gr_downloadBytes g + ub_downloadBytes b,
              gr_estimated := gr_estimated g \<or> ub_estimated b,
              gr_incomplete := gr_incomplete g \<or> ub_incomplete b \<or> ub_machineId b \<in> set issues\<rparr>)
       groups)"

text \<open>The two inner joins, in the order of the buckets.\<close>

definition named_rows :: "(usage_bucket_row \<Rightarrow> bool) \<Rightarrow> database \<Rightarrow> named_row list" where
  "named_rows Q d = concat (map (\<lambda>b.
     concat (map (\<lambda>u. map (\<lambda>m. (b, u_username u, m_name m)) (filter (\<lambda>m. m_id m = ub_machineId b) (machines d)))
       (filter (\<lambda>u. u_id u = ub_userId b) (users d))))
     (sort_key ub_bucketStart (filter Q (usageBuckets d))))"

section \<open>The answer\<close>

record month_dto =
  mo_period :: string
  mo_usedBytes :: int
  mo_limitBytes :: "int option"
  mo_blocked :: bool
  mo_warning :: "string option"

record previous_dto =
  pv_previousStart :: int
  pv_previousEnd :: int
  pv_uploadBytes :: int
  pv_downloadBytes :: int
  pv_hasData :: bool
  pv_incomplete :: bool
  pv_currentPeriodInProgress :: bool
  pv_changePercent :: "rat option"

record usage_dto =
  uu_start :: int
  uu_end :: int
  uu_grain :: grain
  uu_uploadBytes :: int
  uu_downloadBytes :: int
  uu_estimated :: bool
  uu_incomplete :: bool
  uu_points :: "usage_point list"
  uu_groups :: "usage_group list"
  uu_currentMonth :: "month_dto option"
  uu_peak :: "rat option"
  uu_previousPeriod :: previous_dto

definition warning_of :: "quota \<Rightarrow> string option" where
  "warning_of q =
     (case q_limit q of
        None \<Rightarrow> None
      | Some l \<Rightarrow> if l \<le> q_used q then Some ''100''
                  else if l * 95 \<le> q_used q * 100 then Some ''95''
                  else if l * 80 \<le> q_used q * 100 then Some ''80'' else None)"

definition month_of :: "quota \<Rightarrow> month_dto" where
  "month_of q = \<lparr>mo_period = q_period q, mo_usedBytes = q_used q, mo_limitBytes = q_limit q, mo_blocked = q_blocked q,
     mo_warning = warning_of q\<rparr>"

text \<open>The bounds of the query, rounded outwards to buckets.\<close>

definition query_end :: "int \<Rightarrow> grain \<Rightarrow> int" where
  "query_end supplied g =
     (if bucketStart supplied g = supplied then supplied else nextBucket (bucketStart supplied g) g)"

definition max_days :: "grain \<Rightarrow> int" where
  "max_days g = (case g of Minute \<Rightarrow> 7 | Day \<Rightarrow> 366 | Month \<Rightarrow> 3660)"

definition range_ok :: "grain \<Rightarrow> int \<Rightarrow> int \<Rightarrow> int \<Rightarrow> bool" where
  "range_ok g start stop now \<longleftrightarrow> start < stop \<and> stop \<le> now + 32 * DAY_MS \<and> stop - start \<le> max_days g * DAY_MS"

text \<open>The period before, and the change against it in percent, rounded to two decimals.\<close>

definition natural_month :: "int \<Rightarrow> int \<Rightarrow> bool" where
  "natural_month start stop \<longleftrightarrow> start = monthStart start \<and> stop = nextBucket start Month"

definition previous_start :: "int \<Rightarrow> int \<Rightarrow> int" where
  "previous_start start stop = (if natural_month start stop then monthStart (start - 1) else start - (stop - start))"

definition previous_grain :: "grain \<Rightarrow> int \<Rightarrow> int \<Rightarrow> grain" where
  "previous_grain g start stop = (if natural_month start stop then Month else if g = Month then Day else g)"

definition change_percent :: "int \<Rightarrow> int \<Rightarrow> rat" where
  "change_percent current previousTotal =
     (let numerator = (current - previousTotal) * 10000;
          basisPoints = (if 0 \<le> numerator then bigint_div (numerator + bigint_div previousTotal 2) previousTotal
                         else - bigint_div (- numerator + bigint_div previousTotal 2) previousTotal)
      in of_int basisPoints / 100)"

definition previous_period ::
  "grain \<Rightarrow> int \<Rightarrow> int \<Rightarrow> int \<Rightarrow> int \<Rightarrow> bool \<Rightarrow> period_sum \<Rightarrow> previous_dto" where
  "previous_period g start stop now current incomplete previous =
     (let previousStart = previous_start start stop;
          previousIncomplete = (\<not> sm_hasData previous \<or> sm_incomplete previous \<or>
            (previous_grain g start stop = Minute \<and> previousStart < minute_floor now));
          inProgress = now < stop; previousTotal = sm_upload previous + sm_download previous
      in \<lparr>pv_previousStart = previousStart, pv_previousEnd = start, pv_uploadBytes = sm_upload previous,
          pv_downloadBytes = sm_download previous, pv_hasData = sm_hasData previous, pv_incomplete = previousIncomplete,
          pv_currentPeriodInProgress = inProgress,
          pv_changePercent =
            (if \<not> inProgress \<and> \<not> incomplete \<and> \<not> previousIncomplete \<and> sm_hasData previous \<and> 0 < previousTotal
             then Some (change_percent current previousTotal) else None)\<rparr>)"

text \<open>While a machine has a reporting issue, the bucket of the present is incomplete.\<close>

definition mark_present :: "string list \<Rightarrow> int \<Rightarrow> (int \<times> usage_point) list \<Rightarrow> (int \<times> usage_point) list" where
  "mark_present issues present points =
     (if issues = [] then points
      else map (\<lambda>(k, p). (k, if k = present then p\<lparr>pt_incomplete := True\<rparr> else p)) points)"

definition query_usage :: "platform \<Rightarrow> usage_query \<Rightarrow> int \<Rightarrow> usage_dto app" where
  "query_usage P input now =
     bind (queryInput P input) (\<lambda>q.
     let g = the (uq_grain q); u = uq_userId q; m = uq_machineId q;
         start = bucketStart (or_default (monthStart now) id (uq_start q)) g;
         stop = query_end (or_default (nextBucket (monthStart now) Month) id (uq_end q)) g in
     bind (require (range_ok g start stop now) (AppError ''INVALID_TIME_RANGE'' 422)) (\<lambda>_.
     bind (db_get (named_rows (usage_filter g start stop u m))) (\<lambda>rows.
     bind (currentReportingIssues P start stop now u m) (\<lambda>issues.
     let upload = (\<Sum>r\<leftarrow>rows. ub_uploadBytes (fst r)); download = (\<Sum>r\<leftarrow>rows. ub_downloadBytes (fst r));
         points = mark_present issues (bucketStart now g) (fold add_point rows []);
         groups = fold (add_group issues) rows [];
         incomplete = (issues \<noteq> [] \<or> rows = [] \<or> list_ex (\<lambda>r. ub_incomplete (fst r)) rows \<or>
           (g = Minute \<and> start < minute_floor now)) in
     bind (if truthy u then bind (userQuota (the u) now) (\<lambda>quota. return (Some (month_of quota))) else return None)
       (\<lambda>currentMonth.
     bind (db_get (sumPeriod (previous_grain g start stop) (previous_start start stop) start u m)) (\<lambda>previous.
     bind (db_get (minutePeak start stop now u m)) (\<lambda>peak.
     return \<lparr>uu_start = start, uu_end = stop, uu_grain = g, uu_uploadBytes = upload, uu_downloadBytes = download,
       uu_estimated = list_ex (\<lambda>r. ub_estimated (fst r)) rows, uu_incomplete = incomplete,
       uu_points = map snd points, uu_groups = map snd groups, uu_currentMonth = currentMonth,
       uu_peak = (if issues = [] then peak else None),
       uu_previousPeriod = previous_period g start stop now (upload + download) incomplete previous\<rparr>)))))))"

end
