(* ===== verification/Snapshot.thy ===== *)
theory Snapshot
  imports Configuration
begin

text \<open>
  \<open>server/subscription/snapshot.ts\<close>: what a subscription of an account is rendered from, namely its proxy secrets,
  its quota and the configured machines, each with the settings that its core runs if it has reported them.
\<close>

record snapshot_node = client_node +
  sn_region :: string
  sn_tags :: "string list"
  sn_available :: bool
  sn_applied :: bool

record snapshot =
  sn_credentials :: credentials
  sn_quota :: quota
  sn_blocked :: bool
  sn_nodes :: "snapshot_node list"

text \<open>The join of the configurations with their machines, by name and then id.\<close>

definition snapshot_records :: "database \<Rightarrow> (machine_row \<times> machine_config_row) list" where
  "snapshot_records d =
     filter (\<lambda>(m, c). truthy (mc_settingsCiphertext c) \<and> truthy (mc_desiredRevisionId c) \<and>
                      \<not> isUninstalled (m_id m) (m_bindingEpoch m) d)
       (sort_key (\<lambda>(m, c). m_name m) (sort_key (\<lambda>(m, c). m_id m)
         (concat (map (\<lambda>c. map (\<lambda>m. (m, c))
           (filter (\<lambda>m. mc_machineId c = m_id m \<and> m_removedAt m = None) (machines d))) (machineConfigs d)))))"

definition effective_revision :: "machine_row \<Rightarrow> machine_status option \<Rightarrow> database \<Rightarrow> config_revision_row option" where
  "effective_revision m status d =
     (case status of None \<Rightarrow> None
      | Some s \<Rightarrow> if s_appliedRevisionId s = [] then None
                  else find (\<lambda>r. cr_id r = s_appliedRevisionId s \<and> cr_machineId r = m_id m) (configRevisions d))"

definition authorization_current :: "machine_config_row \<Rightarrow> machine_status option \<Rightarrow> int \<Rightarrow> bool" where
  "authorization_current c status latestPolicy =
     (case status of None \<Rightarrow> False
      | Some s \<Rightarrow> max (mc_desiredPolicyRevision c) latestPolicy \<le> s_appliedPolicyRevision s)"

definition snapshot_node_of ::
  "platform \<Rightarrow> int \<Rightarrow> machine_row \<times> machine_config_row \<Rightarrow> snapshot_node app" where
  "snapshot_node_of P latestPolicy record = (case record of (m, c) \<Rightarrow>
     bind (status_of P (m_statusJson m)) (\<lambda>status.
     bind (db_get (effective_revision m status)) (\<lambda>effective.
     let current = authorization_current c status latestPolicy in
     bind (read_configuration P (case effective of Some r \<Rightarrow> cr_settingsCiphertext r
                                 | None \<Rightarrow> the (mc_settingsCiphertext c))) (\<lambda>settings.
     return \<lparr>cn_id = m_id m, cn_name = m_name m, cn_address = m_address m, cn_settings = settings,
       sn_region = m_region m, sn_tags = m_tags m,
       sn_available = (effective \<noteq> None \<and> map_option s_coreHealth status = Some HEALTHY \<and> current),
       sn_applied = (map_option s_appliedRevisionId status = mc_desiredRevisionId c \<and> current)\<rparr>))))"

definition subscriptionSnapshot :: "platform \<Rightarrow> string \<Rightarrow> snapshot app" where
  "subscriptionSnapshot P userId =
     bind (readProxyCredentials P userId) (\<lambda>credentials.
     bind Date_now (\<lambda>now.
     bind (userQuota userId now) (\<lambda>quota.
     let blocked = (u_status (q_user quota) \<noteq> Active \<or> q_blocked quota) in
     bind (db_get latest_revision) (\<lambda>latestPolicy.
     bind (db_get snapshot_records) (\<lambda>records.
     bind (map_prog (snapshot_node_of P latestPolicy) records) (\<lambda>nodes.
     return \<lparr>sn_credentials = credentials, sn_quota = quota, sn_blocked = blocked, sn_nodes = nodes\<rparr>))))))"

section \<open>What a snapshot tells\<close>

lemma map_prog_reads:
  assumes "\<And>x. x \<in> set xs \<Longrightarrow> \<exists>r. f x w = (r, w)"
  shows "\<exists>r. map_prog f xs w = (r, w)"
  using assms
proof (induction xs)
  case Nil
  then show ?case by simp
next
  case (Cons x xs)
  obtain r where r: "f x w = (r, w)" using Cons.prems [of x] by auto
  obtain rs where "map_prog f xs w = (rs, w)" using Cons.IH Cons.prems by (meson list.set_intros(2))
  with r show ?case by (cases r; cases rs) (simp_all add: bind_run)
qed

end
