(* ===== verification/Default_Template.thy ===== *)
theory Default_Template
  imports Json
begin

text \<open>
  \<open>server/subscription/default.template.json\<close>, the template a new subscription starts from, one definition per
  top-level property.
\<close>

definition template_dns :: json where
  "template_dns = JObj [
    (''servers'', JArr [
      JObj [
        (''tag'', JStr ''cloudflare''),
        (''type'', JStr ''https''),
        (''server'', JStr ''1.1.1.1''),
        (''detour'', JStr ''auto''),
        (''tls'', JObj [(''server_name'', JStr ''cloudflare-dns.com'')])],
      JObj [
        (''tag'', JStr ''google''),
        (''type'', JStr ''https''),
        (''server'', JStr ''8.8.8.8''),
        (''detour'', JStr ''auto''),
        (''tls'', JObj [(''server_name'', JStr ''dns.google'')])],
      JObj [(''tag'', JStr ''q''), (''type'', JStr ''udp''), (''server'', JStr ''114.114.114.114'')]]),
    (''rules'', JArr [
      JObj [(''rule_set'', JStr ''geosite-category-ads-all''), (''action'', JStr ''reject'')],
      JObj [(''clash_mode'', JStr ''Direct''), (''server'', JStr ''q'')],
      JObj [
        (''clash_mode'', JStr ''Global''),
        (''action'', JStr ''evaluate''),
        (''server'', JStr ''cloudflare''),
        (''tag'', JStr ''global-cloudflare'')],
      JObj [
        (''clash_mode'', JStr ''Global''),
        (''action'', JStr ''evaluate''),
        (''server'', JStr ''google''),
        (''tag'', JStr ''global-google'')],
      JObj [
        (''clash_mode'', JStr ''Global''),
        (''match_response'', JStr ''global-cloudflare''),
        (''response_rcode'', JStr ''NOERROR''),
        (''action'', JStr ''respond''),
        (''race'', JBool True)],
      JObj [
        (''clash_mode'', JStr ''Global''),
        (''match_response'', JStr ''global-google''),
        (''response_rcode'', JStr ''NOERROR''),
        (''action'', JStr ''respond''),
        (''race'', JBool True)],
      JObj [
        (''clash_mode'', JStr ''Global''),
        (''match_response'', JStr ''global-cloudflare''),
        (''action'', JStr ''respond'')],
      JObj [
        (''clash_mode'', JStr ''Global''),
        (''match_response'', JStr ''global-google''),
        (''action'', JStr ''respond'')],
      JObj [
        (''rule_set'', JArr [JStr ''geosite-games-cn'', JStr ''geosite-games-non-cn'']),
        (''action'', JStr ''route-options''),
        (''disable_optimistic_cache'', JBool True)],
      JObj [
        (''rule_set'', JArr [JStr ''geosite-games-cn'', JStr ''geosite-game-download-cn'']),
        (''action'', JStr ''route''),
        (''server'', JStr ''q'')],
      JObj [(''rule_set'', JStr ''geosite-geolocation-cn''), (''server'', JStr ''q'')],
      JObj [
        (''action'', JStr ''evaluate''),
        (''server'', JStr ''cloudflare''),
        (''tag'', JStr ''rule-cloudflare'')],
      JObj [(''action'', JStr ''evaluate''), (''server'', JStr ''google''), (''tag'', JStr ''rule-google'')],
      JObj [
        (''type'', JStr ''logical''),
        (''mode'', JStr ''and''),
        (''rules'', JArr [
          JObj [
            (''rule_set'', JArr [JStr ''geosite-geolocation-!cn'', JStr ''geosite-games-non-cn'']),
            (''invert'', JBool True)],
          JObj [
            (''match_response'', JStr ''rule-cloudflare''),
            (''response_rcode'', JStr ''NOERROR''),
            (''rule_set'', JStr ''geoip-cn'')]]),
        (''action'', JStr ''route''),
        (''server'', JStr ''q''),
        (''race'', JBool True)],
      JObj [
        (''match_response'', JStr ''rule-cloudflare''),
        (''response_rcode'', JStr ''NOERROR''),
        (''action'', JStr ''respond''),
        (''race'', JBool True)],
      JObj [
        (''type'', JStr ''logical''),
        (''mode'', JStr ''and''),
        (''rules'', JArr [
          JObj [
            (''rule_set'', JArr [JStr ''geosite-geolocation-!cn'', JStr ''geosite-games-non-cn'']),
            (''invert'', JBool True)],
          JObj [
            (''match_response'', JStr ''rule-google''),
            (''response_rcode'', JStr ''NOERROR''),
            (''rule_set'', JStr ''geoip-cn'')]]),
        (''action'', JStr ''route''),
        (''server'', JStr ''q''),
        (''race'', JBool True)],
      JObj [
        (''match_response'', JStr ''rule-google''),
        (''response_rcode'', JStr ''NOERROR''),
        (''action'', JStr ''respond''),
        (''race'', JBool True)],
      JObj [(''match_response'', JStr ''rule-cloudflare''), (''action'', JStr ''respond'')],
      JObj [(''match_response'', JStr ''rule-google''), (''action'', JStr ''respond'')]]),
    (''final'', JStr ''cloudflare''),
    (''strategy'', JStr ''prefer_ipv4''),
    (''timeout'', JStr ''8s''),
    (''optimistic'', JObj [(''enabled'', JBool True), (''timeout'', JStr ''24h'')])]"

definition template_inbounds :: json where
  "template_inbounds = JArr [
    JObj [
      (''tag'', JStr ''tun-in''),
      (''auto_route'', JBool True),
      (''interface_name'', JStr ''singbox''),
      (''address'', JArr [JStr ''172.19.0.1/30'']),
      (''strict_route'', JBool False),
      (''type'', JStr ''tun''),
      (''stack'', JStr ''mixed'')]]"

definition template_outbounds :: json where
  "template_outbounds = JArr [
    JObj [
      (''default'', JStr ''auto''),
      (''outbounds'', JArr []),
      (''tag'', JStr ''select''),
      (''type'', JStr ''selector'')],
    JObj [
      (''default'', JStr ''auto-ai''),
      (''outbounds'', JArr []),
      (''tag'', JStr ''select-ai''),
      (''type'', JStr ''selector'')],
    JObj [
      (''default'', JStr ''auto-game''),
      (''outbounds'', JArr []),
      (''tag'', JStr ''select-game''),
      (''type'', JStr ''selector'')],
    JObj [
      (''interval'', JStr ''3m''),
      (''outbounds'', JArr []),
      (''tag'', JStr ''auto-ai''),
      (''tolerance'', jint 50),
      (''type'', JStr ''urltest''),
      (''url'', JStr ''https://cp.cloudflare.com/'')],
    JObj [
      (''interval'', JStr ''3m''),
      (''outbounds'', JArr []),
      (''tag'', JStr ''auto''),
      (''tolerance'', jint 50),
      (''type'', JStr ''urltest''),
      (''url'', JStr ''https://cp.cloudflare.com/'')],
    JObj [(''tag'', JStr ''direct''), (''type'', JStr ''direct'')],
    JObj [
      (''url'', JStr ''https://cp.cloudflare.com/''),
      (''type'', JStr ''urltest''),
      (''outbounds'', JArr []),
      (''tolerance'', jint 50),
      (''interval'', JStr ''3m''),
      (''tag'', JStr ''auto-game'')]]"

definition template_route :: json where
  "template_route = JObj [
    (''auto_detect_interface'', JBool True),
    (''rule_set'', JArr [
      JObj [
        (''type'', JStr ''remote''),
        (''tag'', JStr ''geosite-geolocation-cn''),
        (''format'', JStr ''binary''),
        (''url'', JStr ''https://raw.githubusercontent.com/SagerNet/sing-geosite/rule-set/geosite-geolocation-cn.srs''),
        (''http_client'', JObj [(''detour'', JStr ''auto'')])],
      JObj [
        (''type'', JStr ''remote''),
        (''tag'', JStr ''geosite-geolocation-!cn''),
        (''format'', JStr ''binary''),
        (''url'', JStr ''https://raw.githubusercontent.com/SagerNet/sing-geosite/rule-set/geosite-geolocation-!cn.srs''),
        (''http_client'', JObj [(''detour'', JStr ''auto'')])],
      JObj [
        (''type'', JStr ''remote''),
        (''tag'', JStr ''geoip-cn''),
        (''format'', JStr ''binary''),
        (''url'', JStr ''https://raw.githubusercontent.com/SagerNet/sing-geoip/rule-set/geoip-cn.srs''),
        (''http_client'', JObj [(''detour'', JStr ''auto'')])],
      JObj [
        (''type'', JStr ''remote''),
        (''tag'', JStr ''geosite-category-ads-all''),
        (''format'', JStr ''binary''),
        (''url'', JStr ''https://raw.githubusercontent.com/SagerNet/sing-geosite/rule-set/geosite-category-ads-all.srs''),
        (''http_client'', JObj [(''detour'', JStr ''auto'')])],
      JObj [
        (''type'', JStr ''remote''),
        (''tag'', JStr ''geosite-category-media''),
        (''format'', JStr ''binary''),
        (''url'', JStr ''https://raw.githubusercontent.com/SagerNet/sing-geosite/rule-set/geosite-category-media@cn.srs''),
        (''http_client'', JObj [(''detour'', JStr ''auto'')])],
      JObj [
        (''type'', JStr ''remote''),
        (''tag'', JStr ''geosite-ai''),
        (''format'', JStr ''binary''),
        (''url'', JStr ''https://raw.githubusercontent.com/SagerNet/sing-geosite/rule-set/geosite-category-ai-chat-!cn.srs''),
        (''http_client'', JObj [(''detour'', JStr ''auto'')])],
      JObj [
        (''type'', JStr ''remote''),
        (''tag'', JStr ''geosite-steam-cn''),
        (''format'', JStr ''binary''),
        (''url'', JStr ''https://raw.githubusercontent.com/SagerNet/sing-geosite/rule-set/geosite-steam@cn.srs''),
        (''http_client'', JObj [(''detour'', JStr ''auto'')])],
      JObj [
        (''type'', JStr ''remote''),
        (''tag'', JStr ''geosite-games-cn''),
        (''format'', JStr ''binary''),
        (''url'', JStr ''https://raw.githubusercontent.com/SagerNet/sing-geosite/rule-set/geosite-category-games-cn.srs''),
        (''http_client'', JObj [(''detour'', JStr ''auto'')])],
      JObj [
        (''type'', JStr ''remote''),
        (''tag'', JStr ''geosite-games-non-cn''),
        (''format'', JStr ''binary''),
        (''url'', JStr ''https://raw.githubusercontent.com/SagerNet/sing-geosite/rule-set/geosite-category-games-!cn.srs''),
        (''http_client'', JObj [(''detour'', JStr ''auto'')])],
      JObj [
        (''type'', JStr ''remote''),
        (''tag'', JStr ''geosite-game-download-cn''),
        (''format'', JStr ''binary''),
        (''url'', JStr ''https://raw.githubusercontent.com/SagerNet/sing-geosite/rule-set/geosite-category-game-platforms-download@cn.srs''),
        (''http_client'', JObj [(''detour'', JStr ''auto'')])]]),
    (''rules'', JArr [
      JObj [
        (''action'', JStr ''sniff''),
        (''sniffer'', JArr [JStr ''http'', JStr ''tls'', JStr ''dns'', JStr ''quic'', JStr ''dtls''])],
      JObj [(''action'', JStr ''route-options''), (''udp_disable_domain_unmapping'', JBool True)],
      JObj [(''action'', JStr ''hijack-dns''), (''protocol'', JStr ''dns''), (''port'', JArr [jint 53])],
      JObj [(''action'', JStr ''reject''), (''rule_set'', JStr ''geosite-category-ads-all'')],
      JObj [(''clash_mode'', JStr ''Direct''), (''outbound'', JStr ''direct'')],
      JObj [(''clash_mode'', JStr ''Global''), (''outbound'', JStr ''select'')],
      JObj [
        (''rule_set'', JArr [JStr ''geosite-games-cn'', JStr ''geosite-game-download-cn'']),
        (''outbound'', JStr ''direct'')],
      JObj [(''rule_set'', JStr ''geosite-games-non-cn''), (''outbound'', JStr ''select-game'')],
      JObj [
        (''action'', JStr ''route''),
        (''rule_set'', JArr [JStr ''geosite-ai'']),
        (''outbound'', JStr ''select-ai'')],
      JObj [(''ip_is_private'', JBool True), (''outbound'', JStr ''direct'')],
      JObj [
        (''rule_set'', JArr [JStr ''geoip-cn'', JStr ''geosite-geolocation-cn'', JStr ''geosite-category-media'']),
        (''outbound'', JStr ''direct'')],
      JObj [
        (''type'', JStr ''logical''),
        (''mode'', JStr ''or''),
        (''rules'', JArr [
          JObj [(''rule_set'', JArr [JStr ''geosite-steam-cn''])],
          JObj [(''domain_suffix'', JArr [JStr ''steamserver.net''])]]),
        (''outbound'', JStr ''direct'')]]),
    (''final'', JStr ''select''),
    (''default_domain_resolver'', JStr ''q'')]"

definition template_experimental :: json where
  "template_experimental = JObj [(''cache_file'', JObj [(''enabled'', JBool True), (''store_dns'', JBool True)])]"

definition template_log :: json where
  "template_log = JObj [(''level'', JStr ''info''), (''timestamp'', JBool True)]"

definition default_template :: "(string \<times> json) list" where
  "default_template = [(''dns'', template_dns),
    (''inbounds'', template_inbounds),
    (''outbounds'', template_outbounds),
    (''route'', template_route),
    (''experimental'', template_experimental),
    (''log'', template_log)]"

end
