(* ===== verification/Template.thy ===== *)
theory Template
  imports Snapshot Default_Template
begin

text \<open>
  \<open>server/subscription/template.ts\<close>: the draft of a subscription, which is a template with rules that bind machines to its
  groups, its validation and the presets. Theory \<open>Render\<close> has the configuration rendered from a draft.
\<close>

section \<open>Drafts\<close>

record group_binding =
  gb_groupTag :: string
  gb_regions :: "string list"
  gb_tags :: "string list"
  gb_protocols :: "string list"
  gb_machineIds :: "string list"
  gb_excludeMachineIds :: "string list"
  gb_staticMembers :: "string list"

record draft =
  dr_templateJson :: string
  dr_bindings :: "group_binding list"

definition text_schema :: "nat \<Rightarrow> nat \<Rightarrow> json option \<Rightarrow> string option" where
  "text_schema lo hi j =
     (case j of Some (JStr s) \<Rightarrow> if lo \<le> length s \<and> length s \<le> hi then Some s else None | _ \<Rightarrow> None)"

definition array_schema :: "nat \<Rightarrow> (json \<Rightarrow> 'a option) \<Rightarrow> json option \<Rightarrow> 'a list option" where
  "array_schema hi entry j =
     (case j of Some (JArr xs) \<Rightarrow> if length xs \<le> hi then those (map entry xs) else None | _ \<Rightarrow> None)"

text \<open>\<open>.default([])\<close>\<close>

definition default_empty :: "json option \<Rightarrow> json option" where
  "default_empty j = (case j of None \<Rightarrow> Some (JArr []) | Some v \<Rightarrow> Some v)"

definition strings :: "json option \<Rightarrow> string list option" where
  "strings j = array_schema 100 (\<lambda>x. text_schema 1 160 (Some x)) j"

definition protocol_names :: "string list" where
  "protocol_names = [''trojan'', ''hysteria2'']"

definition protocol_schema :: "json \<Rightarrow> string option" where
  "protocol_schema j = (case j of JStr s \<Rightarrow> if s \<in> set protocol_names then Some s else None | _ \<Rightarrow> None)"

definition bindingSchema :: "json \<Rightarrow> group_binding option" where
  "bindingSchema j =
     (case j of
        JObj ps \<Rightarrow>
          (case (text_schema 1 100 (jprop ''groupTag'' ps), strings (default_empty (jprop ''regions'' ps)),
                 strings (default_empty (jprop ''tags'' ps)),
                 array_schema 2 protocol_schema (default_empty (jprop ''protocols'' ps)),
                 strings (default_empty (jprop ''machineIds'' ps)),
                 strings (default_empty (jprop ''excludeMachineIds'' ps)),
                 strings (default_empty (jprop ''staticMembers'' ps))) of
             (Some tag, Some rs, Some ts, Some ns, Some ms, Some xs, Some ss) \<Rightarrow>
               Some \<lparr>gb_groupTag = tag, gb_regions = rs, gb_tags = ts, gb_protocols = ns, gb_machineIds = ms,
                     gb_excludeMachineIds = xs, gb_staticMembers = ss\<rparr>
           | _ \<Rightarrow> None)
      | _ \<Rightarrow> None)"

definition draftSchema :: "json \<Rightarrow> draft option" where
  "draftSchema j =
     (case j of
        JObj ps \<Rightarrow>
          (case (text_schema 0 (1024 * 1024) (jprop ''templateJson'' ps),
                 array_schema 64 bindingSchema (jprop ''bindings'' ps)) of
             (Some t, Some bs) \<Rightarrow> Some \<lparr>dr_templateJson = t, dr_bindings = bs\<rparr>
           | _ \<Rightarrow> None)
      | _ \<Rightarrow> None)"

text \<open>\<open>draftSchema.parse(input)\<close>, and the object that is a draft.\<close>

definition parse_draft :: "json \<Rightarrow> ('s, draft) prog" where
  "parse_draft j = the_or (draftSchema j) ZodError"

definition jstrings :: "string list \<Rightarrow> json" where
  "jstrings xs = JArr (map JStr xs)"

definition binding_json :: "group_binding \<Rightarrow> json" where
  "binding_json b = JObj [(''groupTag'', JStr (gb_groupTag b)), (''regions'', jstrings (gb_regions b)),
     (''tags'', jstrings (gb_tags b)), (''protocols'', jstrings (gb_protocols b)),
     (''machineIds'', jstrings (gb_machineIds b)), (''excludeMachineIds'', jstrings (gb_excludeMachineIds b)),
     (''staticMembers'', jstrings (gb_staticMembers b))]"

definition draft_json :: "draft \<Rightarrow> json" where
  "draft_json d = JObj [(''templateJson'', JStr (dr_templateJson d)),
     (''bindings'', JArr (map binding_json (dr_bindings d)))]"

section \<open>Presets\<close>

definition plain_binding :: "string \<Rightarrow> string list \<Rightarrow> string list \<Rightarrow> group_binding" where
  "plain_binding groupTag wanted staticMembers = \<lparr>gb_groupTag = groupTag, gb_regions = [], gb_tags = wanted,
     gb_protocols = [], gb_machineIds = [], gb_excludeMachineIds = [], gb_staticMembers = staticMembers\<rparr>"

definition endsWith :: "string \<Rightarrow> string \<Rightarrow> bool" where
  "endsWith s e \<longleftrightarrow> length e \<le> length s \<and> drop (length s - length e) s = e"

definition default_binding :: "string \<Rightarrow> group_binding" where
  "default_binding groupTag = plain_binding groupTag
     (if endsWith groupTag ''-ai'' then [''ai''] else if endsWith groupTag ''-game'' then [''game''] else [])
     (if groupTag = ''select'' then [''auto'', ''direct''] else if groupTag = ''select-ai'' then [''auto-ai'']
      else if groupTag = ''select-game'' then [''auto-game''] else [])"

definition defaultDraft :: "string \<Rightarrow> draft" where
  "defaultDraft preset =
     (let template = (if preset = ''mobile''
        then set_prop ''inbounds'' (JArr [JObj [(''type'', JStr ''tun''), (''tag'', JStr ''tun-in''),
               (''address'', JArr [JStr ''172.19.0.1/30'']), (''auto_route'', JBool True),
               (''stack'', JStr ''mixed'')]]) default_template
        else default_template)
      in \<lparr>dr_templateJson = stringify2 0 (JObj template),
          dr_bindings = map default_binding
            [''select'', ''auto'', ''select-ai'', ''auto-ai'', ''select-game'', ''auto-game'']\<rparr>)"

definition legacyDraft :: "snapshot \<Rightarrow> draft" where
  "legacyDraft s =
     (let template = renderClient [] (c_secrets (sn_credentials s)) False;
          outs = JArr [
            JObj [(''type'', JStr ''selector''), (''tag'', JStr ''proxy''), (''default'', JStr ''auto''),
                  (''outbounds'', JArr [])],
            JObj [(''type'', JStr ''urltest''), (''tag'', JStr ''auto''),
                  (''url'', JStr ''https://www.gstatic.com/generate_204''), (''interval'', JStr ''3m''),
                  (''tolerance'', jint 50), (''outbounds'', JArr [])],
            JObj [(''type'', JStr ''direct''), (''tag'', JStr ''direct'')]];
          route = JObj [(''default_domain_resolver'', JStr ''dns-local''), (''final'', JStr ''proxy'')]
      in \<lparr>dr_templateJson = stringify2 0 (JObj (set_prop ''route'' route (set_prop ''outbounds'' outs template))),
          dr_bindings = map (\<lambda>g. plain_binding g [] (if g = ''proxy'' then [''auto''] else []))
            [''proxy'', ''auto'']\<rparr>)"

end
