(* ===== verification/Render.thy ===== *)
theory Render
  imports Template
begin

text \<open>
  \<open>server/subscription/template.ts\<close>: \<open>renderSubscription\<close>, the configuration rendered from a draft, whose graph of
  outbounds is checked before anyone is served with it. Every rejection is the error
  \<open>INVALID_SUBSCRIPTION_CONFIG\<close>; the path and the text in its message are left out. The two recursions over
  the graph have fuel, and theory \<open>Graph\<close> shows that it suffices; the depth of JavaScript's stack is not
  modelled. Machine ids are UUIDs, which \<open>localeCompare\<close> orders like their characters.
\<close>

section \<open>JSON values\<close>

definition invalid_template :: failure where
  "invalid_template = AppError ''INVALID_SUBSCRIPTION_CONFIG'' 422"

text \<open>\<open>object(value)\<close> and \<open>objects(value)\<close>\<close>

definition object :: "json option \<Rightarrow> ('s, (string \<times> json) list) prog" where
  "object v = (case v of Some (JObj ps) \<Rightarrow> return ps | _ \<Rightarrow> throw invalid_template)"

definition objects :: "json option \<Rightarrow> ('s, (string \<times> json) list list) prog" where
  "objects v = (case v of Some (JArr xs) \<Rightarrow> map_prog (\<lambda>x. object (Some x)) xs | _ \<Rightarrow> throw invalid_template)"

text \<open>
  \<open>String(value)\<close> of a parsed value: an object with a property \<open>toString\<close> of its own has no way to become a
  string, and that is a \<open>TypeError\<close>.
\<close>

fun js_String :: "json \<Rightarrow> string option" where
  "js_String JNull = Some ''null''"
| "js_String (JBool b) = Some (if b then ''true'' else ''false'')"
| "js_String (JNum t) = Some t"
| "js_String (JStr s) = Some s"
| "js_String (JArr xs) = map_option (comma_sep '','')
     (those (map (\<lambda>x. if x = JNull then Some [] else js_String x) xs))"
| "js_String (JObj ps) = (if has_own ''toString'' ps then None else Some ''[object Object]'')"

definition String_of :: "json option \<Rightarrow> ('s, string) prog" where
  "String_of v = (case v of None \<Rightarrow> return ''undefined'' | Some j \<Rightarrow> the_or (js_String j) JsError)"

text \<open>The count of nested values, which must not pass 100,000, nor their depth 64.\<close>

primrec fold_option :: "('a \<Rightarrow> 'b \<Rightarrow> 'b option) \<Rightarrow> 'a list \<Rightarrow> 'b \<Rightarrow> 'b option" where
  "fold_option f [] b = Some b"
| "fold_option f (x # xs) b = (case f x b of None \<Rightarrow> None | Some c \<Rightarrow> fold_option f xs c)"

lemma fold_option_cong [fundef_cong]:
  "xs = ys \<Longrightarrow> b = c \<Longrightarrow> (\<And>x a. x \<in> set ys \<Longrightarrow> f x a = g x a) \<Longrightarrow> fold_option f xs b = fold_option g ys c"
  by (induction xs arbitrary: ys b c) (auto split: option.split)

definition enter_value :: "nat \<Rightarrow> nat \<Rightarrow> nat option" where
  "enter_value depth count = (if 64 < depth \<or> 100000 < Suc count then None else Some (Suc count))"

fun bound :: "nat \<Rightarrow> json \<Rightarrow> nat \<Rightarrow> nat option" where
  "bound depth (JArr xs) count =
     (case enter_value depth count of None \<Rightarrow> None | Some n \<Rightarrow> fold_option (\<lambda>x. bound (Suc depth) x) xs n)"
| "bound depth (JObj ps) count =
     (case enter_value depth count of None \<Rightarrow> None
      | Some n \<Rightarrow> fold_option (\<lambda>(k, x). bound (Suc depth) x) ps n)"
| "bound depth _ count = enter_value depth count"

section \<open>Outbounds\<close>

type_synonym outbound = "(string \<times> json) list"
type_synonym tag_map = "(string \<times> outbound) list"

text \<open>\<open>byTag.set\<close>\<close>

fun put_tag :: "string \<Rightarrow> outbound \<Rightarrow> tag_map \<Rightarrow> tag_map" where
  "put_tag t e [] = [(t, e)]"
| "put_tag t e ((t', e') # m) = (if t' = t then (t, e) # m else (t', e') # put_tag t e m)"

definition collect_tag :: "outbound \<Rightarrow> tag_map \<Rightarrow> ('s, tag_map) prog" where
  "collect_tag outbound byTag =
     (case jprop ''tag'' outbound of
        Some (JStr tag) \<Rightarrow>
          bind (require (tag \<noteq> []) invalid_template) (\<lambda>_.
          bind (require (\<not> startsWith tag ''bfc_'') invalid_template) (\<lambda>_.
          bind (require (map_of byTag tag = None) invalid_template) (\<lambda>_.
          return (put_tag tag outbound byTag))))
      | _ \<Rightarrow> throw invalid_template)"

text \<open>The outbounds of the machines: those of \<open>renderClient\<close> for one of them, with a tag of the platform.\<close>

record generated =
  gn_node :: snapshot_node
  gn_protocol :: string
  gn_tag :: string
  gn_outbound :: outbound

definition generated_tag :: "string \<Rightarrow> string \<Rightarrow> string" where
  "generated_tag nodeId protocol = ''bfc_'' @ nodeId @ ''_'' @ protocol"

definition generate_outbound :: "snapshot_node \<Rightarrow> outbound \<Rightarrow> ('s, generated list) prog" where
  "generate_outbound node outbound =
     bind (String_of (jprop ''type'' outbound)) (\<lambda>protocol.
     return (if protocol \<in> set protocol_names
             then [\<lparr>gn_node = node, gn_protocol = protocol, gn_tag = generated_tag (cn_id node) protocol,
                    gn_outbound = set_prop ''tag'' (JStr (generated_tag (cn_id node) protocol)) outbound\<rparr>]
             else []))"

definition rendered_outbounds :: "(string \<times> json) list \<Rightarrow> outbound list" where
  "rendered_outbounds ps = (case jprop ''outbounds'' ps of Some (JArr os) \<Rightarrow> map object_properties os | _ \<Rightarrow> [])"

definition generate_node :: "snapshot \<Rightarrow> snapshot_node \<Rightarrow> ('s, generated list) prog" where
  "generate_node s node =
     bind (map_prog (generate_outbound node)
             (rendered_outbounds (renderClient [client_node.truncate node] (c_secrets (sn_credentials s)) False)))
       (\<lambda>parts. return (concat parts))"

definition available_nodes :: "snapshot \<Rightarrow> snapshot_node list" where
  "available_nodes s = sort_key cn_id (filter sn_available (sn_nodes s))"

definition group_types :: "string list" where
  "group_types = [''selector'', ''urltest'']"

definition is_group :: "outbound \<Rightarrow> ('s, bool) prog" where
  "is_group e = bind (String_of (jprop ''type'' e)) (\<lambda>t. return (t \<in> set group_types))"

section \<open>Bindings\<close>

definition selects :: "group_binding \<Rightarrow> generated \<Rightarrow> bool" where
  "selects b g \<longleftrightarrow>
     (gb_regions b = [] \<or> sn_region (gn_node g) \<in> set (gb_regions b)) \<and>
     list_all (\<lambda>t. t \<in> set (sn_tags (gn_node g))) (gb_tags b) \<and>
     (gb_protocols b = [] \<or> gn_protocol g \<in> set (gb_protocols b)) \<and>
     (gb_machineIds b = [] \<or> cn_id (gn_node g) \<in> set (gb_machineIds b)) \<and>
     cn_id (gn_node g) \<notin> set (gb_excludeMachineIds b)"

text \<open>What the loop over the bindings changes: the outbounds and the members selected for each group.\<close>

type_synonym bound_groups = "tag_map \<times> (string \<times> string list) list"

definition bind_group :: "generated list \<Rightarrow> group_binding \<Rightarrow> bound_groups \<Rightarrow> ('s, bound_groups) prog" where
  "bind_group gs b state = (case state of (byTag, selected) \<Rightarrow>
     bind (require (map_of selected (gb_groupTag b) = None) invalid_template) (\<lambda>_.
     bind (the_or (map_of byTag (gb_groupTag b)) invalid_template) (\<lambda>group.
     bind (is_group group) (\<lambda>ok.
     bind (require ok invalid_template) (\<lambda>_.
     let members = map gn_tag (filter (selects b) gs) in
     bind (require (members \<noteq> []) invalid_template) (\<lambda>_.
     return (put_tag (gb_groupTag b)
               (set_prop ''outbounds'' (jstrings (unique (gb_staticMembers b @ members))) group) byTag,
             selected @ [(gb_groupTag b, members)])))))))"

section \<open>References\<close>

definition known :: "tag_map \<Rightarrow> json \<Rightarrow> bool" where
  "known byTag j = (case j of JStr t \<Rightarrow> map_of byTag t \<noteq> None | _ \<Rightarrow> False)"

definition check_group :: "tag_map \<Rightarrow> outbound \<Rightarrow> ('s, unit) prog" where
  "check_group byTag e =
     bind (is_group e) (\<lambda>group.
     if group then
       (case jprop ''outbounds'' e of
          Some (JArr ms) \<Rightarrow>
            bind (require (ms \<noteq> []) invalid_template) (\<lambda>_.
            bind (require (list_all (known byTag) ms) invalid_template) (\<lambda>_.
            require (case jprop ''default'' e of None \<Rightarrow> True | Some v \<Rightarrow> v \<in> set ms) invalid_template))
        | _ \<Rightarrow> throw invalid_template)
     else return ())"

definition reference_keys :: "string list" where
  "reference_keys = [''outbound'', ''detour'', ''download_detour'', ''external_ui_download_detour'']"

fun walk :: "(json \<Rightarrow> bool) \<Rightarrow> json \<Rightarrow> bool" where
  "walk ok (JArr xs) = list_all (\<lambda>x. walk ok x) xs"
| "walk ok (JObj ps) = list_all (\<lambda>(k, v). (k \<in> set reference_keys \<longrightarrow> ok v) \<and> walk ok v) ps"
| "walk ok _ = True"

definition check_route :: "tag_map \<Rightarrow> (string \<times> json) list \<Rightarrow> ('s, unit) prog" where
  "check_route byTag result =
     bind (case jprop ''route'' result of None \<Rightarrow> return [] | Some r \<Rightarrow> object (Some r)) (\<lambda>route.
     require (case jprop ''final'' route of None \<Rightarrow> True | Some v \<Rightarrow> known byTag v) invalid_template)"

section \<open>Cycles\<close>

text \<open>The values an outbound refers to: its \<open>outbounds\<close>, if they are an array, and its \<open>detour\<close>.\<close>

definition targets :: "outbound \<Rightarrow> json list" where
  "targets e =
     (case jprop ''outbounds'' e of Some (JArr ms) \<Rightarrow> ms | _ \<Rightarrow> []) @
     (case jprop ''detour'' e of Some (JStr t) \<Rightarrow> [JStr t] | _ \<Rightarrow> [])"

text \<open>
  \<open>visit\<close>: the sets \<open>visiting\<close> and \<open>visited\<close> are lists with their last element first. \<open>None\<close> is
  the end of the fuel.
\<close>

type_synonym visits = "string list \<times> string list"

fun visit_all :: "(string \<Rightarrow> visits \<Rightarrow> (failure + visits) option) \<Rightarrow> json list \<Rightarrow> visits \<Rightarrow> (failure + visits) option" where
  "visit_all f [] s = Some (Inr s)"
| "visit_all f (j # js) s =
     (case js_String j of
        None \<Rightarrow> Some (Inl JsError)
      | Some t \<Rightarrow> (case f t s of Some (Inr u) \<Rightarrow> visit_all f js u | r \<Rightarrow> r))"

primrec visit :: "nat \<Rightarrow> tag_map \<Rightarrow> string \<Rightarrow> visits \<Rightarrow> (failure + visits) option" where
  "visit 0 byTag tag s = None"
| "visit (Suc n) byTag tag s = (case s of (visiting, visited) \<Rightarrow>
     if tag \<in> set visiting then Some (Inl invalid_template)
     else if tag \<in> set visited then Some (Inr s)
     else case map_of byTag tag of
            None \<Rightarrow> Some (Inl JsError)
          | Some e \<Rightarrow>
              (case visit_all (visit n byTag) (targets e) (tag # visiting, visited) of
                 Some (Inr (visiting', visited')) \<Rightarrow> Some (Inr (removeAll tag visiting', tag # visited'))
               | r \<Rightarrow> r))"

definition visit_tags :: "tag_map \<Rightarrow> (failure + visits) option" where
  "visit_tags byTag = visit_all (visit (Suc (length byTag)) byTag) (map (\<lambda>(t, e). JStr t) byTag) ([], [])"

section \<open>Managed leaves\<close>

text \<open>\<open>managedLeaves\<close> with its cache; a set is the list of its elements.\<close>

type_synonym leaf_cache = "(string \<times> string list) list"

fun leaves_all ::
  "(string \<Rightarrow> leaf_cache \<Rightarrow> (failure + string list \<times> leaf_cache) option) \<Rightarrow> json list \<Rightarrow> string list \<Rightarrow> leaf_cache \<Rightarrow>
   (failure + string list \<times> leaf_cache) option" where
  "leaves_all f [] found cache = Some (Inr (found, cache))"
| "leaves_all f (j # js) found cache =
     (case js_String j of
        None \<Rightarrow> Some (Inl JsError)
      | Some t \<Rightarrow> (case f t cache of
          Some (Inr (ls, cache')) \<Rightarrow> leaves_all f js (List.union ls found) cache'
        | r \<Rightarrow> r))"

primrec managedLeaves ::
  "nat \<Rightarrow> tag_map \<Rightarrow> string \<Rightarrow> leaf_cache \<Rightarrow> (failure + string list \<times> leaf_cache) option" where
  "managedLeaves 0 byTag tag cache = None"
| "managedLeaves (Suc n) byTag tag cache =
     (case map_of cache tag of
        Some ls \<Rightarrow> Some (Inr (ls, cache))
      | None \<Rightarrow>
          (case map_of byTag tag of
             None \<Rightarrow> Some (Inl JsError)
           | Some e \<Rightarrow>
               (case leaves_all (managedLeaves n byTag) (targets e) (if startsWith tag ''bfc_'' then [tag] else []) cache of
                  Some (Inr (ls, cache')) \<Rightarrow> Some (Inr (ls, (tag, ls) # cache'))
                | r \<Rightarrow> r)))"

text \<open>No group reaches a machine that its binding did not select.\<close>

definition check_leaves ::
  "tag_map \<Rightarrow> (string \<times> string list) list \<Rightarrow> group_binding \<Rightarrow> leaf_cache \<Rightarrow> ('s, leaf_cache) prog" where
  "check_leaves byTag selected b cache =
     bind (the_or (managedLeaves (Suc (length byTag)) byTag (gb_groupTag b) cache) JsError) (\<lambda>outcome.
     bind (lift_sum outcome) (\<lambda>(ls, cache').
     bind (require (list_all (\<lambda>t. t \<in> set (the (map_of selected (gb_groupTag b)))) ls) invalid_template) (\<lambda>_.
     return cache')))"

section \<open>Rendering\<close>

record render_result =
  rd_configJson :: string
  rd_nodeCount :: int

definition parse_template :: "platform \<Rightarrow> draft \<Rightarrow> ('s, (string \<times> json) list) prog" where
  "parse_template P d =
     bind (the_or (p_jsonParse P (dr_templateJson d)) invalid_template) (\<lambda>parsed.
     bind (require (bound 0 parsed 0 \<noteq> None) invalid_template) (\<lambda>_.
     object (Some parsed)))"

text \<open>
  The checks of the finished graph. The objects of \<open>result.outbounds\<close> are those of the map, the ones of
  the template first.
\<close>

definition check_graph :: "group_binding list \<Rightarrow> bound_groups \<Rightarrow> (string \<times> json) list \<Rightarrow> ('s, unit) prog" where
  "check_graph bs state result = (case state of (byTag, selected) \<Rightarrow>
     bind (for_each (map snd byTag) (check_group byTag)) (\<lambda>_.
     bind (require (walk (known byTag) (JObj result)) invalid_template) (\<lambda>_.
     bind (check_route byTag result) (\<lambda>_.
     bind (the_or (visit_tags byTag) JsError) (\<lambda>outcome.
     bind (lift_sum outcome) (\<lambda>_.
     bind (fold_each bs [] (check_leaves byTag selected)) (\<lambda>_.
     return ())))))))"

definition renderSubscription :: "platform \<Rightarrow> json \<Rightarrow> snapshot \<Rightarrow> ('s, render_result) prog" where
  "renderSubscription P input s =
     bind (parse_draft input) (\<lambda>d.
     bind (require (\<not> sn_blocked s) (AppError ''SUBSCRIPTION_BLOCKED'' 403)) (\<lambda>_.
     bind (parse_template P d) (\<lambda>parsed.
     bind (objects (jprop ''outbounds'' parsed)) (\<lambda>outs.
     let available = available_nodes s in
     bind (require (available \<noteq> []) invalid_template) (\<lambda>_.
     bind (fold_each outs [] collect_tag) (\<lambda>own.
     bind (map_prog (generate_node s) available) (\<lambda>parts.
     let gs = concat parts in
     bind (fold_each (dr_bindings d) (foldl (\<lambda>m g. put_tag (gn_tag g) (gn_outbound g) m) own gs, []) (bind_group gs))
       (\<lambda>state.
     let result = set_prop ''outbounds''
           (JArr (map JObj (map snd (take (length outs) (fst state)) @ map gn_outbound gs))) parsed in
     bind (check_graph (dr_bindings d) state result) (\<lambda>_.
     return \<lparr>rd_configJson = jsonBytes (JObj result), rd_nodeCount = int (length available)\<rparr>)))))))))"

end
