(* ===== verification/Subscriptions.thy ===== *)
theory Subscriptions
  imports Render
begin

text \<open>
  \<open>server/subscription/profiles.ts\<close> and \<open>server/subscription/store.ts\<close>: the named subscriptions of an account, each
  with a draft, what was published of it and a token, and the one token every account has had before,
  which lives on as the subscription \<open>default:<user>\<close>. The localized name of that one is written in
  English, and where the code keeps the message of an error, the model keeps its code.
\<close>

section \<open>Rows\<close>

definition legacy_id :: "string \<Rightarrow> string" where
  "legacy_id userId = ''default:'' @ userId"

definition find_subscription :: "string \<Rightarrow> database \<Rightarrow> subscription_row option" where
  "find_subscription i d = find (\<lambda>s. sb_id s = i) (subscriptions d)"

definition own_subscription :: "string \<Rightarrow> string \<Rightarrow> database \<Rightarrow> subscription_row option" where
  "own_subscription userId i d =
     find (\<lambda>s. sb_id s = i \<and> sb_userId s = userId \<and> sb_deletedAt s = None) (subscriptions d)"

text \<open>The unique indexes: the id, the hash of the token, and the request key of an account.\<close>

definition same_subscription :: "subscription_row \<Rightarrow> subscription_row \<Rightarrow> bool" where
  "same_subscription row s \<longleftrightarrow> sb_id s = sb_id row \<or> sb_tokenHash s = sb_tokenHash row \<or>
     (sb_userId s = sb_userId row \<and> sb_requestKey s = sb_requestKey row)"

definition insert_subscription :: "subscription_row \<Rightarrow> unit app" where
  "insert_subscription row =
     bind (db_get (\<lambda>d. has_row (same_subscription row) (subscriptions d))) (\<lambda>taken.
     bind (require (\<not> taken) SqlError) (\<lambda>_.
     db_run (subscriptions_update (\<lambda>t. t @ [row]))))"

definition update_subscription :: "string \<Rightarrow> (subscription_row \<Rightarrow> subscription_row) \<Rightarrow> unit app" where
  "update_subscription i f = db_run (subscriptions_update (update_where (\<lambda>s. sb_id s = i) f))"

text \<open>An update of the token: the unique hash.\<close>

definition update_subscription_token ::
  "string \<Rightarrow> string \<Rightarrow> (subscription_row \<Rightarrow> subscription_row) \<Rightarrow> unit app" where
  "update_subscription_token i hash f =
     bind (db_get (\<lambda>d. has_row (\<lambda>s. sb_id s = i) (subscriptions d) \<and>
                        has_row (\<lambda>s. sb_id s \<noteq> i \<and> sb_tokenHash s = hash) (subscriptions d))) (\<lambda>taken.
     bind (require (\<not> taken) SqlError) (\<lambda>_.
     update_subscription i (\<lambda>s. (f s)\<lparr>sb_tokenHash := hash\<rparr>)))"

definition update_legacy_token ::
  "string \<Rightarrow> string \<Rightarrow> (subscription_token_row \<Rightarrow> subscription_token_row) \<Rightarrow> unit app" where
  "update_legacy_token userId hash f =
     bind (db_get (\<lambda>d. has_row (\<lambda>s. st_userId s = userId) (subscriptionTokens d) \<and>
                        has_row (\<lambda>s. st_userId s \<noteq> userId \<and> st_tokenHash s = hash) (subscriptionTokens d))) (\<lambda>taken.
     bind (require (\<not> taken) SqlError) (\<lambda>_.
     db_run (subscriptionTokens_update
       (update_where (\<lambda>s. st_userId s = userId) (\<lambda>s. (f s)\<lparr>st_tokenHash := hash\<rparr>)))))"

section \<open>The subscription of before\<close>

definition legacy_row :: "string \<Rightarrow> string \<Rightarrow> subscription_token_row \<Rightarrow> subscription_row" where
  "legacy_row userId ciphertext token = \<lparr>sb_id = legacy_id userId, sb_userId = userId,
     sb_name = ''default subscription'', sb_preset = ''legacy'', sb_requestKey = ''legacy'',
     sb_draftCiphertext = ciphertext, sb_publishedCiphertext = None, sb_version = 1, sb_publishedVersion = 1,
     sb_legacy = True, sb_tokenHash = st_tokenHash token, sb_tokenCiphertext = st_tokenCiphertext token,
     sb_generation = st_generation token, sb_enabled = True, sb_createdAt = st_changedAt token,
     sb_updatedAt = st_changedAt token, sb_lastFetchedAt = None, sb_deletedAt = None\<rparr>"

definition create_legacy :: "platform \<Rightarrow> string \<Rightarrow> subscription_token_row \<Rightarrow> unit app" where
  "create_legacy P userId token =
     bind (subscriptionSnapshot P userId) (\<lambda>s.
     bind (encryptSecret P (stringify (draft_json (legacyDraft s)))) (\<lambda>ciphertext.
     let row = legacy_row userId ciphertext token in
     db_run (subscriptions_update (insert_new (same_subscription row) row))))"

definition ensureLegacy :: "platform \<Rightarrow> string \<Rightarrow> unit app" where
  "ensureLegacy P userId =
     bind (db_get (find_subscription_token userId)) (\<lambda>found.
     case found of
       None \<Rightarrow> return ()
     | Some token \<Rightarrow>
         bind (db_get (\<lambda>d. find_subscription (legacy_id userId) d \<noteq> None)) (\<lambda>exists.
         if exists then return () else create_legacy P userId token))"

definition syncLegacyToken :: "string \<Rightarrow> unit app" where
  "syncLegacyToken userId =
     bind (db_get (find_subscription_token userId)) (\<lambda>found.
     case found of
       None \<Rightarrow> return ()
     | Some token \<Rightarrow>
         update_subscription_token (legacy_id userId) (st_tokenHash token)
           (\<lambda>s. s\<lparr>sb_tokenCiphertext := st_tokenCiphertext token, sb_generation := st_generation token\<rparr>))"

section \<open>Reading a subscription\<close>

definition subscription_row_of :: "string \<Rightarrow> string \<Rightarrow> subscription_row app" where
  "subscription_row_of userId i =
     bind (db_get (own_subscription userId i)) (\<lambda>found.
     the_or found (AppError ''SUBSCRIPTION_NOT_FOUND'' 404))"

definition checkVersion :: "subscription_row \<Rightarrow> int \<Rightarrow> ('s, unit) prog" where
  "checkVersion row expected = require (sb_version row = expected) (AppError ''VERSION_CONFLICT'' 409)"

text \<open>\<open>JSON.parse(decryptSecret(text))\<close>\<close>

definition read_json :: "platform \<Rightarrow> string \<Rightarrow> ('s, json) prog" where
  "read_json P ciphertext =
     bind (lift_sum (decryptSecret P ciphertext)) (\<lambda>plain. the_or (p_jsonParse P plain) JsError)"

text \<open>What a client got before there were templates.\<close>

definition legacy_config :: "snapshot \<Rightarrow> render_result" where
  "legacy_config s =
     (let nodes = filter sn_available (sn_nodes s)
      in \<lparr>rd_configJson = jsonBytes (JObj (renderClient (map client_node.truncate nodes)
            (c_secrets (sn_credentials s)) (sn_blocked s))),
          rd_nodeCount = (if sn_blocked s then 0 else int (length nodes))\<rparr>)"

definition render_row :: "platform \<Rightarrow> subscription_row \<Rightarrow> render_result app" where
  "render_row P row =
     bind (subscriptionSnapshot P (sb_userId row)) (\<lambda>s.
     bind (require (u_status (q_user (sn_quota s)) = Active) (AppError ''SUBSCRIPTION_DISABLED'' 403)) (\<lambda>_.
     if sb_legacy row \<and> \<not> truthy (sb_publishedCiphertext row) then return (legacy_config s)
     else
       bind (require (truthy (sb_publishedCiphertext row)) (AppError ''SUBSCRIPTION_UNPUBLISHED'' 422)) (\<lambda>_.
       bind (read_json P (the (sb_publishedCiphertext row))) (\<lambda>j.
       renderSubscription P j s))))"

record profile_dto =
  pd_id :: string
  pd_name :: string
  pd_preset :: string
  pd_version :: int
  pd_publishedVersion :: int
  pd_enabled :: bool
  pd_legacy :: bool
  pd_generation :: int
  pd_url :: string
  pd_draft :: "draft option"
  pd_configJson :: string
  pd_generationError :: string
  pd_nodeCount :: int
  pd_lastFetchedAt :: "int option"

text \<open>The \<open>try\<close> block: an \<open>AppError\<close> becomes a text, everything else is thrown on.\<close>

definition try_render :: "platform \<Rightarrow> subscription_row \<Rightarrow> (render_result \<times> string) app" where
  "try_render P row = attempt (bind (render_row P row) (\<lambda>r. return (r, [])))
     (\<lambda>e. case e of AppError code status \<Rightarrow> return (\<lparr>rd_configJson = [], rd_nodeCount = 0\<rparr>, code) | _ \<Rightarrow> throw e)"

definition subscription_url :: "platform \<Rightarrow> string \<Rightarrow> ('s, string) prog" where
  "subscription_url P ciphertext =
     bind (lift_sum (decryptSecret P ciphertext)) (\<lambda>token. return (p_publicUrl P @ ''/s/'' @ token))"

definition profile_dto_of :: "platform \<Rightarrow> bool \<Rightarrow> subscription_row \<Rightarrow> profile_dto app" where
  "profile_dto_of P full row =
     bind (try_render P row) (\<lambda>(r, generationError).
     bind (if full then subscription_url P (sb_tokenCiphertext row) else return []) (\<lambda>url.
     bind (if full
           then bind (read_json P (sb_draftCiphertext row)) (\<lambda>j. bind (parse_draft j) (\<lambda>d. return (Some d)))
           else return None) (\<lambda>d.
     return \<lparr>pd_id = sb_id row, pd_name = sb_name row, pd_preset = sb_preset row, pd_version = sb_version row,
       pd_publishedVersion = sb_publishedVersion row, pd_enabled = sb_enabled row, pd_legacy = sb_legacy row,
       pd_generation = sb_generation row, pd_url = url, pd_draft = d,
       pd_configJson = (if full then rd_configJson r else []), pd_generationError = generationError,
       pd_nodeCount = rd_nodeCount r, pd_lastFetchedAt = sb_lastFetchedAt row\<rparr>)))"

definition own_subscriptions :: "string \<Rightarrow> database \<Rightarrow> subscription_row list" where
  "own_subscriptions userId d = filter (\<lambda>s. sb_userId s = userId \<and> sb_deletedAt s = None) (subscriptions d)"

definition profile_list :: "platform \<Rightarrow> string \<Rightarrow> profile_dto list app" where
  "profile_list P userId =
     bind (ensureLegacy P userId) (\<lambda>_.
     bind (db_get (\<lambda>d. sort_key sb_createdAt (sort_key sb_id (own_subscriptions userId d)))) (\<lambda>rows.
     map_prog (profile_dto_of P False) rows))"

definition profile_get :: "platform \<Rightarrow> string \<Rightarrow> string \<Rightarrow> profile_dto app" where
  "profile_get P userId i = bind (subscription_row_of userId i) (profile_dto_of P True)"

end
