(* ===== verification/Subscription_Ops.thy ===== *)
theory Subscription_Ops
  imports Subscriptions
begin

text \<open>
  The operations of \<open>server/subscription/profiles.ts\<close> that write, \<open>byToken\<close>, which answers a client, and
  \<open>server/subscription/store.ts\<close>.
\<close>

section \<open>Drafts\<close>

record profile_input =
  fi_name :: string
  fi_preset :: string
  fi_requestKey :: string
  fi_copyFromId :: "string option"

definition new_subscription_row ::
  "string \<Rightarrow> string \<Rightarrow> string \<Rightarrow> string \<Rightarrow> string \<Rightarrow> string \<Rightarrow> string \<Rightarrow> string \<Rightarrow> int \<Rightarrow> subscription_row" where
  "new_subscription_row i userId name preset requestKey draftCiphertext hash tokenCiphertext now =
     \<lparr>sb_id = i, sb_userId = userId, sb_name = name, sb_preset = preset, sb_requestKey = requestKey,
      sb_draftCiphertext = draftCiphertext, sb_publishedCiphertext = None, sb_version = 1, sb_publishedVersion = 0,
      sb_legacy = False, sb_tokenHash = hash, sb_tokenCiphertext = tokenCiphertext, sb_generation = 1,
      sb_enabled = True, sb_createdAt = now, sb_updatedAt = now, sb_lastFetchedAt = None, sb_deletedAt = None\<rparr>"

definition add_subscription :: "platform \<Rightarrow> string \<Rightarrow> string \<Rightarrow> string \<Rightarrow> profile_input \<Rightarrow> profile_dto app" where
  "add_subscription P userId name preset input =
     bind (db_get (\<lambda>d. length (own_subscriptions userId d))) (\<lambda>n.
     bind (require (n < 20) (AppError ''SUBSCRIPTION_LIMIT'' 422)) (\<lambda>_.
     bind (if truthy (fi_copyFromId input)
           then bind (subscription_row_of userId (the (fi_copyFromId input))) (\<lambda>row. return (Some row))
           else return None) (\<lambda>source.
     bind (newToken P ''bf_sub_'') (\<lambda>token.
     bind (newId P) (\<lambda>i.
     bind Date_now (\<lambda>now.
     bind (case source of Some row \<Rightarrow> return (sb_draftCiphertext row)
           | None \<Rightarrow> encryptSecret P (stringify (draft_json (defaultDraft preset)))) (\<lambda>draftCiphertext.
     bind (encryptSecret P token) (\<lambda>tokenCiphertext.
     bind (insert_subscription (new_subscription_row i userId name
             (case source of Some row \<Rightarrow> sb_preset row | None \<Rightarrow> preset) (fi_requestKey input) draftCiphertext
             (tokenHash P token) tokenCiphertext now)) (\<lambda>_.
     profile_get P userId i)))))))))"

definition presets :: "string list" where
  "presets = [''desktop'', ''mobile'']"

definition profile_create :: "platform \<Rightarrow> string \<Rightarrow> profile_input \<Rightarrow> profile_dto app" where
  "profile_create P userId input =
     bind (text_input 1 64 (fi_name input)) (\<lambda>name.
     bind (require (p_isUuid P (fi_requestKey input)) ZodError) (\<lambda>_.
     bind (require (fi_preset input \<in> set presets) ZodError) (\<lambda>_.
     transaction (
       bind (ensureLegacy P userId) (\<lambda>_.
       bind (db_get (\<lambda>d. find (\<lambda>s. sb_userId s = userId \<and> sb_requestKey s = fi_requestKey input) (subscriptions d)))
         (\<lambda>previous.
       case previous of
         Some row \<Rightarrow> profile_get P userId (sb_id row)
       | None \<Rightarrow> add_subscription P userId name (fi_preset input) input))))))"

definition profile_save :: "platform \<Rightarrow> string \<Rightarrow> string \<Rightarrow> int \<Rightarrow> string \<Rightarrow> json \<Rightarrow> profile_dto app" where
  "profile_save P userId i expectedVersion name input =
     bind (parse_draft input) (\<lambda>d.
     transaction (
       bind (subscription_row_of userId i) (\<lambda>row.
       bind (checkVersion row expectedVersion) (\<lambda>_.
       bind (text_input 1 64 name) (\<lambda>trimmed.
       bind (encryptSecret P (stringify (draft_json d))) (\<lambda>ciphertext.
       bind Date_now (\<lambda>now.
       bind (update_subscription i (\<lambda>s. s\<lparr>sb_name := trimmed, sb_draftCiphertext := ciphertext,
               sb_version := sb_version row + 1, sb_updatedAt := now\<rparr>)) (\<lambda>_.
       profile_get P userId i))))))))"

section \<open>Preview and publication\<close>

record preview_result =
  pp_configJson :: string
  pp_nodeCount :: int
  pp_previewId :: string
  pp_digest :: string
  pp_expiresAt :: int

definition find_profile_preview :: "string \<Rightarrow> string \<Rightarrow> database \<Rightarrow> subscription_preview_row option" where
  "find_profile_preview previewId i d =
     find (\<lambda>p. sp_id p = previewId \<and> sp_subscriptionId p = i) (subscriptionPreviews d)"

definition insert_profile_preview :: "subscription_preview_row \<Rightarrow> unit app" where
  "insert_profile_preview row =
     bind (db_get (\<lambda>d. has_row (\<lambda>p. sp_id p = sp_id row) (subscriptionPreviews d))) (\<lambda>taken.
     bind (require (\<not> taken) SqlError) (\<lambda>_.
     db_run (subscriptionPreviews_update (\<lambda>t. t @ [row]))))"

definition profile_preview :: "platform \<Rightarrow> string \<Rightarrow> string \<Rightarrow> int \<Rightarrow> preview_result app" where
  "profile_preview P userId i expectedVersion =
     bind (subscription_row_of userId i) (\<lambda>row.
     bind (checkVersion row expectedVersion) (\<lambda>_.
     bind (read_json P (sb_draftCiphertext row)) (\<lambda>j.
     bind (parse_draft j) (\<lambda>d.
     bind (subscriptionSnapshot P userId) (\<lambda>s.
     bind (renderSubscription P (draft_json d) s) (\<lambda>result.
     bind (newId P) (\<lambda>previewId.
     bind Date_now (\<lambda>now.
     let expiresAt = now + 5 * 60000; digest = sha256 P (rd_configJson result) in
     bind (transaction (
       bind (db_run (subscriptionPreviews_update (delete_where (\<lambda>p. sp_expiresAt p < now - 24 * 60 * 60000)))) (\<lambda>_.
       insert_profile_preview \<lparr>sp_id = previewId, sp_subscriptionId = i, sp_version = sb_version row,
         sp_digest = digest, sp_expiresAt = expiresAt, sp_published = False\<rparr>))) (\<lambda>_.
     return \<lparr>pp_configJson = rd_configJson result, pp_nodeCount = rd_nodeCount result, pp_previewId = previewId,
       pp_digest = digest, pp_expiresAt = expiresAt\<rparr>)))))))))"

definition publish_row :: "subscription_row \<Rightarrow> int \<Rightarrow> subscription_row \<Rightarrow> subscription_row" where
  "publish_row row now s = s\<lparr>sb_publishedCiphertext := Some (sb_draftCiphertext row),
     sb_publishedVersion := sb_version row + 1, sb_version := sb_version row + 1, sb_legacy := False, sb_updatedAt := now\<rparr>"

definition publish_draft ::
  "platform \<Rightarrow> string \<Rightarrow> string \<Rightarrow> subscription_row \<Rightarrow> subscription_preview_row \<Rightarrow> profile_dto app" where
  "publish_draft P userId i row preview =
     bind Date_now (\<lambda>now.
     bind (require (sp_version preview = sb_version row \<and> now < sp_expiresAt preview) (AppError ''PREVIEW_EXPIRED'' 409)) (\<lambda>_.
     bind (read_json P (sb_draftCiphertext row)) (\<lambda>j.
     bind (subscriptionSnapshot P userId) (\<lambda>s.
     bind (renderSubscription P j s) (\<lambda>current.
     bind (require (sha256 P (rd_configJson current) = sp_digest preview) (AppError ''STALE_POLICY'' 409)) (\<lambda>_.
     bind (update_subscription i (publish_row row now)) (\<lambda>_.
     bind (db_run (subscriptionPreviews_update (update_where (\<lambda>p. sp_id p = sp_id preview) (\<lambda>p. p\<lparr>sp_published := True\<rparr>)))) (\<lambda>_.
     profile_get P userId i))))))))"

definition profile_publish :: "platform \<Rightarrow> string \<Rightarrow> string \<Rightarrow> int \<Rightarrow> string \<Rightarrow> profile_dto app" where
  "profile_publish P userId i expectedVersion previewId = transaction (
     bind (subscription_row_of userId i) (\<lambda>row.
     bind (db_get (find_profile_preview previewId i)) (\<lambda>found.
     bind (the_or found (AppError ''PREVIEW_NOT_FOUND'' 422)) (\<lambda>preview.
     if sp_published preview then profile_get P userId i
     else bind (checkVersion row expectedVersion) (\<lambda>_. publish_draft P userId i row preview)))))"

section \<open>Pausing, resuming, rotating, deleting\<close>

definition profile_actions :: "string list" where
  "profile_actions = [''pause'', ''resume'', ''rotate'', ''delete'']"

definition act_on_row :: "string \<Rightarrow> int \<Rightarrow> subscription_row \<Rightarrow> subscription_row \<Rightarrow> subscription_row" where
  "act_on_row action now row s =
     (let t = s\<lparr>sb_version := sb_version row + 1, sb_updatedAt := now\<rparr>
      in if action = ''pause'' then t\<lparr>sb_enabled := False\<rparr>
         else if action = ''resume'' then t\<lparr>sb_enabled := True\<rparr>
         else if action = ''delete'' then t\<lparr>sb_deletedAt := Some now, sb_enabled := False\<rparr>
         else t)"

definition rotate_token :: "platform \<Rightarrow> string \<Rightarrow> string \<Rightarrow> subscription_row \<Rightarrow> int \<Rightarrow> unit app" where
  "rotate_token P userId i row now =
     bind (newToken P ''bf_sub_'') (\<lambda>token.
     bind (encryptSecret P token) (\<lambda>ciphertext.
     bind (update_subscription_token i (tokenHash P token)
             (\<lambda>s. (act_on_row ''rotate'' now row s)\<lparr>sb_tokenCiphertext := ciphertext, sb_generation := sb_generation row + 1\<rparr>))
       (\<lambda>_.
     if i = legacy_id userId
     then update_legacy_token userId (tokenHash P token)
            (\<lambda>s. s\<lparr>st_tokenCiphertext := ciphertext, st_generation := sb_generation row + 1, st_changedAt := now\<rparr>)
     else return ())))"

definition profile_update :: "platform \<Rightarrow> string \<Rightarrow> string \<Rightarrow> int \<Rightarrow> string \<Rightarrow> profile_dto app" where
  "profile_update P userId i expectedVersion action =
     bind (require (action \<in> set profile_actions) ZodError) (\<lambda>_.
     transaction (
       bind (subscription_row_of userId i) (\<lambda>row.
       bind (checkVersion row expectedVersion) (\<lambda>_.
       bind Date_now (\<lambda>now.
       bind (if action = ''rotate'' then rotate_token P userId i row now
             else update_subscription i (act_on_row action now row)) (\<lambda>_.
       bind (db_get (find_subscription i)) (\<lambda>updated.
       bind (the_or updated JsError) (profile_dto_of P True))))))))"

section \<open>The answer to a client\<close>

definition is_subscription_token :: "string \<Rightarrow> bool" where
  "is_subscription_token t \<longleftrightarrow> take 7 t = ''bf_sub_'' \<and> matches is_token_char 43 43 (drop 7 t)"

definition by_hash :: "string \<Rightarrow> database \<Rightarrow> subscription_row option" where
  "by_hash hash d = find (\<lambda>s. sb_tokenHash s = hash) (subscriptions d)"

definition adopt_legacy :: "platform \<Rightarrow> string \<Rightarrow> subscription_row option \<Rightarrow> subscription_row option app" where
  "adopt_legacy P hash found =
     (case found of
        Some row \<Rightarrow> return (Some row)
      | None \<Rightarrow>
          bind (db_get (\<lambda>d. find (\<lambda>s. st_tokenHash s = hash) (subscriptionTokens d))) (\<lambda>legacy.
          case legacy of
            None \<Rightarrow> return None
          | Some token \<Rightarrow> bind (ensureLegacy P (st_userId token)) (\<lambda>_. db_get (by_hash hash))))"

definition byToken :: "platform \<Rightarrow> string \<Rightarrow> string app" where
  "byToken P token =
     bind (require (is_subscription_token token) (AppError ''SUBSCRIPTION_NOT_FOUND'' 404)) (\<lambda>_.
     let hash = tokenHash P token in
     bind (db_get (by_hash hash)) (\<lambda>found.
     bind (adopt_legacy P hash found) (\<lambda>known.
     bind (the_or (case known of Some row \<Rightarrow> if sb_deletedAt row = None then Some row else None | None \<Rightarrow> None)
             (AppError ''SUBSCRIPTION_NOT_FOUND'' 404)) (\<lambda>row.
     bind (require (sb_enabled row) (AppError ''SUBSCRIPTION_PAUSED'' 403)) (\<lambda>_.
     bind (render_row P row) (\<lambda>result.
     bind Date_now (\<lambda>now.
     bind (update_subscription (sb_id row) (\<lambda>s. s\<lparr>sb_lastFetchedAt := Some now\<rparr>)) (\<lambda>_.
     return (rd_configJson result)))))))))"

section \<open>The account's own subscription\<close>

datatype block_reason = BlockedDisabled | BlockedQuota
datatype node_state = NodePending | NodeApplied

record subscription_node_dto =
  nd_machineId :: string
  nd_name :: string
  nd_address :: string
  nd_region :: string
  nd_tags :: "string list"
  nd_protocols :: "string list"
  nd_configurationState :: node_state
  nd_available :: bool

record subscription_dto =
  sd_url :: string
  sd_generation :: int
  sd_credentialGeneration :: int
  sd_configFormatVersion :: string
  sd_blocked :: bool
  sd_blockReason :: "block_reason option"
  sd_nodes :: "subscription_node_dto list"
  sd_configJson :: string

definition CONFIG_FORMAT_VERSION :: string where
  "CONFIG_FORMAT_VERSION = ''1.14.0''"

definition node_dto :: "snapshot_node \<Rightarrow> subscription_node_dto" where
  "node_dto n = \<lparr>nd_machineId = cn_id n, nd_name = cn_name n, nd_address = cn_address n, nd_region = sn_region n,
     nd_tags = sn_tags n, nd_protocols = protocol_names,
     nd_configurationState = (if sn_applied n then NodeApplied else NodePending), nd_available = sn_available n\<rparr>"

definition subscription_get :: "platform \<Rightarrow> string \<Rightarrow> subscription_dto app" where
  "subscription_get P userId =
     bind (readProxyCredentials P userId) (\<lambda>credentials.
     bind (db_get (find_subscription_token userId)) (\<lambda>found.
     bind (the_or found (AppError ''SUBSCRIPTION_NOT_READY'' 409)) (\<lambda>token.
     bind (subscriptionSnapshot P userId) (\<lambda>s.
     bind (subscription_url P (st_tokenCiphertext token)) (\<lambda>url.
     return \<lparr>sd_url = url, sd_generation = st_generation token, sd_credentialGeneration = c_generation credentials,
       sd_configFormatVersion = CONFIG_FORMAT_VERSION, sd_blocked = sn_blocked s,
       sd_blockReason = (if u_status (q_user (sn_quota s)) \<noteq> Active then Some BlockedDisabled
                         else if q_blocked (sn_quota s) then Some BlockedQuota else None),
       sd_nodes = (if sn_blocked s then [] else map node_dto (sn_nodes s)),
       sd_configJson = jsonBytes (JObj (renderClient (map client_node.truncate (filter sn_available (sn_nodes s)))
         (c_secrets credentials) (sn_blocked s)))\<rparr>)))))"

definition replace_legacy_token :: "platform \<Rightarrow> string \<Rightarrow> string \<Rightarrow> unit app" where
  "replace_legacy_token P userId token = transaction (
     bind (db_get (find_subscription_token userId)) (\<lambda>found.
     bind (the_or found (AppError ''SUBSCRIPTION_NOT_READY'' 409)) (\<lambda>previous.
     bind (encryptSecret P token) (\<lambda>ciphertext.
     bind Date_now (\<lambda>now.
     update_legacy_token userId (tokenHash P token)
       (\<lambda>s. s\<lparr>st_tokenCiphertext := ciphertext, st_generation := st_generation previous + 1, st_changedAt := now\<rparr>))))))"

definition subscription_resetToken :: "platform \<Rightarrow> string \<Rightarrow> subscription_dto app" where
  "subscription_resetToken P userId =
     bind (ensureLegacy P userId) (\<lambda>_.
     bind (newToken P ''bf_sub_'') (\<lambda>token.
     bind (replace_legacy_token P userId token) (\<lambda>_.
     bind (syncLegacyToken userId) (\<lambda>_.
     subscription_get P userId))))"

definition replace_credentials :: "platform \<Rightarrow> string \<Rightarrow> unit app" where
  "replace_credentials P userId = transaction (
     bind (readProxyCredentials P userId) (\<lambda>previous.
     bind (newToken P []) (\<lambda>trojan.
     bind (newToken P []) (\<lambda>hysteria2.
     bind (encryptSecret P (stringify (JObj [(''trojanPassword'', JStr trojan), (''hysteria2Password'', JStr hysteria2)])))
       (\<lambda>ciphertext.
     bind Date_now (\<lambda>now.
     db_run (proxyCredentials_update (update_where
       (\<lambda>c. pc_userId c = userId \<and> pc_generation c = c_generation previous)
       (\<lambda>c. c\<lparr>pc_secretsCiphertext := ciphertext, pc_generation := c_generation previous + 1, pc_changedAt := now\<rparr>)))))))))"

definition subscription_resetProxyCredentials :: "platform \<Rightarrow> string \<Rightarrow> subscription_dto app" where
  "subscription_resetProxyCredentials P userId =
     bind (replace_credentials P userId) (\<lambda>_.
     bind Date_now (\<lambda>now.
     bind (reconcile P now) (\<lambda>_.
     subscription_get P userId)))"

end
