(* ===== verification/Account_Messages.thy ===== *)
theory Account_Messages
  imports Panel_Gate Usage_Query Subscription_Ops
begin

text \<open>
  The messages about usage and subscriptions (\<open>panel/v1/usage_pb.ts\<close> and part of \<open>me_pb.ts\<close>), and the mappers
  of \<open>server/rpc/panel/mappers.ts\<close> that fill them.
\<close>

section \<open>Usage\<close>

datatype panel_grain = GRAIN_UNSPECIFIED | GRAIN_MINUTE | GRAIN_DAY | GRAIN_MONTH | GRAIN_UNRECOGNIZED int

record panel_usage_point =
  pup_bucketStart :: int
  pup_uploadBytes :: int
  pup_downloadBytes :: int
  pup_estimated :: bool
  pup_incomplete :: bool

record panel_usage_group =
  pug_userId :: string
  pug_username :: string
  pug_machineId :: string
  pug_machineName :: string
  pug_uploadBytes :: int
  pug_downloadBytes :: int
  pug_estimated :: bool
  pug_incomplete :: bool

record current_month_usage =
  cm_period :: string
  cm_usedBytes :: int
  cm_limitBytes :: "int option"
  cm_blocked :: bool
  cm_warning :: "string option"

record previous_period_usage =
  ppu_previousStart :: int
  ppu_previousEnd :: int
  ppu_uploadBytes :: int
  ppu_downloadBytes :: int
  ppu_hasData :: bool
  ppu_incomplete :: bool
  ppu_currentPeriodInProgress :: bool
  ppu_changePercent :: "rat option"

record panel_usage =
  pus_start :: int
  pus_end :: int
  pus_grain :: panel_grain
  pus_uploadBytes :: int
  pus_downloadBytes :: int
  pus_estimated :: bool
  pus_incomplete :: bool
  pus_points :: "panel_usage_point list"
  pus_groups :: "panel_usage_group list"
  pus_currentMonth :: "current_month_usage option"
  pus_peakMinuteAverageBytesPerSecond :: "rat option"
  pus_previousPeriod :: "previous_period_usage option"

record query_usage_request =
  queryUsage_start :: "int option"
  queryUsage_end :: "int option"
  queryUsage_grain :: panel_grain
  queryUsage_userId :: "string option"
  queryUsage_machineId :: "string option"

record query_usage_response =
  queriedUsage_usage :: "panel_usage option"

record get_my_usage_request =
  getMyUsage_start :: "int option"
  getMyUsage_end :: "int option"
  getMyUsage_grain :: panel_grain
  getMyUsage_machineId :: "string option"

record get_my_usage_response =
  gotMyUsage_usage :: "panel_usage option"

section \<open>Subscriptions\<close>

datatype panel_protocol = PROTOCOL_UNSPECIFIED | PROTOCOL_TROJAN | PROTOCOL_HYSTERIA2 | PROTOCOL_UNRECOGNIZED int

datatype panel_configuration_state =
    STATE_UNSPECIFIED | STATE_PENDING | STATE_APPLIED | STATE_UNRECOGNIZED int

datatype panel_block_reason = REASON_UNSPECIFIED | REASON_DISABLED | REASON_QUOTA | REASON_UNRECOGNIZED int

record subscription_node =
  psn_machineId :: string
  psn_name :: string
  psn_address :: string
  psn_protocols :: "panel_protocol list"
  psn_configurationState :: panel_configuration_state
  psn_available :: bool
  psn_region :: string
  psn_tags :: "string list"

record panel_subscription =
  psu_url :: string
  psu_generation :: int
  psu_credentialGeneration :: int
  psu_configFormatVersion :: string
  psu_blocked :: bool
  psu_blockReason :: "panel_block_reason option"
  psu_nodes :: "subscription_node list"
  psu_configJson :: string

record get_subscription_response =
  gotSubscription_subscription :: "panel_subscription option"

record reset_subscription_token_response =
  resetToken_subscription :: "panel_subscription option"

record reset_proxy_credentials_response =
  resetCredentials_subscription :: "panel_subscription option"

text \<open>\<open>SubscriptionGroupBinding\<close> and \<open>SubscriptionDraft\<close> have the fields of the bindings and the draft of theory \<open>Template\<close>.\<close>

type_synonym subscription_group_binding = group_binding
type_synonym subscription_draft = draft

record subscription_profile =
  spr_id :: string
  spr_name :: string
  spr_preset :: string
  spr_version :: int
  spr_publishedVersion :: int
  spr_enabled :: bool
  spr_legacy :: bool
  spr_url :: string
  spr_generation :: int
  spr_draft :: "subscription_draft option"
  spr_configJson :: string
  spr_generationError :: string
  spr_nodeCount :: int
  spr_lastFetchedAt :: "int option"

record list_subscription_profiles_response =
  listProfiles_profiles :: "subscription_profile list"
  listProfiles_context :: "panel_subscription option"

record get_subscription_profile_request =
  getProfile_id :: string

record get_subscription_profile_response =
  gotProfile_profile :: "subscription_profile option"

record create_subscription_profile_request =
  createProfile_name :: string
  createProfile_preset :: string
  createProfile_requestKey :: string
  createProfile_copyFromId :: "string option"

record create_subscription_profile_response =
  createdProfile_profile :: "subscription_profile option"

record save_subscription_draft_request =
  saveDraft_id :: string
  saveDraft_expectedVersion :: int
  saveDraft_name :: string
  saveDraft_draft :: "subscription_draft option"

record save_subscription_draft_response =
  savedDraft_profile :: "subscription_profile option"

record preview_subscription_profile_request =
  previewProfile_id :: string
  previewProfile_expectedVersion :: int

record preview_subscription_profile_response =
  previewedProfile_previewId :: string
  previewedProfile_configJson :: string
  previewedProfile_digest :: string
  previewedProfile_expiresAt :: int
  previewedProfile_nodeCount :: int

record publish_subscription_profile_request =
  publishProfile_id :: string
  publishProfile_previewId :: string
  publishProfile_expectedVersion :: int

record publish_subscription_profile_response =
  publishedProfile_profile :: "subscription_profile option"

record update_subscription_profile_request =
  updateProfile_id :: string
  updateProfile_expectedVersion :: int
  updateProfile_action :: string

record update_subscription_profile_response =
  updatedProfile_profile :: "subscription_profile option"

section \<open>Mappers\<close>

definition grain_to_proto :: "grain \<Rightarrow> panel_grain" where
  "grain_to_proto g = (case g of Minute \<Rightarrow> GRAIN_MINUTE | Day \<Rightarrow> GRAIN_DAY | Month \<Rightarrow> GRAIN_MONTH)"

definition grainNames :: "panel_grain \<Rightarrow> grain option" where
  "grainNames g = (case g of GRAIN_MINUTE \<Rightarrow> Some Minute | GRAIN_DAY \<Rightarrow> Some Day | GRAIN_MONTH \<Rightarrow> Some Month | _ \<Rightarrow> None)"

text \<open>A protocol that the table does not have is \<open>undefined\<close>, which a list of messages refuses; the names are ever the two.\<close>

definition protocol_to_proto :: "string \<Rightarrow> panel_protocol" where
  "protocol_to_proto p =
     (if p = ''trojan'' then PROTOCOL_TROJAN else if p = ''hysteria2'' then PROTOCOL_HYSTERIA2 else PROTOCOL_UNSPECIFIED)"

definition configuration_state_to_proto :: "node_state \<Rightarrow> panel_configuration_state" where
  "configuration_state_to_proto s = (case s of NodePending \<Rightarrow> STATE_PENDING | NodeApplied \<Rightarrow> STATE_APPLIED)"

definition block_reason_to_proto :: "block_reason \<Rightarrow> panel_block_reason" where
  "block_reason_to_proto r = (case r of BlockedDisabled \<Rightarrow> REASON_DISABLED | BlockedQuota \<Rightarrow> REASON_QUOTA)"

definition toProtoNode :: "subscription_node_dto \<Rightarrow> subscription_node" where
  "toProtoNode n = \<lparr>psn_machineId = nd_machineId n, psn_name = nd_name n, psn_address = nd_address n,
     psn_protocols = map protocol_to_proto (nd_protocols n),
     psn_configurationState = configuration_state_to_proto (nd_configurationState n), psn_available = nd_available n,
     psn_region = nd_region n, psn_tags = nd_tags n\<rparr>"

definition toProtoSubscription :: "subscription_dto \<Rightarrow> panel_subscription" where
  "toProtoSubscription s = \<lparr>psu_url = sd_url s, psu_generation = sd_generation s,
     psu_credentialGeneration = sd_credentialGeneration s, psu_configFormatVersion = sd_configFormatVersion s,
     psu_blocked = sd_blocked s, psu_blockReason = map_option block_reason_to_proto (sd_blockReason s),
     psu_nodes = map toProtoNode (sd_nodes s), psu_configJson = sd_configJson s\<rparr>"

definition toProtoPoint :: "usage_point \<Rightarrow> panel_usage_point" where
  "toProtoPoint p = \<lparr>pup_bucketStart = pt_bucketStart p, pup_uploadBytes = pt_uploadBytes p,
     pup_downloadBytes = pt_downloadBytes p, pup_estimated = pt_estimated p, pup_incomplete = pt_incomplete p\<rparr>"

definition toProtoGroup :: "usage_group \<Rightarrow> panel_usage_group" where
  "toProtoGroup g = \<lparr>pug_userId = gr_userId g, pug_username = gr_username g, pug_machineId = gr_machineId g,
     pug_machineName = gr_machineName g, pug_uploadBytes = gr_uploadBytes g, pug_downloadBytes = gr_downloadBytes g,
     pug_estimated = gr_estimated g, pug_incomplete = gr_incomplete g\<rparr>"

definition toProtoUsage :: "usage_dto \<Rightarrow> panel_usage" where
  "toProtoUsage u = \<lparr>pus_start = uu_start u, pus_end = uu_end u, pus_grain = grain_to_proto (uu_grain u),
     pus_uploadBytes = uu_uploadBytes u, pus_downloadBytes = uu_downloadBytes u, pus_estimated = uu_estimated u,
     pus_incomplete = uu_incomplete u, pus_points = map toProtoPoint (uu_points u),
     pus_groups = map toProtoGroup (uu_groups u),
     pus_currentMonth = map_option (\<lambda>m. \<lparr>cm_period = mo_period m, cm_usedBytes = mo_usedBytes m,
       cm_limitBytes = mo_limitBytes m, cm_blocked = mo_blocked m, cm_warning = mo_warning m\<rparr>) (uu_currentMonth u),
     pus_peakMinuteAverageBytesPerSecond = uu_peak u,
     pus_previousPeriod = (let p = uu_previousPeriod u in Some \<lparr>ppu_previousStart = pv_previousStart p,
       ppu_previousEnd = pv_previousEnd p, ppu_uploadBytes = pv_uploadBytes p, ppu_downloadBytes = pv_downloadBytes p,
       ppu_hasData = pv_hasData p, ppu_incomplete = pv_incomplete p,
       ppu_currentPeriodInProgress = pv_currentPeriodInProgress p, ppu_changePercent = pv_changePercent p\<rparr>)\<rparr>"

text \<open>The messages that the services fill without a mapper: the fields have the same names.\<close>

definition profile_message :: "profile_dto \<Rightarrow> subscription_profile" where
  "profile_message p = \<lparr>spr_id = pd_id p, spr_name = pd_name p, spr_preset = pd_preset p, spr_version = pd_version p,
     spr_publishedVersion = pd_publishedVersion p, spr_enabled = pd_enabled p, spr_legacy = pd_legacy p,
     spr_url = pd_url p, spr_generation = pd_generation p, spr_draft = pd_draft p, spr_configJson = pd_configJson p,
     spr_generationError = pd_generationError p, spr_nodeCount = pd_nodeCount p, spr_lastFetchedAt = pd_lastFetchedAt p\<rparr>"

definition preview_message :: "preview_result \<Rightarrow> preview_subscription_profile_response" where
  "preview_message p = \<lparr>previewedProfile_previewId = pp_previewId p, previewedProfile_configJson = pp_configJson p,
     previewedProfile_digest = pp_digest p, previewedProfile_expiresAt = pp_expiresAt p,
     previewedProfile_nodeCount = pp_nodeCount p\<rparr>"

end
