(* ===== verification/Account_Services.thy ===== *)
theory Account_Services
  imports Account_Messages
begin

text \<open>
  The procedures on usage and subscriptions: \<open>server/rpc/panel/usage-service.ts\<close>, the part of
  \<open>me-service.ts\<close> about them, \<open>server/usage/queries.ts\<close> and \<open>server/subscription/queries.ts\<close>, and
  the route \<open>/s/<token>\<close> that clients fetch their configuration from.
\<close>

section \<open>Reads shared with the pages\<close>

definition query_getMyUsage :: "platform \<Rightarrow> principal \<Rightarrow> usage_query \<Rightarrow> panel_usage app" where
  "query_getMyUsage P caller q =
     bind Date_now (\<lambda>now.
     bind (query_usage P (q\<lparr>uq_userId := Some (du_id (pr_user caller))\<rparr>) now) (\<lambda>u.
     return (toProtoUsage u)))"

definition query_queryUsage :: "platform \<Rightarrow> principal \<Rightarrow> usage_query \<Rightarrow> panel_usage app" where
  "query_queryUsage P caller q =
     bind (requireAdmin caller) (\<lambda>_.
     bind Date_now (\<lambda>now.
     bind (query_usage P q now) (\<lambda>u.
     return (toProtoUsage u))))"

definition getSubscriptionContext :: "platform \<Rightarrow> principal \<Rightarrow> panel_subscription app" where
  "getSubscriptionContext P caller =
     bind (subscription_get P (du_id (pr_user caller))) (\<lambda>s.
     return (toProtoSubscription (s\<lparr>sd_url := [], sd_configJson := []\<rparr>)))"

definition listSubscriptionProfiles :: "platform \<Rightarrow> principal \<Rightarrow> list_subscription_profiles_response app" where
  "listSubscriptionProfiles P caller =
     bind (profile_list P (du_id (pr_user caller))) (\<lambda>ps.
     bind (getSubscriptionContext P caller) (\<lambda>context.
     return \<lparr>listProfiles_profiles = map profile_message ps, listProfiles_context = Some context\<rparr>))"

definition getSubscriptionProfile :: "platform \<Rightarrow> principal \<Rightarrow> string \<Rightarrow> subscription_profile app" where
  "getSubscriptionProfile P caller i =
     bind (profile_get P (du_id (pr_user caller)) i) (\<lambda>p. return (profile_message p))"

section \<open>Usage\<close>

definition rpc_queryUsage :: "platform \<Rightarrow> principal option \<Rightarrow> query_usage_request \<Rightarrow> query_usage_response rpc" where
  "rpc_queryUsage P caller request = panelCall P (
     bind (requirePrincipal caller) (\<lambda>p.
     bind (query_queryUsage P p \<lparr>uq_start = queryUsage_start request, uq_end = queryUsage_end request,
             uq_grain = grainNames (queryUsage_grain request), uq_userId = queryUsage_userId request,
             uq_machineId = queryUsage_machineId request\<rparr>) (\<lambda>u.
     return \<lparr>queriedUsage_usage = Some u\<rparr>)))"

definition rpc_getMyUsage :: "platform \<Rightarrow> principal option \<Rightarrow> get_my_usage_request \<Rightarrow> get_my_usage_response rpc" where
  "rpc_getMyUsage P caller request = panelCall P (
     bind (requirePrincipal caller) (\<lambda>p.
     bind (query_getMyUsage P p \<lparr>uq_start = getMyUsage_start request, uq_end = getMyUsage_end request,
             uq_grain = grainNames (getMyUsage_grain request), uq_userId = None,
             uq_machineId = getMyUsage_machineId request\<rparr>) (\<lambda>u.
     return \<lparr>gotMyUsage_usage = Some u\<rparr>)))"

section \<open>Subscriptions\<close>

text \<open>What every procedure on the caller's own account starts with.\<close>

definition for_caller :: "platform \<Rightarrow> principal option \<Rightarrow> (string \<Rightarrow> 'a app) \<Rightarrow> 'a rpc" where
  "for_caller P caller action = panelCall P (bind (requirePrincipal caller) (\<lambda>p. action (du_id (pr_user p))))"

definition rpc_listSubscriptionProfiles ::
  "platform \<Rightarrow> principal option \<Rightarrow> list_subscription_profiles_response rpc" where
  "rpc_listSubscriptionProfiles P caller =
     panelCall P (bind (requirePrincipal caller) (listSubscriptionProfiles P))"

definition rpc_getSubscriptionProfile ::
  "platform \<Rightarrow> principal option \<Rightarrow> get_subscription_profile_request \<Rightarrow> get_subscription_profile_response rpc" where
  "rpc_getSubscriptionProfile P caller request = panelCall P (
     bind (requirePrincipal caller) (\<lambda>p.
     bind (getSubscriptionProfile P p (getProfile_id request)) (\<lambda>r.
     return \<lparr>gotProfile_profile = Some r\<rparr>)))"

definition rpc_createSubscriptionProfile ::
  "platform \<Rightarrow> principal option \<Rightarrow> create_subscription_profile_request \<Rightarrow> create_subscription_profile_response rpc" where
  "rpc_createSubscriptionProfile P caller request = for_caller P caller (\<lambda>userId.
     bind (profile_create P userId \<lparr>fi_name = createProfile_name request, fi_preset = createProfile_preset request,
             fi_requestKey = createProfile_requestKey request, fi_copyFromId = createProfile_copyFromId request\<rparr>) (\<lambda>p.
     return \<lparr>createdProfile_profile = Some (profile_message p)\<rparr>))"

text \<open>The draft is validated by the service and once more by the store.\<close>

definition rpc_saveSubscriptionDraft ::
  "platform \<Rightarrow> principal option \<Rightarrow> save_subscription_draft_request \<Rightarrow> save_subscription_draft_response rpc" where
  "rpc_saveSubscriptionDraft P caller request = for_caller P caller (\<lambda>userId.
     bind (the_or (saveDraft_draft request) ZodError) (\<lambda>input.
     bind (parse_draft (draft_json input)) (\<lambda>d.
     bind (profile_save P userId (saveDraft_id request) (saveDraft_expectedVersion request) (saveDraft_name request)
             (draft_json d)) (\<lambda>p.
     return \<lparr>savedDraft_profile = Some (profile_message p)\<rparr>))))"

definition rpc_previewSubscriptionProfile ::
  "platform \<Rightarrow> principal option \<Rightarrow> preview_subscription_profile_request \<Rightarrow> preview_subscription_profile_response rpc" where
  "rpc_previewSubscriptionProfile P caller request = for_caller P caller (\<lambda>userId.
     bind (profile_preview P userId (previewProfile_id request) (previewProfile_expectedVersion request)) (\<lambda>p.
     return (preview_message p)))"

definition rpc_publishSubscriptionProfile ::
  "platform \<Rightarrow> principal option \<Rightarrow> publish_subscription_profile_request \<Rightarrow> publish_subscription_profile_response rpc" where
  "rpc_publishSubscriptionProfile P caller request = for_caller P caller (\<lambda>userId.
     bind (profile_publish P userId (publishProfile_id request) (publishProfile_expectedVersion request)
             (publishProfile_previewId request)) (\<lambda>p.
     return \<lparr>publishedProfile_profile = Some (profile_message p)\<rparr>))"

definition rpc_updateSubscriptionProfile ::
  "platform \<Rightarrow> principal option \<Rightarrow> update_subscription_profile_request \<Rightarrow> update_subscription_profile_response rpc" where
  "rpc_updateSubscriptionProfile P caller request = for_caller P caller (\<lambda>userId.
     bind (profile_update P userId (updateProfile_id request) (updateProfile_expectedVersion request)
             (updateProfile_action request)) (\<lambda>p.
     return \<lparr>updatedProfile_profile = Some (profile_message p)\<rparr>))"

definition rpc_getSubscription :: "platform \<Rightarrow> principal option \<Rightarrow> get_subscription_response rpc" where
  "rpc_getSubscription P caller = for_caller P caller (\<lambda>userId.
     bind (subscription_get P userId) (\<lambda>s.
     return \<lparr>gotSubscription_subscription = Some (toProtoSubscription s)\<rparr>))"

definition rpc_resetSubscriptionToken :: "platform \<Rightarrow> principal option \<Rightarrow> reset_subscription_token_response rpc" where
  "rpc_resetSubscriptionToken P caller = for_caller P caller (\<lambda>userId.
     bind (subscription_resetToken P userId) (\<lambda>s.
     return \<lparr>resetToken_subscription = Some (toProtoSubscription s)\<rparr>))"

definition rpc_resetProxyCredentials :: "platform \<Rightarrow> principal option \<Rightarrow> reset_proxy_credentials_response rpc" where
  "rpc_resetProxyCredentials P caller = for_caller P caller (\<lambda>userId.
     bind (subscription_resetProxyCredentials P userId) (\<lambda>s.
     return \<lparr>resetCredentials_subscription = Some (toProtoSubscription s)\<rparr>))"

section \<open>The route of the clients\<close>

text \<open>\<open>app/s/[token]/route.ts\<close>: the configuration, or the answer to an error.\<close>

definition serve_subscription :: "platform \<Rightarrow> string \<Rightarrow> world \<Rightarrow> (http_error + string) \<times> world" where
  "serve_subscription P token w =
     (case byToken P token w of
        (Inr configJson, v) \<Rightarrow> (Inr configJson, v)
      | (Inl e, v) \<Rightarrow> (case errorResponse P e v of (response, u) \<Rightarrow> (Inl response, u)))"

end
