(* ===== verification/Graph.thy ===== *)
theory Graph
  imports Render
begin

text \<open>
  What the checks of \<open>renderSubscription\<close> establish of the graph of outbounds: the walk for cycles ends within
  its fuel and leaves a topological order of the tags; along that order the managed leaves, which the
  code caches, are computed within their fuel and are the leaves that can be reached.
\<close>

section \<open>The graph\<close>

definition edge :: "tag_map \<Rightarrow> string \<Rightarrow> string \<Rightarrow> bool" where
  "edge m t u \<longleftrightarrow> (\<exists>e j. map_of m t = Some e \<and> j \<in> set (targets e) \<and> js_String j = Some u)"

definition is_managed :: "string \<Rightarrow> bool" where
  "is_managed t \<longleftrightarrow> startsWith t ''bfc_''"

definition leaf_set :: "tag_map \<Rightarrow> string \<Rightarrow> string set" where
  "leaf_set m t = {u. (edge m)\<^sup>*\<^sup>* t u \<and> is_managed u}"

text \<open>A list of tags in which every tag stands before what it refers to.\<close>

primrec topo :: "tag_map \<Rightarrow> string list \<Rightarrow> bool" where
  "topo m [] \<longleftrightarrow> True"
| "topo m (t # ts) \<longleftrightarrow>
     t \<notin> set ts \<and> topo m ts \<and>
     (\<exists>e. map_of m t = Some e \<and> (\<forall>j \<in> set (targets e). \<exists>u \<in> set ts. js_String j = Some u))"

lemma topo_append: "topo m (xs @ ys) \<Longrightarrow> topo m ys"
  by (induction xs) auto

lemma topo_edge:
  assumes "topo m ts" and "t \<in> set ts" and "edge m t u"
  shows "u \<in> set ts"
  using assms by (induction ts) (fastforce simp: edge_def)+

lemma topo_head_reach:
  assumes "topo m (t # ts)" and "(edge m)\<^sup>+\<^sup>+ t u"
  shows "u \<in> set ts"
  using assms(2)
proof (induction rule: tranclp_induct)
  case (base u)
  with assms(1) show ?case by (fastforce simp: edge_def)
next
  case (step u v)
  with assms(1) topo_edge [of m ts u v] show ?case by simp
qed

text \<open>A topological order of a tag shows that it is on no cycle.\<close>

lemma topo_acyclic:
  assumes "topo m ts" and "t \<in> set ts"
  shows "\<not> (edge m)\<^sup>+\<^sup>+ t t"
proof
  assume cycle: "(edge m)\<^sup>+\<^sup>+ t t"
  from assms(2) obtain xs ys where ts: "ts = xs @ t # ys" by (meson split_list)
  with assms(1) have "topo m (t # ys)" by (blast intro: topo_append)
  moreover from topo_head_reach [OF this cycle] have "t \<in> set ys" .
  ultimately show False by simp
qed

lemma leaf_set_step:
  "leaf_set m t = (if is_managed t then {t} else {}) \<union> (\<Union>u \<in> {u. edge m t u}. leaf_set m u)"
  by (auto simp: leaf_set_def elim: converse_rtranclpE intro: converse_rtranclp_into_rtranclp)

section \<open>The walk for cycles\<close>

text \<open>A visit that succeeds leaves the tags under way as they were, and keeps them apart from the visited ones.\<close>

definition visit_ok :: "tag_map \<Rightarrow> visits \<Rightarrow> visits \<Rightarrow> bool" where
  "visit_ok m s u \<longleftrightarrow>
     (case (s, u) of ((vs, vd), (vs', vd')) \<Rightarrow>
        vs' = vs \<and> (set vs \<inter> set vd = {} \<and> topo m vd \<longrightarrow> set vs \<inter> set vd' = {} \<and> topo m vd') \<and> set vd \<subseteq> set vd')"

lemma visit_ok_refl: "visit_ok m s s"
  by (simp add: visit_ok_def split: prod.split)

lemma visit_ok_trans: "visit_ok m s u \<Longrightarrow> visit_ok m u v \<Longrightarrow> visit_ok m s v"
  by (auto simp: visit_ok_def split: prod.splits)

lemma visit_all_ok:
  assumes "\<And>t s u. f t s = Some (Inr u) \<Longrightarrow> visit_ok m s u \<and> t \<in> set (snd u)"
    and "visit_all f js s = Some (Inr u)"
  shows "visit_ok m s u \<and> (\<forall>j \<in> set js. \<exists>t \<in> set (snd u). js_String j = Some t)"
  using assms(2)
proof (induction js arbitrary: s)
  case Nil
  then show ?case by (simp add: visit_ok_refl)
next
  case (Cons j js)
  then obtain t x where t: "js_String j = Some t" "f t s = Some (Inr x)" "visit_all f js x = Some (Inr u)"
    by (auto split: option.splits sum.splits)
  from assms(1) [OF t(2)] Cons.IH [OF t(3)] have "visit_ok m s x" "t \<in> set (snd x)" "visit_ok m x u" by auto
  moreover from this(3) have "set (snd x) \<subseteq> set (snd u)" by (auto simp: visit_ok_def split: prod.splits)
  ultimately show ?case using Cons.IH [OF t(3)] t(1) by (auto intro: visit_ok_trans)
qed

lemma visit_ok:
  "visit n m t s = Some (Inr u) \<Longrightarrow> visit_ok m s u \<and> t \<in> set (snd u)"
proof (induction n arbitrary: t s u)
  case 0
  then show ?case by simp
next
  case (Suc n)
  obtain vs vd where s: "s = (vs, vd)" by (cases s)
  show ?case
  proof (cases "t \<in> set vd")
    case True
    with Suc.prems s show ?thesis by (auto simp: visit_ok_refl split: if_splits)
  next
    case False
    with Suc.prems s obtain e vs' vd' where new: "t \<notin> set vs" and e: "map_of m t = Some e"
      and all: "visit_all (visit n m) (targets e) (t # vs, vd) = Some (Inr (vs', vd'))"
      and u: "u = (removeAll t vs', t # vd')"
      by (auto split: if_splits option.splits sum.splits)
    from visit_all_ok [OF Suc.IH all]
    have ok: "visit_ok m (t # vs, vd) (vs', vd')" and ts: "\<forall>j \<in> set (targets e). \<exists>u \<in> set vd'. js_String j = Some u"
      by auto
    from ok new False have "vs' = t # vs" "set vs \<inter> set vd = {} \<and> topo m vd \<longrightarrow> t \<notin> set vd' \<and> set vs \<inter> set vd' = {} \<and> topo m vd'"
      "set vd \<subseteq> set vd'"
      by (auto simp: visit_ok_def)
    with new e ts s u show ?thesis by (auto simp: visit_ok_def)
  qed
qed

lemma visit_all_total:
  assumes "\<And>t s. Q s \<Longrightarrow> f t s \<noteq> None" and "\<And>t s u. Q s \<Longrightarrow> f t s = Some (Inr u) \<Longrightarrow> Q u" and "Q s"
  shows "visit_all f js s \<noteq> None"
  using assms(3)
proof (induction js arbitrary: s)
  case Nil
  then show ?case by simp
next
  case (Cons j js)
  have "case js_String j of None \<Rightarrow> True | Some t \<Rightarrow> f t s \<noteq> None \<and> (\<forall>u. f t s = Some (Inr u) \<longrightarrow> visit_all f js u \<noteq> None)"
    using assms(1) [OF Cons.prems] assms(2) [OF Cons.prems] Cons.IH by (simp split: option.split)
  then show ?case by (auto split: option.splits sum.splits)
qed

text \<open>Every nested visit is of another tag of the map, so that one unit more than there are tags is enough.\<close>

lemma visit_total:
  "distinct vs \<Longrightarrow> set vs \<subseteq> fst ` set m \<Longrightarrow> length m < n + length vs \<Longrightarrow> visit n m t (vs, vd) \<noteq> None"
proof (induction n arbitrary: t vs vd)
  case 0
  have "length vs = card (set vs)" using 0(1) by (simp add: distinct_card)
  also have "\<dots> \<le> card (fst ` set m)" using 0(2) by (simp add: card_mono)
  also have "\<dots> \<le> length m" by (metis card_length list.set_map length_map)
  finally show ?case using 0(3) by simp
next
  case (Suc n)
  show ?case
  proof (cases "t \<in> set vs \<or> t \<in> set vd \<or> map_of m t = None")
    case True
    then show ?thesis by auto
  next
    case False
    then obtain e where e: "map_of m t = Some e" "t \<notin> set vs" "t \<notin> set vd" by auto
    then have "t \<in> fst ` set m" by (force dest: map_of_SomeD)
    then have "visit_all (visit n m) (targets e) (t # vs, vd) \<noteq> None"
      using Suc.prems e Suc.IH [of "t # vs"]
      by (intro visit_all_total [where Q = "\<lambda>s. fst s = t # vs"])
        (auto simp: visit_ok_def dest: visit_ok split: prod.splits)
    with e show ?thesis by (auto split: sum.split)
  qed
qed

lemma visit_tags_total: "visit_tags m \<noteq> None"
proof -
  have "visit (Suc (length m)) m t s \<noteq> None" if "fst s = []" for t s
    using visit_total [of "[]" m "Suc (length m)" t "snd s"] that by (cases s) simp
  moreover have "fst u = []" if "fst s = []" "visit (Suc (length m)) m t s = Some (Inr u)" for t s u
    using visit_ok [OF that(2)] that(1) by (simp add: visit_ok_def split: prod.splits)
  ultimately show ?thesis
    unfolding visit_tags_def by (intro visit_all_total [where Q = "\<lambda>s. fst s = []"]) simp_all
qed

lemma visit_tags_topo:
  assumes "visit_tags m = Some (Inr s)"
  shows "topo m (snd s)" and "fst ` set m \<subseteq> set (snd s)"
proof -
  have ok: "visit_ok m ([], []) s \<and> (\<forall>j \<in> set (map (\<lambda>(t, e). JStr t) m). \<exists>t \<in> set (snd s). js_String j = Some t)"
    by (rule visit_all_ok [OF visit_ok assms [unfolded visit_tags_def]])
  then show "topo m (snd s)" by (simp add: visit_ok_def split: prod.splits)
  from ok show "fst ` set m \<subseteq> set (snd s)" by auto
qed

section \<open>The managed leaves\<close>

definition cache_ok :: "tag_map \<Rightarrow> leaf_cache \<Rightarrow> bool" where
  "cache_ok m cache \<longleftrightarrow> (\<forall>(t, ls) \<in> set cache. set ls = leaf_set m t)"

definition leaves_ok :: "tag_map \<Rightarrow> string set \<Rightarrow> (failure + string list \<times> leaf_cache) option \<Rightarrow> bool" where
  "leaves_ok m leaves r \<longleftrightarrow> (\<exists>ls cache. r = Some (Inr (ls, cache)) \<and> set ls = leaves \<and> cache_ok m cache)"

lemma leaves_all_ok:
  assumes "\<And>t cache. t \<in> set ts \<Longrightarrow> cache_ok m cache \<Longrightarrow> leaves_ok m (leaf_set m t) (f t cache)"
    and "\<forall>j \<in> set js. \<exists>t \<in> set ts. js_String j = Some t" and "cache_ok m cache"
  shows "leaves_ok m (set found \<union> (\<Union>t \<in> {t. \<exists>j \<in> set js. js_String j = Some t}. leaf_set m t))
    (leaves_all f js found cache)"
  using assms(2,3)
proof (induction js arbitrary: found cache)
  case Nil
  then show ?case by (simp add: leaves_ok_def)
next
  case (Cons j js)
  then obtain t where t: "js_String j = Some t" "t \<in> set ts" by auto
  from assms(1) [OF t(2) Cons.prems(2)] obtain ls c where
    ls: "f t cache = Some (Inr (ls, c))" "set ls = leaf_set m t" "cache_ok m c"
    by (auto simp: leaves_ok_def)
  have "{u. \<exists>i \<in> set (j # js). js_String i = Some u} = insert t {u. \<exists>i \<in> set js. js_String i = Some u}"
    using t(1) by auto
  with Cons.IH [of c "List.union ls found"] Cons.prems(1) t ls show ?case
    by (simp add: Un_assoc Un_left_commute)
qed

lemma managedLeaves_ok:
  "topo m ts \<Longrightarrow> t \<in> set ts \<Longrightarrow> length ts \<le> n \<Longrightarrow> cache_ok m cache \<Longrightarrow>
    leaves_ok m (leaf_set m t) (managedLeaves n m t cache)"
proof (induction ts arbitrary: t n cache)
  case Nil
  then show ?case by simp
next
  case (Cons s ts)
  show ?case
  proof (cases "t \<in> set ts")
    case True
    with Cons show ?thesis by auto
  next
    case False
    with Cons.prems have s: "s = t" by simp
    with Cons.prems(1) obtain e where e: "map_of m t = Some e"
      and js: "\<forall>j \<in> set (targets e). \<exists>u \<in> set ts. js_String j = Some u" and ts: "topo m ts"
      by auto
    from Cons.prems(3) obtain k where k: "n = Suc k" "length ts \<le> k" by (cases n) auto
    show ?thesis
    proof (cases "map_of cache t")
      case (Some ls)
      with Cons.prems(4) have "set ls = leaf_set m t" by (auto simp: cache_ok_def dest: map_of_SomeD)
      with Some k(1) Cons.prems(4) show ?thesis by (simp add: leaves_ok_def)
    next
      case None
      let ?own = "if startsWith t ''bfc_'' then [t] else []"
      have "leaves_ok m (set ?own \<union> (\<Union>u \<in> {u. \<exists>j \<in> set (targets e). js_String j = Some u}. leaf_set m u))
        (leaves_all (managedLeaves k m) (targets e) ?own cache)"
        by (rule leaves_all_ok [where ts = ts]) (use Cons.IH [OF ts _ k(2)] js Cons.prems(4) in auto)
      moreover have "set ?own \<union> (\<Union>u \<in> {u. \<exists>j \<in> set (targets e). js_String j = Some u}. leaf_set m u) = leaf_set m t"
      proof -
        have "{u. \<exists>j \<in> set (targets e). js_String j = Some u} = {u. edge m t u}"
          using e by (auto simp: edge_def)
        then show ?thesis unfolding leaf_set_step [of m t] by (simp add: is_managed_def)
      qed
      ultimately show ?thesis using None e k(1) by (auto simp: leaves_ok_def cache_ok_def)
    qed
  qed
qed

lemma topo_length:
  assumes "topo m ts"
  shows "length ts \<le> length m"
proof -
  have "distinct ts \<and> set ts \<subseteq> fst ` set m" using assms
    by (induction ts) (auto dest!: map_of_SomeD intro: rev_image_eqI)
  then have "length ts \<le> card (fst ` set m)" by (metis card_mono distinct_card finite_imageI finite_set)
  also have "\<dots> \<le> length m" by (metis card_length list.set_map length_map)
  finally show ?thesis .
qed

end
