(* ===== verification/Render_Facts.thy ===== *)
theory Render_Facts
  imports Graph
begin

text \<open>
  What each stage of \<open>renderSubscription\<close> leaves behind when it returns, put together in \<open>render_ok\<close>.
\<close>

section \<open>The map of tags\<close>

lemma map_of_put_tag: "map_of (put_tag t e m) = (map_of m)(t \<mapsto> e)"
  by (induction t e m rule: put_tag.induct) auto

lemma keys_put_tag: "map fst (put_tag t e m) = (if map_of m t = None then map fst m @ [t] else map fst m)"
  by (induction t e m rule: put_tag.induct) auto

lemma snd_put_new: "map_of m t = None \<Longrightarrow> put_tag t e m = m @ [(t, e)]"
  by (induction t e m rule: put_tag.induct) (auto split: if_splits)

lemma map_of_keys: "distinct (map fst m) \<Longrightarrow> map snd m = map (\<lambda>t. the (map_of m t)) (map fst m)"
proof (induction m)
  case Nil
  then show ?case by simp
next
  case (Cons p m)
  have "fst q \<noteq> fst p" if "q \<in> set m" for q
    using Cons.prems imageI [OF that, of fst] by (metis distinct.simps(2) list.set_map list.simps(9))
  then have "map (\<lambda>t. the (map_of (p # m) t)) (map fst m) = map (\<lambda>t. the (map_of m t)) (map fst m)"
    by simp
  with Cons show ?case by simp
qed

lemma map_of_None_keys: "map_of m t = None \<longleftrightarrow> t \<notin> set (map fst m)"
  by (simp add: map_of_eq_None_iff)

section \<open>The template's own outbounds\<close>

definition tagged :: "tag_map \<Rightarrow> bool" where
  "tagged m \<longleftrightarrow> distinct (map fst m) \<and> (\<forall>(t, e) \<in> set m. jprop ''tag'' e = Some (JStr t))"

lemma collect_tag_ok:
  assumes "collect_tag e m w = (Inr m', v)"
  obtains t where "v = w" and "m' = m @ [(t, e)]" and "jprop ''tag'' e = Some (JStr t)" and "\<not> is_managed t"
    and "map_of m t = None"
  using assms unfolding collect_tag_def
  by (auto simp: prog_ok snd_put_new is_managed_def split: option.splits json.splits)

lemma collect_tags_ok:
  "fold_each outs m collect_tag w = (Inr m', v) \<Longrightarrow> tagged m \<Longrightarrow> \<forall>t \<in> set (map fst m). \<not> is_managed t \<Longrightarrow>
    v = w \<and> tagged m' \<and> (\<forall>t \<in> set (map fst m'). \<not> is_managed t) \<and> map snd m' = map snd m @ outs"
proof (induction outs arbitrary: m w)
  case Nil
  then show ?case by (simp add: prog_ok)
next
  case (Cons e outs)
  from Cons.prems(1) obtain m1 u where one: "collect_tag e m w = (Inr m1, u)"
    and rest: "fold_each outs m1 collect_tag u = (Inr m', v)"
    by (auto simp: prog_ok)
  from collect_tag_ok [OF one] obtain t where t: "u = w" "m1 = m @ [(t, e)]" "jprop ''tag'' e = Some (JStr t)"
    "\<not> is_managed t" "map_of m t = None" .
  with Cons.prems(2,3) have "tagged m1" "\<forall>t \<in> set (map fst m1). \<not> is_managed t"
    by (auto simp: tagged_def map_of_None_keys)
  with Cons.IH [OF rest this] t show ?case by simp
qed

section \<open>The outbounds of the machines\<close>

definition machine_outbound :: "snapshot \<Rightarrow> snapshot_node \<Rightarrow> string \<times> string \<times> int \<times> string \<Rightarrow> generated" where
  "machine_outbound s node p = (case p of (type, label, port, secret) \<Rightarrow>
     \<lparr>gn_node = node, gn_protocol = type, gn_tag = generated_tag (cn_id node) type,
      gn_outbound = set_prop ''tag'' (JStr (generated_tag (cn_id node) type))
        (client_outbound type label port secret (client_node.truncate node) (c_secrets (sn_credentials s)))\<rparr>)"

definition machine_outbounds :: "snapshot \<Rightarrow> snapshot_node \<Rightarrow> generated list" where
  "machine_outbounds s node = map (machine_outbound s node)
     [(''trojan'', ''Trojan'', cfg_trojanPort (cn_settings node), ''trojanPassword''),
      (''hysteria2'', ''Hysteria2'', cfg_hysteria2Port (cn_settings node), ''hysteria2Password'')]"

lemma generate_outbound_other:
  assumes "jprop ''type'' e = Some (JStr t)" and "t \<notin> set protocol_names"
  shows "generate_outbound node e w = (Inr [], w)"
  using assms by (simp add: generate_outbound_def String_of_def)

lemma generate_outbound_client:
  assumes "type \<in> set protocol_names"
  shows "generate_outbound node (client_outbound type label port secret (client_node.truncate node) (c_secrets (sn_credentials s))) w =
    (Inr [machine_outbound s node (type, label, port, secret)], w)"
  using assms by (simp add: generate_outbound_def String_of_def client_outbound_def jprop_def machine_outbound_def)

lemma generate_node_run: "generate_node s node w = (Inr (machine_outbounds s node), w)"
proof -
  let ?n = "client_node.truncate node" and ?c = "c_secrets (sn_credentials s)"
  let ?t = "client_outbound ''trojan'' ''Trojan'' (cfg_trojanPort (cn_settings ?n)) ''trojanPassword'' ?n ?c"
  let ?h = "client_outbound ''hysteria2'' ''Hysteria2'' (cfg_hysteria2Port (cn_settings ?n)) ''hysteria2Password'' ?n ?c"
  obtain a b d where os: "rendered_outbounds (renderClient [?n] ?c False) = [a, b, ?t, ?h, d]"
    and other: "jprop ''type'' a = Some (JStr ''selector'')" "jprop ''type'' b = Some (JStr ''urltest'')"
      "jprop ''type'' d = Some (JStr ''direct'')"
    by (simp add: rendered_outbounds_def renderClient_def node_outbounds_def Let_def jprop_def)
  have n: "cn_settings ?n = cn_settings node" by (simp add: client_node.truncate_def)
  show ?thesis
    unfolding generate_node_def os machine_outbounds_def
    by (simp add: bind_run n protocol_names_def generate_outbound_other [OF other(1)] generate_outbound_other [OF other(2)]
        generate_outbound_other [OF other(3)] generate_outbound_client)
qed

lemma map_prog_total:
  assumes "\<And>x w. f x w = (Inr (g x), w)"
  shows "map_prog f xs w = (Inr (map g xs), w)"
  by (induction xs) (simp_all add: assms bind_run)

lemma generated_tag_inj:
  assumes "p \<in> set protocol_names" "q \<in> set protocol_names" "generated_tag i p = generated_tag j q"
  shows "i = j \<and> p = q"
proof -
  from assms(3) have eq: "i @ ''_'' @ p = j @ ''_'' @ q" by (simp add: generated_tag_def)
  then have "last p = last q"
    using assms(1,2) by (auto simp: protocol_names_def dest: arg_cong [where f = last])
  with assms(1,2) have "p = q" by (auto simp: protocol_names_def)
  with eq show ?thesis by simp
qed

lemma generated_managed: "is_managed (generated_tag i p)"
  by (simp add: is_managed_def generated_tag_def startsWith_def)

definition all_outbounds :: "snapshot \<Rightarrow> generated list" where
  "all_outbounds s = concat (map (machine_outbounds s) (available_nodes s))"

lemma machine_outbound_facts:
  assumes "g \<in> set (machine_outbounds s node)"
  shows "gn_node g = node" and "gn_protocol g \<in> set protocol_names"
    and "gn_tag g = generated_tag (cn_id node) (gn_protocol g)"
    and "jprop ''tag'' (gn_outbound g) = Some (JStr (gn_tag g))"
    and "jprop ''type'' (gn_outbound g) = Some (JStr (gn_protocol g))"
  using assms unfolding machine_outbounds_def machine_outbound_def
  by (auto simp: protocol_names_def jprop_set_prop client_outbound_def) (simp_all add: jprop_def)

lemma all_outbounds_facts:
  assumes "g \<in> set (all_outbounds s)"
  shows "gn_node g \<in> set (sn_nodes s)" and "sn_available (gn_node g)" and "gn_protocol g \<in> set protocol_names"
    and "gn_tag g = generated_tag (cn_id (gn_node g)) (gn_protocol g)" and "is_managed (gn_tag g)"
    and "jprop ''tag'' (gn_outbound g) = Some (JStr (gn_tag g))"
    and "jprop ''type'' (gn_outbound g) = Some (JStr (gn_protocol g))"
proof -
  from assms obtain node where node: "node \<in> set (available_nodes s)" and g: "g \<in> set (machine_outbounds s node)"
    by (auto simp: all_outbounds_def)
  from node show "gn_node g \<in> set (sn_nodes s)" "sn_available (gn_node g)"
    by (simp_all add: available_nodes_def machine_outbound_facts(1) [OF g])
  show "is_managed (gn_tag g)" by (simp add: machine_outbound_facts(3) [OF g] generated_managed)
qed (use assms machine_outbound_facts in \<open>auto simp: all_outbounds_def\<close>)

lemma distinct_machine_tags:
  assumes "distinct (map cn_id ns)"
  shows "distinct (map gn_tag (concat (map (machine_outbounds s) ns)))"
  using assms
proof (induction ns)
  case Nil
  then show ?case by simp
next
  case (Cons n ns)
  have "distinct (map gn_tag (machine_outbounds s n))"
    by (simp add: machine_outbounds_def machine_outbound_def generated_tag_def)
  moreover have "gn_tag g \<noteq> gn_tag h"
    if "g \<in> set (machine_outbounds s n)" "node \<in> set ns" "h \<in> set (machine_outbounds s node)" for g h node
  proof
    assume "gn_tag g = gn_tag h"
    then have "cn_id n = cn_id node"
      using generated_tag_inj machine_outbound_facts(2,3) [OF that(1)] machine_outbound_facts(2,3) [OF that(3)]
      by metis
    with Cons.prems that(2) show False by auto
  qed
  ultimately show ?case using Cons by fastforce
qed

lemma distinct_all_tags:
  "distinct (map cn_id (sn_nodes s)) \<Longrightarrow> distinct (map gn_tag (all_outbounds s))"
  unfolding all_outbounds_def
  by (rule distinct_machine_tags) (auto simp: available_nodes_def distinct_map intro: inj_on_subset)

lemma put_outbounds:
  assumes "distinct (map gn_tag gs)" and "\<forall>g \<in> set gs. gn_tag g \<notin> set (map fst m)"
  shows "foldl (\<lambda>m g. put_tag (gn_tag g) (gn_outbound g) m) m gs = m @ map (\<lambda>g. (gn_tag g, gn_outbound g)) gs"
  using assms
proof (induction gs arbitrary: m)
  case Nil
  then show ?case by simp
next
  case (Cons g gs)
  then have new: "map_of m (gn_tag g) = None" by (simp only: map_of_None_keys) simp
  have "\<forall>h \<in> set gs. gn_tag h \<notin> set (map fst (m @ [(gn_tag g, gn_outbound g)]))"
  proof
    fix h assume h: "h \<in> set gs"
    then have "gn_tag h \<in> gn_tag ` set gs" by simp
    with Cons.prems(1) have "gn_tag h \<noteq> gn_tag g" by (metis distinct.simps(2) list.set_map list.simps(9))
    with h Cons.prems(2) show "gn_tag h \<notin> set (map fst (m @ [(gn_tag g, gn_outbound g)]))" by simp
  qed
  with Cons.IH [of "m @ [(gn_tag g, gn_outbound g)]"] Cons.prems(1) new show ?case by (simp add: snd_put_new)
qed

section \<open>Groups\<close>

definition has_type :: "outbound \<Rightarrow> string list \<Rightarrow> bool" where
  "has_type e ts \<longleftrightarrow> (\<exists>t \<in> set ts. (case jprop ''type'' e of None \<Rightarrow> Some ''undefined'' | Some j \<Rightarrow> js_String j) = Some t)"

lemma is_group_ok [prog_ok]:
  "is_group e w = (Inr b, v) \<longleftrightarrow> v = w \<and> b = has_type e group_types \<and>
    (case jprop ''type'' e of None \<Rightarrow> True | Some j \<Rightarrow> js_String j \<noteq> None)"
  by (auto simp: is_group_def String_of_def has_type_def prog_ok split: option.splits)

definition members :: "generated list \<Rightarrow> group_binding \<Rightarrow> string list" where
  "members gs b = map gn_tag (filter (selects b) gs)"

definition kept_outbounds :: "generated list \<Rightarrow> tag_map \<Rightarrow> bool" where
  "kept_outbounds gs m \<longleftrightarrow> (\<forall>g \<in> set gs. map_of m (gn_tag g) = Some (gn_outbound g))"

lemma tagged_put:
  assumes "tagged m" and "map_of m t = Some e" and "jprop ''tag'' e' = jprop ''tag'' e"
  shows "tagged (put_tag t e' m)"
proof -
  have "set (put_tag t e' m) \<subseteq> insert (t, e') (set m)"
    by (induction t e' m rule: put_tag.induct) auto
  with assms show ?thesis by (fastforce simp: tagged_def keys_put_tag dest: map_of_SomeD)
qed

lemma bind_group_ok:
  assumes "bind_group gs b (m, sel) w = (Inr (m', sel'), v)" and "tagged m" and "kept_outbounds gs m"
    and "\<forall>g \<in> set gs. \<not> has_type (gn_outbound g) group_types"
  shows "v = w \<and> tagged m' \<and> kept_outbounds gs m' \<and> map fst m' = map fst m \<and> gb_groupTag b \<in> set (map fst m') \<and>
    map_of sel (gb_groupTag b) = None \<and> sel' = sel @ [(gb_groupTag b, members gs b)]"
proof -
  from assms(1) obtain e where e: "map_of m (gb_groupTag b) = Some e" "has_type e group_types"
    and new: "map_of sel (gb_groupTag b) = None" "v = w" "sel' = sel @ [(gb_groupTag b, members gs b)]"
    and m': "m' = put_tag (gb_groupTag b) (set_prop ''outbounds'' (jstrings (unique (gb_staticMembers b @ members gs b))) e) m"
    by (auto simp: bind_group_def Let_def prog_ok members_def)
  have "gn_tag g \<noteq> gb_groupTag b" if "g \<in> set gs" for g
    using e assms(3,4) that by (auto simp: kept_outbounds_def)
  with assms(3) m' have "kept_outbounds gs m'" by (simp add: kept_outbounds_def map_of_put_tag)
  moreover from assms(2) e(1) m' have "tagged m'" by (simp add: tagged_put jprop_set_prop)
  moreover from e(1) m' have "map fst m' = map fst m" by (simp add: keys_put_tag)
  moreover from e(1) have "gb_groupTag b \<in> set (map fst m)" by (force dest: map_of_SomeD)
  ultimately show ?thesis using new by simp
qed

lemma bind_groups_ok:
  assumes "fold_each bs (m, sel) (bind_group gs) w = (Inr (m', sel'), v)" and "tagged m" and "kept_outbounds gs m"
    and "\<forall>g \<in> set gs. \<not> has_type (gn_outbound g) group_types"
  shows "v = w \<and> tagged m' \<and> kept_outbounds gs m' \<and> map fst m' = map fst m \<and>
    (\<forall>t ls. map_of sel t = Some ls \<longrightarrow> map_of sel' t = Some ls) \<and>
    (\<forall>b \<in> set bs. gb_groupTag b \<in> set (map fst m) \<and> map_of sel' (gb_groupTag b) = Some (members gs b))"
  using assms(1-3)
proof (induction bs arbitrary: m sel w)
  case Nil
  then show ?case by (simp add: prog_ok)
next
  case (Cons b bs)
  from Cons.prems(1) obtain m1 sel1 u where one: "bind_group gs b (m, sel) w = (Inr (m1, sel1), u)"
    and rest: "fold_each bs (m1, sel1) (bind_group gs) u = (Inr (m', sel'), v)"
    by (auto simp: prog_ok)
  note step = bind_group_ok [OF one Cons.prems(2,3) assms(4)]
  with Cons.IH [OF rest] have IH: "v = u \<and> tagged m' \<and> kept_outbounds gs m' \<and> map fst m' = map fst m1 \<and>
    (\<forall>t ls. map_of sel1 t = Some ls \<longrightarrow> map_of sel' t = Some ls) \<and>
    (\<forall>b \<in> set bs. gb_groupTag b \<in> set (map fst m1) \<and> map_of sel' (gb_groupTag b) = Some (members gs b))" by simp
  from step have keys: "map fst m1 = map fst m" and "gb_groupTag b \<in> set (map fst m1)" by blast+
  then have "gb_groupTag b \<in> set (map fst m)" by simp
  moreover have "map_of sel1 t = Some ls" if "map_of sel t = Some ls" for t ls
    using step that by (simp add: map_add_def)
  moreover have "map_of sel1 (gb_groupTag b) = Some (members gs b)" using step by (simp add: map_add_def)
  ultimately show ?case using IH step keys by (simp del: set_map)
qed

section \<open>The finished graph\<close>

definition group_ok :: "tag_map \<Rightarrow> outbound \<Rightarrow> bool" where
  "group_ok m e \<longleftrightarrow> (has_type e group_types \<longrightarrow>
     (\<exists>ms. jprop ''outbounds'' e = Some (JArr (map JStr ms)) \<and> ms \<noteq> [] \<and> set ms \<subseteq> fst ` set m \<and>
           (case jprop ''default'' e of None \<Rightarrow> True | Some v \<Rightarrow> v \<in> JStr ` set ms)))"

definition sound_graph :: "tag_map \<Rightarrow> bool" where
  "sound_graph m \<longleftrightarrow> tagged m \<and> (\<forall>e \<in> set (map snd m). group_ok m e) \<and> (\<forall>t \<in> fst ` set m. \<not> (edge m)\<^sup>+\<^sup>+ t t)"

lemma known_texts:
  assumes "list_all (known m) ms"
  shows "\<exists>ts. ms = map JStr ts \<and> set ts \<subseteq> fst ` set m"
  using assms
proof (induction ms)
  case Nil
  then show ?case by simp
next
  case (Cons j ms)
  then obtain t where j: "j = JStr t" and "map_of m t \<noteq> None" by (auto simp: known_def split: json.splits)
  then have "t \<in> fst ` set m" by (simp add: map_of_eq_None_iff)
  moreover from Cons obtain ts where "ms = map JStr ts" "set ts \<subseteq> fst ` set m" by auto
  ultimately have "j # ms = map JStr (t # ts) \<and> set (t # ts) \<subseteq> fst ` set m" using j by simp
  then show ?case by (rule exI [of _ "t # ts"])
qed

lemma check_group_ok:
  assumes "check_group m e w = (Inr (), v)"
  shows "v = w \<and> group_ok m e"
proof (cases "has_type e group_types")
  case False
  with assms show ?thesis by (auto simp: check_group_def group_ok_def prog_ok)
next
  case True
  with assms obtain ms where ms: "jprop ''outbounds'' e = Some (JArr ms)" "ms \<noteq> []" "list_all (known m) ms" "v = w"
    "case jprop ''default'' e of None \<Rightarrow> True | Some d \<Rightarrow> d \<in> set ms"
    by (auto simp: check_group_def prog_ok split: option.splits json.splits)
  from known_texts [OF ms(3)] obtain ts where "ms = map JStr ts" "set ts \<subseteq> fst ` set m" by blast
  with ms show ?thesis unfolding group_ok_def by (intro conjI impI exI [of _ ts]) (auto split: option.splits)
qed

lemma check_groups_ok:
  "for_each es (check_group m) w = (Inr (), v) \<Longrightarrow> v = w \<and> (\<forall>e \<in> set es. group_ok m e)"
  by (induction es arbitrary: w) (auto simp: prog_ok dest!: check_group_ok)

lemma check_leaves_ok:
  assumes "check_leaves m selected b cache w = (Inr cache', v)" and "topo m ts" and "gb_groupTag b \<in> set ts"
    and "cache_ok m cache"
  shows "v = w \<and> cache_ok m cache' \<and> leaf_set m (gb_groupTag b) \<subseteq> set (the (map_of selected (gb_groupTag b)))"
proof -
  have "length ts \<le> Suc (length m)" using topo_length [OF assms(2)] by simp
  from managedLeaves_ok [OF assms(2,3) this assms(4)] obtain ls c where
    "managedLeaves (Suc (length m)) m (gb_groupTag b) cache = Some (Inr (ls, c))"
    "set ls = leaf_set m (gb_groupTag b)" "cache_ok m c"
    by (auto simp: leaves_ok_def simp del: managedLeaves.simps)
  with assms(1) show ?thesis
    by (auto simp: check_leaves_def prog_ok list_all_iff simp del: managedLeaves.simps)
qed

lemma check_all_leaves_ok:
  "fold_each bs cache (check_leaves m selected) w = (Inr cache', v) \<Longrightarrow> topo m ts \<Longrightarrow>
    \<forall>b \<in> set bs. gb_groupTag b \<in> set ts \<Longrightarrow> cache_ok m cache \<Longrightarrow>
    v = w \<and> (\<forall>b \<in> set bs. leaf_set m (gb_groupTag b) \<subseteq> set (the (map_of selected (gb_groupTag b))))"
proof (induction bs arbitrary: cache w)
  case Nil
  then show ?case by (simp add: prog_ok)
next
  case (Cons b bs)
  from Cons.prems(1) obtain c u where one: "check_leaves m selected b cache w = (Inr c, u)"
    and rest: "fold_each bs c (check_leaves m selected) u = (Inr cache', v)" by (auto simp: prog_ok)
  from check_leaves_ok [OF one Cons.prems(2) _ Cons.prems(4)] Cons.prems(3)
  have step: "u = w" "cache_ok m c" "leaf_set m (gb_groupTag b) \<subseteq> set (the (map_of selected (gb_groupTag b)))" by auto
  with Cons.IH [OF rest Cons.prems(2) _ step(2)] Cons.prems(3) show ?case by simp
qed

text \<open>The reference at \<open>route.final\<close>.\<close>

definition route_ok :: "tag_map \<Rightarrow> (string \<times> json) list \<Rightarrow> bool" where
  "route_ok m result \<longleftrightarrow>
     (case jprop ''route'' result of None \<Rightarrow> True
      | Some r \<Rightarrow> \<exists>ps. r = JObj ps \<and> (case jprop ''final'' ps of None \<Rightarrow> True | Some v \<Rightarrow> known m v))"

lemma check_route_ok: "check_route m result w = (Inr (), v) \<Longrightarrow> v = w \<and> route_ok m result"
  by (auto simp: check_route_def route_ok_def object_def prog_ok split: option.splits json.splits)

lemma check_graph_ok:
  assumes "check_graph bs (m, selected) result w = (Inr (), v)" and "tagged m"
    and "\<forall>b \<in> set bs. gb_groupTag b \<in> set (map fst m)"
  shows "v = w \<and> sound_graph m \<and> walk (known m) (JObj result) \<and> route_ok m result \<and>
    (\<forall>b \<in> set bs. leaf_set m (gb_groupTag b) \<subseteq> set (the (map_of selected (gb_groupTag b))))"
proof -
  from assms(1) obtain u s x c where groups: "for_each (map snd m) (check_group m) w = (Inr (), u)"
    and refs: "walk (known m) (JObj result)" and route: "check_route m result u = (Inr (), x)"
    and visits: "visit_tags m = Some (Inr s)"
    and leaves: "fold_each bs [] (check_leaves m selected) x = (Inr c, v)"
    unfolding check_graph_def prod.case bind_ok require_ok the_or_ok lift_sum_ok return_ok
    by (elim exE conjE, hypsubst) auto
  note topo = visit_tags_topo [OF visits]
  have "\<forall>b \<in> set bs. gb_groupTag b \<in> set (snd s)" using assms(3) topo(2) by auto
  from check_all_leaves_ok [OF leaves topo(1) this]
  have "v = x" "\<forall>b \<in> set bs. leaf_set m (gb_groupTag b) \<subseteq> set (the (map_of selected (gb_groupTag b)))"
    by (simp_all add: cache_ok_def)
  moreover have "\<not> (edge m)\<^sup>+\<^sup>+ t t" if "t \<in> fst ` set m" for t
    using topo_acyclic [OF topo(1), of t] topo(2) that by blast
  ultimately show ?thesis
    using check_groups_ok [OF groups] check_route_ok [OF route] refs assms(2) by (simp add: sound_graph_def)
qed

section \<open>The rendered configuration\<close>

lemma object_ok [prog_ok]: "object x w = (Inr ps, u) \<longleftrightarrow> u = w \<and> x = Some (JObj ps)"
  by (auto simp: object_def prog_ok split: option.splits json.splits)

lemma objects_pure:
  assumes "objects x w = (Inr es, u)"
  shows "u = w"
proof -
  have "u = w" if "map_prog (\<lambda>x. object (Some x)) xs w = (Inr es, u)" for xs es
    using that by (induction xs arbitrary: es w) (auto simp: prog_ok)
  with assms show ?thesis by (auto simp: objects_def prog_ok split: option.splits json.splits)
qed

lemma no_machine_group: "g \<in> set (all_outbounds s) \<Longrightarrow> \<not> has_type (gn_outbound g) group_types"
  using all_outbounds_facts(3,7) [of g s] by (auto simp: has_type_def group_types_def protocol_names_def)

lemma joined_outbounds:
  assumes "distinct (map cn_id (sn_nodes s))" and "tagged own" and "\<forall>t \<in> set (map fst own). \<not> is_managed t"
  shows "foldl (\<lambda>m g. put_tag (gn_tag g) (gn_outbound g) m) own (all_outbounds s) =
      own @ map (\<lambda>g. (gn_tag g, gn_outbound g)) (all_outbounds s)"
    and "tagged (own @ map (\<lambda>g. (gn_tag g, gn_outbound g)) (all_outbounds s))"
    and "kept_outbounds (all_outbounds s) (own @ map (\<lambda>g. (gn_tag g, gn_outbound g)) (all_outbounds s))"
proof -
  let ?m = "own @ map (\<lambda>g. (gn_tag g, gn_outbound g)) (all_outbounds s)"
  have fresh: "gn_tag g \<notin> set (map fst own)" if "g \<in> set (all_outbounds s)" for g
    using assms(3) all_outbounds_facts(5) [OF that] by blast
  with distinct_all_tags [OF assms(1)]
  show "foldl (\<lambda>m g. put_tag (gn_tag g) (gn_outbound g) m) own (all_outbounds s) = ?m"
    by (intro put_outbounds) auto
  have "map fst ?m = map fst own @ map gn_tag (all_outbounds s)" by simp
  moreover have "set (map fst own) \<inter> set (map gn_tag (all_outbounds s)) = {}"
    using fresh by (auto simp del: set_map simp: set_map [of gn_tag])
  ultimately have keys: "distinct (map fst ?m)"
    using distinct_all_tags [OF assms(1)] assms(2) by (simp only: distinct_append tagged_def simp_thms)
  with assms(2) show tagged: "tagged ?m"
    by (auto simp: tagged_def all_outbounds_facts(6))
  show "kept_outbounds (all_outbounds s) ?m"
    unfolding kept_outbounds_def
  proof
    fix g assume "g \<in> set (all_outbounds s)"
    then have "(gn_tag g, gn_outbound g) \<in> set ?m" by auto
    with keys show "map_of ?m (gn_tag g) = Some (gn_outbound g)" by (rule map_of_is_SomeI)
  qed
qed

text \<open>The outbounds written are those of the map, in its order.\<close>

lemma written_outbounds:
  assumes "tagged m" and "kept_outbounds gs m" and "map fst m = ks @ map gn_tag gs"
  shows "map snd (take (length ks) m) @ map gn_outbound gs = map snd m"
proof -
  have "map snd m = map (\<lambda>t. the (map_of m t)) ks @ map (\<lambda>t. the (map_of m t)) (map gn_tag gs)"
    using map_of_keys [of m] assms(1,3) by (simp add: tagged_def)
  moreover have "map (\<lambda>t. the (map_of m t)) (map gn_tag gs) = map gn_outbound gs"
    using assms(2) by (auto simp: kept_outbounds_def)
  moreover from calculation have "map snd (take (length ks) m) = map (\<lambda>t. the (map_of m t)) ks"
    by (simp add: take_map [symmetric])
  ultimately show ?thesis by simp
qed

lemma parse_draft_ok [prog_ok]: "parse_draft j w = (Inr d, u) \<longleftrightarrow> u = w \<and> draftSchema j = Some d"
  by (auto simp: parse_draft_def prog_ok)

lemma parse_template_pure: "parse_template P d w = (Inr ps, u) \<Longrightarrow> u = w"
  by (auto simp: parse_template_def prog_ok)

lemma render_stages:
  assumes "renderSubscription P input s w = (Inr r, v)"
  obtains d parsed outs own m sel t where "draftSchema input = Some d" and "\<not> sn_blocked s"
    and "parse_template P d w = (Inr parsed, w)" and "objects (jprop ''outbounds'' parsed) w = (Inr outs, w)"
    and "fold_each outs [] collect_tag w = (Inr own, w)"
    and "fold_each (dr_bindings d) (foldl (\<lambda>m g. put_tag (gn_tag g) (gn_outbound g) m) own (all_outbounds s), [])
      (bind_group (all_outbounds s)) w = (Inr (m, sel), t)"
    and "check_graph (dr_bindings d) (m, sel) (set_prop ''outbounds''
      (JArr (map JObj (map snd (take (length outs) m) @ map gn_outbound (all_outbounds s)))) parsed) t = (Inr (), v)"
    and "r = \<lparr>rd_configJson = jsonBytes (JObj (set_prop ''outbounds''
      (JArr (map JObj (map snd (take (length outs) m) @ map gn_outbound (all_outbounds s)))) parsed)),
      rd_nodeCount = int (length (available_nodes s))\<rparr>"
proof -
  have gs: "map_prog (generate_node s) (available_nodes s) u = (Inr (map (machine_outbounds s) (available_nodes s)), u)"
    for u :: 'a by (rule map_prog_total) (rule generate_node_run)
  from assms obtain d parsed u1 outs u2 own u3 m sel t where d: "draftSchema input = Some d" "\<not> sn_blocked s"
    and parsed: "parse_template P d w = (Inr parsed, u1)" and outs: "objects (jprop ''outbounds'' parsed) u1 = (Inr outs, u2)"
    and own: "fold_each outs [] collect_tag u2 = (Inr own, u3)"
    and rest: "fold_each (dr_bindings d) (foldl (\<lambda>m g. put_tag (gn_tag g) (gn_outbound g) m) own (all_outbounds s), [])
      (bind_group (all_outbounds s)) u3 = (Inr (m, sel), t)"
    "check_graph (dr_bindings d) (m, sel) (set_prop ''outbounds''
      (JArr (map JObj (map snd (take (length outs) m) @ map gn_outbound (all_outbounds s)))) parsed) t = (Inr (), v)"
    "r = \<lparr>rd_configJson = jsonBytes (JObj (set_prop ''outbounds''
      (JArr (map JObj (map snd (take (length outs) m) @ map gn_outbound (all_outbounds s)))) parsed)),
      rd_nodeCount = int (length (available_nodes s))\<rparr>"
    unfolding renderSubscription_def Let_def bind_ok parse_draft_ok require_ok return_ok gs prod.inject sum.inject
      all_outbounds_def [symmetric]
    by (elim exE conjE, hypsubst) (auto simp: all_outbounds_def)
  note pure = parse_template_pure [OF parsed] objects_pure [OF outs]
  moreover from collect_tags_ok [OF own] have "u3 = u2" by (simp add: tagged_def)
  ultimately show ?thesis using that d parsed outs own rest by simp
qed

lemma render_ok:
  assumes "renderSubscription P input s w = (Inr r, v)" and "distinct (map cn_id (sn_nodes s))"
  obtains d m result where "v = w" and "draftSchema input = Some d" and "\<not> sn_blocked s" and "sound_graph m"
    and "walk (known m) (JObj result)" and "route_ok m result"
    and "rd_configJson r = jsonBytes (JObj result)" and "rd_nodeCount r = int (length (available_nodes s))"
    and "jprop ''outbounds'' result = Some (JArr (map JObj (map snd m)))" and "kept_outbounds (all_outbounds s) m"
    and "\<forall>b \<in> set (dr_bindings d). leaf_set m (gb_groupTag b) \<subseteq> set (members (all_outbounds s) b)"
proof -
  let ?gs = "all_outbounds s"
  from render_stages [OF assms(1)] obtain d parsed outs own m sel t where d: "draftSchema input = Some d"
    and free: "\<not> sn_blocked s" and own: "fold_each outs [] collect_tag w = (Inr own, w)"
    and bound: "fold_each (dr_bindings d) (foldl (\<lambda>m g. put_tag (gn_tag g) (gn_outbound g) m) own ?gs, []) (bind_group ?gs) w
      = (Inr (m, sel), t)"
    and check: "check_graph (dr_bindings d) (m, sel) (set_prop ''outbounds''
      (JArr (map JObj (map snd (take (length outs) m) @ map gn_outbound ?gs))) parsed) t = (Inr (), v)"
    and r: "r = \<lparr>rd_configJson = jsonBytes (JObj (set_prop ''outbounds''
      (JArr (map JObj (map snd (take (length outs) m) @ map gn_outbound ?gs))) parsed)),
      rd_nodeCount = int (length (available_nodes s))\<rparr>" .
  from collect_tags_ok [OF own] have own: "tagged own" "\<forall>t \<in> set (map fst own). \<not> is_managed t" "map snd own = outs"
    by (simp_all add: tagged_def)
  note joined = joined_outbounds [OF assms(2) own(1,2)]
  note bound = bind_groups_ok [OF bound [unfolded joined(1)] joined(2,3)]
  have facts: "t = w" "tagged m" "kept_outbounds ?gs m" "map fst m = map fst own @ map gn_tag ?gs"
    "\<forall>b \<in> set (dr_bindings d). gb_groupTag b \<in> set (map fst m) \<and> map_of sel (gb_groupTag b) = Some (members ?gs b)"
    using bound no_machine_group by (auto simp: comp_def simp del: set_map)
  have "length outs = length (map fst own)" using own(3) by (metis length_map)
  with written_outbounds [OF facts(2,3,4)]
  have outs_eq: "map snd (take (length outs) m) @ map gn_outbound ?gs = map snd m" by simp
  note checked = check_graph_ok [OF check [unfolded outs_eq] facts(2)]
  show ?thesis
    by (rule that [of d m "set_prop ''outbounds'' (JArr (map JObj (map snd m))) parsed"])
      (use checked facts d free r outs_eq in \<open>auto simp: jprop_set_prop\<close>)
qed

end
