(* ===== verification/Template_Facts.thy ===== *)
theory Template_Facts
  imports Template
begin

text \<open>
  What \<open>draftSchema\<close> accepts is what it returns when the accepted draft is written as an object and read again:
  a draft that was stored is read back as it was.
\<close>

definition strings_ok :: "string list \<Rightarrow> bool" where
  "strings_ok xs \<longleftrightarrow> length xs \<le> 100 \<and> (\<forall>s \<in> set xs. 1 \<le> length s \<and> length s \<le> 160)"

definition binding_ok :: "group_binding \<Rightarrow> bool" where
  "binding_ok b \<longleftrightarrow> 1 \<le> length (gb_groupTag b) \<and> length (gb_groupTag b) \<le> 100 \<and> strings_ok (gb_regions b) \<and>
     strings_ok (gb_tags b) \<and> length (gb_protocols b) \<le> 2 \<and> set (gb_protocols b) \<subseteq> set protocol_names \<and>
     strings_ok (gb_machineIds b) \<and> strings_ok (gb_excludeMachineIds b) \<and> strings_ok (gb_staticMembers b)"

definition draft_ok :: "draft \<Rightarrow> bool" where
  "draft_ok d \<longleftrightarrow> length (dr_templateJson d) \<le> 1024 * 1024 \<and> length (dr_bindings d) \<le> 64 \<and>
     (\<forall>b \<in> set (dr_bindings d). binding_ok b)"

lemma those_Some: "those xs = Some ys \<longleftrightarrow> xs = map Some ys"
  by (induction xs arbitrary: ys) (auto split: option.splits)

lemma text_schema_ok: "text_schema lo hi j = Some s \<longleftrightarrow> j = Some (JStr s) \<and> lo \<le> length s \<and> length s \<le> hi"
  by (auto simp: text_schema_def split: option.splits json.splits)

lemma array_schema_ok:
  "array_schema hi f j = Some ys \<longleftrightarrow> (\<exists>xs. j = Some (JArr xs) \<and> length xs \<le> hi \<and> map f xs = map Some ys)"
  by (auto simp: array_schema_def those_Some split: option.splits json.splits)

lemma strings_schema:
  "strings j = Some xs \<longleftrightarrow> j = Some (jstrings xs) \<and> strings_ok xs"
proof -
  have "map (\<lambda>x. text_schema 1 160 (Some x)) js = map Some xs \<longleftrightarrow>
    js = map JStr xs \<and> (\<forall>s \<in> set xs. 1 \<le> length s \<and> length s \<le> 160)" for js
    by (induction js arbitrary: xs) (auto simp: text_schema_ok map_eq_Cons_conv Cons_eq_map_conv)
  then show ?thesis by (auto simp: strings_def array_schema_ok strings_ok_def jstrings_def)
qed

lemma protocols_schema:
  "array_schema 2 protocol_schema j = Some xs \<longleftrightarrow>
    j = Some (jstrings xs) \<and> length xs \<le> 2 \<and> set xs \<subseteq> set protocol_names"
proof -
  have one: "protocol_schema x = Some s \<longleftrightarrow> x = JStr s \<and> s \<in> set protocol_names" for x s
    by (auto simp: protocol_schema_def split: json.splits)
  have "map protocol_schema js = map Some xs \<longleftrightarrow> js = map JStr xs \<and> set xs \<subseteq> set protocol_names" for js
    by (induction js arbitrary: xs) (auto simp: one map_eq_Cons_conv Cons_eq_map_conv)
  then show ?thesis by (auto simp: array_schema_ok jstrings_def)
qed

lemma bindingSchema_ok: "bindingSchema j = Some b \<Longrightarrow> binding_ok b"
  by (auto simp: bindingSchema_def binding_ok_def strings_schema text_schema_ok protocols_schema
      split: json.splits option.splits)

lemma binding_roundtrip:
  assumes "binding_ok b"
  shows "bindingSchema (binding_json b) = Some b"
proof -
  have texts: "strings (Some (jstrings xs)) = Some xs" if "strings_ok xs" for xs
    using that by (simp add: strings_schema)
  have "text_schema 1 100 (Some (JStr (gb_groupTag b))) = Some (gb_groupTag b)"
    "array_schema 2 protocol_schema (Some (jstrings (gb_protocols b))) = Some (gb_protocols b)"
    using assms by (simp_all add: text_schema_ok protocols_schema binding_ok_def)
  with assms show ?thesis
    by (simp add: bindingSchema_def binding_json_def jprop_def default_empty_def texts binding_ok_def)
qed

lemma draftSchema_ok: "draftSchema j = Some d \<Longrightarrow> draft_ok d"
proof -
  assume "draftSchema j = Some d"
  then obtain ps t bs where t: "text_schema 0 (1024 * 1024) (jprop ''templateJson'' ps) = Some t"
    and bs: "array_schema 64 bindingSchema (jprop ''bindings'' ps) = Some bs"
    and d: "d = \<lparr>dr_templateJson = t, dr_bindings = bs\<rparr>"
    by (auto simp: draftSchema_def split: json.splits option.splits)
  from bs obtain xs where xs: "length xs \<le> 64" "map bindingSchema xs = map Some bs" by (auto simp: array_schema_ok)
  then have "length bs \<le> 64" by (metis length_map)
  moreover have "binding_ok b" if "b \<in> set bs" for b
  proof -
    from that have "Some b \<in> set (map Some bs)" by simp
    with xs(2) have "Some b \<in> set (map bindingSchema xs)" by simp
    then show ?thesis by (auto dest!: bindingSchema_ok [OF sym])
  qed
  ultimately show ?thesis using t by (auto simp: draft_ok_def d text_schema_ok)
qed

lemma draft_roundtrip:
  assumes "draft_ok d"
  shows "draftSchema (draft_json d) = Some d"
proof -
  have "text_schema 0 (1024 * 1024) (Some (JStr (dr_templateJson d))) = Some (dr_templateJson d)"
    using assms by (simp add: text_schema_ok draft_ok_def)
  moreover have "map bindingSchema (map binding_json (dr_bindings d)) = map Some (dr_bindings d)"
    using assms by (auto simp: binding_roundtrip draft_ok_def)
  then have "array_schema 64 bindingSchema (Some (JArr (map binding_json (dr_bindings d)))) = Some (dr_bindings d)"
    using assms by (simp only: array_schema_ok) (simp add: draft_ok_def)
  ultimately show ?thesis by (simp add: draftSchema_def draft_json_def jprop_def)
qed

text \<open>The presets are drafts that the schema accepts.\<close>

lemma default_binding_ok: "length g \<le> 100 \<Longrightarrow> g \<noteq> [] \<Longrightarrow> binding_ok (default_binding g)"
  by (cases g) (auto simp: binding_ok_def default_binding_def plain_binding_def strings_ok_def)

end
