(* ===== verification/Render_Props.thy ===== *)
theory Render_Props
  imports Render_Facts Template_Facts Sample
begin

text \<open>
  The properties of rendered subscriptions: the recursions over the graph end, what is rendered is a sound graph
  whose groups lead to the selected machines only, and the one kind of template that is not answered with
  the error meant for it.
\<close>

section \<open>The recursions end\<close>

lemma visit_all_mono:
  assumes "\<And>t s r. f t s = Some r \<Longrightarrow> g t s = Some r" and "visit_all f js s = Some r"
  shows "visit_all g js s = Some r"
  using assms(2)
proof (induction js arbitrary: s)
  case Nil
  then show ?case by simp
next
  case (Cons j js)
  show ?case
  proof (cases "js_String j")
    case None
    with Cons.prems show ?thesis by simp
  next
    case (Some t)
    with Cons.prems obtain x where x: "f t s = Some x" by (auto split: option.splits)
    with assms(1) [OF x] Some Cons show ?thesis by (cases x) auto
  qed
qed

lemma visit_mono: "visit n m t s = Some r \<Longrightarrow> visit (n + k) m t s = Some r"
proof (induction n arbitrary: t s r)
  case 0
  then show ?case by simp
next
  case (Suc n)
  obtain vs vd where s: "s = (vs, vd)" by (cases s)
  show ?case
  proof (cases "t \<in> set vs \<or> t \<in> set vd \<or> map_of m t = None")
    case True
    with Suc.prems s show ?thesis by auto
  next
    case False
    then obtain e where e: "map_of m t = Some e" by auto
    with False Suc.prems s obtain x where x: "visit_all (visit n m) (targets e) (t # vs, vd) = Some x"
      by (auto split: option.splits)
    have "visit_all (visit (n + k) m) (targets e) (t # vs, vd) = Some x"
      by (rule visit_all_mono [OF _ x]) (rule Suc.IH)
    with False Suc.prems s e x show ?thesis by simp
  qed
qed

lemma leaves_all_mono:
  assumes "\<And>t c r. f t c = Some r \<Longrightarrow> g t c = Some r" and "leaves_all f js found cache = Some r"
  shows "leaves_all g js found cache = Some r"
  using assms(2)
proof (induction js arbitrary: found cache)
  case Nil
  then show ?case by simp
next
  case (Cons j js)
  show ?case
  proof (cases "js_String j")
    case None
    with Cons.prems show ?thesis by simp
  next
    case (Some t)
    with Cons.prems obtain x where x: "f t cache = Some x" by (auto split: option.splits)
    with assms(1) [OF x] Some Cons show ?thesis by (cases x) auto
  qed
qed

lemma managedLeaves_mono: "managedLeaves n m t c = Some r \<Longrightarrow> managedLeaves (n + k) m t c = Some r"
proof (induction n arbitrary: t c r)
  case 0
  then show ?case by simp
next
  case (Suc n)
  show ?case
  proof (cases "map_of c t \<noteq> None \<or> map_of m t = None")
    case True
    with Suc.prems show ?thesis by (auto split: option.splits)
  next
    case False
    then obtain e where e: "map_of c t = None" "map_of m t = Some e" by auto
    let ?own = "if startsWith t ''bfc_'' then [t] else []"
    from e Suc.prems obtain x where x: "leaves_all (managedLeaves n m) (targets e) ?own c = Some x"
      by (auto split: option.splits)
    have "leaves_all (managedLeaves (n + k) m) (targets e) ?own c = Some x"
      by (rule leaves_all_mono [OF _ x]) (rule Suc.IH)
    with Suc.prems e x show ?thesis by simp
  qed
qed

text \<open>
  C30. The two recursions over the graph end: whatever the outbounds refer to, the walk for cycles gives an
  answer within one step more than there are tags, and once it has accepted the graph, the walk for the
  managed leaves of any of its tags gives the leaves that can be reached; more fuel gives the same.
\<close>

theorem graph_walks_end:
  "(\<exists>r. visit_tags m = Some r) \<and>
   (\<forall>n t s r. visit n m t s = Some r \<longrightarrow> (\<forall>k. visit (n + k) m t s = Some r)) \<and>
   (\<forall>s t cache. visit_tags m = Some (Inr s) \<longrightarrow> t \<in> fst ` set m \<longrightarrow> cache_ok m cache \<longrightarrow>
      (\<exists>ls cache'. set ls = leaf_set m t \<and>
         (\<forall>k. managedLeaves (Suc (length m) + k) m t cache = Some (Inr (ls, cache')))))"
proof (intro conjI allI impI)
  show "\<exists>r. visit_tags m = Some r" using visit_tags_total by blast
next
  fix n t s r k assume "visit n m t s = Some r"
  then show "visit (n + k) m t s = Some r" by (rule visit_mono)
next
  fix s t cache assume ok: "visit_tags m = Some (Inr s)" and t: "t \<in> fst ` set m" and cache: "cache_ok m cache"
  note topo = visit_tags_topo [OF ok]
  have "length (snd s) \<le> Suc (length m)" using topo_length [OF topo(1)] by simp
  with topo t cache have "leaves_ok m (leaf_set m t) (managedLeaves (Suc (length m)) m t cache)"
    by (intro managedLeaves_ok) auto
  then show "\<exists>ls cache'. set ls = leaf_set m t \<and>
      (\<forall>k. managedLeaves (Suc (length m) + k) m t cache = Some (Inr (ls, cache')))"
    unfolding leaves_ok_def by (meson managedLeaves_mono)
qed

definition sample_graph :: tag_map where
  "sample_graph = [(''g'', [(''type'', JStr ''selector''), (''outbounds'', JArr [JStr ''bfc_a'', JStr ''d''])]),
     (''d'', [(''type'', JStr ''direct'')]), (''bfc_a'', [(''type'', JStr ''trojan''), (''detour'', JStr ''d'')])]"

lemma graph_walks_end_witness:
  "\<exists>ls cache'. set ls = leaf_set sample_graph ''g'' \<and>
    managedLeaves 4 sample_graph ''g'' [] = Some (Inr (ls, cache')) \<and> (\<exists>s. visit_tags sample_graph = Some (Inr s))"
proof -
  have "\<not> Option.is_none (visit_tags sample_graph) \<and> \<not> isl (the (visit_tags sample_graph))" by code_simp
  then obtain s where s: "visit_tags sample_graph = Some (Inr s)"
    by (cases "visit_tags sample_graph"; cases "the (visit_tags sample_graph)") auto
  have g: "''g'' \<in> fst ` set sample_graph" and n: "Suc (length sample_graph) + 0 = 4"
    by (simp_all add: sample_graph_def)
  obtain ls cache' where "set ls = leaf_set sample_graph ''g''"
    "\<forall>k. managedLeaves (Suc (length sample_graph) + k) sample_graph ''g'' [] = Some (Inr (ls, cache'))"
    using graph_walks_end [of sample_graph] s g unfolding cache_ok_def by (metis empty_iff list.set(1))
  then show ?thesis using s n by metis
qed

section \<open>The rendered graph\<close>

text \<open>
  C29. What \<open>renderSubscription\<close> answers is a configuration for an account that is not blocked whose outbounds form
  a sound graph: tags are unique, the members of every group and its default are outbounds of the
  configuration, as is every other outbound that is referred to, nothing refers to itself in a circle, and
  the machines that a bound group leads to, directly or not, are available ones that its binding selects.
\<close>

theorem rendered_graph_sound:
  assumes "renderSubscription P input s w = (Inr r, v)" and "distinct (map cn_id (sn_nodes s))"
  shows "v = w \<and> \<not> sn_blocked s \<and>
    (\<exists>d m result. draftSchema input = Some d \<and> rd_configJson r = jsonBytes (JObj result) \<and>
       jprop ''outbounds'' result = Some (JArr (map JObj (map snd m))) \<and> sound_graph m \<and>
       walk (known m) (JObj result) \<and> route_ok m result \<and>
       (\<forall>b \<in> set (dr_bindings d). \<forall>t \<in> leaf_set m (gb_groupTag b).
          \<exists>g \<in> set (all_outbounds s). t = generated_tag (cn_id (gn_node g)) (gn_protocol g) \<and> selects b g \<and>
            gn_node g \<in> set (sn_nodes s) \<and> sn_available (gn_node g)))"
proof -
  from render_ok [OF assms] obtain d m result where ok: "v = w" "\<not> sn_blocked s" "draftSchema input = Some d"
    "rd_configJson r = jsonBytes (JObj result)" "jprop ''outbounds'' result = Some (JArr (map JObj (map snd m)))"
    "sound_graph m" "walk (known m) (JObj result)" "route_ok m result"
    and leaves: "\<forall>b \<in> set (dr_bindings d). leaf_set m (gb_groupTag b) \<subseteq> set (members (all_outbounds s) b)" .
  have "\<exists>g \<in> set (all_outbounds s). t = generated_tag (cn_id (gn_node g)) (gn_protocol g) \<and> selects b g \<and>
      gn_node g \<in> set (sn_nodes s) \<and> sn_available (gn_node g)"
    if "b \<in> set (dr_bindings d)" and t: "t \<in> leaf_set m (gb_groupTag b)" for b t
  proof -
    from that leaves have "t \<in> set (members (all_outbounds s) b)" by blast
    then obtain g where "g \<in> set (all_outbounds s)" "selects b g" "t = gn_tag g" by (auto simp: members_def)
    with all_outbounds_facts(1,2,4) [of g s] show ?thesis by auto
  qed
  with ok show ?thesis by blast
qed

definition sample_node :: snapshot_node where
  "sample_node = \<lparr>cn_id = ''n1'', cn_name = ''node'', cn_address = ''10.0.0.1'',
     cn_settings = \<lparr>cfg_listen = None, cfg_trojanPort = 443, cfg_hysteria2Port = 8443,
       cfg_tls = AcmeTls ''a.b'' ''x@y.z'', cfg_baseJson = []\<rparr>,
     sn_region = ''HK'', sn_tags = [''ai''], sn_available = True, sn_applied = True\<rparr>"

definition sample_subscriber :: user_row where
  "sample_subscriber = \<lparr>u_id = ''u1'', u_username = ''bob'', u_role = Schema.User, u_status = Active,
     u_monthlyLimitBytes = None, u_version = 1, u_createdAt = 0\<rparr>"

definition sample_snapshot :: snapshot where
  "sample_snapshot = \<lparr>sn_credentials = \<lparr>c_generation = 1,
       c_secrets = [(''trojanPassword'', JStr ''t''), (''hysteria2Password'', JStr ''h'')]\<rparr>,
     sn_quota = \<lparr>q_user = sample_subscriber, q_used = 0, q_limit = None, q_blocked = False, q_period = ''2024-01''\<rparr>,
     sn_blocked = False, sn_nodes = [sample_node]\<rparr>"

definition sample_template :: "outbound list \<Rightarrow> json" where
  "sample_template os = JObj [(''outbounds'', JArr (map JObj os)), (''route'', JObj [(''final'', JStr ''g'')])]"

definition sample_groups :: "outbound list" where
  "sample_groups = [[(''type'', JStr ''selector''), (''tag'', JStr ''g''), (''outbounds'', JArr [])],
     [(''type'', JStr ''direct''), (''tag'', JStr ''d'')]]"

definition sample_draft :: draft where
  "sample_draft = \<lparr>dr_templateJson = ''{}'', dr_bindings = [plain_binding ''g'' [''ai''] [''d'']]\<rparr>"

definition template_platform :: "outbound list \<Rightarrow> platform" where
  "template_platform os = sample\<lparr>p_jsonParse := \<lambda>_. Some (sample_template os)\<rparr>"

lemma sample_parses:
  assumes "p_jsonParse P ''{}'' = Some (sample_template os)" and "bound 0 (sample_template os) 0 \<noteq> None"
  shows "parse_draft (draft_json sample_draft) w = (Inr sample_draft, w)"
    "parse_template P sample_draft w = (Inr (object_properties (sample_template os)), w)"
proof -
  have "draft_ok sample_draft"
    by (simp add: draft_ok_def sample_draft_def plain_binding_def binding_ok_def strings_ok_def)
  then show "parse_draft (draft_json sample_draft) w = (Inr sample_draft, w)"
    by (simp add: parse_draft_def draft_roundtrip)
  show "parse_template P sample_draft w = (Inr (object_properties (sample_template os)), w)"
    using assms by (simp add: parse_template_def sample_draft_def sample_template_def object_def bind_run)
qed

lemma sample_machine:
  "available_nodes sample_snapshot = [sample_node]"
  "map gn_tag (all_outbounds sample_snapshot) = [''bfc_n1_trojan'', ''bfc_n1_hysteria2'']"
  by (simp_all add: available_nodes_def sample_snapshot_def sample_node_def all_outbounds_def machine_outbounds_def
      machine_outbound_def generated_tag_def)

text \<open>The stages of its rendering.\<close>

definition sample_machine_outbound :: "string \<Rightarrow> int \<Rightarrow> string \<Rightarrow> outbound" where
  "sample_machine_outbound type port secret =
     [(''type'', JStr type), (''tag'', JStr (generated_tag ''n1'' type)), (''server'', JStr ''10.0.0.1''),
      (''server_port'', jint port), (''password'', JStr secret),
      (''tls'', JObj [(''enabled'', JBool True), (''server_name'', JStr ''a.b'')])]"

definition sample_own :: tag_map where
  "sample_own = [(''g'', sample_groups ! 0), (''d'', sample_groups ! 1)]"

definition sample_machines :: tag_map where
  "sample_machines = [(''bfc_n1_trojan'', sample_machine_outbound ''trojan'' 443 ''t''),
     (''bfc_n1_hysteria2'', sample_machine_outbound ''hysteria2'' 8443 ''h'')]"

definition bound_graph :: tag_map where
  "bound_graph = [(''g'', [(''type'', JStr ''selector''), (''tag'', JStr ''g''),
       (''outbounds'', jstrings [''d'', ''bfc_n1_trojan'', ''bfc_n1_hysteria2''])]),
     (''d'', sample_groups ! 1)] @ sample_machines"

lemma sample_joined:
  "foldl (\<lambda>m g. put_tag (gn_tag g) (gn_outbound g) m) sample_own (all_outbounds sample_snapshot) = sample_own @ sample_machines"
  "map gn_outbound (all_outbounds sample_snapshot) = map snd sample_machines"
  "map (\<lambda>g. (gn_tag g, gn_outbound g)) (all_outbounds sample_snapshot) = sample_machines"
  unfolding all_outbounds_def sample_machine(1)
  by (simp_all add: sample_machines_def sample_own_def machine_outbounds_def
      machine_outbound_def client_outbound_def sample_machine_outbound_def field_def jprop_def sample_node_def
      sample_snapshot_def outboundTls_def client_node.truncate_def generated_tag_def)

lemma sample_bind:
  "fold_each (dr_bindings sample_draft) (sample_own @ sample_machines, []) (bind_group (all_outbounds sample_snapshot)) w =
    (Inr (bound_graph, [(''g'', [''bfc_n1_trojan'', ''bfc_n1_hysteria2''])]), w)"
proof -
  have "members (all_outbounds sample_snapshot) (plain_binding ''g'' [''ai''] [''d'']) = [''bfc_n1_trojan'', ''bfc_n1_hysteria2'']"
    by (simp add: members_def all_outbounds_def sample_machine machine_outbounds_def machine_outbound_def selects_def
        plain_binding_def sample_node_def generated_tag_def)
  then have "map gn_tag (filter (selects (plain_binding ''g'' [''ai''] [''d''])) (all_outbounds sample_snapshot)) =
    [''bfc_n1_trojan'', ''bfc_n1_hysteria2'']" by (simp add: members_def)
  then show ?thesis
    by (simp add: sample_draft_def bind_group_def sample_own_def sample_groups_def is_group_def String_of_def jprop_def
        plain_binding_def group_types_def bound_graph_def sample_machines_def bind_run unique_def jstrings_def)
qed

definition sample_result :: "(string \<times> json) list" where
  "sample_result = set_prop ''outbounds'' (JArr (map JObj (map snd (take 2 bound_graph) @ map snd sample_machines)))
     (object_properties (sample_template sample_groups))"

lemmas bound_graph_defs = bound_graph_def sample_machines_def sample_machine_outbound_def sample_groups_def jprop_def
  generated_tag_def jstrings_def jint_def

lemma sample_references:
  "for_each (map snd bound_graph) (check_group bound_graph) w = (Inr (), w)"
  "walk (known bound_graph) (JObj sample_result)"
  "check_route bound_graph sample_result w = (Inr (), w)"
  by (simp_all add: bound_graph_defs check_group_def is_group_def String_of_def group_types_def known_def bind_run
      sample_result_def sample_template_def reference_keys_def check_route_def object_def)

lemma sample_visits: "\<exists>s. visit_tags bound_graph = Some (Inr s)"
  by (simp add: visit_tags_def bound_graph_defs targets_def)

lemma sample_leaves:
  "\<exists>c. check_leaves bound_graph [(''g'', [''bfc_n1_trojan'', ''bfc_n1_hysteria2''])] (plain_binding ''g'' [''ai''] [''d'']) [] w =
    (Inr c, w)"
  by (simp add: check_leaves_def plain_binding_def bound_graph_defs targets_def startsWith_def bind_run
      List.union_def List.insert_def)

lemma sample_graph_check:
  "check_graph (dr_bindings sample_draft) (bound_graph, [(''g'', [''bfc_n1_trojan'', ''bfc_n1_hysteria2''])]) sample_result w =
    (Inr (), w)"
proof -
  obtain s where s: "visit_tags bound_graph = Some (Inr s)" using sample_visits by blast
  obtain c where c: "check_leaves bound_graph [(''g'', [''bfc_n1_trojan'', ''bfc_n1_hysteria2''])]
    (plain_binding ''g'' [''ai''] [''d'']) [] w = (Inr c, w)" using sample_leaves [of w] by blast
  show ?thesis
    unfolding check_graph_def prod.case
    by (simp add: bind_def sample_references sample_draft_def s c del: walk.simps)
qed

lemma sample_renders:
  assumes "p_jsonParse P ''{}'' = Some (sample_template sample_groups)"
  shows "\<exists>r. renderSubscription P (draft_json sample_draft) sample_snapshot w = (Inr r, w)"
proof -
  have "bound 0 (sample_template sample_groups) 0 \<noteq> None"
    by (simp add: sample_template_def sample_groups_def enter_value_def)
  note parsed = sample_parses [OF assms this]
  have outs: "objects (jprop ''outbounds'' (object_properties (sample_template sample_groups))) w = (Inr sample_groups, w)"
    by (simp add: objects_def sample_template_def jprop_def sample_groups_def object_def bind_run)
  have own: "fold_each sample_groups [] collect_tag w = (Inr sample_own, w)"
    by (simp add: sample_groups_def collect_tag_def jprop_def sample_own_def startsWith_def bind_run)
  have gs: "map_prog (generate_node sample_snapshot) [sample_node] w = (Inr [machine_outbounds sample_snapshot sample_node], w)"
    by (simp add: bind_run generate_node_run)
  have all: "concat [machine_outbounds sample_snapshot sample_node] = all_outbounds sample_snapshot"
    by (simp add: all_outbounds_def sample_machine)
  have "length sample_groups = 2" "\<not> sn_blocked sample_snapshot" by (simp_all add: sample_groups_def sample_snapshot_def)
  then show ?thesis
    using sample_graph_check [of w, unfolded sample_result_def]
    unfolding renderSubscription_def Let_def sample_machine(1)
    by (simp add: bind_def parsed outs own generate_node_run all sample_joined sample_bind del: concat.simps map_map list.map_comp)
qed

lemma rendered_graph_sound_witness:
  "\<exists>r m result. renderSubscription (template_platform sample_groups) (draft_json sample_draft) sample_snapshot () = (Inr r, ()) \<and>
     rd_configJson r = jsonBytes (JObj result) \<and> jprop ''outbounds'' result = Some (JArr (map JObj (map snd m))) \<and>
     sound_graph m"
proof -
  obtain r where r: "renderSubscription (template_platform sample_groups) (draft_json sample_draft) sample_snapshot () = (Inr r, ())"
    using sample_renders [of "template_platform sample_groups" "()"] by (auto simp: template_platform_def)
  have "distinct (map cn_id (sn_nodes sample_snapshot))" by (simp add: sample_snapshot_def)
  from rendered_graph_sound [OF r this] r show ?thesis by blast
qed

section \<open>Foreign outbounds\<close>

text \<open>
  An outbound that is not a group may have a property \<open>outbounds\<close> all the same. The references in it are
  followed but not checked, so that one that leads nowhere ends in a \<open>TypeError\<close>, which the panel answers as an
  internal error, and not in the error for an invalid configuration.
\<close>

definition ghost_outbounds :: "outbound list" where
  "ghost_outbounds = [[(''type'', JStr ''direct''), (''tag'', JStr ''g''), (''outbounds'', JArr [JStr ''ghost''])]]"

definition ghost_draft :: draft where
  "ghost_draft = \<lparr>dr_templateJson = ''{}'', dr_bindings = []\<rparr>"

lemma foreign_outbounds_crash:
  "renderSubscription (template_platform ghost_outbounds) (draft_json ghost_draft) sample_snapshot () = (Inl JsError, ())"
proof -
  have "draft_ok ghost_draft" by (simp add: draft_ok_def ghost_draft_def)
  then have draft: "parse_draft (draft_json ghost_draft) () = (Inr ghost_draft, ())"
    by (simp add: parse_draft_def draft_roundtrip)
  have "bound 0 (sample_template ghost_outbounds) 0 \<noteq> None"
    by (simp add: sample_template_def ghost_outbounds_def enter_value_def)
  then have parsed: "parse_template (template_platform ghost_outbounds) ghost_draft () =
    (Inr (object_properties (sample_template ghost_outbounds)), ())"
    by (simp add: parse_template_def template_platform_def sample_template_def object_def bind_run)
  have outs: "objects (jprop ''outbounds'' (object_properties (sample_template ghost_outbounds))) () = (Inr ghost_outbounds, ())"
    by (simp add: objects_def sample_template_def jprop_def ghost_outbounds_def object_def bind_run)
  let ?own = "[(''g'', hd ghost_outbounds)]"
  have all: "concat [machine_outbounds sample_snapshot sample_node] = all_outbounds sample_snapshot"
    by (simp add: all_outbounds_def sample_machine)
  have own: "fold_each ghost_outbounds [] collect_tag () = (Inr ?own, ())"
    by (simp add: ghost_outbounds_def collect_tag_def jprop_def startsWith_def bind_run)
  have fresh: "gn_tag g \<noteq> ''g''" if "g \<in> set (all_outbounds sample_snapshot)" for g
    using all_outbounds_facts(5) [OF that] by (auto simp: is_managed_def startsWith_def)
  have "distinct (map gn_tag (all_outbounds sample_snapshot))" by (simp add: sample_machine)
  with fresh have joined:
    "foldl (\<lambda>m g. put_tag (gn_tag g) (gn_outbound g) m) ?own (all_outbounds sample_snapshot) = ?own @ sample_machines"
    using put_outbounds [of "all_outbounds sample_snapshot" ?own] by (simp add: sample_joined)
  let ?result = "set_prop ''outbounds'' (JArr (map JObj (map snd (take 1 (?own @ sample_machines)) @ map snd sample_machines)))
    (object_properties (sample_template ghost_outbounds))"
  have check: "check_graph [] (?own @ sample_machines, []) ?result () = (Inl JsError, ())"
  proof -
    have "for_each (map snd (?own @ sample_machines)) (check_group (?own @ sample_machines)) () = (Inr (), ())"
      "walk (known (?own @ sample_machines)) (JObj ?result)" "check_route (?own @ sample_machines) ?result () = (Inr (), ())"
      by (simp_all add: bound_graph_defs ghost_outbounds_def check_group_def is_group_def String_of_def group_types_def
          known_def bind_run sample_template_def reference_keys_def check_route_def object_def)
    moreover have "visit_tags (?own @ sample_machines) = Some (Inl JsError)"
      by (simp add: visit_tags_def bound_graph_defs ghost_outbounds_def targets_def)
    ultimately show ?thesis unfolding check_graph_def prod.case by (simp add: bind_def del: walk.simps)
  qed
  have "length ghost_outbounds = 1" "\<not> sn_blocked sample_snapshot" "dr_bindings ghost_draft = []"
    by (simp_all add: ghost_outbounds_def sample_snapshot_def ghost_draft_def)
  with check show ?thesis
    unfolding renderSubscription_def Let_def sample_machine(1)
    by (simp add: bind_def draft parsed outs own generate_node_run all joined sample_joined(2) del: concat.simps map_map list.map_comp)
qed

end
