(* ===== verification/Effects.thy ===== *)
theory Effects
  imports Panel_Services Panel_Machines Machine_Service Account_Services
begin

text \<open>
  What the programs of the model can do to the database at all: \<open>quiet\<close> programs never change it, \<open>atomic\<close>
  ones leave it alone when they throw, and \<open>sure\<close> ones never throw. The rules derive these from the
  shape of a program; they hold alike of the programs of the application and of the procedures that answer
  with the errors of Connect.
\<close>

section \<open>Quiet, atomic and sure programs\<close>

definition quiet :: "(world \<Rightarrow> ('e + 'a) \<times> world) \<Rightarrow> bool" where
  "quiet p \<longleftrightarrow> (\<forall>w r v. p w = (r, v) \<longrightarrow> w_db v = w_db w)"

definition atomic :: "(world \<Rightarrow> ('e + 'a) \<times> world) \<Rightarrow> bool" where
  "atomic p \<longleftrightarrow> (\<forall>w e v. p w = (Inl e, v) \<longrightarrow> w_db v = w_db w)"

definition sure :: "(world \<Rightarrow> ('e + 'a) \<times> world) \<Rightarrow> bool" where
  "sure p \<longleftrightarrow> (\<forall>w e v. p w \<noteq> (Inl e, v))"

named_theorems quiet_rules \<open>a program never changes the database\<close>
named_theorems sure_rules \<open>a program never throws\<close>

lemma quietI: "(\<And>w. w_db (snd (p w)) = w_db w) \<Longrightarrow> quiet p"
  unfolding quiet_def by (metis snd_conv)

lemma quiet_basic [quiet_rules]:
  "quiet (return a)" "quiet (throw e)" "quiet (gets f)" "quiet (lift_sum r)" "quiet (require b e)" "quiet (the_or x e)"
  "quiet (db_get g)" "quiet Date_now" "quiet (hub_run h)"
  by (auto simp: quiet_def require_run the_or_run split: option.splits if_splits)

lemma quiet_bind [quiet_rules]:
  assumes "quiet p" and "\<And>a. quiet (f a)"
  shows "quiet (bind p f)"
proof (rule quietI)
  fix w
  obtain r v where p: "p w = (r, v)" by (cases "p w")
  then have "w_db v = w_db w" using assms(1) by (simp add: quiet_def)
  moreover have "w_db (snd (f a v)) = w_db v" for a using assms(2) unfolding quiet_def by (metis prod.collapse)
  ultimately show "w_db (snd (bind p f w)) = w_db w" using p by (cases r) (simp_all add: bind_def)
qed

lemma quiet_if [quiet_rules]: "quiet p \<Longrightarrow> quiet q \<Longrightarrow> quiet (if b then p else q)"
  by simp

lemma quiet_option [quiet_rules]:
  "quiet p \<Longrightarrow> (\<And>a. quiet (f a)) \<Longrightarrow> quiet (case x of None \<Rightarrow> p | Some a \<Rightarrow> f a)"
  by (simp split: option.split)

lemma quiet_list [quiet_rules]:
  "quiet p \<Longrightarrow> (\<And>a b. quiet (f a b)) \<Longrightarrow> quiet (case x of [] \<Rightarrow> p | a # b \<Rightarrow> f a b)"
  by (simp split: list.split)

lemma quiet_prod [quiet_rules]: "(\<And>a b. quiet (f a b)) \<Longrightarrow> quiet (case x of (a, b) \<Rightarrow> f a b)"
  by (simp split: prod.split)

lemma quiet_attempt [quiet_rules]:
  assumes "quiet p" and "\<And>e. quiet (h e)"
  shows "quiet (attempt p h)"
proof (rule quietI)
  fix w
  obtain r v where p: "p w = (r, v)" by (cases "p w")
  then have "w_db v = w_db w" using assms(1) by (simp add: quiet_def)
  moreover have "w_db (snd (h e v)) = w_db v" for e using assms(2) unfolding quiet_def by (metis prod.collapse)
  ultimately show "w_db (snd (attempt p h w)) = w_db w" using p by (cases r) (simp_all add: attempt_def)
qed

lemma quiet_map_prog [quiet_rules]: "(\<And>x. quiet (f x)) \<Longrightarrow> quiet (map_prog f xs)"
  by (induction xs) (simp_all add: quiet_rules)

lemma quiet_for_each [quiet_rules]: "(\<And>x. quiet (f x)) \<Longrightarrow> quiet (for_each xs f)"
  by (induction xs) (simp_all add: quiet_rules)

lemma quiet_fold_each [quiet_rules]: "(\<And>x b. quiet (f x b)) \<Longrightarrow> quiet (fold_each xs b f)"
  by (induction xs arbitrary: b) (simp_all add: quiet_rules)

lemma quiet_draw [quiet_rules]: "quiet (draw f)"
  by (simp add: quiet_def draw_def)

lemma quiet_random [quiet_rules]:
  "quiet (newId P)" "quiet (newToken P prefix)" "quiet (hashPassword P text)" "quiet (encryptSecret P text)"
  unfolding newId_def newToken_def hashPassword_def encryptSecret_def Let_def by (intro quiet_rules)+

lemma quiet_panelCall [quiet_rules]: "quiet p \<Longrightarrow> quiet (panelCall P p)"
  by (auto simp: quiet_def panelCall_def toConnectError_def Let_def split: prod.splits sum.splits failure.splits)

section \<open>Pure programs\<close>

text \<open>\<open>pure\<close> programs neither read nor write the state: they are a result.\<close>

definition pure :: "('s, 'a) prog \<Rightarrow> bool" where
  "pure p \<longleftrightarrow> (\<exists>r. p = lift_sum r)"

named_theorems pure_rules \<open>a program does not depend on the state\<close>

lemma pureD: "pure p \<Longrightarrow> \<exists>r. \<forall>w. p w = (r, w)"
  unfolding pure_def by auto

lemma pure_agrees: "pure p \<Longrightarrow> p w = (r, w') \<Longrightarrow> w' = w \<and> p v = (r, v)"
  unfolding pure_def by auto

lemma pure_keeps: "pure p \<Longrightarrow> keeps I p"
  unfolding pure_def by (auto simp: keeps_lift_sum)

lemma pure_quiet: "pure p \<Longrightarrow> quiet p"
  unfolding pure_def by (auto intro: quiet_rules)

lemma pure_basic [pure_rules]:
  "pure (return a)" "pure (throw e)" "pure (lift_sum r)" "pure (require b e)" "pure (the_or x e)"
  unfolding pure_def
  by (auto simp: fun_eq_iff require_run the_or_run intro: exI [of _ "Inr a"] exI [of _ "Inl e"] exI [of _ "if b then Inr () else Inl e"]
      exI [of _ "case x of None \<Rightarrow> Inl e | Some a \<Rightarrow> Inr a"] split: option.split)

lemma pure_bind [pure_rules]: "pure p \<Longrightarrow> (\<And>a. pure (f a)) \<Longrightarrow> pure (bind p f)"
proof -
  assume "pure p" and f: "\<And>a. pure (f a)"
  then obtain r where "p = lift_sum r" unfolding pure_def by blast
  then have "bind p f = (case r of Inl e \<Rightarrow> lift_sum (Inl e) | Inr a \<Rightarrow> f a)"
    by (auto simp: fun_eq_iff bind_run split: sum.split)
  with f show "pure (bind p f)" by (auto simp: pure_def split: sum.split)
qed

lemma pure_split [pure_rules]:
  "pure p \<Longrightarrow> pure q \<Longrightarrow> pure (if b then p else q)"
  "pure p \<Longrightarrow> (\<And>a. pure (f a)) \<Longrightarrow> pure (case x of None \<Rightarrow> p | Some a \<Rightarrow> f a)"
  "(\<And>a b. pure (g a b)) \<Longrightarrow> pure (case y of (a, b) \<Rightarrow> g a b)"
  "pure (h z) \<Longrightarrow> pure (Let z h)"
  by (simp_all split: option.split prod.split)

lemma pure_loops [pure_rules]:
  "(\<And>x. pure (f x)) \<Longrightarrow> pure (map_prog f xs)"
  "(\<And>x. pure (g x)) \<Longrightarrow> pure (for_each xs g)"
  "(\<And>x b. pure (h x b)) \<Longrightarrow> pure (fold_each xs c h)"
  by (induction xs arbitrary: c) (simp_all add: pure_rules)

section \<open>What cannot fail, and what is undone\<close>

lemma sure_basic [sure_rules]:
  "sure (return a)" "sure (gets f)" "sure (modify m)" "sure (db_get g)" "sure (db_run d)" "sure Date_now" "sure (hub_run h)"
  by (simp_all add: sure_def)

lemma sure_bind [sure_rules]: "sure p \<Longrightarrow> (\<And>a. sure (f a)) \<Longrightarrow> sure (bind p f)"
  unfolding sure_def by (metis bind_fail)

lemma sure_prod [sure_rules]: "(\<And>a b. sure (f a b)) \<Longrightarrow> sure (case x of (a, b) \<Rightarrow> f a b)"
  by (simp split: prod.split)

lemma sure_for_each [sure_rules]: "(\<And>x. sure (f x)) \<Longrightarrow> sure (for_each xs f)"
  by (induction xs) (simp_all add: sure_rules)

text \<open>What is atomic: a transaction, behind reads and in front of what cannot fail.\<close>

lemma quiet_atomic: "quiet p \<Longrightarrow> atomic p"
  by (auto simp: quiet_def atomic_def)

lemma sure_atomic: "sure p \<Longrightarrow> atomic p"
  by (simp add: sure_def atomic_def)

lemma atomic_transaction: "atomic (transaction p)"
  by (auto simp: atomic_def transaction_def split: prod.splits sum.splits)

lemma atomic_after: "quiet p \<Longrightarrow> (\<And>a. atomic (f a)) \<Longrightarrow> atomic (bind p f)"
  by (fastforce simp: quiet_def atomic_def bind_fail)

lemma atomic_before: "atomic p \<Longrightarrow> (\<And>a. sure (f a)) \<Longrightarrow> atomic (bind p f)"
  by (auto simp: sure_def atomic_def bind_fail)

lemma atomic_if: "atomic p \<Longrightarrow> atomic q \<Longrightarrow> atomic (if b then p else q)"
  by simp

lemma atomic_option: "atomic p \<Longrightarrow> (\<And>a. atomic (f a)) \<Longrightarrow> atomic (case x of None \<Rightarrow> p | Some a \<Rightarrow> f a)"
  by (simp split: option.split)

lemma atomic_prod: "(\<And>a b. atomic (f a b)) \<Longrightarrow> atomic (case x of (a, b) \<Rightarrow> f a b)"
  by (simp split: prod.split)

lemma atomic_panelCall: "atomic p \<Longrightarrow> atomic (panelCall P p)"
  by (auto simp: atomic_def panelCall_def toConnectError_def Let_def split: prod.splits sum.splits failure.splits)

section \<open>The components\<close>

lemma quiet_Let [quiet_rules]: "quiet (f x) \<Longrightarrow> quiet (Let x f)"
  by simp

lemma quiet_inputs [quiet_rules]:
  "quiet (text_input lo hi t)" "quiet (length_input lo hi t)" "quiet (usernameInput t)" "quiet (passwordInput t)"
  "quiet (quotaInput t)" "quiet (checkVersion row n)"
  "quiet (requirePrincipal caller)" "quiet (requireRecentSession p)"
  unfolding text_input_def length_input_def usernameInput_def passwordInput_def quotaInput_def checkVersion_def
    requirePrincipal_def requireRecentSession_def
  by (auto intro!: quiet_rules)

lemma quiet_settings [quiet_rules]:
  "quiet (tls_input P tls)" "quiet (configuration_input P c)" "quiet (validateSettings P c)"
proof -
  show *: "quiet (tls_input P tls)" for tls
    unfolding tls_input_def serverName_input_def path_input_def by (cases tls) (auto intro!: quiet_rules)
  show **: "quiet (configuration_input P c)" unfolding configuration_input_def by (intro quiet_rules *)
  show "quiet (validateSettings P c)"
    unfolding validateSettings_def Let_def by (auto intro!: quiet_rules ** split: tls_settings.split)
qed

lemma quiet_machines [quiet_rules]:
  "quiet (store_get i)" "quiet (status_of P j)" "quiet (taskDto P t)" "quiet (dto P row)" "quiet (listTasks P i)"
  "quiet (getTask P i k)" "quiet (store_list P)" "quiet (detail P i)" "quiet (check_enqueue P row kind)"
proof -
  show get: "quiet (store_get i)" for i unfolding store_get_def by (intro quiet_rules)
  show status: "quiet (status_of P j)" for j unfolding status_of_def by (intro quiet_rules)
  show task: "quiet (taskDto P t)" for t unfolding taskDto_def parse_diagnostic_def by (intro quiet_rules)
  show dto: "quiet (dto P row)" for row unfolding dto_def by (intro quiet_rules status)
  show list: "quiet (listTasks P i)" for i unfolding listTasks_def by (intro quiet_rules get task)
  show "quiet (getTask P i k)" unfolding getTask_def by (intro quiet_rules get task)
  show "quiet (store_list P)" unfolding store_list_def by (intro quiet_rules dto)
  show "quiet (detail P i)" unfolding detail_def by (intro quiet_rules get dto list status)
  show "quiet (check_enqueue P row kind)" unfolding check_enqueue_def by (intro quiet_rules status)
qed

lemma quiet_policy [quiet_rules]:
  "quiet (readProxyCredentials P i)" "quiet (userQuota i now)" "quiet (requireAdmin p)" "quiet (read_configuration P c)"
  unfolding readProxyCredentials_def userQuota_def requireAdmin_def read_configuration_def by (intro quiet_rules)+

lemma quiet_configuration [quiet_rules]: "quiet (configuration_get P i)"
  unfolding configuration_get_def by (intro quiet_rules)

lemma quiet_releases [quiet_rules]:
  "quiet (getDaemonRelease P arch)" "quiet (offered_release P row)" "quiet (candidate P row active release reason)"
  "quiet (release_get P i)"
proof -
  show release: "quiet (getDaemonRelease P arch)" for arch unfolding getDaemonRelease_def by (intro quiet_rules)
  show offer: "quiet (offered_release P row)" for row
    unfolding offered_release_def by (auto intro!: quiet_rules release split: failure.split)
  show candidate: "quiet (candidate P row active release reason)" for row active release reason
    unfolding candidate_def by (intro quiet_rules)
  show "quiet (release_get P i)" unfolding release_get_def by (intro quiet_rules offer candidate)
qed

lemma quiet_usage [quiet_rules]: "quiet (query_usage P q now)"
  unfolding query_usage_def queryInput_def currentReportingIssues_def add_issue_def by (intro quiet_rules)

section \<open>Rendering a subscription\<close>

lemma quiet_snapshot [quiet_rules]: "quiet (subscriptionSnapshot P i)"
  unfolding subscriptionSnapshot_def snapshot_node_of_def by (intro quiet_rules)

lemma pure_template [pure_rules]:
  "pure (object x)" "pure (objects x)" "pure (parse_draft j)"
  "pure (String_of x)" "pure (is_group e)" "pure (collect_tag e m)" "pure (generate_outbound n e)"
  "pure (generate_node s n)" "pure (bind_group gs b state)" "pure (check_group m e)" "pure (check_route m ps)"
  "pure (check_leaves m selected b cache)" "pure (parse_template P d)" "pure (check_graph bs state ps)"
proof -
  show read: "pure (object x)" "pure (objects x)" "pure (parse_draft j)" for x j
    unfolding object_def objects_def parse_draft_def by (auto intro!: pure_rules split: option.split json.split)
  show shown: "pure (String_of x)" for x unfolding String_of_def by (auto intro!: pure_rules split: option.split)
  show group: "pure (is_group e)" for e unfolding is_group_def by (intro pure_rules shown)
  show "pure (collect_tag e m)"
    unfolding collect_tag_def by (auto intro!: pure_rules split: option.split json.split)
  show outbound: "pure (generate_outbound n e)" for n e
    unfolding generate_outbound_def by (auto intro!: pure_rules shown split: option.split json.split)
  show "pure (generate_node s n)" unfolding generate_node_def by (intro pure_rules outbound)
  show "pure (bind_group gs b state)"
    unfolding bind_group_def by (auto intro!: pure_rules group split: option.split prod.split)
  show check: "pure (check_group m e)" for m e
    unfolding check_group_def by (auto intro!: pure_rules group split: option.split json.split)
  show route: "pure (check_route m ps)" for m ps
    unfolding check_route_def by (intro pure_rules read)
  show leaves: "pure (check_leaves m selected b cache)" for m selected b cache
    unfolding check_leaves_def by (intro pure_rules)
  show "pure (parse_template P d)" unfolding parse_template_def by (intro pure_rules read)
  show "pure (check_graph bs state ps)"
    unfolding check_graph_def by (auto intro!: pure_rules check route leaves split: prod.split)
qed

lemma pure_render [pure_rules]: "pure (renderSubscription P j s)"
  unfolding renderSubscription_def by (intro pure_rules pure_template)

lemmas quiet_template [quiet_rules] = pure_template [THEN pure_quiet] pure_render [THEN pure_quiet]

lemmas keeps_template [keeps_rules] = pure_template [THEN pure_keeps] pure_render [THEN pure_keeps]

lemma quiet_subscriptions [quiet_rules]:
  "quiet (subscription_row_of u i)" "quiet (read_json P c)" "quiet (render_row P row)" "quiet (subscription_url P c)"
  "quiet (try_render P row)" "quiet (profile_dto_of P full row)" "quiet (profile_get P u i)" "quiet (subscription_get P u)"
proof -
  show row: "quiet (subscription_row_of u i)" for u i unfolding subscription_row_of_def by (intro quiet_rules)
  show json: "quiet (read_json P c)" for c unfolding read_json_def by (intro quiet_rules)
  show render: "quiet (render_row P row)" for row unfolding render_row_def by (intro quiet_rules json)
  show url: "quiet (subscription_url P c)" for c unfolding subscription_url_def by (intro quiet_rules)
  show attempted: "quiet (try_render P row)" for row
    unfolding try_render_def by (auto intro!: quiet_rules render split: failure.split)
  show dto: "quiet (profile_dto_of P full row)" for full row
    unfolding profile_dto_of_def by (intro quiet_rules attempted url json)
  show "quiet (profile_get P u i)" unfolding profile_get_def by (intro quiet_rules row dto)
  show "quiet (subscription_get P u)" unfolding subscription_get_def by (intro quiet_rules url)
qed

end
