(* ===== verification/Effect_Props.thy ===== *)
theory Effect_Props
  imports Effects
begin

text \<open>
  Which calls can leave something behind: the procedures that read write nothing, and those that write
  either do what they answer or nothing at all.
\<close>

section \<open>Operations that are atomic\<close>

lemma quiet_daemon [quiet_rules]:
  "quiet (integerSequence n name zero)" "quiet (assertInstallation row ident initial)" "quiet (require_session row n)"
  "quiet (service_authenticate P kind authorization)" "quiet (check_report report)" "quiet (validateStatus status)"
proof -
  show number: "quiet (integerSequence n name zero)" for n name zero
    unfolding integerSequence_def by (intro quiet_rules)
  show "quiet (assertInstallation row ident initial)" unfolding assertInstallation_def by (intro quiet_rules number)
  show "quiet (require_session row n)" unfolding require_session_def by (intro quiet_rules number)
  have "quiet (store_authenticate P authorization)" unfolding store_authenticate_def by (intro quiet_rules)
  then show "quiet (service_authenticate P kind authorization)"
    unfolding service_authenticate_def by (intro quiet_rules)
  show status: "quiet (validateStatus status)" for status unfolding validateStatus_def by (intro quiet_rules number)
  show "quiet (check_report report)" unfolding check_report_def by (intro quiet_rules status)
qed

lemma atomic_queue:
  "atomic (store_remove i)" "atomic (enqueueTask P i spec k)" "atomic (enqueueInspect P i k logs n m)"
  "atomic (store_accept row epoch i hash)" "atomic (store_reportTask P row report)"
proof -
  show "atomic (store_remove i)" unfolding store_remove_def by (intro atomic_after quiet_rules atomic_transaction)
  show enqueue: "atomic (enqueueTask P i spec k)" for spec
    unfolding enqueueTask_def Let_def by (intro atomic_after quiet_rules atomic_transaction)
  show "atomic (enqueueInspect P i k logs n m)"
    unfolding enqueueInspect_def Let_def by (intro atomic_after quiet_rules enqueue)
  show "atomic (store_accept row epoch i hash)"
    unfolding store_accept_def by (intro atomic_after quiet_rules atomic_transaction)
  show "atomic (store_reportTask P row report)"
    unfolding store_reportTask_def Let_def by (intro atomic_after quiet_rules atomic_transaction)
qed

lemma atomic_releases: "atomic (release_enqueue P i sha k)" "atomic (release_uninstall P i k)"
  unfolding release_enqueue_def release_uninstall_def enqueue_release_def
  by ((rule atomic_after, (rule quiet_rules)+)+, rule atomic_before, rule atomic_transaction atomic_queue, intro sure_rules)+

lemma atomic_configuration:
  "atomic (preview_configuration P i input by)" "atomic (publish_configuration P i publish by)"
proof -
  show "atomic (preview_configuration P i input by)"
    unfolding preview_configuration_def by (intro atomic_after quiet_rules atomic_transaction)
  show "atomic (publish_configuration P i publish by)"
    unfolding publish_configuration_def
    by (rule atomic_after, rule quiet_rules, rule atomic_before, rule atomic_transaction, intro sure_rules)
qed

lemma atomic_domainCall: "atomic p \<Longrightarrow> atomic (domainCall p)"
  by (auto simp: atomic_def domainCall_def attempt_def split: prod.splits sum.splits failure.splits)

lemma atomic_usage: "atomic (reportUsage P row report now)"
  unfolding reportUsage_def Let_def by (intro atomic_after quiet_rules atomic_transaction)

lemma sure_attempt: "(\<And>e. sure (h e)) \<Longrightarrow> sure (attempt p h)"
  by (auto simp: sure_def attempt_def split: prod.splits sum.splits)

lemma atomic_profiles:
  "atomic (profile_create P u input)" "atomic (profile_save P u i n name j)" "atomic (profile_preview P u i n)"
  "atomic (profile_publish P u i n k)" "atomic (profile_update P u i n action)"
proof -
  show "atomic (profile_create P u input)"
    unfolding profile_create_def by (intro atomic_after quiet_rules atomic_transaction)
  show "atomic (profile_save P u i n name j)"
    unfolding profile_save_def by (intro atomic_after quiet_rules atomic_transaction)
  show "atomic (profile_preview P u i n)"
    unfolding profile_preview_def Let_def
    by ((rule atomic_after, (rule quiet_rules)+)+, rule atomic_before, rule atomic_transaction, rule sure_rules)
  show "atomic (profile_publish P u i n k)" unfolding profile_publish_def by (rule atomic_transaction)
  show "atomic (profile_update P u i n action)"
    unfolding profile_update_def by (intro atomic_after quiet_rules atomic_transaction)
qed

lemma atomic_unchanged:
  assumes "\<And>d. \<not> ok d \<Longrightarrow> f d = d"
  shows "atomic (bind (db_get ok) (\<lambda>c. bind (db_run f) (\<lambda>_. require c e)))"
  using assms by (auto simp: atomic_def bind_run require_run split: if_splits)

lemma update_no_row: "\<not> has_row Q t \<Longrightarrow> update_where Q f t = t"
  by (intro update_where_none) (simp add: has_row_iff)

lemma atomic_new_key:
  assumes "k_userId row = du_id (pr_user p)" "k_id row = i"
  shows "atomic (bind (insert_api_key row) (\<lambda>_. bind (listApiKeys p) (\<lambda>keys.
    bind (the_or (find (\<lambda>k. ak_id k = i) keys) JsError) (\<lambda>k. return (k, t)))))"
proof -
  have "find (\<lambda>k. ak_id k = i) (map api_key_dto_of (filter (\<lambda>k. k_userId k = du_id (pr_user p)) (ks @ [row]))) \<noteq> None" for ks
    using assms by (auto simp: find_None_all api_key_dto_of_def)
  then have "sure (bind (the_or (find (\<lambda>k. ak_id k = i)
      (map api_key_dto_of (filter (\<lambda>k. k_userId k = du_id (pr_user p)) (ks @ [row])))) JsError) (\<lambda>k. return (k, t)))" for ks
    by (metis not_None_eq the_or_simps(1) sure_rules(1,8))
  then show ?thesis
    by (simp add: atomic_def sure_def insert_api_key_def listApiKeys_def bind_run require_run)
qed

lemma atomic_accounts:
  "atomic (createUser P p input)" "atomic (updateUser P p i changes)" "atomic (createUserFlow P p i purpose)"
  "atomic (createApiKey P p name)" "atomic (revokeApiKey p i)" "atomic (deletePasskey p i)" "atomic (logout p)"
  "atomic (reauthenticatePassword_commit p)"
proof -
  show "atomic (createUser P p input)"
    unfolding createUser_def create_account_def by (intro atomic_after quiet_rules atomic_transaction)
  show "atomic (updateUser P p i changes)"
    unfolding updateUser_def change_account_def quota_change_input_def
    by (intro atomic_after quiet_rules atomic_transaction) (simp add: quiet_rules split: quota_change.split)
  show "atomic (createUserFlow P p i purpose)"
    unfolding createUserFlow_def issueOnboarding_def Let_def
    by ((rule atomic_after, (rule quiet_rules)+)+, rule atomic_before, rule atomic_transaction, rule sure_rules)
  show "atomic (createApiKey P p name)"
    unfolding createApiKey_def by ((rule atomic_after, (rule quiet_rules)+)+, rule atomic_new_key) simp_all
  show "atomic (revokeApiKey p i)"
    unfolding revokeApiKey_def by (intro atomic_after quiet_rules atomic_unchanged) (simp add: update_no_row)
  show "atomic (deletePasskey p i)"
    unfolding deletePasskey_def by (intro atomic_after quiet_rules atomic_transaction)
  show "atomic (logout p)" unfolding logout_def by (intro sure_atomic) (simp add: sure_rules)
  show "atomic (reauthenticatePassword_commit p)"
    unfolding reauthenticatePassword_commit_def
    by (intro atomic_after quiet_rules atomic_unchanged) (simp add: update_no_row)
qed

section \<open>The procedures\<close>

lemma atomic_call:
  assumes "atomic p" and "\<And>a. sure (f a)"
  shows "atomic (panelCall P (bind p f))"
  by (rule atomic_panelCall, rule atomic_before) (fact assms)+

lemma atomic_caller_call:
  assumes "\<And>c. atomic (p c)" and "\<And>c a. sure (f c a)"
  shows "atomic (panelCall P (bind (requirePrincipal caller) (\<lambda>c. bind (p c) (f c))))"
  by (rule atomic_panelCall, rule atomic_after, rule quiet_rules, rule atomic_before) (fact assms)+

lemma sure_answer [sure_rules]: "sure (case x of (a, b) \<Rightarrow> return (f a b))"
  by (simp add: sure_rules split: prod.split)

lemmas account_transactions = passwordLogin_commit_def setup_commit_def authenticationVerify_commit_def
  onboardingComplete_commit_def changePassword_commit_def newPasskeyVerify_commit_def

lemma atomic_account_calls:
  "atomic (rpc_createUser P caller r1)" "atomic (rpc_updateUser P caller r2)" "atomic (rpc_createApiKey P caller r4)"
  "atomic (rpc_revokeApiKey P caller r5)" "atomic (rpc_deletePasskey P caller r6)" "atomic (rpc_logout P caller)"
  "atomic (rpc_createUserFlow P caller r3)"
  unfolding rpc_createUser_def rpc_updateUser_def rpc_createUserFlow_def rpc_createApiKey_def rpc_revokeApiKey_def
    rpc_deletePasskey_def rpc_logout_def
  by (intro atomic_caller_call atomic_accounts sure_rules atomic_panelCall atomic_after quiet_rules)+
    (intro atomic_caller_call sure_rules atomic_option atomic_accounts atomic_after quiet_rules quiet_atomic)

lemma atomic_sign_in_calls:
  "atomic (rpc_setupAdministrator_commit P b1)" "atomic (rpc_passwordLogin_commit P b2)"
  "atomic (rpc_passkeyVerify_commit P b3)" "atomic (rpc_activationComplete_commit P b4)"
  "atomic (rpc_recoveryComplete_commit P b5)" "atomic (rpc_reauthPassword_commit P b6)"
  "atomic (rpc_changePassword_commit P b7)" "atomic (rpc_newPasskeyVerify_commit P b8)"
  unfolding rpc_setupAdministrator_commit_def rpc_passwordLogin_commit_def rpc_passkeyVerify_commit_def
    rpc_activationComplete_commit_def rpc_recoveryComplete_commit_def rpc_reauthPassword_commit_def
    rpc_changePassword_commit_def rpc_newPasskeyVerify_commit_def account_transactions
  by (intro atomic_prod atomic_call atomic_panelCall atomic_transaction atomic_accounts sure_rules)+

lemma atomic_machine_calls:
  "atomic (rpc_deleteMachine P r1)" "atomic (rpc_rebindMachine P r2)" "atomic (rpc_uninstallMachine P r3)"
  "atomic (rpc_enqueueInspectTask P r4)" "atomic (rpc_enqueueUpgrade P r5)"
  "atomic (rpc_previewConfiguration P caller r6)" "atomic (rpc_publishConfiguration P caller r7)"
proof -
  show "atomic (rpc_deleteMachine P r1)"
    unfolding rpc_deleteMachine_def close_stream_def by (intro atomic_call atomic_queue sure_rules)
  show "atomic (rpc_rebindMachine P r2)"
    unfolding rpc_rebindMachine_def Let_def close_stream_def
    by (rule atomic_panelCall, rule atomic_after, rule quiet_rules) (intro atomic_before atomic_transaction sure_rules)
  show "atomic (rpc_uninstallMachine P r3)" "atomic (rpc_enqueueUpgrade P r5)"
    unfolding rpc_uninstallMachine_def rpc_enqueueUpgrade_def by (intro atomic_call atomic_releases sure_rules)+
  show "atomic (rpc_enqueueInspectTask P r4)"
    unfolding rpc_enqueueInspectTask_def inspectInput_def Let_def
    by (rule atomic_panelCall, rule atomic_after, (rule quiet_rules)+)
      (intro atomic_prod atomic_before atomic_queue sure_rules)
  show "atomic (rpc_previewConfiguration P caller r6)" "atomic (rpc_publishConfiguration P caller r7)"
    unfolding rpc_previewConfiguration_def rpc_publishConfiguration_def
    by (intro atomic_caller_call atomic_configuration sure_rules)+
qed

lemma atomic_subscription_calls:
  "atomic (rpc_createSubscriptionProfile P caller r1)" "atomic (rpc_saveSubscriptionDraft P caller r2)"
  "atomic (rpc_previewSubscriptionProfile P caller r3)" "atomic (rpc_publishSubscriptionProfile P caller r4)"
  "atomic (rpc_updateSubscriptionProfile P caller r5)"
proof -
  show "atomic (rpc_saveSubscriptionDraft P caller r2)"
    unfolding rpc_saveSubscriptionDraft_def for_caller_def
    by (rule atomic_panelCall, rule atomic_after, rule quiet_rules, rule atomic_after, rule quiet_rules,
        rule atomic_after, rule quiet_rules) (intro atomic_before atomic_profiles sure_rules)
  show "atomic (rpc_createSubscriptionProfile P caller r1)" "atomic (rpc_previewSubscriptionProfile P caller r3)"
    "atomic (rpc_publishSubscriptionProfile P caller r4)" "atomic (rpc_updateSubscriptionProfile P caller r5)"
    unfolding rpc_createSubscriptionProfile_def rpc_previewSubscriptionProfile_def rpc_publishSubscriptionProfile_def
      rpc_updateSubscriptionProfile_def for_caller_def
    by (intro atomic_caller_call atomic_profiles sure_rules)+
qed

lemma atomic_daemon_calls:
  "atomic (rpc_acceptTask P authorization r1)" "atomic (rpc_reportTask P authorization r2)"
  "atomic (rpc_reportUsage P authorization r3)"
proof -
  show "atomic (rpc_acceptTask P authorization r1)" "atomic (rpc_reportTask P authorization r2)"
    unfolding rpc_acceptTask_def rpc_reportTask_def
    by ((rule atomic_after, (rule quiet_rules)+)+, intro atomic_before atomic_queue sure_rules)+
  have reconciled: "sure (try_reconcile P)" unfolding try_reconcile_def by (intro sure_attempt sure_rules)
  show "atomic (rpc_reportUsage P authorization r3)"
    unfolding rpc_reportUsage_def
    by ((rule atomic_after, (rule quiet_rules)+)+, intro atomic_before atomic_domainCall atomic_usage reconciled sure_rules)
qed


text \<open>
  C36. The procedures that only read change nothing in the database, whatever they answer: the lists of accounts,
  keys and passkeys, of machines and their tasks, the upgrades and the configuration of a machine, the usage
  and a subscription.
\<close>

theorem reads_change_nothing:
  "quiet (rpc_listUsers P caller) \<and> quiet (rpc_getMe P caller) \<and> quiet (rpc_listApiKeys P caller) \<and>
   quiet (rpc_listPasskeys P caller) \<and> quiet (rpc_listMachines P caller) \<and> quiet (rpc_getMachine P caller r1) \<and>
   quiet (rpc_listMachineTasks P r2) \<and> quiet (rpc_getMachineUpgrades P caller r3) \<and>
   quiet (rpc_getMachineConfiguration P caller r4) \<and> quiet (rpc_queryUsage P caller r5) \<and>
   quiet (rpc_getMyUsage P caller r6) \<and> quiet (rpc_getSubscriptionProfile P caller r7) \<and>
   quiet (rpc_getSubscription P caller)"
  unfolding rpc_listUsers_def query_listUsers_def listUsers_def rpc_getMe_def rpc_listApiKeys_def query_listApiKeys_def
    listApiKeys_def rpc_listPasskeys_def query_listPasskeys_def listPasskeys_def rpc_listMachines_def
    query_listMachines_def rpc_getMachine_def query_getMachine_def rpc_listMachineTasks_def
    rpc_getMachineUpgrades_def query_getMachineUpgrades_def rpc_getMachineConfiguration_def
    query_getMachineConfiguration_def rpc_queryUsage_def query_queryUsage_def rpc_getMyUsage_def
    query_getMyUsage_def rpc_getSubscriptionProfile_def getSubscriptionProfile_def rpc_getSubscription_def for_caller_def
  by (intro conjI quiet_rules)

end
