(* ===== verification/Gate_Props.thy ===== *)
theory Gate_Props
  imports Effects Identity_Props
begin

text \<open>
  What stands in front of every procedure of the panel: a procedure only runs for whom its tier admits, and
  what is refused has done nothing.
\<close>

text \<open>Who a tier admits in a state: the origin, the credentials, the role and how recent the session is.\<close>

definition admitted :: "platform \<Rightarrow> tier \<Rightarrow> headers \<Rightarrow> principal option \<Rightarrow> world \<Rightarrow> bool" where
  "admitted P t h caller w \<longleftrightarrow> \<not> foreign_origin P h \<and>
     (case caller of
        None \<Rightarrow> t = TierPublic \<and> h_authorization h = None
      | Some p \<Rightarrow> t \<noteq> TierPublic \<and> may_act P h p w \<and>
          (t = TierAdmin \<longrightarrow> (\<exists>u \<in> set (users (w_db w)). u_id u = du_id (pr_user p) \<and> u_status u = Active \<and> u_role u = Admin)) \<and>
          (t = TierRecent \<longrightarrow> pr_authentication p = BySession \<and> pr_recentAuthentication p))"

text \<open>The only trace of the gate: when an API key was last used.\<close>

definition key_used :: "world \<Rightarrow> world \<Rightarrow> bool" where
  "key_used w v \<longleftrightarrow>
     (\<exists>f. (\<forall>k. k_revokedAt (f k) = k_revokedAt k \<and> k_tokenHash (f k) = k_tokenHash k \<and> k_userId (f k) = k_userId k) \<and>
       w_db v = apiKeys_update (map f) (w_db w))"

lemma key_used_refl: "w_db v = w_db w \<Longrightarrow> key_used w v"
  unfolding key_used_def by (intro exI [of _ id]) simp

lemma authenticate_fail_db: "authenticate P h w = (Inl e, v) \<Longrightarrow> w_db v = w_db w"
  by (auto simp: authenticate_def authenticate_key_def authenticate_session_def prog_ok prog_fail Let_def
      split: option.splits)

lemma requireAdmin_row:
  assumes "requireAdmin p w = (Inr u, v)"
  shows "v = w \<and> (\<exists>a \<in> set (users (w_db w)). u_id a = du_id (pr_user p) \<and> u_status a = Active \<and> u_role a = Admin)"
  using assms find_user_Some [of "du_id (pr_user p)" "w_db w"]
  by (fastforce simp: requireAdmin_def prog_ok split: option.splits)

lemma check_db: "requireAdmin p w = (r, v) \<Longrightarrow> w_db v = w_db w" "requireRecentSession p w = (r', v) \<Longrightarrow> w_db v = w_db w"
  using quiet_rules unfolding quiet_def by metis+

lemma key_used_db: "key_used w u \<Longrightarrow> w_db v = w_db u \<Longrightarrow> key_used w v"
  by (simp add: key_used_def)

lemma key_used_users: "key_used w v \<Longrightarrow> users (w_db v) = users (w_db w)"
  by (auto simp: key_used_def)

lemma gate_program_cases:
  assumes "gate_program P found h w = (r, v)"
  shows "key_used w v \<and>
    (case r of Inl e \<Rightarrow> True | Inr caller \<Rightarrow> \<exists>t. found = Some t \<and> admitted P t h caller w)"
proof -
  define checks where "checks t caller =
    bind (if t = TierAdmin then requireAdmin caller else return ()) (\<lambda>_.
    bind (if t = TierRecent then requireRecentSession caller else return ()) (\<lambda>_. return (Some caller)))"
    for t and caller :: principal
  have quiet: "quiet (checks t p)" for t p unfolding checks_def by (intro quiet_rules)
  show ?thesis
  proof (cases "\<exists>t p u. found = Some t \<and> t \<noteq> TierPublic \<and> \<not> foreign_origin P h \<and> authenticate P h w = (Inr p, u)")
    case True
    then obtain t p u where t: "found = Some t" "t \<noteq> TierPublic" "\<not> foreign_origin P h" and p: "authenticate P h w = (Inr p, u)"
      by blast
    have u: "key_used w u" "may_act P h p w" using authenticate_acts [OF p] unfolding key_used_def by auto
    have run: "checks t p u = (r, v)"
      using assms t p by (simp add: gate_program_def checks_def bind_run require_run)
    then have "w_db v = w_db u" using quiet unfolding quiet_def by blast
    moreover have "admitted P t h caller w" if "r = Inr caller" for caller
      using run that t u key_used_users [OF u(1)] requireAdmin_row [of p u]
      by (fastforce simp: admitted_def checks_def prog_ok requireRecentSession_ok split: if_splits)
    ultimately show ?thesis using t u(1) key_used_db by (auto split: sum.split)
  next
    case False
    have "w_db v = w_db w \<and> (\<forall>caller. r = Inr caller \<longrightarrow> (\<exists>t. found = Some t \<and> admitted P t h caller w))"
    proof (cases "\<exists>t. found = Some t \<and> t \<noteq> TierPublic \<and> \<not> foreign_origin P h")
      case True
      with False obtain e u where "authenticate P h w = (Inl e, u)"
        by (metis obj_sumE surj_pair)
      with True assms authenticate_fail_db [of P h w e u] show ?thesis
        by (auto simp: gate_program_def bind_run require_run)
    next
      case False
      then show ?thesis
        using assms by (cases found) (auto simp: gate_program_def bind_run require_run admitted_def split: if_splits)
    qed
    then show ?thesis using key_used_refl by (auto split: sum.split)
  qed
qed


end
