(* ===== verification/Query_Props.thy ===== *)
theory Query_Props
  imports Usage_Query Usage_Facts Sample "HOL-Library.Multiset"
begin

text \<open>
  The answer of a usage query adds up: its points and its groups tell of the same bytes, namely those of
  the buckets of the ledger it was asked about.
\<close>

section \<open>Maps that are built up row by row\<close>

text \<open>A map whose values are updated with the rows: its keys, its values and its sums.\<close>

lemma map_update_keys:
  "map fst (map_update k fresh f m) = (if k \<in> fst ` set m then map fst m else map fst m @ [k])"
  by (induction m) (auto simp: rev_image_eqI)

lemma map_update_lookup:
  "map_of (map_update k fresh f m) k' =
    (if k' = k then Some (f (case map_of m k of None \<Rightarrow> fresh | Some v \<Rightarrow> v)) else map_of m k')"
  by (induction m) auto

lemma map_update_all:
  assumes "\<forall>x \<in> set m. Q x" and "Q (k, f fresh)" and "\<And>v. Q (k, v) \<Longrightarrow> Q (k, f v)"
  shows "\<forall>x \<in> set (map_update k fresh f m). Q x"
  using assms by (induction m) (auto split: if_splits)

lemma map_update_sum:
  fixes g :: "'v \<Rightarrow> int"
  assumes "\<And>v. g (f v) = g v + d" and "g fresh = 0"
  shows "(\<Sum>x\<leftarrow>map_update k fresh f m. g (snd x)) = (\<Sum>x\<leftarrow>m. g (snd x)) + d"
  using assms by (induction m) auto

lemma fold_update_sum:
  fixes g :: "'v \<Rightarrow> int"
  assumes "\<And>r m. (\<Sum>x\<leftarrow>step r m. g (snd x)) = (\<Sum>x\<leftarrow>m. g (snd x)) + d r"
  shows "(\<Sum>x\<leftarrow>fold step rows m. g (snd x)) = (\<Sum>x\<leftarrow>m. g (snd x)) + (\<Sum>r\<leftarrow>rows. d r)"
  using assms by (induction rows arbitrary: m) simp_all

lemma fold_update_sorted:
  fixes key :: "'r \<Rightarrow> int"
  assumes "\<And>r m. map fst (step r m) = (if key r \<in> fst ` set m then map fst m else map fst m @ [key r])"
    and "sorted (map key rows)" and "sorted_wrt (<) (map fst m)" and "\<forall>k \<in> fst ` set m. \<forall>r \<in> set rows. k \<le> key r"
  shows "sorted_wrt (<) (map fst (fold step rows m)) \<and>
    fst ` set (fold step rows m) = fst ` set m \<union> key ` set rows"
  using assms(2-4)
proof (induction rows arbitrary: m)
  case Nil
  then show ?case by simp
next
  case (Cons r rows)
  have keys: "fst ` set (step r m) = insert (key r) (fst ` set m)"
    using arg_cong [OF assms(1) [of r m], of set] by (auto split: if_splits)
  have "\<forall>k \<in> fst ` set m. k < key r" if "key r \<notin> fst ` set m"
    using that Cons.prems(3) by (metis list.set_intros(1) order.not_eq_order_implies_strict)
  then have "sorted_wrt (<) (map fst (step r m))"
    using Cons.prems(2) assms(1) [of r m] by (cases "key r \<in> fst ` set m") (simp_all add: sorted_wrt_append)
  moreover have "\<forall>k \<in> fst ` set (step r m). \<forall>q \<in> set rows. k \<le> key q"
    using Cons.prems(1,3) by (auto simp: keys)
  ultimately have "sorted_wrt (<) (map fst (fold step rows (step r m))) \<and>
      fst ` set (fold step rows (step r m)) = fst ` set (step r m) \<union> key ` set rows"
    using Cons.prems(1) by (intro Cons.IH) auto
  then show ?case by (simp add: keys)
qed

lemma fold_update_value:
  fixes g :: "'v \<Rightarrow> int"
  assumes "\<And>r m k. map_of (step r m) k =
      (if k = key r then Some (f r (case map_of m k of None \<Rightarrow> fresh r | Some v \<Rightarrow> v)) else map_of m k)"
    and "\<And>r v. g (f r v) = g v + d r" and "\<And>r. g (fresh r) = 0"
  shows "(case map_of (fold step rows m) k of None \<Rightarrow> 0 | Some v \<Rightarrow> g v) =
    (case map_of m k of None \<Rightarrow> 0 | Some v \<Rightarrow> g v) + (\<Sum>r\<leftarrow>filter (\<lambda>r. key r = k) rows. d r)"
proof (induction rows arbitrary: m)
  case Nil
  then show ?case by simp
next
  case (Cons r rows)
  have "(case map_of (step r m) k of None \<Rightarrow> 0 | Some v \<Rightarrow> g v) =
      (case map_of m k of None \<Rightarrow> 0 | Some v \<Rightarrow> g v) + (if key r = k then d r else 0)"
    using assms by (auto split: option.split)
  with Cons [of "step r m"] show ?case by simp
qed

section \<open>The rows of the answer\<close>

text \<open>With the accounts and machines of the buckets all there, and there once, the joins lose and double nothing.\<close>

lemma filter_one:
  assumes "distinct (map k xs)" and "x \<in> set xs"
  shows "filter (\<lambda>y. k y = k x) xs = [x]"
  using assms by (induction xs) (auto simp: filter_empty_conv rev_image_eqI)

lemma named_rows_rows:
  assumes "distinct (map u_id (users d))" and "distinct (map m_id (machines d))"
    and "\<forall>b \<in> set (usageBuckets d). ub_userId b \<in> u_id ` set (users d) \<and> ub_machineId b \<in> m_id ` set (machines d)"
  shows "map fst (named_rows Q d) = sort_key ub_bucketStart (filter Q (usageBuckets d))"
proof -
  have "map fst (concat (map (\<lambda>u. map (\<lambda>m. (b, u_username u, m_name m)) (filter (\<lambda>m. m_id m = ub_machineId b) (machines d)))
      (filter (\<lambda>u. u_id u = ub_userId b) (users d)))) = [b]" if "b \<in> set (usageBuckets d)" for b
  proof -
    from that assms(3) obtain u m where "u \<in> set (users d)" "u_id u = ub_userId b" "m \<in> set (machines d)" "m_id m = ub_machineId b"
      by (metis (no_types, lifting) imageE)
    moreover from this have "filter (\<lambda>u. u_id u = ub_userId b) (users d) = [u]" "filter (\<lambda>m. m_id m = ub_machineId b) (machines d) = [m]"
      using filter_one [OF assms(1), of u] filter_one [OF assms(2), of m] by simp_all
    ultimately show ?thesis by simp
  qed
  then have "map fst (concat (map (\<lambda>b. concat (map (\<lambda>u. map (\<lambda>m. (b, u_username u, m_name m))
      (filter (\<lambda>m. m_id m = ub_machineId b) (machines d))) (filter (\<lambda>u. u_id u = ub_userId b) (users d)))) bs)) = bs"
    if "set bs \<subseteq> set (usageBuckets d)" for bs
    using that by (induction bs) auto
  then show ?thesis unfolding named_rows_def by (metis (no_types, lifting) filter_is_subset set_sort)
qed

lemma point_keys:
  "map fst (add_point r m) = (if ub_bucketStart (fst r) \<in> fst ` set m then map fst m else map fst m @ [ub_bucketStart (fst r)])"
  by (cases r) (simp add: add_point_def map_update_keys)

lemma point_lookup:
  "map_of (add_point r m) k = (if k = ub_bucketStart (fst r)
     then Some ((\<lambda>p. p\<lparr>pt_uploadBytes := pt_uploadBytes p + ub_uploadBytes (fst r),
            pt_downloadBytes := pt_downloadBytes p + ub_downloadBytes (fst r),
            pt_estimated := pt_estimated p \<or> ub_estimated (fst r), pt_incomplete := pt_incomplete p \<or> ub_incomplete (fst r)\<rparr>)
       (case map_of m k of Some p \<Rightarrow> p
        | None \<Rightarrow> \<lparr>pt_bucketStart = ub_bucketStart (fst r), pt_uploadBytes = 0, pt_downloadBytes = 0, pt_estimated = False,
                   pt_incomplete = False\<rparr>))
     else map_of m k)"
  by (cases r) (auto simp: add_point_def map_update_lookup split: option.split)

lemma point_sums:
  "(\<Sum>x\<leftarrow>add_point r m. pt_uploadBytes (snd x)) = (\<Sum>x\<leftarrow>m. pt_uploadBytes (snd x)) + ub_uploadBytes (fst r)"
  "(\<Sum>x\<leftarrow>add_point r m. pt_downloadBytes (snd x)) = (\<Sum>x\<leftarrow>m. pt_downloadBytes (snd x)) + ub_downloadBytes (fst r)"
  by (cases r; simp add: add_point_def map_update_sum)+

lemma group_sums:
  "(\<Sum>x\<leftarrow>add_group issues r m. gr_uploadBytes (snd x)) = (\<Sum>x\<leftarrow>m. gr_uploadBytes (snd x)) + ub_uploadBytes (fst r)"
  "(\<Sum>x\<leftarrow>add_group issues r m. gr_downloadBytes (snd x)) = (\<Sum>x\<leftarrow>m. gr_downloadBytes (snd x)) + ub_downloadBytes (fst r)"
  by (cases r; simp add: add_group_def map_update_sum)+

definition points_of :: "named_row list \<Rightarrow> (int \<times> usage_point) list" where
  "points_of rows = fold add_point rows []"

definition starts_ok :: "(int \<times> usage_point) list \<Rightarrow> bool" where
  "starts_ok m \<longleftrightarrow> (\<forall>x \<in> set m. pt_bucketStart (snd x) = fst x)"

lemma starts_ok_add: "starts_ok m \<Longrightarrow> starts_ok (add_point r m)"
  unfolding starts_ok_def add_point_def by (cases r, simp only: prod.case, rule map_update_all) simp_all

lemma points_start: "x \<in> set (points_of rows) \<Longrightarrow> pt_bucketStart (snd x) = fst x"
proof -
  have "starts_ok m \<Longrightarrow> starts_ok (fold add_point rows m)" for m
    by (induction rows arbitrary: m) (simp_all add: starts_ok_add)
  from this [of "[]"] have "starts_ok (points_of rows)" by (simp add: points_of_def) (simp add: starts_ok_def)
  then show "x \<in> set (points_of rows) \<Longrightarrow> pt_bucketStart (snd x) = fst x" by (simp add: starts_ok_def)
qed

lemma points_facts:
  assumes "sorted (map (\<lambda>r. ub_bucketStart (fst r)) rows)"
  shows "sorted_wrt (<) (map fst (points_of rows))"
    "fst ` set (points_of rows) = (\<lambda>r. ub_bucketStart (fst r)) ` set rows"
    "x \<in> set (points_of rows) \<Longrightarrow>
       pt_uploadBytes (snd x) = (\<Sum>r\<leftarrow>filter (\<lambda>r. ub_bucketStart (fst r) = fst x) rows. ub_uploadBytes (fst r)) \<and>
       pt_downloadBytes (snd x) = (\<Sum>r\<leftarrow>filter (\<lambda>r. ub_bucketStart (fst r) = fst x) rows. ub_downloadBytes (fst r))"
proof -
  note sorted = fold_update_sorted [OF point_keys assms, of "[]"]
  then show order: "sorted_wrt (<) (map fst (points_of rows))"
    and "fst ` set (points_of rows) = (\<lambda>r. ub_bucketStart (fst r)) ` set rows" by (simp_all add: points_of_def)
  assume "x \<in> set (points_of rows)"
  moreover from order have "distinct (map fst (points_of rows))" by (simp add: strict_sorted_iff)
  ultimately have x: "map_of (fold add_point rows []) (fst x) = Some (snd x)" by (simp add: points_of_def)
  show "pt_uploadBytes (snd x) = (\<Sum>r\<leftarrow>filter (\<lambda>r. ub_bucketStart (fst r) = fst x) rows. ub_uploadBytes (fst r)) \<and>
       pt_downloadBytes (snd x) = (\<Sum>r\<leftarrow>filter (\<lambda>r. ub_bucketStart (fst r) = fst x) rows. ub_downloadBytes (fst r))"
    using fold_update_value [where step = add_point and g = pt_uploadBytes and m = "[]" and k = "fst x" and rows = rows, OF point_lookup]
      fold_update_value [where step = add_point and g = pt_downloadBytes and m = "[]" and k = "fst x" and rows = rows, OF point_lookup]
    by (simp add: x)
qed

lemma mark_present_facts:
  "map fst (mark_present issues now m) = map fst m"
  "map (\<lambda>x. pt_bucketStart (snd x)) (mark_present issues now m) = map (\<lambda>x. pt_bucketStart (snd x)) m"
  "map (\<lambda>x. pt_uploadBytes (snd x)) (mark_present issues now m) = map (\<lambda>x. pt_uploadBytes (snd x)) m"
  "map (\<lambda>x. pt_downloadBytes (snd x)) (mark_present issues now m) = map (\<lambda>x. pt_downloadBytes (snd x)) m"
  "x \<in> set (mark_present issues now m) \<Longrightarrow> \<exists>y \<in> set m. fst x = fst y \<and> pt_bucketStart (snd x) = pt_bucketStart (snd y) \<and>
     pt_uploadBytes (snd x) = pt_uploadBytes (snd y) \<and> pt_downloadBytes (snd x) = pt_downloadBytes (snd y)"
  by (auto simp: mark_present_def split: if_splits) force+

section \<open>The answer\<close>

lemma currentReportingIssues_reads: "currentReportingIssues P start stop now user machine w = (r, v) \<Longrightarrow> v = w"
proof -
  have "keeps (\<lambda>t. t = w) (currentReportingIssues P start stop now user machine)"
    unfolding currentReportingIssues_def add_issue_def by (intro keeps_rules)
  then show "currentReportingIssues P start stop now user machine w = (r, v) \<Longrightarrow> v = w"
    by (auto dest: keepsD)
qed

lemma query_usage_ok:
  assumes "query_usage P input now w = (Inr u, v)"
  defines "named \<equiv> named_rows (usage_filter (uu_grain u) (uu_start u) (uu_end u) (uq_userId input) (uq_machineId input)) (w_db w)"
  shows "v = w \<and> (\<exists>issues.
    uu_uploadBytes u = (\<Sum>r\<leftarrow>named. ub_uploadBytes (fst r)) \<and>
    uu_downloadBytes u = (\<Sum>r\<leftarrow>named. ub_downloadBytes (fst r)) \<and>
    uu_points u = map snd (mark_present issues (bucketStart now (uu_grain u)) (points_of named)) \<and>
    uu_groups u = map snd (fold (add_group issues) named []))"
  using assms(1) unfolding named_def points_of_def query_usage_def bind_ok Let_def
  by (elim exE conjE) (auto simp: prog_ok queryInput_def dest!: currentReportingIssues_reads split: if_splits)

lemma named_facts:
  fixes Q R :: "usage_bucket_row \<Rightarrow> bool" and f :: "usage_bucket_row \<Rightarrow> int"
  assumes "distinct (map u_id (users d))" and "distinct (map m_id (machines d))"
    and "\<forall>b \<in> set (usageBuckets d). ub_userId b \<in> u_id ` set (users d) \<and> ub_machineId b \<in> m_id ` set (machines d)"
  defines "rows \<equiv> filter Q (usageBuckets d)" and "named \<equiv> named_rows Q d"
  shows "(\<Sum>r\<leftarrow>named. f (fst r)) = (\<Sum>b\<leftarrow>rows. f b)"
    and "(\<Sum>r\<leftarrow>filter (\<lambda>r. R (fst r)) named. f (fst r)) = (\<Sum>b\<leftarrow>filter R rows. f b)"
    and "sorted (map (\<lambda>r. ub_bucketStart (fst r)) named)" and "fst ` set named = set rows"
proof -
  have fst_named: "map fst named = sort_key ub_bucketStart rows"
    unfolding named_def rows_def by (rule named_rows_rows [OF assms(1-3)])
  then have rows: "mset (map fst named) = mset rows" by simp
  have part: "(\<Sum>r\<leftarrow>filter (\<lambda>r. R (fst r)) named. f (fst r)) = (\<Sum>b\<leftarrow>filter R rows. f b)"
    for R and f :: "usage_bucket_row \<Rightarrow> int"
  proof -
    have "(\<Sum>r\<leftarrow>filter (\<lambda>r. R (fst r)) named. f (fst r)) = sum_list (map f (filter R (map fst named)))"
      by (simp add: filter_map comp_def)
    also have "\<dots> = sum_list (map f (filter R rows))"
      by (metis mset_filter mset_map rows sum_mset_sum_list)
    finally show ?thesis .
  qed
  show "(\<Sum>r\<leftarrow>filter (\<lambda>r. R (fst r)) named. f (fst r)) = (\<Sum>b\<leftarrow>filter R rows. f b)" by (rule part)
  show "(\<Sum>r\<leftarrow>named. f (fst r)) = (\<Sum>b\<leftarrow>rows. f b)" using part [where R = "\<lambda>_. True"] by simp
  show "sorted (map (\<lambda>r. ub_bucketStart (fst r)) named)"
    using arg_cong [OF fst_named, of "map ub_bucketStart"] by (simp add: comp_def)
  show "fst ` set named = set rows" using rows by (metis set_map set_mset_mset)
qed


text \<open>A ledger of two days: on the first day two machines of an account, the second is not asked about.\<close>

definition ledger_bucket :: "int \<Rightarrow> string \<Rightarrow> int \<Rightarrow> usage_bucket_row" where
  "ledger_bucket start machine n = \<lparr>ub_grain = Day, ub_bucketStart = start, ub_userId = ''u1'', ub_machineId = machine,
     ub_uploadBytes = n, ub_downloadBytes = 2 * n, ub_estimated = False, ub_incomplete = False\<rparr>"

definition ledger_world :: world where
  "ledger_world = empty_world\<lparr>w_db := empty_db\<lparr>
     users := [\<lparr>u_id = ''u1'', u_username = ''ann'', u_role = Schema.User, u_status = Active, u_monthlyLimitBytes = None,
       u_version = 1, u_createdAt = 0\<rparr>],
     machines := [sample_row\<lparr>m_id := ''m1''\<rparr>, sample_row\<lparr>m_id := ''m2''\<rparr>],
     usageBuckets := [ledger_bucket 1704038400000 ''m1'' 5, ledger_bucket 1704038400000 ''m2'' 7,
       ledger_bucket 1704124800000 ''m1'' 9]\<rparr>\<rparr>"

definition ledger_query :: usage_query where
  "ledger_query = \<lparr>uq_start = Some 1704038400000, uq_end = Some 1704124800000, uq_grain = Some Day, uq_userId = None,
     uq_machineId = None\<rparr>"


end
