(* ===== verification/Subscription_Facts.thy ===== *)
theory Subscription_Facts
  imports Effects Policy_Facts
begin

text \<open>
  What the operations on subscriptions read: rendering and describing a subscription writes nothing, and the
  snapshot it is rendered from does not depend on the tables of the subscriptions and of their previews.
\<close>

section \<open>Reading\<close>

lemma keeps_subscriptions [keeps_rules]:
  "keeps I (read_configuration P c)" "keeps I (subscriptionSnapshot P u)" "keeps I (subscription_row_of u i)"
  "keeps I (read_json P c)" "keeps I (render_row P row)" "keeps I (subscription_url P c)" "keeps I (try_render P row)"
  "keeps I (profile_dto_of P full row)" "keeps I (profile_get P u i)" "keeps I (checkVersion row n)"
proof -
  show config: "keeps I (read_configuration P c)" for c unfolding read_configuration_def by (intro keeps_rules)
  show snapshot: "keeps I (subscriptionSnapshot P u)" for u
    unfolding subscriptionSnapshot_def snapshot_node_of_def Let_def
    by (auto intro!: keeps_rules config split: prod.split)
  show row: "keeps I (subscription_row_of u i)" for u i unfolding subscription_row_of_def by (intro keeps_rules)
  show json: "keeps I (read_json P c)" for c unfolding read_json_def by (intro keeps_rules)
  show render: "keeps I (render_row P row)" for row unfolding render_row_def by (intro keeps_rules snapshot json)
  show url: "keeps I (subscription_url P c)" for c unfolding subscription_url_def by (intro keeps_rules)
  show attempted: "keeps I (try_render P row)" for row
    unfolding try_render_def by (auto intro!: keeps_rules render split: failure.split)
  show dto: "keeps I (profile_dto_of P full row)" for full row
    unfolding profile_dto_of_def case_prod_beta by (intro keeps_rules attempted url json)
  show "keeps I (profile_get P u i)" unfolding profile_get_def by (intro keeps_rules row dto)
  show "keeps I (checkVersion row n)" unfolding checkVersion_def by (intro keeps_rules)
qed

lemma profile_get_same: "profile_get P u i w = (r, v) \<Longrightarrow> v = w"
  by (rule keepsD [OF keeps_subscriptions(9) refl])

lemma snapshot_same: "subscriptionSnapshot P u w = (s, v) \<Longrightarrow> v = w"
  by (rule keepsD [OF keeps_subscriptions(2) refl])

lemma read_json_ok [prog_ok]:
  "read_json P c w = (Inr j, v) \<longleftrightarrow> (\<exists>plain. decryptSecret P c = Inr plain \<and> p_jsonParse P plain = Some j) \<and> v = w"
  by (auto simp: read_json_def prog_ok)

lemma subscription_row_of_ok [prog_ok]:
  "subscription_row_of u i w = (Inr row, v) \<longleftrightarrow> own_subscription u i (w_db w) = Some row \<and> v = w"
  by (auto simp: subscription_row_of_def prog_ok)

lemma checkVersion_ok [prog_ok]: "checkVersion row n w = (Inr x, v) \<longleftrightarrow> sb_version row = n \<and> v = w"
  by (auto simp: checkVersion_def prog_ok)

section \<open>Programs that do not look at a part of the database\<close>

definition on_database :: "(database \<Rightarrow> database) \<Rightarrow> world \<Rightarrow> world" where
  "on_database f w = w\<lparr>w_db := f (w_db w)\<rparr>"

definition deaf :: "(database \<Rightarrow> database) \<Rightarrow> 'a app \<Rightarrow> bool" where
  "deaf f p \<longleftrightarrow> (\<forall>w r v. p w = (r, v) \<longrightarrow> p (on_database f w) = (r, on_database f v))"

named_theorems deaf_rules \<open>a program does not look at a part of the database\<close>

lemma deaf_pure: "pure p \<Longrightarrow> deaf f p"
  by (auto simp: deaf_def dest: pureD)

lemma deaf_basic [deaf_rules]:
  "deaf f (return a)" "deaf f (throw e)" "deaf f (lift_sum r)" "deaf f (require b e)" "deaf f (the_or x e)" "deaf f Date_now"
  by (auto simp: deaf_def on_database_def require_run the_or_run split: option.splits if_splits)

lemma deaf_get [deaf_rules]: "(\<And>d. g (f d) = g d) \<Longrightarrow> deaf f (db_get g)"
  by (simp add: deaf_def on_database_def)

lemma deaf_bind [deaf_rules]: "deaf f p \<Longrightarrow> (\<And>a. deaf f (q a)) \<Longrightarrow> deaf f (bind p q)"
  by (auto simp: deaf_def bind_def split: prod.splits sum.splits)

lemma deaf_split [deaf_rules]:
  "deaf f p \<Longrightarrow> deaf f q \<Longrightarrow> deaf f (if b then p else q)"
  "deaf f p \<Longrightarrow> (\<And>a. deaf f (r a)) \<Longrightarrow> deaf f (case x of None \<Rightarrow> p | Some a \<Rightarrow> r a)"
  "(\<And>a b. deaf f (s a b)) \<Longrightarrow> deaf f (case y of (a, b) \<Rightarrow> s a b)"
  "deaf f (h z) \<Longrightarrow> deaf f (Let z h)"
  by (simp_all split: option.split prod.split)

lemma deaf_map_prog [deaf_rules]: "(\<And>x. deaf f (p x)) \<Longrightarrow> deaf f (map_prog p xs)"
  by (induction xs) (simp_all add: deaf_rules)

text \<open>The tables of the subscriptions and of their previews.\<close>

definition on_subscriptions ::
  "(subscription_row list \<Rightarrow> subscription_row list) \<Rightarrow> (subscription_preview_row list \<Rightarrow> subscription_preview_row list) \<Rightarrow>
   database \<Rightarrow> database" where
  "on_subscriptions f g d = subscriptionPreviews_update g (subscriptions_update f d)"

lemma snapshot_deaf: "deaf (on_subscriptions f g) (subscriptionSnapshot P u)"
  unfolding subscriptionSnapshot_def snapshot_node_of_def readProxyCredentials_def userQuota_def status_of_def
    read_configuration_def
  by (intro deaf_rules)
    (simp_all add: on_subscriptions_def find_credential_def find_user_def month_usage_def latest_revision_def
      snapshot_records_def effective_revision_def isUninstalled_def split: option.split)

lemma snapshot_after:
  "subscriptionSnapshot P u w = (r, w) \<Longrightarrow>
    subscriptionSnapshot P u (w\<lparr>w_db := on_subscriptions f g (w_db w)\<rparr>) = (r, w\<lparr>w_db := on_subscriptions f g (w_db w)\<rparr>)"
  using snapshot_deaf unfolding deaf_def on_database_def by blast

lemma find_update_where:
  "(\<And>r. P r \<Longrightarrow> Q (f r) = Q r) \<Longrightarrow>
    find Q (update_where P f t) = map_option (\<lambda>r. if P r then f r else r) (find Q t)"
  by (induction t) auto

end
