(* ===== verification/Subscription_Props.thy ===== *)
theory Subscription_Props
  imports Subscription_Facts Render_Props
begin

text \<open>
  The properties of named subscriptions: publishing publishes what was previewed, once, and clients get exactly
  that; who is served, and how a subscription is taken away.
\<close>

section \<open>Publishing\<close>

lemma render_not_blocked: "renderSubscription P j s w = (Inr r, v) \<Longrightarrow> \<not> sn_blocked s"
  unfolding renderSubscription_def bind_ok require_ok by blast

lemma snapshot_blocked:
  "subscriptionSnapshot P u w = (Inr s, v) \<Longrightarrow>
    sn_blocked s = (u_status (q_user (sn_quota s)) \<noteq> Active \<or> q_blocked (sn_quota s))"
  unfolding subscriptionSnapshot_def Let_def bind_ok return_ok by auto

lemma own_subscription_Some:
  "own_subscription u i d = Some row \<Longrightarrow> row \<in> set (subscriptions d) \<and> sb_id row = i \<and> sb_userId row = u \<and> sb_deletedAt row = None"
  unfolding own_subscription_def by (auto dest: find_Some_mem)

lemma find_profile_preview_Some:
  "find_profile_preview k i d = Some pv \<Longrightarrow> sp_id pv = k \<and> sp_subscriptionId pv = i"
  unfolding find_profile_preview_def by (auto dest: find_Some_mem)

text \<open>What a publication writes: the row gets its draft as what is published, the preview is spent.\<close>

definition publish_tables :: "string \<Rightarrow> string \<Rightarrow> subscription_row \<Rightarrow> int \<Rightarrow> database \<Rightarrow> database" where
  "publish_tables i k row now = on_subscriptions (update_where (\<lambda>s. sb_id s = i) (publish_row row now))
     (update_where (\<lambda>p. sp_id p = k) (\<lambda>p. p\<lparr>sp_published := True\<rparr>))"

lemma publish_row_simps [simp]:
  "sb_id (publish_row row now s) = sb_id s" "sb_userId (publish_row row now s) = sb_userId s"
  "sb_deletedAt (publish_row row now s) = sb_deletedAt s" "sb_tokenHash (publish_row row now s) = sb_tokenHash s"
  "sb_enabled (publish_row row now s) = sb_enabled s" "sb_draftCiphertext (publish_row row now s) = sb_draftCiphertext s"
  "sb_tokenCiphertext (publish_row row now s) = sb_tokenCiphertext s" "sb_legacy (publish_row row now s) = False"
  "sb_publishedCiphertext (publish_row row now s) = Some (sb_draftCiphertext row)"
  "sb_version (publish_row row now s) = sb_version row + 1" "sb_publishedVersion (publish_row row now s) = sb_version row + 1"
  by (simp_all add: publish_row_def)

lemma publish_tables_reads:
  assumes "own_subscription u i d = Some row" and "find_profile_preview k i d = Some pv"
  shows "own_subscription u i (publish_tables i k row now d) = Some (publish_row row now row)"
    "find_profile_preview k i (publish_tables i k row now d) = Some (pv\<lparr>sp_published := True\<rparr>)"
    "by_hash h d = Some row \<Longrightarrow> by_hash h (publish_tables i k row now d) = Some (publish_row row now row)"
  using assms own_subscription_Some [OF assms(1)] find_profile_preview_Some [OF assms(2)]
  unfolding own_subscription_def find_profile_preview_def by_hash_def publish_tables_def on_subscriptions_def
  by (simp_all add: find_update_where)

lemma publish_cases:
  assumes "profile_publish P u i n k w = (Inr p, v)"
  obtains row pv where "own_subscription u i (w_db w) = Some row" "find_profile_preview k i (w_db w) = Some pv"
      "sp_published pv" "v = w" "profile_get P u i v = (Inr p, v)"
  | row pv j s r where "own_subscription u i (w_db w) = Some row" "find_profile_preview k i (w_db w) = Some pv"
      "\<not> sp_published pv" "sb_version row = n" "sp_version pv = n" "w_now w < sp_expiresAt pv"
      "read_json P (sb_draftCiphertext row) w = (Inr j, w)" "subscriptionSnapshot P u w = (Inr s, w)"
      "renderSubscription P j s w = (Inr r, w)" "sha256 P (rd_configJson r) = sp_digest pv"
      "v = w\<lparr>w_db := publish_tables i k row (w_now w) (w_db w)\<rparr>" "profile_get P u i v = (Inr p, v)"
proof -
  from assms obtain row pv where row: "own_subscription u i (w_db w) = Some row" and pv: "find_profile_preview k i (w_db w) = Some pv"
    and run: "(if sp_published pv then profile_get P u i
      else bind (checkVersion row n) (\<lambda>_. publish_draft P u i row pv)) w = (Inr p, v)"
    unfolding profile_publish_def by (auto simp: prog_ok)
  show thesis
  proof (cases "sp_published pv")
    case True
    with run have get: "profile_get P u i w = (Inr p, v)" by simp
    then have "v = w" by (rule profile_get_same)
    with True get show thesis by (intro that(1) [OF row pv]) auto
  next
    case False
    with run obtain j s r x where version: "sb_version row = n" "sp_version pv = sb_version row" "w_now w < sp_expiresAt pv"
      and j: "read_json P (sb_draftCiphertext row) w = (Inr j, w)"
      and s: "subscriptionSnapshot P u w = (Inr s, x)" and r: "bind (renderSubscription P j s) (\<lambda>current.
        bind (require (sha256 P (rd_configJson current) = sp_digest pv) (AppError ''STALE_POLICY'' 409)) (\<lambda>_.
        bind (update_subscription i (publish_row row (w_now w))) (\<lambda>_.
        bind (db_run (subscriptionPreviews_update (update_where (\<lambda>p. sp_id p = sp_id pv) (\<lambda>p. p\<lparr>sp_published := True\<rparr>)))) (\<lambda>_.
        profile_get P u i)))) x = (Inr p, v)"
      unfolding publish_draft_def by (auto simp: prog_ok)
    have "x = w" using snapshot_same [OF s] .
    with r obtain r' y where r': "renderSubscription P j s w = (Inr r', y)" and rest: "bind (require (sha256 P (rd_configJson r') = sp_digest pv) (AppError ''STALE_POLICY'' 409)) (\<lambda>_.
        bind (update_subscription i (publish_row row (w_now w))) (\<lambda>_.
        bind (db_run (subscriptionPreviews_update (update_where (\<lambda>p. sp_id p = sp_id pv) (\<lambda>p. p\<lparr>sp_published := True\<rparr>)))) (\<lambda>_.
        profile_get P u i))) y = (Inr p, v)"
      unfolding bind_ok [of "renderSubscription P j s"] by blast
    have "y = w" using pure_agrees [OF pure_render r'] by simp
    let ?v = "w\<lparr>w_db := publish_tables i k row (w_now w) (w_db w)\<rparr>"
    have digest: "sha256 P (rd_configJson r') = sp_digest pv" and get: "profile_get P u i ?v = (Inr p, v)"
      using rest \<open>y = w\<close> find_profile_preview_Some [OF pv]
      by (auto simp: prog_ok update_subscription_def publish_tables_def on_subscriptions_def)
    have "v = ?v" using profile_get_same [OF get] .
    with False version j s \<open>x = w\<close> r' \<open>y = w\<close> digest get show thesis by (intro that(2) [OF row pv]) auto
  qed
qed

lemma decrypted_nonempty: "decryptSecret P c = Inr plain \<Longrightarrow> truthy (Some c)"
  by (cases "c = []") (simp_all add: decryptSecret_def truthy_def)

lemma publish_renders:
  assumes row: "own_subscription u i (w_db w) = Some row"
    and j: "read_json P (sb_draftCiphertext row) w = (Inr j, w)" and s: "subscriptionSnapshot P u w = (Inr s, w)"
    and r: "renderSubscription P j s w = (Inr r, w)"
    and v: "v = w\<lparr>w_db := publish_tables i k row now (w_db w)\<rparr>"
  shows "render_row P (publish_row row now row) v = (Inr r, v)"
proof -
  have u: "sb_userId row = u" using own_subscription_Some [OF row] by auto
  have s': "subscriptionSnapshot P u v = (Inr s, v)"
    unfolding v publish_tables_def by (rule snapshot_after [OF s])
  have "\<not> sn_blocked s" by (rule render_not_blocked [OF r])
  then have active: "u_status (q_user (sn_quota s)) = Active" using snapshot_blocked [OF s] by simp
  have j': "read_json P (sb_draftCiphertext row) v = (Inr j, v)" and some: "truthy (Some (sb_draftCiphertext row))"
    using j decrypted_nonempty by (auto simp: prog_ok)
  have "renderSubscription P j s v = (Inr r, v)" using pure_agrees [OF pure_render r] by blast
  then show ?thesis using s' active some j' by (simp add: render_row_def u bind_def)
qed

lemma publish_serves:
  assumes row: "own_subscription u i (w_db w) = Some row" and pv: "find_profile_preview k i (w_db w) = Some pv"
    and "read_json P (sb_draftCiphertext row) w = (Inr j, w)" and "subscriptionSnapshot P u w = (Inr s, w)"
    and "renderSubscription P j s w = (Inr r, w)"
    and token: "is_subscription_token token" "by_hash (tokenHash P token) (w_db w) = Some row" "sb_enabled row"
  shows "\<exists>x. byToken P token (w\<lparr>w_db := publish_tables i k row now (w_db w)\<rparr>) = (Inr (rd_configJson r), x)"
proof -
  have "sb_deletedAt row = None" using own_subscription_Some [OF row] by auto
  moreover note publish_tables_reads(3) [OF row pv token(2), of now]
  moreover note publish_renders [OF row assms(3-5) refl, where k = k and now = now]
  ultimately show ?thesis
    using token(1,3) by (simp add: byToken_def adopt_legacy_def bind_def update_subscription_def Let_def)
qed

text \<open>
  C33. Publishing publishes what was previewed, once. A publication that is answered for a preview that has not
  been published was asked for the present version of the subscription, the preview is of that version and has
  not expired, and its digest is that of the draft rendered now; the draft becomes what is published under the
  next version, the preview is spent, nothing else of the database changes, and a client that asks with the
  token of the enabled subscription gets exactly the previewed configuration. Publishing the same preview
  again, under whatever version, is answered the same and changes nothing.
\<close>

theorem publish_serves_preview:
  assumes "profile_publish P u i n k w = (Inr p, v)"
  shows "(\<exists>row pv. own_subscription u i (w_db w) = Some row \<and> find_profile_preview k i (w_db w) = Some pv \<and>
      (if sp_published pv then v = w
       else sb_version row = n \<and> sp_version pv = n \<and> w_now w < sp_expiresAt pv \<and>
         v = w\<lparr>w_db := publish_tables i k row (w_now w) (w_db w)\<rparr> \<and>
         (\<forall>token. is_subscription_token token \<and> by_hash (tokenHash P token) (w_db w) = Some row \<and> sb_enabled row \<longrightarrow>
            (\<exists>config x. byToken P token v = (Inr config, x) \<and> sha256 P config = sp_digest pv)))) \<and>
    (\<forall>n'. profile_publish P u i n' k v = (Inr p, v))"
  using assms
proof (cases rule: publish_cases)
  case (1 row pv)
  then have "profile_publish P u i n' k v = (Inr p, v)" for n'
    by (simp add: profile_publish_def transaction_def bind_run subscription_row_of_def)
  with 1 show ?thesis by auto
next
  case (2 row pv j s r)
  note tables = publish_tables_reads(1,2) [OF 2(1,2), of "w_now w"]
  have "profile_publish P u i n' k v = (Inr p, v)" for n'
    using 2(12) tables unfolding 2(11)
    by (simp add: profile_publish_def transaction_def bind_run subscription_row_of_def)
  moreover have "\<exists>config x. byToken P token v = (Inr config, x) \<and> sha256 P config = sp_digest pv"
    if "is_subscription_token token" "by_hash (tokenHash P token) (w_db w) = Some row" "sb_enabled row" for token
    using publish_serves [OF 2(1,2,7,8,9) that, of "w_now w"] 2(10,11) by blast
  ultimately show ?thesis using 2 by auto
qed

text \<open>A world with an account, a machine that runs its configuration, and a subscription with a preview.\<close>

definition press_parse :: "string \<Rightarrow> json option" where
  "press_parse t = (if t = ''{}'' then Some (sample_template sample_groups)
     else if t = ''draft'' then Some (draft_json sample_draft)
     else if t = ''conf'' then Some (configuration_json (cn_settings sample_node))
     else if t = ''cred'' then Some (JObj (c_secrets (sn_credentials sample_snapshot))) else None)"

definition press :: platform where
  "press = sample\<lparr>p_jsonParse := press_parse, p_statusFromJson := (\<lambda>_. Some ((sample_status ''1.0'')\<lparr>s_appliedRevisionId := ''r1''\<rparr>))\<rparr>"

definition press_token :: string where
  "press_token = ''bf_sub_'' @ replicate 43 (CHR ''a'')"

definition press_row :: subscription_row where
  "press_row = new_subscription_row ''s1'' ''u1'' ''phone'' ''mobile'' ''k1'' (sample_sealed 0 ''draft'') press_token
     (sample_sealed 1 press_token) 0"

definition press_machine :: machine_row where
  "press_machine = sample_row\<lparr>m_id := ''n1'', m_name := ''node'', m_address := ''10.0.0.1'', m_region := ''HK'', m_tags := [''ai''],
     m_statusJson := Some ''s''\<rparr>"

definition press_world :: "string \<Rightarrow> world" where
  "press_world digest = empty_world\<lparr>w_now := 1704100000000, w_db := empty_db\<lparr>
     users := [sample_subscriber], machines := [press_machine],
     proxyCredentials := [\<lparr>pc_userId = ''u1'', pc_secretsCiphertext = sample_sealed 2 ''cred'', pc_generation = 1, pc_changedAt = 0\<rparr>],
     machineConfigs := [\<lparr>mc_machineId = ''n1'', mc_settingsCiphertext = Some (sample_sealed 3 ''conf''), mc_version = 1,
       mc_desiredRevisionId = Some ''r1'', mc_desiredPolicyRevision = 0\<rparr>],
     configRevisions := [\<lparr>cr_id = ''r1'', cr_machineId = ''n1'', cr_version = 1, cr_settingsCiphertext = sample_sealed 3 ''conf'',
       cr_renderedCiphertext = [], cr_digest = [], cr_policyRevision = 0, cr_authorizedUserIds = [], cr_createdAt = 0,
       cr_createdBy = None\<rparr>],
     subscriptions := [press_row],
     subscriptionPreviews := [\<lparr>sp_id = ''p1'', sp_subscriptionId = ''s1'', sp_version = 1, sp_digest = digest,
       sp_expiresAt = 1704100001000, sp_published = False\<rparr>]\<rparr>\<rparr>"

lemma press_decrypts: "decryptSecret press (sample_sealed n t) = Inr t"
proof -
  have "gcm_ok press" "random_ok press" using sample_gcm_ok sample_random_ok by (simp_all add: gcm_ok_def random_ok_def press_def)
  moreover have "encryptSecret press t (empty_world\<lparr>w_draws := n\<rparr>) = (Inr (sample_sealed n t), empty_world\<lparr>w_draws := Suc n\<rparr>)"
    by (simp add: encryptSecret_def press_def sample_def sample_sealed_def sample_seal_def bind_run)
  ultimately show ?thesis by (rule encryptSecret_decrypts)
qed

lemma sealed_nonempty: "sample_sealed n t \<noteq> []"
  using decrypted_nonempty [OF press_decrypts, of n t] by (simp add: truthy_def)

lemma press_parses:
  "p_jsonParse press ''{}'' = Some (sample_template sample_groups)" "p_jsonParse press ''draft'' = Some (draft_json sample_draft)"
  "p_jsonParse press ''conf'' = Some (configuration_json (cn_settings sample_node))"
  "p_jsonParse press ''cred'' = Some (JObj (c_secrets (sn_credentials sample_snapshot)))"
  by (simp_all add: press_def press_parse_def)

lemma press_period: "monthPeriod 1704100000000 = ''2024-01''"
  by code_simp

lemma press_snapshot: "subscriptionSnapshot press ''u1'' (press_world g) = (Inr sample_snapshot, press_world g)"
proof -
  let ?db = "w_db (press_world g)"
  have credentials: "readProxyCredentials press ''u1'' (press_world g) = (Inr (sn_credentials sample_snapshot), press_world g)"
    by (simp add: readProxyCredentials_def press_world_def find_credential_def bind_run press_decrypts press_parses
        sample_snapshot_def)
  have quota: "userQuota ''u1'' 1704100000000 (press_world g) = (Inr (sn_quota sample_snapshot), press_world g)"
    by (simp add: userQuota_def press_world_def find_user_def sample_subscriber_def bind_run require_run month_usage_def
        empty_db_def MAX_BYTES_def sample_snapshot_def over_limit_def press_period)
  have records: "snapshot_records ?db = [(press_machine, hd (machineConfigs ?db))]"
    by (simp add: snapshot_records_def press_world_def press_machine_def sealed_nonempty truthy_def isUninstalled_def has_row_code)
  have status: "status_of press (Some ''s'') w = (Inr (Some ((sample_status ''1.0'')\<lparr>s_appliedRevisionId := ''r1''\<rparr>)), w)" for w :: world
    by (simp add: status_of_def press_def bind_run truthy_def)
  have settings: "read_configuration press (sample_sealed 3 ''conf'') w = (Inr (cn_settings sample_node), w)" for w :: world
    by (simp add: read_configuration_def press_decrypts press_parses configuration_roundtrip bind_run)
  have node: "snapshot_node_of press 0 (press_machine, hd (machineConfigs ?db)) (press_world g) = (Inr sample_node, press_world g)"
    by (simp add: snapshot_node_of_def press_machine_def bind_run status settings effective_revision_def
        sample_status_def authorization_current_def Let_def press_world_def)
      (simp add: sample_node_def)
  have facts: "w_now (press_world g) = 1704100000000" "latest_revision ?db = 0"
    by (simp_all add: press_world_def latest_revision_def empty_db_def)
  have parts: "u_status (q_user (sn_quota sample_snapshot)) = Active" "\<not> q_blocked (sn_quota sample_snapshot)"
    "\<lparr>sn_credentials = sn_credentials sample_snapshot, sn_quota = sn_quota sample_snapshot, sn_blocked = False,
       sn_nodes = [sample_node]\<rparr> = sample_snapshot"
    by (simp_all add: sample_snapshot_def sample_subscriber_def)
  show ?thesis
    by (simp add: subscriptionSnapshot_def bind_def Let_def credentials facts quota records node parts)
qed

lemma press_publishes:
  "\<exists>g p v. profile_publish press ''u1'' ''s1'' 1 ''p1'' (press_world g) = (Inr p, v)"
proof -
  obtain r where r: "renderSubscription press (draft_json sample_draft) sample_snapshot w = (Inr r, w)" for w :: world
    using sample_renders [OF press_parses(1)] pure_agrees [OF pure_render] by metis
  define g where "g = rd_configJson r"
  let ?w = "press_world g"
  let ?v = "?w\<lparr>w_db := publish_tables ''s1'' ''p1'' press_row (w_now ?w) (w_db ?w)\<rparr>"
  have row: "own_subscription ''u1'' ''s1'' (w_db ?w) = Some press_row"
    by (simp add: own_subscription_def press_world_def press_row_def new_subscription_row_def)
  have pv: "find_profile_preview ''p1'' ''s1'' (w_db ?w) = Some \<lparr>sp_id = ''p1'', sp_subscriptionId = ''s1'', sp_version = 1,
      sp_digest = g, sp_expiresAt = 1704100001000, sp_published = False\<rparr>"
    by (simp add: find_profile_preview_def press_world_def)
  have sealed: "sb_draftCiphertext press_row = sample_sealed 0 ''draft''" "sb_tokenCiphertext press_row = sample_sealed 1 press_token"
    "sb_version press_row = 1" by (simp_all add: press_row_def new_subscription_row_def)
  have j': "read_json press (sample_sealed 0 ''draft'') w = (Inr (draft_json sample_draft), w)" for w :: world
    by (simp add: read_json_def press_decrypts press_parses bind_run)
  then have j: "read_json press (sb_draftCiphertext press_row) w = (Inr (draft_json sample_draft), w)" for w :: world
    by (simp add: sealed)
  have digest: "sha256 press c = c" for c by (simp add: sha256_def press_def sample_def sample_digest_def)
  have "render_row press (publish_row press_row (w_now ?w) press_row) ?v = (Inr r, ?v)"
    by (rule publish_renders [OF row j press_snapshot r refl])
  moreover have "parse_draft (draft_json sample_draft) w = (Inr sample_draft, w)" for w :: world
    by (rule sample_parses [OF press_parses(1)]) (simp add: sample_template_def sample_groups_def enter_value_def)
  ultimately obtain p where p: "profile_get press ''u1'' ''s1'' ?v = (Inr p, ?v)"
    using publish_tables_reads(1) [OF row pv, of "w_now ?w"]
    by (simp add: profile_get_def subscription_row_of_def profile_dto_of_def try_render_def attempt_def bind_def
        subscription_url_def sealed press_decrypts j')
  have now: "w_now (press_world h) < 1704100001000" for h by (simp add: press_world_def)
  have "publish_draft press ''u1'' ''s1'' press_row \<lparr>sp_id = ''p1'', sp_subscriptionId = ''s1'', sp_version = 1,
      sp_digest = g, sp_expiresAt = 1704100001000, sp_published = False\<rparr> ?w = (Inr p, ?v)"
    using p by (simp add: publish_draft_def bind_def sealed j' press_snapshot r digest g_def update_subscription_def
        publish_tables_def on_subscriptions_def now)
  then have "profile_publish press ''u1'' ''s1'' 1 ''p1'' ?w = (Inr p, ?v)"
    by (simp add: profile_publish_def transaction_def bind_def subscription_row_of_def row pv checkVersion_def sealed)
  then show ?thesis by blast
qed


lemma publish_serves_preview_witness:
  "\<exists>g p v config x. profile_publish press ''u1'' ''s1'' 1 ''p1'' (press_world g) = (Inr p, v) \<and> v \<noteq> press_world g \<and>
    byToken press press_token v = (Inr config, x) \<and> sha256 press config = g"
proof -
  obtain g p v where run: "profile_publish press ''u1'' ''s1'' 1 ''p1'' (press_world g) = (Inr p, v)"
    using press_publishes by blast
  have token: "is_subscription_token press_token" by (simp add: press_token_def is_subscription_token_def) code_simp
  have "tokenHash press press_token = press_token"
    by (simp add: tokenHash_def sha256_def press_def sample_def sample_digest_def)
  then have row: "by_hash (tokenHash press press_token) (w_db (press_world g)) = Some press_row" "sb_enabled press_row"
    "own_subscription ''u1'' ''s1'' (w_db (press_world g)) = Some press_row"
    "find_profile_preview ''p1'' ''s1'' (w_db (press_world g)) = Some \<lparr>sp_id = ''p1'', sp_subscriptionId = ''s1'', sp_version = 1,
      sp_digest = g, sp_expiresAt = 1704100001000, sp_published = False\<rparr>"
    by (simp_all add: by_hash_def own_subscription_def find_profile_preview_def press_world_def press_row_def
        new_subscription_row_def)
  with publish_serves_preview [OF run] token
  have v: "v = press_world g\<lparr>w_db := publish_tables ''s1'' ''p1'' press_row (w_now (press_world g)) (w_db (press_world g))\<rparr>"
    and served: "\<exists>config x. byToken press press_token v = (Inr config, x) \<and> sha256 press config = g" by auto
  have "subscriptions (w_db v) \<noteq> subscriptions (w_db (press_world g))"
    by (simp add: v publish_tables_def on_subscriptions_def) (simp add: press_world_def press_row_def new_subscription_row_def publish_row_def)
  with run served show ?thesis by blast
qed

section \<open>Taking a subscription away\<close>

text \<open>
  The unique indexes of the table of subscriptions, and the tokens of before: a subscription that shares its
  token with one of them is the subscription of before of that account.
\<close>

definition subscription_keys :: "database \<Rightarrow> bool" where
  "subscription_keys d \<longleftrightarrow> distinct (map sb_id (subscriptions d)) \<and> distinct (map sb_tokenHash (subscriptions d)) \<and>
     (\<forall>s\<in>set (subscriptionTokens d). \<forall>r\<in>set (subscriptions d). sb_tokenHash r = st_tokenHash s \<longrightarrow>
        sb_userId r = st_userId s \<and> sb_id r = legacy_id (st_userId s))"

text \<open>The token that a rotation draws.\<close>

definition rotated_token :: "platform \<Rightarrow> world \<Rightarrow> string" where
  "rotated_token P w = ''bf_sub_'' @ base64url (p_randomBytes P (w_draws w) 32)"

lemma act_on_row_simps [simp]:
  "sb_id (act_on_row action now row s) = sb_id s" "sb_tokenHash (act_on_row action now row s) = sb_tokenHash s"
  by (simp_all add: act_on_row_def Let_def)

lemma same_row:
  assumes "distinct (map k t)" and "x \<in> set t" and "y \<in> set t" and "k x = k y"
  shows "x = y"
  using assms by (induction t) (auto simp: rev_image_eqI)

lemma by_hash_Some: "by_hash h d = Some row \<Longrightarrow> row \<in> set (subscriptions d) \<and> sb_tokenHash row = h"
  unfolding by_hash_def by (auto dest: find_Some_mem)

lemma keeps_refresh_dto: "bind (the_or x JsError) (profile_dto_of P True) w = (r, v) \<Longrightarrow> v = w"
proof -
  have "keeps (\<lambda>t. t = w) (bind (the_or x JsError) (profile_dto_of P True))" by (intro keeps_rules)
  then show "bind (the_or x JsError) (profile_dto_of P True) w = (r, v) \<Longrightarrow> v = w" by (auto dest: keepsD)
qed

lemma update_cases:
  assumes "profile_update P u i n action w = (Inr p, v)"
  obtains row where "own_subscription u i (w_db w) = Some row" "sb_version row = n" "action \<in> set profile_actions"
    "action \<noteq> ''rotate''" "v = w\<lparr>w_db := subscriptions_update (update_where (\<lambda>s. sb_id s = i) (act_on_row action (w_now w) row)) (w_db w)\<rparr>"
  | row where "own_subscription u i (w_db w) = Some row" "sb_version row = n" "action = ''rotate''"
    "rotate_token P u i row (w_now w) w = (Inr (), v)"
proof -
  from assms obtain row x where row: "action \<in> set profile_actions" "own_subscription u i (w_db w) = Some row" "sb_version row = n"
    and run: "(if action = ''rotate'' then rotate_token P u i row (w_now w)
      else update_subscription i (act_on_row action (w_now w) row)) w = (Inr (), x)"
    and rest: "bind (the_or (find_subscription i (w_db x)) JsError) (profile_dto_of P True) x = (Inr p, v)"
    unfolding profile_update_def by (auto simp: prog_ok)
  have "v = x" using keeps_refresh_dto [OF rest] .
  with row run that show thesis by (cases "action = ''rotate''") (auto simp: update_subscription_def)
qed

lemma find_update_skips:
  "find Q t = Some r \<Longrightarrow> \<not> P r \<Longrightarrow> (\<And>x. x \<in> set t \<Longrightarrow> P x \<Longrightarrow> \<not> Q (f x)) \<Longrightarrow> find Q (update_where P f t) = Some r"
  by (induction t) (auto split: if_splits)

lemma find_updated:
  "(\<And>r. r \<in> set t \<Longrightarrow> P r \<Longrightarrow> Q (f r) = Q r) \<Longrightarrow>
    find Q (update_where P f t) = map_option (\<lambda>r. if P r then f r else r) (find Q t)"
  by (induction t) auto

lemma find_none: "(\<And>x. x \<in> set t \<Longrightarrow> \<not> Q x) \<Longrightarrow> find Q t = None"
  by (simp add: find_None_iff)

lemma update_token_ok:
  assumes "update_subscription_token i h f w = (Inr x, v)" and "row \<in> set (subscriptions (w_db w))" and "sb_id row = i"
  shows "v = w\<lparr>w_db := subscriptions_update (update_where (\<lambda>s. sb_id s = i) (\<lambda>s. (f s)\<lparr>sb_tokenHash := h\<rparr>)) (w_db w)\<rparr> \<and>
    (\<forall>s \<in> set (subscriptions (w_db w)). sb_id s \<noteq> i \<longrightarrow> sb_tokenHash s \<noteq> h)"
  using assms unfolding update_subscription_token_def update_subscription_def
  by (auto simp: prog_ok has_row_iff)

lemma update_legacy_token_ok:
  "update_legacy_token u h f w = (Inr x, v) \<Longrightarrow>
    v = w\<lparr>w_db := subscriptionTokens_update (update_where (\<lambda>s. st_userId s = u) (\<lambda>s. (f s)\<lparr>st_tokenHash := h\<rparr>)) (w_db w)\<rparr>"
  unfolding update_legacy_token_def by (auto simp: prog_ok)

lemma rotate_cases:
  assumes "rotate_token P u i row now w = (Inr (), v)" and row: "row \<in> set (subscriptions (w_db w))" "sb_id row = i"
  defines "h \<equiv> tokenHash P (rotated_token P w)"
  obtains g n where "\<And>s. s \<in> set (subscriptions (w_db w)) \<Longrightarrow> sb_id s \<noteq> i \<Longrightarrow> sb_tokenHash s \<noteq> h"
    and "subscriptions (w_db v) = update_where (\<lambda>s. sb_id s = i) (\<lambda>s. (g s)\<lparr>sb_tokenHash := h\<rparr>) (subscriptions (w_db w))"
    and "subscriptionTokens (w_db v) = (if i = legacy_id u
      then update_where (\<lambda>s. st_userId s = u) (\<lambda>s. (n s)\<lparr>st_tokenHash := h\<rparr>) (subscriptionTokens (w_db w))
      else subscriptionTokens (w_db w))"
proof -
  let ?x = "w\<lparr>w_draws := w_draws w + 1\<rparr>\<lparr>w_draws := w_draws (w\<lparr>w_draws := w_draws w + 1\<rparr>) + 1\<rparr>"
  from assms(1) obtain ciphertext y where updated: "update_subscription_token i h
      (\<lambda>s. (act_on_row ''rotate'' now row s)\<lparr>sb_tokenCiphertext := ciphertext, sb_generation := sb_generation row + 1\<rparr>) ?x = (Inr (), y)"
    and rest: "(if i = legacy_id u
      then update_legacy_token u h
        (\<lambda>s. s\<lparr>st_tokenCiphertext := ciphertext, st_generation := sb_generation row + 1, st_changedAt := now\<rparr>)
      else return ()) y = (Inr (), v)"
    unfolding rotate_token_def bind_ok newToken_ok encryptSecret_ok rotated_token_def h_def
    by (auto simp del: if_split append.simps)
  note y = update_token_ok [OF updated, simplified, OF row]
  show thesis
  proof (cases "i = legacy_id u")
    case True
    with rest y show thesis by (intro that) (auto dest!: update_legacy_token_ok)
  next
    case False
    with rest y show thesis by (intro that) auto
  qed
qed

lemma by_hash_updated:
  assumes keys: "subscription_keys (w_db w)" and row: "by_hash h (w_db w) = Some row" "sb_id row = i"
    and v: "subscriptions (w_db v) = update_where (\<lambda>s. sb_id s = i) f (subscriptions (w_db w))"
  shows "sb_tokenHash (f row) = h \<Longrightarrow> by_hash h (w_db v) = Some (f row)"
    and "sb_tokenHash (f row) \<noteq> h \<Longrightarrow> by_hash h (w_db v) = None"
    and "by_hash h' (w_db w) = Some other \<Longrightarrow> sb_id other \<noteq> i \<Longrightarrow> sb_tokenHash (f row) \<noteq> h' \<Longrightarrow> by_hash h' (w_db v) = Some other"
proof -
  let ?t = "subscriptions (w_db w)"
  have ids: "distinct (map sb_id ?t)" and hashes: "distinct (map sb_tokenHash ?t)" using keys by (auto simp: subscription_keys_def)
  note found = by_hash_Some [OF row(1)]
  have only: "x = row" if "x \<in> set ?t" "sb_id x = i" for x
    using same_row [OF ids that(1)] found row(2) that(2) by auto
  show "by_hash h (w_db v) = Some (f row)" if "sb_tokenHash (f row) = h"
  proof -
    have "find (\<lambda>s. sb_tokenHash s = h) (update_where (\<lambda>s. sb_id s = i) f ?t) =
        map_option (\<lambda>s. if sb_id s = i then f s else s) (find (\<lambda>s. sb_tokenHash s = h) ?t)"
    proof (rule find_updated)
      fix s assume "s \<in> set ?t" "sb_id s = i"
      then show "(sb_tokenHash (f s) = h) = (sb_tokenHash s = h)" using only that found by auto
    qed
    then show ?thesis using row by (simp add: by_hash_def v)
  qed
  show "by_hash h (w_db v) = None" if "sb_tokenHash (f row) \<noteq> h"
    unfolding by_hash_def v
  proof (rule find_none)
    fix x assume "x \<in> set (update_where (\<lambda>s. sb_id s = i) f ?t)"
    then obtain s where s: "s \<in> set ?t" "x = (if sb_id s = i then f s else s)" by (auto simp: set_update_where)
    show "sb_tokenHash x \<noteq> h"
    proof (cases "sb_id s = i")
      case True
      then show ?thesis using s only that by auto
    next
      case False
      then show ?thesis using s same_row [OF hashes s(1)] found row(2) by auto
    qed
  qed
  show "by_hash h' (w_db v) = Some other" if "by_hash h' (w_db w) = Some other" "sb_id other \<noteq> i" "sb_tokenHash (f row) \<noteq> h'"
    unfolding by_hash_def v
    using that only by (intro find_update_skips) (auto simp: by_hash_def)
qed

lemma byToken_gone:
  assumes "by_hash (tokenHash P token) (w_db v) = None"
    and "\<forall>s \<in> set (subscriptionTokens (w_db v)). st_tokenHash s \<noteq> tokenHash P token"
  shows "byToken P token v = (Inl (AppError ''SUBSCRIPTION_NOT_FOUND'' 404), v)"
proof -
  have "find (\<lambda>s. st_tokenHash s = tokenHash P token) (subscriptionTokens (w_db v)) = None"
    using assms(2) by (intro find_none) blast
  with assms(1) show ?thesis by (simp add: byToken_def adopt_legacy_def bind_def require_def Let_def throw_def)
qed

lemma rotated_away:
  assumes rotated: "rotate_token P u i row now w = (Inr (), v)" and keys: "subscription_keys (w_db w)"
    and token: "by_hash (tokenHash P token) (w_db w) = Some row" "sb_id row = i" "sb_userId row = u"
    and fresh: "tokenHash P (rotated_token P w) \<noteq> tokenHash P token"
  shows "byToken P token v = (Inl (AppError ''SUBSCRIPTION_NOT_FOUND'' 404), v)"
    and "by_hash h (w_db w) = Some other \<Longrightarrow> sb_id other \<noteq> i \<Longrightarrow> by_hash h (w_db v) = Some other"
proof -
  note own = by_hash_Some [OF token(1)]
  obtain g m where unused: "\<And>s. s \<in> set (subscriptions (w_db w)) \<Longrightarrow> sb_id s \<noteq> i \<Longrightarrow> sb_tokenHash s \<noteq> tokenHash P (rotated_token P w)"
    and v: "subscriptions (w_db v) = update_where (\<lambda>s. sb_id s = i) (\<lambda>s. (g s)\<lparr>sb_tokenHash := tokenHash P (rotated_token P w)\<rparr>) (subscriptions (w_db w))"
    and old: "subscriptionTokens (w_db v) = (if i = legacy_id u
      then update_where (\<lambda>s. st_userId s = u) (\<lambda>s. (m s)\<lparr>st_tokenHash := tokenHash P (rotated_token P w)\<rparr>) (subscriptionTokens (w_db w))
      else subscriptionTokens (w_db w))"
    using rotate_cases [OF rotated conjunct1 [OF own] token(2)] by blast
  note after = by_hash_updated [OF keys token(1,2) v]
  have "by_hash (tokenHash P token) (w_db v) = None" using after(2) fresh by simp
  moreover have "\<forall>s \<in> set (subscriptionTokens (w_db v)). st_tokenHash s \<noteq> tokenHash P token"
    using fresh keys own token(2,3) unfolding old subscription_keys_def by (auto simp: set_update_where)
  ultimately show "byToken P token v = (Inl (AppError ''SUBSCRIPTION_NOT_FOUND'' 404), v)" by (rule byToken_gone)
  show "by_hash h (w_db w) = Some other \<Longrightarrow> sb_id other \<noteq> i \<Longrightarrow> by_hash h (w_db v) = Some other"
    using after(3) [of h other] unused [of other] by_hash_Some [of h "w_db w" other] by simp
qed

text \<open>
  C34. A subscription that is paused, deleted or given a new token is no longer served under the token it had:
  from then on a client that asks with it is told that the subscription is paused, or that there is none, and
  asking changes nothing. The subscriptions with other tokens stay under theirs.
\<close>

theorem subscription_taken_away:
  assumes update: "profile_update P u i n action w = (Inr p, v)" and "action \<noteq> ''resume''"
    and keys: "subscription_keys (w_db w)"
    and token: "is_subscription_token token" "by_hash (tokenHash P token) (w_db w) = Some row" "sb_id row = i"
    and fresh: "tokenHash P (rotated_token P w) \<noteq> tokenHash P token"
  shows "byToken P token v = (Inl (if action = ''pause'' then AppError ''SUBSCRIPTION_PAUSED'' 403
      else AppError ''SUBSCRIPTION_NOT_FOUND'' 404), v) \<and>
    (\<forall>h other. by_hash h (w_db w) = Some other \<and> sb_id other \<noteq> i \<longrightarrow> by_hash h (w_db v) = Some other)"
proof -
  let ?h = "tokenHash P token"
  have only: "own = row" if "own_subscription u i (w_db w) = Some own" for own
    using own_subscription_Some [OF that] by_hash_Some [OF token(2)] token(3) keys
    by (auto simp: subscription_keys_def dest: same_row)
  from update show ?thesis
  proof (cases rule: update_cases)
    case (1 own)
    then have own: "sb_userId row = u" "sb_deletedAt row = None" using only own_subscription_Some by blast+
    let ?f = "act_on_row action (w_now w) row"
    have v: "subscriptions (w_db v) = update_where (\<lambda>s. sb_id s = i) ?f (subscriptions (w_db w))"
      using 1 only by auto
    note after = by_hash_updated [OF keys token(2,3) v]
    have "by_hash ?h (w_db v) = Some (?f row)" using after(1) by_hash_Some [OF token(2)] by simp
    then have "byToken P token v = (Inl (if action = ''pause'' then AppError ''SUBSCRIPTION_PAUSED'' 403
        else AppError ''SUBSCRIPTION_NOT_FOUND'' 404), v)"
      using 1(3,4) assms(2) token(1) own
      by (auto simp: profile_actions_def byToken_def adopt_legacy_def act_on_row_def bind_def require_def Let_def throw_def)
    moreover have "by_hash h (w_db v) = Some other" if "by_hash h (w_db w) = Some other" "sb_id other \<noteq> i" for h other
      using after(3) [OF that] by_hash_Some [OF token(2)] that token(2,3) by (cases "h = ?h") simp_all
    ultimately show ?thesis by blast
  next
    case (2 own)
    then have own: "row \<in> set (subscriptions (w_db w))" "sb_userId row = u" using only own_subscription_Some by blast+
    from 2(4) only [OF 2(1)] have "rotate_token P u i row (w_now w) w = (Inr (), v)" by simp
    from rotated_away [OF this keys token(2,3) own(2) fresh] 2(3) show ?thesis by simp
  qed
qed

lemma press_describes:
  assumes "subscriptionSnapshot press ''u1'' v = (Inr sample_snapshot, v)"
    and parts: "sb_userId row = ''u1''" "sb_publishedCiphertext row = None" "\<not> sb_legacy row"
      "sb_draftCiphertext row = sample_sealed 0 ''draft''" "sb_tokenCiphertext row = sample_sealed 1 press_token"
  shows "\<exists>p. profile_dto_of press True row v = (Inr p, v) \<and> pd_id p = sb_id row \<and> pd_version p = sb_version row \<and>
    pd_draft p = Some sample_draft"
proof -
  have "u_status (q_user (sn_quota sample_snapshot)) = Active"
    by (simp add: sample_snapshot_def sample_subscriber_def)
  with assms(1) have "render_row press row v = (Inl (AppError ''SUBSCRIPTION_UNPUBLISHED'' 422), v)"
    by (simp add: render_row_def parts bind_def truthy_def require_def throw_def)
  moreover have "read_json press (sample_sealed 0 ''draft'') v = (Inr (draft_json sample_draft), v)"
    by (simp add: read_json_def press_decrypts press_parses bind_run)
  moreover have "parse_draft (draft_json sample_draft) v = (Inr sample_draft, v)"
    by (rule sample_parses [OF press_parses(1)]) (simp add: sample_template_def sample_groups_def enter_value_def)
  ultimately show ?thesis
    by (simp add: profile_dto_of_def try_render_def attempt_def bind_def subscription_url_def parts press_decrypts)
qed

lemma press_pauses:
  "\<exists>p v. profile_update press ''u1'' ''s1'' 1 ''pause'' (press_world g) = (Inr p, v)"
proof -
  let ?w = "press_world g"
  let ?f = "act_on_row ''pause'' (w_now ?w) press_row"
  let ?v = "?w\<lparr>w_db := subscriptions_update (update_where (\<lambda>s. sb_id s = ''s1'') ?f) (w_db ?w)\<rparr>"
  have row: "own_subscription ''u1'' ''s1'' (w_db ?w) = Some press_row" "sb_version press_row = 1"
    by (simp_all add: own_subscription_def press_world_def press_row_def new_subscription_row_def)
  have after: "find_subscription ''s1'' (w_db ?v) = Some (?f press_row)"
    by (simp add: find_subscription_def press_world_def press_row_def new_subscription_row_def)
  have v: "?v = ?w\<lparr>w_db := on_subscriptions (update_where (\<lambda>s. sb_id s = ''s1'') ?f) (\<lambda>t. t) (w_db ?w)\<rparr>"
    by (simp add: on_subscriptions_def)
  have "subscriptionSnapshot press ''u1'' ?v = (Inr sample_snapshot, ?v)"
    unfolding v by (rule snapshot_after [OF press_snapshot])
  then have "\<exists>p. profile_dto_of press True (?f press_row) ?v = (Inr p, ?v)"
    using press_describes [of ?v "?f press_row"] by (auto simp: act_on_row_def Let_def press_row_def new_subscription_row_def)
  then show ?thesis
    using row after
    by (auto simp: profile_update_def transaction_def bind_def subscription_row_of_def checkVersion_def profile_actions_def
        update_subscription_def)
qed

lemma subscription_taken_away_witness:
  "\<exists>p v. profile_update press ''u1'' ''s1'' 1 ''pause'' (press_world []) = (Inr p, v) \<and>
    byToken press press_token v = (Inl (AppError ''SUBSCRIPTION_PAUSED'' 403), v)"
proof -
  obtain p v where run: "profile_update press ''u1'' ''s1'' 1 ''pause'' (press_world []) = (Inr p, v)"
    using press_pauses by blast
  have token: "is_subscription_token press_token" by (simp add: press_token_def is_subscription_token_def) code_simp
  have hash: "tokenHash press t = t" for t
    by (simp add: tokenHash_def sha256_def press_def sample_def sample_digest_def)
  have row: "by_hash (tokenHash press press_token) (w_db (press_world [])) = Some press_row" "sb_id press_row = ''s1''"
    "subscription_keys (w_db (press_world []))"
    by (simp_all add: hash by_hash_def press_world_def press_row_def new_subscription_row_def subscription_keys_def empty_db_def)
  have "tokenHash press (rotated_token press (press_world [])) \<noteq> tokenHash press press_token"
  proof -
    have "rotated_token press (press_world []) = ''bf_sub_'' @ base64url (sample_random 0 32)"
      by (simp add: rotated_token_def press_def sample_def press_world_def)
    moreover have "base64url (sample_random 0 32) \<noteq> replicate 43 (CHR ''a'')" by code_simp
    ultimately show ?thesis by (simp add: hash press_token_def)
  qed
  from subscription_taken_away [OF run _ row(3) token row(1,2) this] run show ?thesis by auto
qed

end
