(* ===== verification/Client_Usage.thy ===== *)
theory Client_Usage
  imports Account_Messages
begin

text \<open>
  The usage pages of the browser, \<open>features/usage/\<close>: the ranges they ask for (\<open>range.ts\<close>, \<open>period.tsx\<close>), the
  rows and shares of their tables (\<open>usage-table.tsx\<close>, \<open>format.ts\<close>) and what the overview says of the quota
  (\<open>overview.tsx\<close>, \<open>summary.tsx\<close>). What is drawn on the screen is left out, and so is the formatting of the
  numbers by the library of the browser.
\<close>

section \<open>Ranges\<close>

datatype usage_period = PeriodToday | Period7Days | Period30Days | PeriodMonth

record usage_range =
  ra_start :: int
  ra_end :: int
  ra_grain :: grain

text \<open>
  The first seven characters of \<open>toISOString\<close>, which writes a year outside of 0 to 9999 with a sign and six
  digits.
\<close>

definition iso_year :: "int \<Rightarrow> string" where
  "iso_year y =
     (if 0 \<le> y \<and> y \<le> 9999 then padStart (decimal y) 4 (CHR ''0'')
      else (if y < 0 then ''-'' else ''+'') @ padStart (decimal \<bar>y\<bar>) 6 (CHR ''0''))"

definition iso_month :: "int \<Rightarrow> string" where
  "iso_month t = take 7 (iso_year (getUTCFullYear t) @ ''-'' @ padStart (decimal (getUTCMonth t + 1)) 2 (CHR ''0''))"

definition currentShanghaiMonth :: "int \<Rightarrow> string" where
  "currentShanghaiMonth now = iso_month (now + SHANGHAI_OFFSET)"

text \<open>
  \<open>month.split("-").map(Number)\<close> with its first two elements; \<open>None\<close> stands for \<open>NaN\<close>. The texts that get here
  are a current month or have passed the pattern of the picker, so that they are made of digits.
\<close>

definition digits_number :: "string \<Rightarrow> int option" where
  "digits_number t = (if t = [] then None else map_option int (parse_digits 0 t))"

definition month_numbers :: "string \<Rightarrow> (int \<times> int) option" where
  "month_numbers month =
     (case split_on (CHR ''-'') month of
        y # m # _ \<Rightarrow> (case (digits_number y, digits_number m) of (Some a, Some b) \<Rightarrow> Some (a, b) | _ \<Rightarrow> None)
      | _ \<Rightarrow> None)"

text \<open>The pattern \<open>/^\d{4}-\d{2}$/\<close> of the picker, which keeps the month it has when another text is entered.\<close>

definition is_month_text :: "string \<Rightarrow> bool" where
  "is_month_text t \<longleftrightarrow> length t = 7 \<and> list_all is_digit (take 4 t) \<and> t ! 4 = CHR ''-'' \<and> list_all is_digit (drop 5 t)"

definition pick_month :: "string \<Rightarrow> string \<Rightarrow> string" where
  "pick_month month entered = (if is_month_text entered then entered else month)"

definition back_days :: "usage_period \<Rightarrow> int" where
  "back_days p = (case p of Period7Days \<Rightarrow> 6 | Period30Days \<Rightarrow> 29 | _ \<Rightarrow> 0)"

definition periodRange :: "usage_period \<Rightarrow> string \<Rightarrow> int \<Rightarrow> usage_range option" where
  "periodRange period month now =
     (let dayStart = (now + SHANGHAI_OFFSET) div DAY_MS * DAY_MS - SHANGHAI_OFFSET
      in if period \<noteq> PeriodMonth
         then Some \<lparr>ra_start = dayStart - back_days period * DAY_MS, ra_end = dayStart + DAY_MS,
           ra_grain = (if period = PeriodToday then Minute else Day)\<rparr>
         else (case month_numbers month of
             None \<Rightarrow> None
           | Some (year, monthNumber) \<Rightarrow>
               Some \<lparr>ra_start = Date_UTC year (monthNumber - 1) - SHANGHAI_OFFSET,
                 ra_end = Date_UTC year monthNumber - SHANGHAI_OFFSET, ra_grain = Day\<rparr>))"

record usage_request =
  rq_start :: int
  rq_end :: int
  rq_grain :: panel_grain

definition usageRequest :: "usage_range \<Rightarrow> usage_request" where
  "usageRequest rng = \<lparr>rq_start = ra_start rng, rq_end = ra_end rng,
     rq_grain = (if ra_grain rng = Minute then GRAIN_MINUTE else GRAIN_DAY)\<rparr>"

text \<open>The requests that the pages make of it: the account's own usage, and everyone's or that of one machine.\<close>

definition my_usage_request :: "usage_range \<Rightarrow> get_my_usage_request" where
  "my_usage_request rng = (let r = usageRequest rng in
     \<lparr>getMyUsage_start = Some (rq_start r), getMyUsage_end = Some (rq_end r), getMyUsage_grain = rq_grain r,
      getMyUsage_machineId = None\<rparr>)"

definition admin_usage_request :: "usage_range \<Rightarrow> string option \<Rightarrow> query_usage_request" where
  "admin_usage_request rng machineId = (let r = usageRequest rng in
     \<lparr>queryUsage_start = Some (rq_start r), queryUsage_end = Some (rq_end r), queryUsage_grain = rq_grain r,
      queryUsage_userId = None, queryUsage_machineId = machineId\<rparr>)"

definition grain_text :: "grain \<Rightarrow> string" where
  "grain_text g = (if g = Minute then ''minute'' else ''day'')"

definition usageKey :: "usage_range \<Rightarrow> string \<Rightarrow> string" where
  "usageKey rng suffix =
     ''usage:'' @ decimal (ra_start rng) @ '':'' @ decimal (ra_end rng) @ '':'' @ grain_text (ra_grain rng) @ '':'' @ suffix"

definition initialUsageRanges :: "int \<Rightarrow> usage_range option \<times> usage_range option" where
  "initialUsageRanges now =
     (let month = currentShanghaiMonth now in (periodRange PeriodMonth month now, periodRange PeriodToday month now))"

section \<open>Tables\<close>

datatype dimension = ByUser | ByMachine

record group_row =
  gw_id :: string
  gw_name :: string
  gw_uploadBytes :: int
  gw_downloadBytes :: int
  gw_estimated :: bool
  gw_incomplete :: bool

definition dimension_id :: "dimension \<Rightarrow> panel_usage_group \<Rightarrow> string" where
  "dimension_id d g = (if d = ByUser then pug_userId g else pug_machineId g)"

definition add_group_row :: "dimension \<Rightarrow> panel_usage_group \<Rightarrow> (string \<times> group_row) list \<Rightarrow> (string \<times> group_row) list" where
  "add_group_row d g rows =
     map_update (dimension_id d g)
       \<lparr>gw_id = dimension_id d g, gw_name = (if d = ByUser then pug_username g else pug_machineName g),
        gw_uploadBytes = 0, gw_downloadBytes = 0, gw_estimated = False, gw_incomplete = False\<rparr>
       (\<lambda>r. r\<lparr>gw_uploadBytes := gw_uploadBytes r + pug_uploadBytes g,
              gw_downloadBytes := gw_downloadBytes r + pug_downloadBytes g,
              gw_estimated := gw_estimated r \<or> pug_estimated g,
              gw_incomplete := gw_incomplete r \<or> pug_incomplete g\<rparr>)
       rows"

definition row_total :: "group_row \<Rightarrow> int" where
  "row_total r = gw_uploadBytes r + gw_downloadBytes r"

definition groupedUsage :: "panel_usage_group list \<Rightarrow> dimension \<Rightarrow> group_row list" where
  "groupedUsage groups d = sort_key (\<lambda>r. - row_total r) (map snd (fold (add_group_row d) groups []))"

text \<open>The share in percent with two decimals, cut off.\<close>

definition share :: "int \<Rightarrow> int \<Rightarrow> rat" where
  "share bytes denominator =
     (if denominator = 0 then 0 else of_int (bigint_div (bytes * 10000) denominator) / 100)"

definition table_total :: "group_row list \<Rightarrow> int" where
  "table_total rows = fold (\<lambda>r sum. sum + gw_uploadBytes r + gw_downloadBytes r) rows 0"

definition table_shares :: "panel_usage_group list \<Rightarrow> dimension \<Rightarrow> rat list" where
  "table_shares groups d =
     (let rows = groupedUsage groups d
      in map (\<lambda>r. share (gw_uploadBytes r + gw_downloadBytes r) (table_total rows)) rows)"

section \<open>The overview of an account\<close>

definition used_bytes :: "panel_usage \<Rightarrow> int" where
  "used_bytes u = pus_uploadBytes u + pus_downloadBytes u"

definition total_today :: "panel_usage option \<Rightarrow> int option" where
  "total_today today =
     (case today of None \<Rightarrow> None | Some u \<Rightarrow> if pus_points u \<noteq> [] then Some (used_bytes u) else None)"

definition remaining_bytes :: "current_month_usage option \<Rightarrow> int option" where
  "remaining_bytes found =
     (case found of
        None \<Rightarrow> None
      | Some q \<Rightarrow> (case cm_limitBytes q of None \<Rightarrow> None | Some l \<Rightarrow> Some (l - cm_usedBytes q)))"

definition has_current_usage ::
  "current_month_usage option \<Rightarrow> panel_usage option \<Rightarrow> panel_usage option \<Rightarrow> usage_period \<Rightarrow> string \<Rightarrow> bool" where
  "has_current_usage found usage today period month \<longleftrightarrow>
     (case found of
        None \<Rightarrow> False
      | Some q \<Rightarrow> 0 < cm_usedBytes q \<or>
          (case today of None \<Rightarrow> False | Some t \<Rightarrow> pus_points t \<noteq> []) \<or>
          (period = PeriodMonth \<and> cm_period q = month \<and>
            (case usage of None \<Rightarrow> False | Some u \<Rightarrow> pus_points u \<noteq> [])))"

text \<open>What the metric of the remaining bytes shows.\<close>

datatype remaining_text = ShowNothing | ShowUnlimited | ShowBytes int

definition remaining_metric :: "current_month_usage option \<Rightarrow> bool \<Rightarrow> remaining_text" where
  "remaining_metric found hasCurrentUsage =
     (case found of
        None \<Rightarrow> ShowNothing
      | Some q \<Rightarrow>
          (case remaining_bytes found of
             None \<Rightarrow> ShowUnlimited
           | Some remaining \<Rightarrow>
               if cm_limitBytes q = Some 0 then ShowBytes 0
               else if \<not> hasCurrentUsage then ShowNothing
               else ShowBytes (if 0 < remaining then remaining else 0)))"

text \<open>What the metric of the used bytes adds.\<close>

datatype quota_text = QuotaUnlimited | QuotaZero | QuotaShare int rat | QuotaNoRecords int

definition quota_metric :: "current_month_usage \<Rightarrow> bool \<Rightarrow> quota_text" where
  "quota_metric q hasCurrentUsage =
     (case cm_limitBytes q of
        None \<Rightarrow> QuotaUnlimited
      | Some l \<Rightarrow>
          if l = 0 then QuotaZero
          else if hasCurrentUsage then QuotaShare l (share (cm_usedBytes q) l) else QuotaNoRecords l)"

text \<open>The banner over the overview.\<close>

datatype quota_banner = NoBanner | BannerBlocked | BannerWarning string

definition quota_banner :: "current_month_usage option \<Rightarrow> quota_banner" where
  "quota_banner found =
     (case found of
        None \<Rightarrow> NoBanner
      | Some q \<Rightarrow> if cm_blocked q then BannerBlocked
                  else if truthy (cm_warning q) then BannerWarning (the (cm_warning q)) else NoBanner)"

text \<open>The comparison with the period before.\<close>

datatype change_text =
    ChangePercent rat | ChangeInProgress | ChangeIncomplete | ChangeNoData | ChangeFromZero | ChangeUnknown

definition change_metric :: "panel_usage \<Rightarrow> previous_period_usage \<Rightarrow> change_text" where
  "change_metric u p =
     (let bytes = (if ppu_hasData p then Some (ppu_uploadBytes p + ppu_downloadBytes p) else None)
      in case ppu_changePercent p of
           Some c \<Rightarrow> ChangePercent c
         | None \<Rightarrow>
             if ppu_currentPeriodInProgress p then ChangeInProgress
             else if pus_incomplete u \<or> ppu_incomplete p then ChangeIncomplete
             else if bytes = None then ChangeNoData
             else if bytes = Some 0 then ChangeFromZero else ChangeUnknown)"

end
