(* ===== verification/Client_Usage_Props.thy ===== *)
theory Client_Usage_Props
  imports Client_Usage Query_Props Account_Services
begin

text \<open>
  What the usage pages show is what the ledger holds: the ranges they ask for are whole buckets that the panel
  accepts and answers as they are, and their tables add up.
\<close>

section \<open>Months as text\<close>

lemma length_decimal_nat:
  "n < 10 \<Longrightarrow> length (decimal_nat n) = 1"
  "10 \<le> n \<Longrightarrow> length (decimal_nat n) = Suc (length (decimal_nat (n div 10)))"
  by (subst decimal_nat.simps, simp)+

lemma length_year: "1000 \<le> y \<Longrightarrow> y \<le> 9999 \<Longrightarrow> length (decimal y) = 4"
  by (simp add: decimal_def length_decimal_nat)

lemma pad_month:
  assumes "1 \<le> m" "m \<le> 12"
  shows "length (padStart (decimal m) 2 (CHR ''0'')) = 2" "digits_number (padStart (decimal m) 2 (CHR ''0'')) = Some m"
    "CHR ''-'' \<notin> set (padStart (decimal m) 2 (CHR ''0''))"
proof -
  have "\<forall>m \<in> set [1..12]. length (padStart (decimal m) 2 (CHR ''0'')) = 2 \<and>
      digits_number (padStart (decimal m) 2 (CHR ''0'')) = Some m \<and> CHR ''-'' \<notin> set (padStart (decimal m) 2 (CHR ''0''))"
    by code_simp
  then show "length (padStart (decimal m) 2 (CHR ''0'')) = 2" "digits_number (padStart (decimal m) 2 (CHR ''0'')) = Some m"
    "CHR ''-'' \<notin> set (padStart (decimal m) 2 (CHR ''0''))"
    using assms by simp_all
qed

lemma decimal_nat_digits: "c \<in> set (decimal_nat n) \<Longrightarrow> is_digit c"
proof (induction n rule: decimal_nat.induct)
  case (1 n)
  have "decimal_nat n = (if n < 10 then [digit_char n] else decimal_nat (n div 10) @ [digit_char (n mod 10)])"
    by (rule decimal_nat.simps)
  with 1 show ?case by (auto simp: digit_char_cases split: if_splits)
qed

lemma decimal_no_dash: "0 \<le> i \<Longrightarrow> CHR ''-'' \<notin> set (decimal i)"
  by (auto simp: decimal_def dest!: decimal_nat_digits) (simp add: is_digit_def)

lemma digits_number_decimal: "0 \<le> i \<Longrightarrow> digits_number (decimal i) = Some i"
  using decimal_nat_Cons [of "nat i"] by (auto simp: digits_number_def decimal_def parse_digits_decimal)

definition year_of :: "int \<Rightarrow> int" where
  "year_of t = getUTCFullYear (t + SHANGHAI_OFFSET)"

lemma year_of_era: "in_era t \<Longrightarrow> 1970 \<le> year_of t"
  by (simp add: year_of_def getUTCFullYear_def in_era_year)

lemma month_of_range: "0 \<le> getUTCMonth t" "getUTCMonth t \<le> 11"
  using MonthFromDay_range by (simp_all add: getUTCMonth_def)

lemma currentShanghaiMonth_period:
  assumes "in_era t" "year_of t \<le> 9999"
  shows "currentShanghaiMonth t = monthPeriod t"
proof -
  let ?y = "getUTCFullYear (t + SHANGHAI_OFFSET)" and ?m = "getUTCMonth (t + SHANGHAI_OFFSET) + 1"
  have y: "1970 \<le> ?y" "?y \<le> 9999" using year_of_era assms by (auto simp: year_of_def)
  then have "iso_year ?y = decimal ?y" "length (decimal ?y) = 4" by (simp_all add: iso_year_def padStart_def length_year)
  moreover have "length (padStart (decimal ?m) 2 (CHR ''0'')) = 2" using pad_month(1) [of ?m] month_of_range by simp
  ultimately show ?thesis by (simp add: currentShanghaiMonth_def iso_month_def monthPeriod_def Let_def)
qed

lemma month_numbers_period:
  assumes "in_era t"
  shows "month_numbers (monthPeriod t) = Some (year_of t, getUTCMonth (t + SHANGHAI_OFFSET) + 1)"
proof -
  let ?m = "getUTCMonth (t + SHANGHAI_OFFSET) + 1"
  have m: "1 \<le> ?m" "?m \<le> 12" using month_of_range [of "t + SHANGHAI_OFFSET"] by simp_all
  have y: "0 \<le> year_of t" using year_of_era [OF assms] by simp
  have "split_on (CHR ''-'') (monthPeriod t) = [decimal (year_of t), padStart (decimal ?m) 2 (CHR ''0'')]"
    using pad_month(3) [OF m] decimal_no_dash [OF y]
    by (simp add: monthPeriod_def Let_def year_of_def [symmetric] split_on_append split_on_word)
  then show ?thesis by (simp add: month_numbers_def digits_number_decimal [OF y] pad_month(2) [OF m])
qed

section \<open>Ranges are whole buckets\<close>

lemma whole_day: "bucketStart (d * DAY_MS - SHANGHAI_OFFSET) Day = d * DAY_MS - SHANGHAI_OFFSET"
  by (simp add: bucketStart_def bucket_size_def DAY_MS_def)

lemma whole_minute: "bucketStart (d * DAY_MS - SHANGHAI_OFFSET) Minute = d * DAY_MS - SHANGHAI_OFFSET"
proof -
  have "d * 86400000 = (d * 1440) * (60000 :: int)" by simp
  then have "d * 86400000 div 60000 = d * (1440 :: int)" by (metis nonzero_mult_div_cancel_right zero_neq_numeral)
  then show ?thesis by (simp add: bucketStart_def bucket_size_def DAY_MS_def)
qed

lemma month_days:
  assumes "in_era t"
  shows "\<exists>d e. monthStart t = d * DAY_MS - SHANGHAI_OFFSET \<and> nextBucket (monthStart t) Month = e * DAY_MS - SHANGHAI_OFFSET \<and>
    d < e \<and> e \<le> d + 31"
proof -
  let ?d = "day_of (t + SHANGHAI_OFFSET)"
  have s: "monthStart t = month_first ?d * DAY_MS - SHANGHAI_OFFSET"
    using monthStart_days [OF assms] by (simp add: MS_PER_DAY_def DAY_MS_def)
  have "day_of (monthStart t + SHANGHAI_OFFSET) = month_first ?d" by (simp add: s day_of_def MS_PER_DAY_def DAY_MS_def)
  moreover have "month_end (month_first ?d) = month_end ?d"
    using month_same [of ?d "month_first ?d"] month_bounds [of ?d] by (simp add: month_end_def)
  ultimately have "nextBucket (monthStart t) Month = month_end ?d * DAY_MS - SHANGHAI_OFFSET"
    using nextBucket_month_days [OF month_bucket(1) [OF assms]] by (simp add: MS_PER_DAY_def DAY_MS_def)
  moreover have "month_end ?d \<le> month_first ?d + 31"
    using MonthFromDay_range [of ?d] leap_day_bounds [of "YearFromDay ?d"]
    by (auto simp: month_end_def month_first_def days_before_def)
  moreover have "month_first ?d < month_end ?d" using month_bounds [of ?d] by simp
  ultimately show ?thesis using s by blast
qed

lemma periodRange_month:
  assumes "in_era t" "year_of t \<le> 9999"
  shows "periodRange PeriodMonth (currentShanghaiMonth t) now =
    Some \<lparr>ra_start = monthStart t, ra_end = nextBucket (monthStart t) Month, ra_grain = Day\<rparr>"
proof -
  let ?d = "day_of (t + SHANGHAI_OFFSET)"
  have era: "in_era (monthStart t)" by (rule month_bucket(1) [OF assms(1)])
  have "day_of (monthStart t + SHANGHAI_OFFSET) = month_first ?d"
    using monthStart_days [OF assms(1)] by (simp add: day_of_def MS_PER_DAY_def)
  moreover have "YearFromDay (month_first ?d) = YearFromDay ?d \<and> MonthFromDay (month_first ?d) = MonthFromDay ?d"
    using month_bounds [of ?d] by (intro month_same) simp_all
  ultimately show ?thesis
    by (simp add: periodRange_def currentShanghaiMonth_period [OF assms] month_numbers_period [OF assms(1)]
        monthStart_def nextBucket_def Let_def year_of_def getUTCFullYear_def getUTCMonth_def)
qed

lemma query_end_whole: "bucketStart e g = e \<Longrightarrow> query_end e g = e"
  by (simp add: query_end_def)

lemma day_bucket: "(now + SHANGHAI_OFFSET) div DAY_MS * DAY_MS - SHANGHAI_OFFSET = bucketStart now Day"
  by (simp add: bucketStart_def bucket_size_def)

text \<open>What an answered query says of its bounds.\<close>

lemma query_usage_bounds:
  assumes "query_usage P q s w = (Inr u, v)" and "uq_start q = Some a" "uq_end q = Some e" "uq_grain q = Some g"
  shows "uu_start u = bucketStart a g \<and> uu_end u = query_end e g \<and> uu_grain u = g"
  using assms unfolding query_usage_def bind_ok Let_def
  by (elim exE conjE) (auto simp: prog_ok queryInput_def or_default_def split: if_splits)

lemma my_usage_answer:
  assumes "rpc_getMyUsage P caller (my_usage_request r) w = (Inr resp, v)" and "ra_grain r \<noteq> Month"
  shows "\<exists>u. gotMyUsage_usage resp = Some u \<and> pus_start u = bucketStart (ra_start r) (ra_grain r) \<and>
    pus_end u = query_end (ra_end r) (ra_grain r) \<and> pus_grain u = grain_to_proto (ra_grain r)"
proof -
  have "grainNames (rq_grain (usageRequest r)) = Some (ra_grain r)"
    using assms(2) by (cases "ra_grain r") (simp_all add: usageRequest_def grainNames_def)
  then show ?thesis
    using assms(1) unfolding rpc_getMyUsage_def panelCall_def query_getMyUsage_def my_usage_request_def
    by (auto simp: prog_ok Let_def usageRequest_def toProtoUsage_def dest!: query_usage_bounds split: prod.splits sum.splits)
qed

definition whole_range :: "usage_range \<Rightarrow> int \<Rightarrow> bool" where
  "whole_range r s \<longleftrightarrow> ra_grain r \<noteq> Month \<and> bucketStart (ra_start r) (ra_grain r) = ra_start r \<and>
     query_end (ra_end r) (ra_grain r) = ra_end r \<and> range_ok (ra_grain r) (ra_start r) (ra_end r) s"

lemma days_whole:
  assumes "d < e" "e \<le> d + 31" "g \<noteq> Month" "g = Minute \<longrightarrow> e \<le> d + 7" and "e * DAY_MS - SHANGHAI_OFFSET \<le> s + 32 * DAY_MS"
  shows "whole_range \<lparr>ra_start = d * DAY_MS - SHANGHAI_OFFSET, ra_end = e * DAY_MS - SHANGHAI_OFFSET, ra_grain = g\<rparr> s"
proof -
  have "bucketStart (k * DAY_MS - SHANGHAI_OFFSET) g = k * DAY_MS - SHANGHAI_OFFSET" for k
    using assms(3) whole_day whole_minute by (cases g) simp_all
  then show ?thesis
    using assms by (cases g) (simp_all add: whole_range_def query_end_whole range_ok_def max_days_def DAY_MS_def)
qed

lemma period_whole:
  assumes "in_era t" "year_of t \<le> 9999" "t \<le> now" "now - DAY_MS \<le> s"
    and "periodRange p (currentShanghaiMonth t) now = Some r"
  shows "whole_range r s"
proof (cases "p = PeriodMonth")
  case True
  obtain d e where d: "monthStart t = d * DAY_MS - SHANGHAI_OFFSET"
    and e: "nextBucket (monthStart t) Month = e * DAY_MS - SHANGHAI_OFFSET" and "d < e" "e \<le> d + 31"
    using month_days [OF assms(1)] by blast
  moreover have "monthStart t \<le> t" by (rule month_bucket(2) [OF assms(1)])
  ultimately have "whole_range \<lparr>ra_start = d * DAY_MS - SHANGHAI_OFFSET, ra_end = e * DAY_MS - SHANGHAI_OFFSET, ra_grain = Day\<rparr> s"
    using assms(3,4) by (intro days_whole) (auto simp: DAY_MS_def)
  with True periodRange_month [OF assms(1,2)] assms(5) d e show ?thesis by simp
next
  case False
  define d where "d = (now + SHANGHAI_OFFSET) div DAY_MS"
  have r: "r = \<lparr>ra_start = (d - back_days p) * DAY_MS - SHANGHAI_OFFSET, ra_end = (d + 1) * DAY_MS - SHANGHAI_OFFSET,
      ra_grain = if p = PeriodToday then Minute else Day\<rparr>"
    using assms(5) False by (auto simp: periodRange_def Let_def d_def left_diff_distrib distrib_right)
  have "bucketStart now Day \<le> now" by (rule fixed_bucket(1)) simp
  then have "d * DAY_MS - SHANGHAI_OFFSET \<le> now" by (simp add: d_def day_bucket)
  moreover have "0 \<le> back_days p \<and> back_days p \<le> 29 \<and> (p = PeriodToday \<longrightarrow> back_days p = 0)"
    by (cases p) (simp_all add: back_days_def)
  ultimately show ?thesis
    unfolding r using assms(4) by (intro days_whole) (auto simp: DAY_MS_def)
qed



section \<open>Tables\<close>

lemma group_row_sums:
  "(\<Sum>x\<leftarrow>fold (add_group_row d) groups m. gw_uploadBytes (snd x)) = (\<Sum>x\<leftarrow>m. gw_uploadBytes (snd x)) + (\<Sum>g\<leftarrow>groups. pug_uploadBytes g)"
  "(\<Sum>x\<leftarrow>fold (add_group_row d) groups m. gw_downloadBytes (snd x)) = (\<Sum>x\<leftarrow>m. gw_downloadBytes (snd x)) + (\<Sum>g\<leftarrow>groups. pug_downloadBytes g)"
  by (induction groups arbitrary: m) (simp_all add: add_group_row_def map_update_sum)

text \<open>The rows of a table, sorted by their bytes, sum up to the groups of the answer.\<close>

lemma groupedUsage_sums:
  "(\<Sum>r\<leftarrow>groupedUsage groups d. gw_uploadBytes r) = (\<Sum>g\<leftarrow>groups. pug_uploadBytes g)"
  "(\<Sum>r\<leftarrow>groupedUsage groups d. gw_downloadBytes r) = (\<Sum>g\<leftarrow>groups. pug_downloadBytes g)"
  "sorted (map (\<lambda>r. - row_total r) (groupedUsage groups d))"
proof -
  have "sum_list (map f (sort_key k xs)) = sum_list (map f xs)" for f :: "group_row \<Rightarrow> int" and k :: "group_row \<Rightarrow> int" and xs
    by (metis mset_map mset_sort sum_mset_sum_list)
  then show "(\<Sum>r\<leftarrow>groupedUsage groups d. gw_uploadBytes r) = (\<Sum>g\<leftarrow>groups. pug_uploadBytes g)"
    "(\<Sum>r\<leftarrow>groupedUsage groups d. gw_downloadBytes r) = (\<Sum>g\<leftarrow>groups. pug_downloadBytes g)"
    using group_row_sums [of d groups "[]"] by (simp_all add: groupedUsage_def comp_def)
  show "sorted (map (\<lambda>r. - row_total r) (groupedUsage groups d))" by (simp add: groupedUsage_def)
qed

end
