(* ===== verification/Client_Nodes.thy ===== *)
theory Client_Nodes
  imports Account_Services Render_Facts
begin

text \<open>
  How the editor of subscriptions in the browser chooses machines: the text fields of a group
  (\<open>features/subscription/editor.tsx\<close>), the machines a group matches, the groups that belong together and the
  selection that is applied to the draft (\<open>node-selection.tsx\<close>). Texts are Latin-1 as in theory \<open>Validation\<close>; of the two
  commas that separate the values of a field only the ASCII one is. The names of the preset uses are written in English.
\<close>

section \<open>The fields of a group\<close>

text \<open>\<open>value.split(/[,]+/)\<close>: a run of commas separates once.\<close>

fun split_runs :: "string \<Rightarrow> string list" where
  "split_runs [] = [[]]"
| "split_runs (c # cs) =
     (if c = CHR '','' then if startsWith cs '','' then split_runs cs else [] # split_runs cs
      else (case split_runs cs of [] \<Rightarrow> [[c]] | w # ws \<Rightarrow> (c # w) # ws))"

definition split_values :: "string \<Rightarrow> string list" where
  "split_values value = filter (\<lambda>v. v \<noteq> []) (map trim (split_runs value))"

text \<open>\<open>values.join(", ")\<close>\<close>

fun join_values :: "string list \<Rightarrow> string" where
  "join_values [] = []"
| "join_values [v] = v"
| "join_values (v # vs) = v @ '', '' @ join_values vs"

record binding_draft =
  bd_key :: nat
  bd_groupTag :: string
  bd_regions :: string
  bd_tags :: string
  bd_protocols :: string
  bd_staticMembers :: string
  bd_machineIds :: string
  bd_excludeMachineIds :: string

definition bindingDraft :: "group_binding \<Rightarrow> nat \<Rightarrow> binding_draft" where
  "bindingDraft b key = \<lparr>bd_key = key, bd_groupTag = gb_groupTag b, bd_regions = join_values (gb_regions b),
     bd_tags = join_values (gb_tags b), bd_protocols = join_values (gb_protocols b),
     bd_staticMembers = join_values (gb_staticMembers b), bd_machineIds = join_values (gb_machineIds b),
     bd_excludeMachineIds = join_values (gb_excludeMachineIds b)\<rparr>"

definition bindingInput :: "binding_draft \<Rightarrow> group_binding" where
  "bindingInput d = \<lparr>gb_groupTag = bd_groupTag d, gb_regions = split_values (bd_regions d),
     gb_tags = split_values (bd_tags d), gb_protocols = split_values (bd_protocols d),
     gb_machineIds = split_values (bd_machineIds d), gb_excludeMachineIds = split_values (bd_excludeMachineIds d),
     gb_staticMembers = split_values (bd_staticMembers d)\<rparr>"

text \<open>The binding that is added: the empty message.\<close>

definition empty_binding :: group_binding where
  "empty_binding = \<lparr>gb_groupTag = [], gb_regions = [], gb_tags = [], gb_protocols = [], gb_machineIds = [],
     gb_excludeMachineIds = [], gb_staticMembers = []\<rparr>"

section \<open>Matching machines\<close>

text \<open>The name \<open>matches\<close> is that of the patterns in theory \<open>Text\<close>.\<close>

definition binding_matches :: "'a group_binding_scheme \<Rightarrow> subscription_node \<Rightarrow> bool" where
  "binding_matches b n \<longleftrightarrow>
     psn_available n \<and>
     (gb_regions b = [] \<or> psn_region n \<in> set (gb_regions b)) \<and>
     list_all (\<lambda>t. t \<in> set (psn_tags n)) (gb_tags b) \<and>
     (gb_machineIds b = [] \<or> psn_machineId n \<in> set (gb_machineIds b)) \<and>
     psn_machineId n \<notin> set (gb_excludeMachineIds b) \<and>
     (gb_protocols b = [] \<or> list_ex (\<lambda>p. protocol_to_proto p \<in> set (psn_protocols n)) (gb_protocols b))"

section \<open>Groups that belong together\<close>

record keyed_binding = group_binding +
  kb_key :: nat

record selection_group =
  sg_name :: string
  sg_bindings :: "keyed_binding list"

definition selection_presets :: "(string \<times> string \<times> string) list" where
  "selection_presets = [(''select'', ''auto'', ''everyday''), (''select-ai'', ''auto-ai'', ''AI services''),
     (''select-game'', ''auto-game'', ''games'')]"

text \<open>The outbounds of the template; a template that is no JSON has none.\<close>

definition outbounds_of_text :: "platform \<Rightarrow> string \<Rightarrow> (string \<times> json) list list" where
  "outbounds_of_text P templateJson =
     (case p_jsonParse P templateJson of
        Some (JObj ps) \<Rightarrow>
          (case jprop ''outbounds'' ps of
             Some (JArr os) \<Rightarrow> concat (map (\<lambda>e. case e of JObj qs \<Rightarrow> [qs] | JArr _ \<Rightarrow> [[]] | _ \<Rightarrow> []) os)
           | _ \<Rightarrow> [])
      | _ \<Rightarrow> [])"

definition has_outbound :: "(string \<times> json) list list \<Rightarrow> string \<Rightarrow> string \<Rightarrow> bool" where
  "has_outbound outbounds tag type \<longleftrightarrow>
     list_ex (\<lambda>e. jprop ''tag'' e = Some (JStr tag) \<and> jprop ''type'' e = Some (JStr type)) outbounds"

text \<open>The selector and the url test of a preset, if they are used as the presets use them.\<close>

definition preset_pair ::
  "(string \<times> json) list list \<Rightarrow> keyed_binding list \<Rightarrow> string \<Rightarrow> string \<Rightarrow> (keyed_binding \<times> keyed_binding) option" where
  "preset_pair outbounds bindings selectorTag autoTag =
     (case (filter (\<lambda>b. gb_groupTag b = selectorTag) bindings, filter (\<lambda>b. gb_groupTag b = autoTag) bindings) of
        ([selector], [auto]) \<Rightarrow>
          if has_outbound outbounds selectorTag ''selector'' \<and> has_outbound outbounds autoTag ''urltest'' \<and>
             autoTag \<in> set (gb_staticMembers selector) \<and>
             list_all (\<lambda>t. t = autoTag \<or> has_outbound outbounds t ''direct'') (gb_staticMembers selector) \<and>
             gb_staticMembers auto = []
          then Some (selector, auto) else None
      | _ \<Rightarrow> None)"

definition add_preset ::
  "(string \<times> json) list list \<Rightarrow> keyed_binding list \<Rightarrow> string \<times> string \<times> string \<Rightarrow>
   selection_group list \<times> nat list \<Rightarrow> selection_group list \<times> nat list" where
  "add_preset outbounds bindings preset state = (case preset of (selectorTag, autoTag, name) \<Rightarrow>
     (case preset_pair outbounds bindings selectorTag autoTag of
        None \<Rightarrow> state
      | Some (selector, auto) \<Rightarrow>
          (fst state @ [\<lparr>sg_name = name, sg_bindings = [selector, auto]\<rparr>], snd state @ [kb_key selector, kb_key auto])))"

definition groupsFor :: "platform \<Rightarrow> keyed_binding list \<Rightarrow> string \<Rightarrow> selection_group list" where
  "groupsFor P bindings templateJson =
     (let outbounds = outbounds_of_text P templateJson;
          paired = fold (add_preset outbounds bindings) selection_presets ([], [])
      in fst paired @ map (\<lambda>b. \<lparr>sg_name = (if gb_groupTag b = [] then ''unnamed group'' else gb_groupTag b), sg_bindings = [b]\<rparr>)
           (filter (\<lambda>b. kb_key b \<notin> set (snd paired)) bindings))"

section \<open>The selection\<close>

text \<open>The machines of a group before another selection is made, and the mark of a group without a machine.\<close>

definition matched_ids :: "selection_group \<Rightarrow> subscription_node list \<Rightarrow> string list" where
  "matched_ids grp nodes =
     map psn_machineId (filter (\<lambda>n. list_ex (\<lambda>b. binding_matches b n) (sg_bindings grp)) (filter psn_available nodes))"

definition needs_choice :: "selection_group \<Rightarrow> subscription_node list \<Rightarrow> bool" where
  "needs_choice grp nodes \<longleftrightarrow> list_ex (\<lambda>b. \<not> list_ex (binding_matches b) nodes) (sg_bindings grp)"

text \<open>
  The selected machines: the ones chosen for these bindings, or the matched ones, of those that are available.
\<close>

definition selected_ids :: "selection_group \<Rightarrow> subscription_node list \<Rightarrow> string list option \<Rightarrow> string list" where
  "selected_ids grp nodes chosen =
     filter (\<lambda>i. list_ex (\<lambda>n. psn_machineId n = i) (filter psn_available nodes))
       (case chosen of Some ids \<Rightarrow> ids | None \<Rightarrow> matched_ids grp nodes)"

definition select_node :: "string list \<Rightarrow> string \<Rightarrow> bool \<Rightarrow> string list" where
  "select_node selected i checked = (if checked then selected @ [i] else filter (\<lambda>j. j \<noteq> i) selected)"

text \<open>\<open>onApply\<close>: the groups of the keys get the machines, and lose every other filter.\<close>

definition apply_selection :: "nat list \<Rightarrow> string list \<Rightarrow> binding_draft list \<Rightarrow> binding_draft list" where
  "apply_selection keys machineIds bindings =
     map (\<lambda>b. if bd_key b \<in> set keys
              then b\<lparr>bd_machineIds := join_values machineIds, bd_regions := [], bd_tags := [], bd_protocols := [],
                     bd_excludeMachineIds := []\<rparr>
              else b) bindings"

end
