(* ===== verification/Client_Editor.thy ===== *)
theory Client_Editor
  imports Client_Nodes
begin

text \<open>
  The editor of a subscription, \<open>features/subscription/editor.tsx\<close>: its state, what its events change, and the
  calls to the panel with what an answer changes. A call is sent and answered in one step of the panel, in which it
  may also get lost before or after it was served; nothing but time passes in the editor while it is under way, since
  every input is disabled then. Texts of notices, the shown tab and the refreshed context are not modelled. Monaco
  reports every change of the template before it asks for it to be saved, so that the saved text is the one of the state.
\<close>

section \<open>State\<close>

datatype pending_action = PendingSave | PendingPreview | PendingPublish | PendingImport | PendingReload

text \<open>What the action that is pending waits for.\<close>

datatype editor_call = AwaitSave | AwaitPreview int | AwaitPublish | AwaitFile | AwaitProfile

record editor =
  ev_profile :: subscription_profile
  ev_name :: string
  ev_templateJson :: string
  ev_bindings :: "binding_draft list"
  ev_nextBindingKey :: nat
  ev_published :: bool
  ev_preview :: "preview_subscription_profile_response option"
  ev_expiredPreviewId :: string
  ev_pending :: "pending_action option"
  ev_call :: "editor_call option"
  ev_dirty :: bool
  ev_failed :: bool
  ev_conflict :: bool
  ev_reloadOpen :: bool

definition draft_text :: "subscription_profile \<Rightarrow> string" where
  "draft_text p = (case spr_draft p of None \<Rightarrow> ''{}'' | Some d \<Rightarrow> dr_templateJson d)"

definition draft_bindings :: "subscription_profile \<Rightarrow> nat \<Rightarrow> binding_draft list" where
  "draft_bindings p key =
     (let bs = (case spr_draft p of None \<Rightarrow> [] | Some d \<Rightarrow> dr_bindings d)
      in map (\<lambda>(b, k). bindingDraft b k) (zip bs [key..<key + length bs]))"

definition open_editor :: "subscription_profile \<Rightarrow> editor" where
  "open_editor p = \<lparr>ev_profile = p, ev_name = spr_name p, ev_templateJson = draft_text p,
     ev_bindings = draft_bindings p 0, ev_nextBindingKey = length (draft_bindings p 0), ev_published = False,
     ev_preview = None, ev_expiredPreviewId = [], ev_pending = None, ev_call = None, ev_dirty = False,
     ev_failed = False, ev_conflict = False, ev_reloadOpen = False\<rparr>"

abbreviation busy :: "editor \<Rightarrow> bool" where
  "busy e \<equiv> ev_pending e \<noteq> None"

section \<open>Edits\<close>

definition change :: "editor \<Rightarrow> editor" where
  "change e = e\<lparr>ev_dirty := True, ev_preview := None, ev_published := False\<rparr>"

datatype binding_field =
    FieldGroupTag | FieldRegions | FieldTags | FieldProtocols | FieldStaticMembers | FieldMachineIds | FieldExcludeMachineIds

definition set_field :: "binding_field \<Rightarrow> string \<Rightarrow> binding_draft \<Rightarrow> binding_draft" where
  "set_field f v b =
     (case f of
        FieldGroupTag \<Rightarrow> b\<lparr>bd_groupTag := v\<rparr> | FieldRegions \<Rightarrow> b\<lparr>bd_regions := v\<rparr> | FieldTags \<Rightarrow> b\<lparr>bd_tags := v\<rparr>
      | FieldProtocols \<Rightarrow> b\<lparr>bd_protocols := v\<rparr> | FieldStaticMembers \<Rightarrow> b\<lparr>bd_staticMembers := v\<rparr>
      | FieldMachineIds \<Rightarrow> b\<lparr>bd_machineIds := v\<rparr> | FieldExcludeMachineIds \<Rightarrow> b\<lparr>bd_excludeMachineIds := v\<rparr>)"

datatype edit =
    EditName string | EditTemplate string | EditBinding nat binding_field string | RemoveBinding nat | AddBinding
  | ApplySelection "nat list" "string list"

definition apply_edit :: "edit \<Rightarrow> editor \<Rightarrow> editor" where
  "apply_edit ed e =
     (case ed of
        EditName v \<Rightarrow> change (e\<lparr>ev_name := v\<rparr>)
      | EditTemplate v \<Rightarrow> change (e\<lparr>ev_templateJson := v\<rparr>)
      | EditBinding k f v \<Rightarrow> change (e\<lparr>ev_bindings := map (\<lambda>b. if bd_key b = k then set_field f v b else b) (ev_bindings e)\<rparr>)
      | RemoveBinding k \<Rightarrow> change (e\<lparr>ev_bindings := filter (\<lambda>b. bd_key b \<noteq> k) (ev_bindings e)\<rparr>)
      | AddBinding \<Rightarrow> change (e\<lparr>ev_bindings := ev_bindings e @ [bindingDraft empty_binding (ev_nextBindingKey e)],
          ev_nextBindingKey := ev_nextBindingKey e + 1\<rparr>)
      | ApplySelection keys ids \<Rightarrow> change (e\<lparr>ev_bindings := apply_selection keys ids (ev_bindings e)\<rparr>))"

section \<open>Calls\<close>

text \<open>What is on the screen, as the draft that a save sends.\<close>

definition screen_draft :: "editor \<Rightarrow> draft" where
  "screen_draft e = \<lparr>dr_templateJson = ev_templateJson e, dr_bindings = map bindingInput (ev_bindings e)\<rparr>"

definition save_request :: "editor \<Rightarrow> save_subscription_draft_request" where
  "save_request e = \<lparr>saveDraft_id = spr_id (ev_profile e), saveDraft_expectedVersion = spr_version (ev_profile e),
     saveDraft_name = ev_name e, saveDraft_draft = Some (screen_draft e)\<rparr>"

definition preview_request :: "editor \<Rightarrow> int \<Rightarrow> preview_subscription_profile_request" where
  "preview_request e version = \<lparr>previewProfile_id = spr_id (ev_profile e), previewProfile_expectedVersion = version\<rparr>"

definition publish_request ::
  "editor \<Rightarrow> preview_subscription_profile_response \<Rightarrow> publish_subscription_profile_request" where
  "publish_request e pv = \<lparr>publishProfile_id = spr_id (ev_profile e), publishProfile_previewId = previewedProfile_previewId pv,
     publishProfile_expectedVersion = spr_version (ev_profile e)\<rparr>"

definition settle :: "editor \<Rightarrow> editor" where
  "settle e = e\<lparr>ev_pending := None, ev_call := None\<rparr>"

text \<open>\<open>handleError\<close>; \<open>None\<close> is a call that was not answered.\<close>

definition handle_error :: "panel_error option \<Rightarrow> editor \<Rightarrow> editor" where
  "handle_error err e =
     (if (case err of Some answer \<Rightarrow> map_option ed_code (pe_detail answer) = Some ''VERSION_CONFLICT'' | None \<Rightarrow> False)
      then e\<lparr>ev_conflict := True, ev_preview := None, ev_failed := False\<rparr>
      else e\<lparr>ev_failed := True\<rparr>)"

text \<open>The start of \<open>save\<close>, \<open>publish\<close>, \<open>importFile\<close> and \<open>reloadDraft\<close>.\<close>

definition start_save :: "bool \<Rightarrow> editor \<Rightarrow> editor" where
  "start_save thenPreview e =
     (let f = e\<lparr>ev_failed := False, ev_preview := None\<rparr>
      in if ev_dirty e then f\<lparr>ev_pending := Some (if thenPreview then PendingPreview else PendingSave), ev_call := Some AwaitSave\<rparr>
         else if thenPreview
         then f\<lparr>ev_pending := Some PendingPreview, ev_call := Some (AwaitPreview (spr_version (ev_profile e)))\<rparr>
         else f)"

definition start_publish :: "int \<Rightarrow> editor \<Rightarrow> editor" where
  "start_publish now e =
     (case ev_preview e of
        None \<Rightarrow> e
      | Some pv \<Rightarrow>
          if previewedProfile_expiresAt pv \<le> now then e\<lparr>ev_expiredPreviewId := previewedProfile_previewId pv\<rparr>
          else e\<lparr>ev_pending := Some PendingPublish, ev_call := Some AwaitPublish, ev_failed := False\<rparr>)"

definition start_import :: "nat \<Rightarrow> editor \<Rightarrow> editor" where
  "start_import bytes e =
     (if 1024 * 1024 < bytes then e\<lparr>ev_failed := True\<rparr>
      else e\<lparr>ev_failed := False, ev_pending := Some PendingImport, ev_call := Some AwaitFile\<rparr>)"

definition start_reload :: "editor \<Rightarrow> editor" where
  "start_reload e = e\<lparr>ev_pending := Some PendingReload, ev_call := Some AwaitProfile, ev_failed := False\<rparr>"

text \<open>What an answer changes. After a save a preview may follow, of the version that was saved.\<close>

definition saved :: "subscription_profile \<Rightarrow> editor \<Rightarrow> editor" where
  "saved p e =
     (let f = e\<lparr>ev_profile := p, ev_dirty := False, ev_conflict := False\<rparr>
      in if ev_pending e = Some PendingPreview then f\<lparr>ev_call := Some (AwaitPreview (spr_version p))\<rparr> else settle f)"

definition previewed :: "preview_subscription_profile_response \<Rightarrow> editor \<Rightarrow> editor" where
  "previewed pv e = settle (e\<lparr>ev_preview := Some pv\<rparr>)"

definition published :: "subscription_profile \<Rightarrow> editor \<Rightarrow> editor" where
  "published p e = settle (e\<lparr>ev_profile := p, ev_preview := None, ev_published := True\<rparr>)"

definition imported :: "string \<Rightarrow> editor \<Rightarrow> editor" where
  "imported text e = settle (change (e\<lparr>ev_templateJson := text\<rparr>))"

definition reloaded :: "subscription_profile \<Rightarrow> editor \<Rightarrow> editor" where
  "reloaded p e = settle (e\<lparr>ev_profile := p, ev_name := spr_name p, ev_templateJson := draft_text p,
     ev_bindings := draft_bindings p (ev_nextBindingKey e),
     ev_nextBindingKey := ev_nextBindingKey e + length (draft_bindings p (ev_nextBindingKey e)),
     ev_dirty := False, ev_preview := None, ev_conflict := False, ev_reloadOpen := False\<rparr>)"

text \<open>What a failure of the awaited call changes.\<close>

definition call_failed :: "panel_error option \<Rightarrow> editor \<Rightarrow> editor" where
  "call_failed err e =
     (case ev_call e of
        Some AwaitSave \<Rightarrow> settle (handle_error err e)
      | Some (AwaitPreview _) \<Rightarrow> settle (handle_error err e)
      | Some AwaitPublish \<Rightarrow> settle ((handle_error err e)\<lparr>ev_preview := None\<rparr>)
      | Some _ \<Rightarrow> settle (e\<lparr>ev_failed := True\<rparr>)
      | None \<Rightarrow> e)"

text \<open>Serving the awaited call: the world of the panel after it, and the editor when the answer arrives.\<close>

definition answered :: "(panel_error + 'a) \<Rightarrow> ('a \<Rightarrow> editor \<Rightarrow> editor) \<Rightarrow> editor \<Rightarrow> editor" where
  "answered r f e = (case r of Inr a \<Rightarrow> f a e | Inl err \<Rightarrow> call_failed (Some err) e)"

definition serve_call :: "platform \<Rightarrow> principal option \<Rightarrow> editor \<Rightarrow> world \<Rightarrow> editor \<times> world" where
  "serve_call P caller e w =
     (case ev_call e of
        Some AwaitSave \<Rightarrow>
          (case rpc_saveSubscriptionDraft P caller (save_request e) w of
             (r, v) \<Rightarrow> (answered r (\<lambda>a. saved (the (savedDraft_profile a))) e, v))
      | Some (AwaitPreview version) \<Rightarrow>
          (case rpc_previewSubscriptionProfile P caller (preview_request e version) w of
             (r, v) \<Rightarrow> (answered r previewed e, v))
      | Some AwaitPublish \<Rightarrow>
          (case rpc_publishSubscriptionProfile P caller (publish_request e (the (ev_preview e))) w of
             (r, v) \<Rightarrow> (answered r (\<lambda>a. published (the (publishedProfile_profile a))) e, v))
      | Some AwaitProfile \<Rightarrow>
          (case rpc_getSubscriptionProfile P caller \<lparr>getProfile_id = spr_id (ev_profile e)\<rparr> w of
             (r, v) \<Rightarrow> (answered r (\<lambda>a. reloaded (the (gotProfile_profile a))) e, v))
      | _ \<Rightarrow> (e, w))"

section \<open>Steps\<close>

text \<open>
  What everybody else may do to the subscription meanwhile: every write of it moves its version, and the preview of
  this editor is published by nobody else.
\<close>

definition row_progress :: "string \<Rightarrow> string \<Rightarrow> database \<Rightarrow> database \<Rightarrow> bool" where
  "row_progress u i d d' \<longleftrightarrow> (\<forall>row'. own_subscription u i d' = Some row' \<longrightarrow>
     (\<exists>row. own_subscription u i d = Some row \<and> (sb_version row < sb_version row' \<or>
        sb_version row = sb_version row' \<and> sb_draftCiphertext row = sb_draftCiphertext row')))"

definition spent :: "string \<Rightarrow> string \<Rightarrow> database \<Rightarrow> bool" where
  "spent i k d \<longleftrightarrow> (\<exists>p. find_profile_preview k i d = Some p \<and> sp_published p)"

definition others_ok :: "principal option \<Rightarrow> editor \<Rightarrow> world \<Rightarrow> world \<Rightarrow> bool" where
  "others_ok caller e w v \<longleftrightarrow>
     (\<forall>p. caller = Some p \<longrightarrow> row_progress (du_id (pr_user p)) (spr_id (ev_profile e)) (w_db w) (w_db v)) \<and>
     (\<forall>pv. ev_preview e = Some pv \<longrightarrow> spent (spr_id (ev_profile e)) (previewedProfile_previewId pv) (w_db v) \<longrightarrow>
        spent (spr_id (ev_profile e)) (previewedProfile_previewId pv) (w_db w))"

text \<open>\<open>JSON.parse\<close> reads back what \<open>JSON.stringify\<close> wrote.\<close>

definition json_reads_back :: "platform \<Rightarrow> draft \<Rightarrow> bool" where
  "json_reads_back P d \<longleftrightarrow> p_jsonParse P (stringify (draft_json d)) = Some (draft_json d)"

text \<open>A value of a draft that its field can show: it is not blank around and has no comma.\<close>

definition plain_value :: "string \<Rightarrow> bool" where
  "plain_value v \<longleftrightarrow> v \<noteq> [] \<and> CHR '','' \<notin> set v \<and> trim v = v"

definition plain_binding_texts :: "group_binding \<Rightarrow> bool" where
  "plain_binding_texts b \<longleftrightarrow> list_all (list_all plain_value)
     [gb_regions b, gb_tags b, gb_protocols b, gb_machineIds b, gb_excludeMachineIds b, gb_staticMembers b]"

definition plain_profile :: "subscription_profile \<Rightarrow> bool" where
  "plain_profile p \<longleftrightarrow> (case spr_draft p of None \<Rightarrow> False | Some d \<Rightarrow> list_all plain_binding_texts (dr_bindings d))"

definition served_plain :: "platform \<Rightarrow> principal option \<Rightarrow> editor \<Rightarrow> world \<Rightarrow> bool" where
  "served_plain P caller e w \<longleftrightarrow>
     (case rpc_getSubscriptionProfile P caller \<lparr>getProfile_id = spr_id (ev_profile e)\<rparr> w of
        (Inr a, _) \<Rightarrow> plain_profile (the (gotProfile_profile a))
      | (Inl _, _) \<Rightarrow> True)"

inductive editor_step :: "platform \<Rightarrow> principal option \<Rightarrow> editor \<times> world \<Rightarrow> editor \<times> world \<Rightarrow> bool" for P caller where
  Edit: "\<not> busy e \<Longrightarrow> editor_step P caller (e, w) (apply_edit ed e, w)"
| Save: "\<not> busy e \<Longrightarrow> editor_step P caller (e, w) (start_save thenPreview e, w)"
| Publish: "\<not> busy e \<Longrightarrow> editor_step P caller (e, w) (start_publish now e, w)"
| Import: "\<not> busy e \<Longrightarrow> editor_step P caller (e, w) (start_import n e, w)"
| Imported: "ev_call e = Some AwaitFile \<Longrightarrow> editor_step P caller (e, w) (imported text e, w)"
| OpenReload: "\<not> busy e \<Longrightarrow> ev_conflict e \<Longrightarrow> editor_step P caller (e, w) (e\<lparr>ev_reloadOpen := True\<rparr>, w)"
| CloseReload: "\<not> busy e \<Longrightarrow> editor_step P caller (e, w) (e\<lparr>ev_reloadOpen := False\<rparr>, w)"
| Reload: "\<not> busy e \<Longrightarrow> ev_reloadOpen e \<Longrightarrow> editor_step P caller (e, w) (start_reload e, w)"
| Expire: "ev_preview e = Some pv \<Longrightarrow>
    editor_step P caller (e, w) (e\<lparr>ev_expiredPreviewId := previewedProfile_previewId pv\<rparr>, w)"
| Dismiss: "\<not> busy e \<Longrightarrow> editor_step P caller (e, w) (e\<lparr>ev_preview := None\<rparr>, w)"
| Serve: "ev_call e = Some c \<Longrightarrow> (c = AwaitSave \<Longrightarrow> json_reads_back P (screen_draft e)) \<Longrightarrow>
    (c = AwaitProfile \<Longrightarrow> served_plain P caller e w) \<Longrightarrow> editor_step P caller (e, w) (serve_call P caller e w)"
| Lost: "ev_call e = Some c \<Longrightarrow> editor_step P caller (e, w) (call_failed None e, w)"
| LostAnswer: "ev_call e = Some c \<Longrightarrow> editor_step P caller (e, w) (call_failed None e, snd (serve_call P caller e w))"
| Others: "others_ok caller e w v \<Longrightarrow> editor_step P caller (e, w) (e, v)"

end
