(* ===== verification/Client_Node_Props.thy ===== *)
theory Client_Node_Props
  imports Client_Editor Subscription_Facts Render_Props
begin

text \<open>
  The editor and the panel agree: the texts of its fields read back as the values, the machines it shows for a
  group are those whose outbounds the panel puts into the group, and a selection that is applied is what the
  panel renders.
\<close>

section \<open>The fields of a group\<close>

lemma split_runs_word: "CHR '','' \<notin> set v \<Longrightarrow> split_runs v = [v]"
  by (induction v) auto

lemma split_runs_append:
  "CHR '','' \<notin> set v \<Longrightarrow> \<not> startsWith s '','' \<Longrightarrow> split_runs (v @ CHR '','' # s) = v # split_runs s"
  by (induction v) auto

lemma trim_space: "trim (CHR '' '' # v) = trim v"
  by (simp add: trim_def is_space_def)

lemma split_values_cons:
  "split_values v = (case split_runs v of w # ws \<Rightarrow> (if trim w = [] then [] else [trim w]) @ filter (\<lambda>v. v \<noteq> []) (map trim ws) | [] \<Rightarrow> [])"
  by (auto simp: split_values_def split: list.splits)

lemma split_runs_nonempty: "split_runs s \<noteq> []"
  by (induction s) (auto split: list.splits)

lemma split_values_space: "\<not> startsWith s '','' \<Longrightarrow> split_values (CHR '' '' # s) = split_values s"
  using split_runs_nonempty [of s] by (cases "split_runs s") (simp_all add: split_values_def trim_space)

lemma join_starts: "list_all plain_value vs \<Longrightarrow> \<not> startsWith (join_values vs) '',''"
  by (induction vs rule: join_values.induct) (auto simp: startsWith_def plain_value_def neq_Nil_conv)

lemma split_nothing [simp]: "split_values [] = []"
  by (simp add: split_values_def trim_def)

lemma split_join_values: "list_all plain_value vs \<Longrightarrow> split_values (join_values vs) = vs"
proof (induction vs rule: join_values.induct)
  case 1
  then show ?case by (simp add: split_values_def trim_def)
next
  case (2 v)
  then show ?case by (simp add: plain_value_def split_values_def split_runs_word)
next
  case (3 v w ws)
  let ?s = "join_values (w # ws)"
  have v: "CHR '','' \<notin> set v" "v \<noteq> []" "trim v = v" using 3(2) by (simp_all add: plain_value_def)
  have "split_runs (join_values (v # w # ws)) = v # split_runs (CHR '' '' # ?s)"
    using split_runs_append [OF v(1), of "CHR '' '' # ?s"] by (simp add: startsWith_def)
  then have "split_values (join_values (v # w # ws)) = v # split_values (CHR '' '' # ?s)"
    using v by (simp add: split_values_def)
  also have "split_values (CHR '' '' # ?s) = split_values ?s"
    by (rule split_values_space, rule join_starts) (use 3(2) in simp)
  finally show ?case using 3 by simp
qed

text \<open>The fields read back, and what is read from a field is plain.\<close>

lemma bindingInput_bindingDraft: "plain_binding_texts b \<Longrightarrow> bindingInput (bindingDraft b k) = b"
  by (simp add: plain_binding_texts_def bindingInput_def bindingDraft_def split_join_values)

lemma split_runs_no_comma: "w \<in> set (split_runs s) \<Longrightarrow> CHR '','' \<notin> set w"
  by (induction s arbitrary: w) (auto split: if_splits list.splits)

lemma dropWhile_idem: "dropWhile P (dropWhile P xs) = dropWhile P xs"
  by (induction xs) auto

text \<open>
  A value with a comma, which the panel accepts in a draft and in the tags and the region of a machine, does not
  survive the fields: the group then asks for two other values.
\<close>

lemma comma_values_change:
  "bindingInput (bindingDraft (empty_binding\<lparr>gb_regions := [''Tokyo, JP'']\<rparr>) 0) = empty_binding\<lparr>gb_regions := [''Tokyo'', ''JP'']\<rparr>"
  by (simp add: bindingInput_def bindingDraft_def empty_binding_def split_values_def startsWith_def trim_def is_space_def)

section \<open>Matching machines\<close>

definition context_nodes :: "snapshot \<Rightarrow> subscription_node list" where
  "context_nodes s = map (\<lambda>n. toProtoNode (node_dto n)) (sn_nodes s)"

lemma node_message [simp]:
  "psn_machineId (toProtoNode (node_dto n)) = cn_id n" "psn_available (toProtoNode (node_dto n)) = sn_available n"
  by (simp_all add: toProtoNode_def node_dto_def)

text \<open>They are the machines of the context that the panel gives to the editor.\<close>

lemma subscription_get_nodes:
  assumes "subscription_get P u w = (Inr d, v)" and "\<not> sd_blocked d"
  shows "\<exists>s. subscriptionSnapshot P u w = (Inr s, v) \<and> psu_nodes (toProtoSubscription d) = context_nodes s"
proof -
  from assms obtain c t s url where "readProxyCredentials P u w = (Inr c, t)" and s: "subscriptionSnapshot P u t = (Inr s, v)"
    and nodes: "sd_nodes d = map node_dto (sn_nodes s)"
    unfolding subscription_get_def
    by (auto simp: prog_ok subscription_url_def dest: snapshot_same)
  moreover from this(1) have "t = w" by (auto simp: readProxyCredentials_def prog_ok)
  ultimately show ?thesis by (auto simp: toProtoSubscription_def context_nodes_def)
qed

lemma machine_outbounds_selected:
  "(\<exists>g \<in> set (machine_outbounds s n). selects b g) \<longleftrightarrow>
    (gb_regions b = [] \<or> sn_region n \<in> set (gb_regions b)) \<and> list_all (\<lambda>t. t \<in> set (sn_tags n)) (gb_tags b) \<and>
    (gb_machineIds b = [] \<or> cn_id n \<in> set (gb_machineIds b)) \<and> cn_id n \<notin> set (gb_excludeMachineIds b) \<and>
    (gb_protocols b = [] \<or> list_ex (\<lambda>p. p \<in> set protocol_names) (gb_protocols b))"
  by (auto simp: machine_outbounds_def machine_outbound_def selects_def protocol_names_def list_ex_iff)

lemma node_protocols:
  "protocol_to_proto p \<in> set (map protocol_to_proto protocol_names) \<longleftrightarrow> p \<in> set protocol_names"
  by (simp add: protocol_to_proto_def protocol_names_def)

lemma binding_matches_iff:
  "binding_matches b (toProtoNode (node_dto n)) \<longleftrightarrow> sn_available n \<and> (\<exists>g \<in> set (machine_outbounds s n). selects b g)"
  unfolding machine_outbounds_selected
  using node_protocols by (auto simp: binding_matches_def toProtoNode_def node_dto_def list_ex_iff)

text \<open>The machines whose outbounds the panel puts into the group of a binding.\<close>

definition group_machines :: "snapshot \<Rightarrow> group_binding \<Rightarrow> string set" where
  "group_machines s b = (\<lambda>g. cn_id (gn_node g)) ` set (filter (selects b) (all_outbounds s))"

lemma group_machines_iff:
  "i \<in> group_machines s b \<longleftrightarrow> (\<exists>n \<in> set (sn_nodes s). cn_id n = i \<and> sn_available n \<and> (\<exists>g \<in> set (machine_outbounds s n). selects b g))"
proof -
  have "set (all_outbounds s) = (\<Union>n \<in> {n \<in> set (sn_nodes s). sn_available n}. set (machine_outbounds s n))"
    by (auto simp: all_outbounds_def available_nodes_def)
  then have "i \<in> group_machines s b \<longleftrightarrow> (\<exists>n \<in> set (sn_nodes s). sn_available n \<and>
      (\<exists>g \<in> set (machine_outbounds s n). selects b g \<and> cn_id (gn_node g) = i))"
    by (auto simp: group_machines_def)
  then show ?thesis using machine_outbound_facts(1) by metis
qed

lemma members_empty: "members (all_outbounds s) b = [] \<longleftrightarrow> group_machines s b = {}"
  by (auto simp: members_def group_machines_def filter_empty_conv)

lemma shown_machines:
  "set (map psn_machineId (filter (binding_matches b) (context_nodes s))) = group_machines s b"
proof -
  have "map psn_machineId (filter (binding_matches b) (context_nodes s)) =
      map cn_id (filter (\<lambda>n. sn_available n \<and> (\<exists>g \<in> set (machine_outbounds s n). selects b g)) (sn_nodes s))"
    by (simp add: context_nodes_def filter_map comp_def binding_matches_iff [where s = s])
  then show ?thesis unfolding set_eq_iff group_machines_iff by (simp add: image_iff) blast
qed

lemma applied_machines:
  assumes "list_all plain_value ids" "ids \<noteq> []" and "\<forall>i \<in> set ids. \<exists>n \<in> set (context_nodes s). psn_machineId n = i \<and> psn_available n"
  shows "group_machines s (bindingInput (hd (apply_selection [bd_key d] ids [d]))) = set ids"
proof -
  let ?b = "bindingInput (hd (apply_selection [bd_key d] ids [d]))"
  have b: "gb_regions ?b = []" "gb_tags ?b = []" "gb_protocols ?b = []" "gb_excludeMachineIds ?b = []" "gb_machineIds ?b = ids"
    by (simp_all add: apply_selection_def bindingInput_def split_join_values [OF assms(1)])
  then have "i \<in> group_machines s ?b \<longleftrightarrow> i \<in> set ids \<and> (\<exists>n \<in> set (sn_nodes s). cn_id n = i \<and> sn_available n)" for i
    using assms(2) by (auto simp: group_machines_iff machine_outbounds_selected)
  moreover have "\<exists>n \<in> set (sn_nodes s). cn_id n = i \<and> sn_available n" if "i \<in> set ids" for i
    using assms(3) that by (auto simp: context_nodes_def)
  ultimately show ?thesis by blast
qed

section \<open>Groups\<close>

definition paired_ok :: "keyed_binding list \<Rightarrow> string set \<Rightarrow> selection_group list \<times> nat list \<Rightarrow> bool" where
  "paired_ok bs tags state \<longleftrightarrow> (let paired = concat (map sg_bindings (fst state)) in
     map kb_key paired = snd state \<and> distinct (snd state) \<and> (\<forall>b \<in> set paired. b \<in> set bs \<and> gb_groupTag b \<in> tags))"

lemma key_inj: "distinct (map f xs) \<Longrightarrow> x \<in> set xs \<Longrightarrow> y \<in> set xs \<Longrightarrow> f x = f y \<Longrightarrow> x = y"
  by (auto simp: distinct_map dest: inj_onD)

lemma list_ex_filter: "list_ex P xs \<longleftrightarrow> filter P xs \<noteq> []"
  by (induction xs) auto

lemma filter_single: "filter P xs = [x] \<Longrightarrow> x \<in> set xs \<and> P x"
  by (auto simp: filter_eq_Cons_iff)

lemma preset_pair_facts:
  assumes "preset_pair os bs s a = Some (selector, auto)"
  shows "selector \<in> set bs \<and> gb_groupTag selector = s \<and> auto \<in> set bs \<and> gb_groupTag auto = a"
  using assms by (auto simp: preset_pair_def split: list.splits if_splits dest!: filter_single)

lemma add_preset_ok:
  assumes keys: "distinct (map kb_key bs)" and "paired_ok bs tags state" and "s \<noteq> a" "s \<notin> tags" "a \<notin> tags"
  shows "paired_ok bs (insert s (insert a tags)) (add_preset os bs (s, a, name) state)"
proof (cases "preset_pair os bs s a")
  case None
  then show ?thesis using assms(2) by (auto simp: add_preset_def paired_ok_def Let_def)
next
  case (Some p)
  obtain selector auto where p: "p = (selector, auto)" by (cases p)
  note new = preset_pair_facts [OF Some [unfolded p]]
  have "kb_key b \<notin> set (snd state)" if "b \<in> set bs" "gb_groupTag b \<notin> tags" for b
  proof
    assume "kb_key b \<in> set (snd state)"
    moreover have "snd state = map kb_key (concat (map sg_bindings (fst state)))"
      using assms(2) by (simp add: paired_ok_def Let_def)
    ultimately have "kb_key b \<in> kb_key ` set (concat (map sg_bindings (fst state)))" by (simp only: list.set_map)
    then obtain c where "c \<in> set (concat (map sg_bindings (fst state)))" "kb_key c = kb_key b" by (metis imageE)
    then have "c \<in> set bs" "gb_groupTag c \<in> tags" "kb_key c = kb_key b"
      using assms(2) unfolding paired_ok_def Let_def by blast+
    with key_inj [OF keys] that show False by blast
  qed
  moreover have "kb_key selector \<noteq> kb_key auto" using key_inj [OF keys, of selector auto] new assms(3) by auto
  ultimately have fresh: "kb_key selector \<notin> set (snd state)" "kb_key auto \<notin> set (snd state)" "kb_key selector \<noteq> kb_key auto"
    using new assms(4,5) by simp_all
  have "add_preset os bs (s, a, name) state =
      (fst state @ [\<lparr>sg_name = name, sg_bindings = [selector, auto]\<rparr>], snd state @ [kb_key selector, kb_key auto])"
    by (simp add: add_preset_def Some p)
  then show ?thesis
    using assms(2) fresh new unfolding paired_ok_def Let_def by simp
qed

text \<open>Every group of the draft is in exactly one of the uses.\<close>

lemma groupsFor_partition:
  fixes P :: platform and t :: string
  assumes keys: "distinct (map kb_key bs)"
  defines "shown \<equiv> concat (map sg_bindings (groupsFor P bs t))"
  shows "set shown = set bs \<and> distinct (map kb_key shown)"
proof -
  let ?os = "outbounds_of_text P t"
  define state where "state = fold (add_preset ?os bs) selection_presets ([], [])"
  have ok: "paired_ok bs {''select-game'', ''auto-game'', ''select-ai'', ''auto-ai'', ''select'', ''auto''} state"
    unfolding state_def selection_presets_def fold_simps
    by (intro add_preset_ok [OF keys]) (simp_all add: paired_ok_def)
  let ?paired = "concat (map sg_bindings (fst state))" and ?rest = "filter (\<lambda>b. kb_key b \<notin> set (snd state)) bs"
  have shown: "shown = ?paired @ ?rest"
    unfolding shown_def groupsFor_def Let_def state_def [symmetric] by (simp add: comp_def)
  have paired: "map kb_key ?paired = snd state" "distinct (snd state)" "set ?paired \<subseteq> set bs"
    using ok unfolding paired_ok_def Let_def by blast+
  have "b \<in> set ?paired" if b: "b \<in> set bs" "kb_key b \<in> set (snd state)" for b
  proof -
    from b(2) obtain c where "c \<in> set ?paired" "kb_key c = kb_key b" unfolding paired(1) [symmetric] by force
    with key_inj [OF keys _ b(1)] paired(3) show ?thesis by blast
  qed
  then have "set shown = set bs" using paired(3) unfolding shown by auto
  moreover have "distinct (map kb_key shown)"
    unfolding shown map_append paired(1) using paired(2) keys by (auto simp: distinct_map intro: inj_on_subset)
  ultimately show ?thesis by blast
qed

text \<open>
  C38. The editor shows what the panel does. The machines it shows for a group are exactly those whose outbounds
  the panel puts into the group when it renders the draft, and the group is marked exactly when the panel would
  find no member for it; when a selection is applied, the group gets the outbounds of exactly the selected
  machines; and every group of the draft is shown in exactly one use.
\<close>

theorem client_selection_agrees:
  "set (map psn_machineId (filter (binding_matches b) (context_nodes s))) = group_machines s b \<and>
   (list_ex (binding_matches b) (context_nodes s) \<longleftrightarrow> members (all_outbounds s) b \<noteq> []) \<and>
   (\<forall>grp chosen d. let ids = selected_ids grp (context_nodes s) chosen in
      ids \<noteq> [] \<and> list_all plain_value ids \<longrightarrow>
      (\<forall>d' \<in> set (apply_selection [bd_key d] ids [d]). group_machines s (bindingInput d') = set ids)) \<and>
   (\<forall>P bs template. distinct (map kb_key bs) \<longrightarrow>
      (let shown = concat (map sg_bindings (groupsFor P bs template))
       in set shown = set bs \<and> distinct (map kb_key shown)))"
proof (intro conjI allI)
  show shown: "set (map psn_machineId (filter (binding_matches b) (context_nodes s))) = group_machines s b"
    by (rule shown_machines)
  have "list_ex (binding_matches b) (context_nodes s) \<longleftrightarrow> filter (binding_matches b) (context_nodes s) \<noteq> []"
    by (rule list_ex_filter)
  also have "\<dots> \<longleftrightarrow> group_machines s b \<noteq> {}" unfolding shown [symmetric] by (simp only: set_empty map_is_Nil_conv)
  finally show "list_ex (binding_matches b) (context_nodes s) \<longleftrightarrow> members (all_outbounds s) b \<noteq> []"
    by (simp add: members_empty)
  show "let ids = selected_ids grp (context_nodes s) chosen in
      ids \<noteq> [] \<and> list_all plain_value ids \<longrightarrow>
      (\<forall>d' \<in> set (apply_selection [bd_key d] ids [d]). group_machines s (bindingInput d') = set ids)" for grp chosen d
  proof -
    let ?ids = "selected_ids grp (context_nodes s) chosen"
    have "\<forall>i \<in> set ?ids. \<exists>n \<in> set (context_nodes s). psn_machineId n = i \<and> psn_available n"
      by (auto simp: selected_ids_def list_ex_iff)
    from applied_machines [OF _ _ this, of d] show ?thesis
      by (simp add: Let_def apply_selection_def)
  qed
  show "distinct (map kb_key bs) \<longrightarrow> (let shown = concat (map sg_bindings (groupsFor P bs template))
      in set shown = set bs \<and> distinct (map kb_key shown))" for P bs template
    using groupsFor_partition [of bs P template] by (simp add: Let_def)
qed

text \<open>A snapshot with one machine, which is chosen for a group that had asked for a tag it does not have.\<close>

lemma client_selection_agrees_witness:
  "\<exists>d'. apply_selection [7] [''n1''] [bindingDraft (empty_binding\<lparr>gb_tags := [''game'']\<rparr>) 7] = [d'] \<and>
    group_machines sample_snapshot (bindingInput d') = {''n1''} \<and>
    group_machines sample_snapshot (empty_binding\<lparr>gb_tags := [''game'']\<rparr>) = {}"
proof -
  let ?b = "empty_binding\<lparr>gb_tags := [''game'']\<rparr>" and ?grp = "\<lparr>sg_name = ''games'', sg_bindings = []\<rparr>"
  have nodes: "context_nodes sample_snapshot = [toProtoNode (node_dto sample_node)]"
    by (simp add: context_nodes_def sample_snapshot_def)
  have node: "cn_id sample_node = ''n1''" "sn_available sample_node" "sn_tags sample_node = [''ai'']"
    by (simp_all add: sample_node_def)
  have ids: "selected_ids ?grp (context_nodes sample_snapshot) (Some [''n1'']) = [''n1'']"
    by (simp add: selected_ids_def nodes node)
  have plain: "list_all plain_value [''n1'']" by (simp add: plain_value_def trim_def is_space_def)
  note agrees = client_selection_agrees [of ?b sample_snapshot]
  let ?d = "bindingDraft ?b 7"
  have key: "bd_key ?d = 7" by (simp add: bindingDraft_def)
  obtain d' where d': "apply_selection [7] [''n1''] [?d] = [d']" by (simp add: apply_selection_def)
  have "let ids = selected_ids ?grp (context_nodes sample_snapshot) (Some [''n1'']) in
      ids \<noteq> [] \<and> list_all plain_value ids \<longrightarrow>
      (\<forall>d' \<in> set (apply_selection [bd_key ?d] ids [?d]). group_machines sample_snapshot (bindingInput d') = set ids)"
    using agrees by blast
  then have "group_machines sample_snapshot (bindingInput d') = {''n1''}"
    unfolding ids key Let_def d' using plain by simp
  moreover have "\<not> binding_matches ?b (toProtoNode (node_dto sample_node))"
    by (simp add: binding_matches_def toProtoNode_def node_dto_def node empty_binding_def)
  with agrees have "group_machines sample_snapshot ?b = {}" by (simp add: nodes)
  ultimately show ?thesis using d' by blast
qed

end
