(* ===== verification/Client_Editor_Props.thy ===== *)
theory Client_Editor_Props
  imports Client_Node_Props Subscription_Props Effect_Props
begin

text \<open>
  The editor and the panel together: what is on the screen is what is saved, what is previewed and what is published,
  whatever calls are lost and whatever other sessions do in between.
\<close>

section \<open>What the panel answers to the editor\<close>

lemma panelCall_ok: "panelCall P act w = (Inr a, v) \<longleftrightarrow> act w = (Inr a, v)"
  by (auto simp: panelCall_def split: prod.splits sum.splits)

lemma for_caller_ok:
  "for_caller P caller act w = (Inr a, v) \<longleftrightarrow> (\<exists>p. caller = Some p \<and> act (du_id (pr_user p)) w = (Inr a, v))"
  by (auto simp: for_caller_def panelCall_ok requirePrincipal_def prog_ok)

definition reads_draft :: "platform \<Rightarrow> string \<Rightarrow> draft \<Rightarrow> bool" where
  "reads_draft P c d \<longleftrightarrow> (\<exists>plain j. decryptSecret P c = Inr plain \<and> p_jsonParse P plain = Some j \<and> draftSchema j = Some d)"

lemma reads_draft_unique: "reads_draft P c d \<Longrightarrow> reads_draft P c d' \<Longrightarrow> d = d'"
  by (auto simp: reads_draft_def)

lemma dto_same: "profile_dto_of P full row w = (r, v) \<Longrightarrow> v = w"
  by (rule keepsD [OF keeps_subscriptions(8) refl])

lemma profile_dto_draft:
  "profile_dto_of P True row w = (Inr p, v) \<Longrightarrow>
    v = w \<and> pd_id p = sb_id row \<and> pd_version p = sb_version row \<and> (\<exists>d. pd_draft p = Some d \<and> reads_draft P (sb_draftCiphertext row) d)"
  using dto_same [of P True row w "Inr p" v]
  unfolding profile_dto_of_def by (auto simp: prog_ok reads_draft_def)

lemma profile_get_draft:
  assumes "profile_get P u i w = (Inr p, v)"
  obtains row d where "v = w" "own_subscription u i (w_db w) = Some row" "pd_id p = i" "pd_version p = sb_version row"
    "pd_draft p = Some d" "reads_draft P (sb_draftCiphertext row) d"
proof -
  from assms obtain row where row: "own_subscription u i (w_db w) = Some row" and dto: "profile_dto_of P True row w = (Inr p, v)"
    unfolding profile_get_def by (auto simp: prog_ok)
  with own_subscription_Some [OF row] profile_dto_draft [OF dto] that show thesis by auto
qed

lemma own_after_update:
  assumes "own_subscription u i d = Some row" and "\<And>s. sb_id (f s) = sb_id s" "\<And>s. sb_userId (f s) = sb_userId s"
    "\<And>s. sb_deletedAt (f s) = sb_deletedAt s"
  shows "own_subscription u i (subscriptions_update (update_where (\<lambda>s. sb_id s = i) f) d) = Some (f row)"
  using assms own_subscription_Some [OF assms(1)] unfolding own_subscription_def
  by (simp add: find_update_where)

lemma text_schema_same: "text_schema lo hi (Some (JStr s)) = Some t \<Longrightarrow> t = s"
  by (auto simp: text_schema_ok)

lemma map_JStr [simp]: "map JStr xs = map JStr ys \<longleftrightarrow> xs = ys"
  by (rule inj_map_eq_map) (simp add: inj_def)

lemma strings_same: "strings (Some (jstrings xs)) = Some ys \<Longrightarrow> ys = xs"
  by (auto simp: strings_schema jstrings_def)

lemma binding_same: "bindingSchema (binding_json b) = Some b' \<Longrightarrow> b' = b"
  by (auto simp: bindingSchema_def binding_json_def jprop_def default_empty_def protocols_schema jstrings_def
      dest!: text_schema_same strings_same [unfolded jstrings_def] split: option.splits)

lemma draft_same:
  assumes "draftSchema (draft_json d) = Some d'"
  shows "d' = d"
proof -
  have bindings: "bs = xs" if "map (bindingSchema \<circ> binding_json) xs = map Some bs" for xs bs
    using that binding_same by (induction xs arbitrary: bs) (auto simp: Cons_eq_map_conv)
  show ?thesis
    using assms
    by (auto simp: draftSchema_def draft_json_def jprop_def array_schema_ok dest!: text_schema_same bindings
        split: option.splits)
qed

lemma profile_save_saves:
  assumes save: "profile_save P u i n name (draft_json d) w = (Inr p, v)" and "gcm_ok P" "random_ok P"
  obtains row row' where "own_subscription u i (w_db w) = Some row" "sb_version row = n"
    and "own_subscription u i (w_db v) = Some row'" "sb_version row' = n + 1"
    and "pd_id p = i" "pd_version p = n + 1"
    and "json_reads_back P d \<Longrightarrow> pd_draft p = Some d \<and> reads_draft P (sb_draftCiphertext row') d"
proof -
  from save have d: "draftSchema (draft_json d) = Some d"
    unfolding profile_save_def by (auto simp: bind_ok parse_draft_ok dest: draft_same)
  from save obtain row trimmed c x where row: "own_subscription u i (w_db w) = Some row" "sb_version row = n"
    and c: "encryptSecret P (stringify (draft_json d)) w = (Inr c, x)"
    and get: "profile_get P u i (x\<lparr>w_db := subscriptions_update (update_where (\<lambda>s. sb_id s = i) (\<lambda>s. s\<lparr>sb_name := trimmed,
        sb_draftCiphertext := c, sb_version := sb_version row + 1, sb_updatedAt := w_now x\<rparr>)) (w_db x)\<rparr>) = (Inr p, v)"
    unfolding profile_save_def update_subscription_def bind_ok parse_draft_ok transaction_ok
    by (auto simp: subscription_row_of_ok checkVersion_ok text_input_ok Date_now_ok db_run_ok d)
  let ?f = "\<lambda>s. s\<lparr>sb_name := trimmed, sb_draftCiphertext := c, sb_version := sb_version row + 1, sb_updatedAt := w_now x\<rparr>"
  have "w_db x = w_db w" using c by (simp add: encryptSecret_ok)
  with row(1) have after: "own_subscription u i (subscriptions_update (update_where (\<lambda>s. sb_id s = i) ?f) (w_db x)) = Some (?f row)"
    by (intro own_after_update) simp_all
  have "decryptSecret P c = Inr (stringify (draft_json d))" by (rule encryptSecret_decrypts [OF assms(2,3) c])
  then have reads: "json_reads_back P d \<Longrightarrow> reads_draft P c d" using d by (simp add: json_reads_back_def reads_draft_def)
  show thesis
    using get
  proof (rule profile_get_draft)
    fix row' d' assume *: "v = x\<lparr>w_db := subscriptions_update (update_where (\<lambda>s. sb_id s = i) ?f) (w_db x)\<rparr>"
      "own_subscription u i (w_db (x\<lparr>w_db := subscriptions_update (update_where (\<lambda>s. sb_id s = i) ?f) (w_db x)\<rparr>)) = Some row'"
      "pd_id p = i" "pd_version p = sb_version row'" "pd_draft p = Some d'" "reads_draft P (sb_draftCiphertext row') d'"
    with after have "row' = ?f row" by simp
    with * row reads after show thesis by (intro that [OF row, of "?f row"]) (auto dest: reads_draft_unique)
  qed
qed

definition shown :: "platform \<Rightarrow> draft \<Rightarrow> preview_subscription_profile_response \<Rightarrow> bool" where
  "shown P d pv \<longleftrightarrow> (\<exists>s r (x :: world) y. renderSubscription P (draft_json d) s x = (Inr r, y) \<and>
     previewedProfile_configJson pv = rd_configJson r \<and> previewedProfile_digest pv = sha256 P (rd_configJson r))"

lemma find_appended:
  assumes "\<not> has_row (\<lambda>p. sp_id p = k) t" and "sp_id row = k"
  shows "find (\<lambda>p. sp_id p = k \<and> Q p) (t @ [row]) = (if Q row then Some row else None)"
  using assms by (induction t) (auto simp: has_row_iff)

lemma profile_preview_shows:
  assumes "profile_preview P u i n w = (Inr pp, v)"
  obtains row d where "own_subscription u i (w_db w) = Some row" "sb_version row = n" "reads_draft P (sb_draftCiphertext row) d"
    "shown P d (preview_message pp)" "subscriptions (w_db v) = subscriptions (w_db w)" "\<not> spent i (pp_previewId pp) (w_db v)"
proof -
  from assms obtain row j d s r x y k z where row: "own_subscription u i (w_db w) = Some row" "sb_version row = n"
    and j: "read_json P (sb_draftCiphertext row) w = (Inr j, w)" "draftSchema j = Some d"
    and s: "subscriptionSnapshot P u w = (Inr s, x)" and r: "renderSubscription P (draft_json d) s x = (Inr r, y)"
    and k: "newId P y = (Inr k, z)"
    and rest: "bind (transaction (
       bind (db_run (subscriptionPreviews_update (delete_where (\<lambda>p. sp_expiresAt p < w_now z - 24 * 60 * 60000)))) (\<lambda>_.
       insert_profile_preview \<lparr>sp_id = k, sp_subscriptionId = i, sp_version = sb_version row,
         sp_digest = sha256 P (rd_configJson r), sp_expiresAt = w_now z + 5 * 60000, sp_published = False\<rparr>))) (\<lambda>_.
     return \<lparr>pp_configJson = rd_configJson r, pp_nodeCount = rd_nodeCount r, pp_previewId = k,
       pp_digest = sha256 P (rd_configJson r), pp_expiresAt = w_now z + 5 * 60000\<rparr>) z = (Inr pp, v)"
    unfolding profile_preview_def bind_ok Let_def Date_now_ok parse_draft_ok subscription_row_of_ok checkVersion_ok
    by (elim exE conjE) (auto simp: read_json_ok prog_ok)
  have same: "w_db z = w_db w"
    using snapshot_same [OF s] pure_agrees [OF pure_render r] k by (auto simp: newId_ok)
  from rest have parts: "pp_previewId pp = k" "pp_configJson pp = rd_configJson r" "pp_digest pp = sha256 P (rd_configJson r)"
    by (auto simp: prog_ok)
  then have pp: "pp_previewId pp = k" "shown P d (preview_message pp)"
    unfolding shown_def using r by (simp, intro exI [of _ s] exI [of _ r] exI [of _ x] exI [of _ y]) (simp add: preview_message_def)
  from rest obtain t where "subscriptions (w_db v) = subscriptions (w_db z)"
    and t: "\<not> has_row (\<lambda>p. sp_id p = k) t"
    "subscriptionPreviews (w_db v) = t @ [\<lparr>sp_id = k, sp_subscriptionId = i, sp_version = sb_version row,
         sp_digest = sha256 P (rd_configJson r), sp_expiresAt = w_now z + 5 * 60000, sp_published = False\<rparr>]"
    by (auto simp: prog_ok insert_profile_preview_def)
  moreover have "\<not> spent i k (w_db v)"
    unfolding spent_def find_profile_preview_def t(2) by (subst find_appended [OF t(1)]) simp_all
  moreover have "reads_draft P (sb_draftCiphertext row) d" using j by (auto simp: read_json_ok reads_draft_def)
  ultimately show thesis using row pp same that by auto
qed

lemma publish_publishes:
  assumes "profile_publish P u i n k w = (Inr p, v)" and "\<not> spent i k (w_db w)"
  obtains row row' d where "own_subscription u i (w_db w) = Some row" "sb_version row = n"
    "own_subscription u i (w_db v) = Some row'" "sb_version row' = n + 1"
    "sb_draftCiphertext row' = sb_draftCiphertext row" "sb_publishedCiphertext row' = Some (sb_draftCiphertext row)"
    "pd_id p = i" "pd_version p = n + 1" "pd_draft p = Some d" "reads_draft P (sb_draftCiphertext row) d"
  using assms(1)
proof (cases rule: publish_cases)
  case (1 row pv)
  with assms(2) show thesis by (simp add: spent_def)
next
  case (2 row pv j s r)
  have after: "own_subscription u i (w_db v) = Some (publish_row row (w_now w) row)"
    using publish_tables_reads(1) [OF 2(1,2)] by (simp add: 2(11))
  show thesis
    using 2(12)
  proof (rule profile_get_draft)
    fix row' d assume *: "own_subscription u i (w_db v) = Some row'" "pd_id p = i" "pd_version p = sb_version row'"
      "pd_draft p = Some d" "reads_draft P (sb_draftCiphertext row') d"
    with after have "row' = publish_row row (w_now w) row" by simp
    with * 2(1,4) after show thesis by (intro that [of row row' d]) auto
  qed
qed

section \<open>The invariant\<close>

text \<open>What the editor knows of the row: its version is the present one or an old one, and if it is the present one, so is the draft.\<close>

definition row_known :: "platform \<Rightarrow> string \<Rightarrow> string \<Rightarrow> subscription_profile \<Rightarrow> database \<Rightarrow> bool" where
  "row_known P u i p d \<longleftrightarrow> (\<forall>row. own_subscription u i d = Some row \<longrightarrow> spr_version p \<le> sb_version row \<and>
     (sb_version row = spr_version p \<longrightarrow> (\<exists>t. spr_draft p = Some t \<and> reads_draft P (sb_draftCiphertext row) t)))"

definition screen_ok :: "platform \<Rightarrow> string \<Rightarrow> editor \<Rightarrow> database \<Rightarrow> bool" where
  "screen_ok P i e d \<longleftrightarrow> spr_id (ev_profile e) = i \<and>
     (\<not> ev_dirty e \<longrightarrow> spr_draft (ev_profile e) = Some (screen_draft e)) \<and>
     (\<forall>pv. ev_preview e = Some pv \<longrightarrow>
        \<not> ev_dirty e \<and> shown P (screen_draft e) pv \<and> \<not> spent i (previewedProfile_previewId pv) d)"

definition calls_ok :: "editor \<Rightarrow> bool" where
  "calls_ok e \<longleftrightarrow> (busy e \<longleftrightarrow> ev_call e \<noteq> None) \<and>
     (case ev_call e of
        Some AwaitSave \<Rightarrow> ev_preview e = None
      | Some (AwaitPreview n) \<Rightarrow> ev_preview e = None \<and> \<not> ev_dirty e \<and> n = spr_version (ev_profile e)
      | Some AwaitPublish \<Rightarrow> ev_preview e \<noteq> None
      | _ \<Rightarrow> True)"

definition editor_inv :: "platform \<Rightarrow> string \<Rightarrow> string \<Rightarrow> editor \<times> world \<Rightarrow> bool" where
  "editor_inv P u i s \<longleftrightarrow> screen_ok P i (fst s) (w_db (snd s)) \<and> row_known P u i (ev_profile (fst s)) (w_db (snd s)) \<and> calls_ok (fst s)"

lemma row_known_progress: "row_known P u i p d \<Longrightarrow> row_progress u i d d' \<Longrightarrow> row_known P u i p d'"
  unfolding row_known_def row_progress_def by (intro allI impI) (drule spec, drule (1) mp, force)

lemma row_known_same: "subscriptions d' = subscriptions d \<Longrightarrow> row_known P u i p d' = row_known P u i p d"
  by (simp add: row_known_def own_subscription_def)

lemma row_known_moved:
  "own_subscription u i d = Some row \<Longrightarrow> sb_version row = spr_version p + 1 \<Longrightarrow> row_known P u i p d"
  by (simp add: row_known_def)

lemmas editor_fields = settle_def handle_error_def call_failed_def change_def start_save_def start_publish_def
  start_import_def start_reload_def saved_def previewed_def published_def imported_def reloaded_def

lemma screen_draft_fields [simp]:
  "screen_draft (settle e) = screen_draft e" "screen_draft (handle_error err e) = screen_draft e"
  "screen_draft (call_failed err e) = screen_draft e"
  by (simp_all add: screen_draft_def editor_fields split: option.split editor_call.split)

text \<open>An edit discards the preview.\<close>

lemma inv_change:
  assumes "ev_profile f = ev_profile e" "ev_pending f = ev_pending e" "ev_call f = ev_call e" "ev_call e = None \<or> ev_call e = Some AwaitFile"
    and "editor_inv P u i (e, w)"
  shows "editor_inv P u i (change f, w)"
  using assms by (auto simp: editor_inv_def screen_ok_def calls_ok_def change_def)

lemma inv_edit:
  assumes inv: "editor_inv P u i (e, w)" and "\<not> busy e"
  shows "editor_inv P u i (apply_edit ed e, w)"
proof -
  have call: "ev_call e = None" using assms by (auto simp: editor_inv_def calls_ok_def)
  show ?thesis
    by (cases ed; simp only: apply_edit_def edit.case; rule inv_change [OF _ _ _ _ inv]; simp add: call)
qed

lemma inv_imported: "editor_inv P u i (e, w) \<Longrightarrow> ev_call e = Some AwaitFile \<Longrightarrow> editor_inv P u i (imported text e, w)"
  by (auto simp: editor_inv_def screen_ok_def calls_ok_def change_def imported_def settle_def)

lemma inv_start:
  assumes "editor_inv P u i (e, w)" "\<not> busy e"
  shows "editor_inv P u i (start_save thenPreview e, w)" "editor_inv P u i (start_publish now e, w)"
    "editor_inv P u i (start_import n e, w)" "editor_inv P u i (start_reload e, w)"
  using assms unfolding editor_inv_def screen_ok_def calls_ok_def start_save_def start_publish_def start_import_def start_reload_def
  by (auto simp: screen_draft_def Let_def split: option.splits)

text \<open>A failure leaves the screen as it is.\<close>

lemma inv_failed:
  assumes "editor_inv P u i (e, w)" "ev_call e \<noteq> None" and "row_known P u i (ev_profile e) (w_db v)"
    and "ev_call e = Some AwaitProfile \<or> ev_call e = Some AwaitFile \<Longrightarrow> w_db v = w_db w"
  shows "editor_inv P u i (call_failed err e, v)"
proof -
  obtain c where c: "ev_call e = Some c" using assms(2) by auto
  have same: "ev_profile (call_failed err e) = ev_profile e" "ev_dirty (call_failed err e) = ev_dirty e"
    "ev_call (call_failed err e) = None" "ev_pending (call_failed err e) = None"
    by (cases c; simp add: c call_failed_def handle_error_def settle_def)+
  have preview: "ev_preview (call_failed err e) = None \<or>
      (ev_preview (call_failed err e) = ev_preview e \<and> w_db v = w_db w)"
    using assms(1,4) by (cases c) (auto simp: c call_failed_def handle_error_def settle_def editor_inv_def calls_ok_def)
  show ?thesis
    using assms(1,3) same preview by (auto simp: editor_inv_def screen_ok_def calls_ok_def)
qed

section \<open>Serving a call\<close>

lemma atomic_fails: "atomic p \<Longrightarrow> p w = (Inl err, v) \<Longrightarrow> w_db v = w_db w"
  by (auto simp: atomic_def)

lemma quiet_get: "rpc_getSubscriptionProfile P caller r w = (a, v) \<Longrightarrow> w_db v = w_db w"
proof -
  have "quiet (rpc_getSubscriptionProfile P caller r)"
    unfolding rpc_getSubscriptionProfile_def getSubscriptionProfile_def by (intro quiet_rules)
  then show "rpc_getSubscriptionProfile P caller r w = (a, v) \<Longrightarrow> w_db v = w_db w" by (simp add: quiet_def)
qed

lemma profile_message_fields:
  "spr_id (profile_message p) = pd_id p" "spr_version (profile_message p) = pd_version p" "spr_draft (profile_message p) = pd_draft p"
  by (simp_all add: profile_message_def)

lemma rpc_save_saves:
  assumes "rpc_saveSubscriptionDraft P (Some pr) (save_request e) w = (Inr a, v)" and "gcm_ok P" "random_ok P"
  obtains p row' where "savedDraft_profile a = Some p" "spr_id p = spr_id (ev_profile e)" "spr_version p = spr_version (ev_profile e) + 1"
    "own_subscription (du_id (pr_user pr)) (spr_id (ev_profile e)) (w_db v) = Some row'" "sb_version row' = spr_version p"
    "json_reads_back P (screen_draft e) \<Longrightarrow> spr_draft p = Some (screen_draft e) \<and> reads_draft P (sb_draftCiphertext row') (screen_draft e)"
proof -
  from assms(1) obtain d p where d: "draftSchema (draft_json (screen_draft e)) = Some d"
    and save: "profile_save P (du_id (pr_user pr)) (spr_id (ev_profile e)) (spr_version (ev_profile e)) (ev_name e) (draft_json d) w = (Inr p, v)"
    and a: "a = \<lparr>savedDraft_profile = Some (profile_message p)\<rparr>"
    by (auto simp: rpc_saveSubscriptionDraft_def for_caller_ok save_request_def bind_ok the_or_ok parse_draft_ok return_ok)
  have "d = screen_draft e" by (rule draft_same [OF d])
  show thesis
  proof (rule profile_save_saves [OF save assms(2,3)])
    fix row row' assume *: "own_subscription (du_id (pr_user pr)) (spr_id (ev_profile e)) (w_db v) = Some row'"
      "sb_version row' = spr_version (ev_profile e) + 1" "pd_id p = spr_id (ev_profile e)" "pd_version p = spr_version (ev_profile e) + 1"
      "json_reads_back P d \<Longrightarrow> pd_draft p = Some d \<and> reads_draft P (sb_draftCiphertext row') d"
    then show thesis
      by (intro that [of "profile_message p" row']) (simp_all add: a profile_message_fields \<open>d = screen_draft e\<close>)
  qed
qed

lemma rpc_preview_shows:
  assumes "rpc_previewSubscriptionProfile P (Some pr) (preview_request e n) w = (Inr pv, v)"
  obtains row d where "own_subscription (du_id (pr_user pr)) (spr_id (ev_profile e)) (w_db w) = Some row" "sb_version row = n"
    "reads_draft P (sb_draftCiphertext row) d" "shown P d pv" "subscriptions (w_db v) = subscriptions (w_db w)"
    "\<not> spent (spr_id (ev_profile e)) (previewedProfile_previewId pv) (w_db v)"
proof -
  from assms obtain pp where run: "profile_preview P (du_id (pr_user pr)) (spr_id (ev_profile e)) n w = (Inr pp, v)"
    and pv: "pv = preview_message pp"
    by (auto simp: rpc_previewSubscriptionProfile_def for_caller_ok preview_request_def prog_ok)
  have i: "previewedProfile_previewId pv = pp_previewId pp" by (simp add: pv preview_message_def)
  show thesis by (rule profile_preview_shows [OF run]) (rule that, (assumption | simp add: pv preview_message_def)+)
qed

lemma rpc_publish_publishes:
  assumes "rpc_publishSubscriptionProfile P (Some pr) (publish_request e pv) w = (Inr a, v)"
    and "\<not> spent (spr_id (ev_profile e)) (previewedProfile_previewId pv) (w_db w)"
  obtains p row row' d where "publishedProfile_profile a = Some p"
    "own_subscription (du_id (pr_user pr)) (spr_id (ev_profile e)) (w_db w) = Some row" "sb_version row = spr_version (ev_profile e)"
    "own_subscription (du_id (pr_user pr)) (spr_id (ev_profile e)) (w_db v) = Some row'" "sb_version row' = spr_version (ev_profile e) + 1"
    "sb_draftCiphertext row' = sb_draftCiphertext row" "sb_publishedCiphertext row' = Some (sb_draftCiphertext row)"
    "spr_id p = spr_id (ev_profile e)" "spr_version p = spr_version (ev_profile e) + 1" "spr_draft p = Some d"
    "reads_draft P (sb_draftCiphertext row) d"
proof -
  from assms(1) obtain p where run: "profile_publish P (du_id (pr_user pr)) (spr_id (ev_profile e)) (spr_version (ev_profile e))
      (previewedProfile_previewId pv) w = (Inr p, v)" and a: "a = \<lparr>publishedProfile_profile = Some (profile_message p)\<rparr>"
    by (auto simp: rpc_publishSubscriptionProfile_def for_caller_ok publish_request_def prog_ok)
  show thesis
    by (rule publish_publishes [OF run assms(2)]) (rule that [of "profile_message p"]; simp add: a profile_message_fields)
qed

lemma rpc_get_gets:
  assumes "rpc_getSubscriptionProfile P (Some pr) \<lparr>getProfile_id = i\<rparr> w = (Inr a, v)"
  obtains p row d where "gotProfile_profile a = Some p" "v = w" "own_subscription (du_id (pr_user pr)) i (w_db w) = Some row"
    "spr_id p = i" "spr_version p = sb_version row" "spr_draft p = Some d" "reads_draft P (sb_draftCiphertext row) d"
proof -
  from assms obtain p where run: "profile_get P (du_id (pr_user pr)) i w = (Inr p, v)" and a: "gotProfile_profile a = Some (profile_message p)"
    by (auto simp: rpc_getSubscriptionProfile_def getSubscriptionProfile_def panelCall_ok requirePrincipal_def prog_ok)
  show thesis
    by (rule profile_get_draft [OF run]) (rule that [OF a]; simp add: profile_message_fields)
qed

text \<open>Whatever comes of the awaited call, what the editor knew of the row stays true.\<close>

lemma serve_row_known:
  assumes inv: "editor_inv P (du_id (pr_user pr)) i (e, w)" and "gcm_ok P" "random_ok P"
  shows "row_known P (du_id (pr_user pr)) i (ev_profile e) (w_db (snd (serve_call P (Some pr) e w)))"
proof -
  let ?u = "du_id (pr_user pr)"
  have i: "spr_id (ev_profile e) = i" and known: "row_known P ?u i (ev_profile e) (w_db w)"
    using inv by (auto simp: editor_inv_def screen_ok_def)
  have failed: "row_known P ?u i (ev_profile e) (w_db v)" if "w_db v = w_db w" for v using known that by simp
  note fails = failed [OF atomic_fails [OF atomic_subscription_calls(2)]]
    failed [OF atomic_fails [OF atomic_subscription_calls(3)]] failed [OF atomic_fails [OF atomic_subscription_calls(4)]]
  show ?thesis
  proof (cases "ev_call e")
    case None
    then show ?thesis using known by (simp add: serve_call_def)
  next
    case (Some c)
    show ?thesis
    proof (cases c)
      case AwaitSave
      obtain r v where run: "rpc_saveSubscriptionDraft P (Some pr) (save_request e) w = (r, v)" by fastforce
      have "row_known P ?u i (ev_profile e) (w_db v)"
      proof (cases r)
        case (Inr a)
        show ?thesis
          by (rule rpc_save_saves [OF run [unfolded Inr] assms(2,3)]) (simp add: i row_known_moved)
      qed (use run fails(1) in simp)
      then show ?thesis using Some AwaitSave run by (simp add: serve_call_def)
    next
      case (AwaitPreview n)
      obtain r v where run: "rpc_previewSubscriptionProfile P (Some pr) (preview_request e n) w = (r, v)" by fastforce
      have "row_known P ?u i (ev_profile e) (w_db v)"
      proof (cases r)
        case (Inr a)
        show ?thesis
          by (rule rpc_preview_shows [OF run [unfolded Inr]]) (use known row_known_same in blast)
      qed (use run fails(2) in simp)
      then show ?thesis using Some AwaitPreview run by (simp add: serve_call_def)
    next
      case AwaitPublish
      then obtain pv where pv: "ev_preview e = Some pv" "\<not> spent i (previewedProfile_previewId pv) (w_db w)"
        using inv Some by (auto simp: editor_inv_def calls_ok_def screen_ok_def)
      obtain r v where run: "rpc_publishSubscriptionProfile P (Some pr) (publish_request e pv) w = (r, v)" by fastforce
      have "row_known P ?u i (ev_profile e) (w_db v)"
      proof (cases r)
        case (Inr a)
        show ?thesis
          by (rule rpc_publish_publishes [OF run [unfolded Inr]]) (use pv(2) i row_known_moved in \<open>auto\<close>)
      qed (use run fails(3) in simp)
      then show ?thesis using Some AwaitPublish run pv by (simp add: serve_call_def)
    next
      case AwaitProfile
      obtain r v where run: "rpc_getSubscriptionProfile P (Some pr) \<lparr>getProfile_id = spr_id (ev_profile e)\<rparr> w = (r, v)" by fastforce
      then show ?thesis using Some AwaitProfile failed [OF quiet_get [OF run]] by (simp add: serve_call_def)
    qed (use Some known in \<open>simp add: serve_call_def\<close>)
  qed
qed

lemma serve_quiet:
  "ev_call e = Some AwaitProfile \<or> ev_call e = Some AwaitFile \<Longrightarrow> w_db (snd (serve_call P caller e w)) = w_db w"
  by (auto simp: serve_call_def split: prod.splits dest: quiet_get)

lemma answered_fail: "answered (Inl err) f e = call_failed (Some err) e"
  by (simp add: answered_def)

lemma draft_bindings_input:
  assumes "plain_profile p" "spr_draft p = Some d"
  shows "map bindingInput (draft_bindings p k) = dr_bindings d"
proof -
  have "map bindingInput (map (\<lambda>(b, k). bindingDraft b k) (zip bs [k..<k + length bs])) = bs"
    if "list_all plain_binding_texts bs" for bs k
    using that
  proof (induction bs arbitrary: k)
    case (Cons b bs)
    have "[k..<k + length (b # bs)] = k # [Suc k..<Suc k + length bs]" by (subst upt_conv_Cons) simp_all
    with Cons.IH [of "Suc k"] Cons.prems show ?case by (simp add: bindingInput_bindingDraft del: upt_Suc)
  qed simp
  then show ?thesis using assms by (simp add: draft_bindings_def plain_profile_def Let_def)
qed

text \<open>A profile that is loaded is on the screen.\<close>

lemma reloaded_screen:
  assumes "plain_profile p" "spr_draft p = Some d"
  shows "screen_draft (reloaded p e) = d" "screen_draft (open_editor p) = d"
  using assms draft_bindings_input [OF assms]
  by (simp_all add: screen_draft_def reloaded_def settle_def open_editor_def draft_text_def)

lemma loaded_inv:
  assumes "own_subscription u i (w_db w) = Some row" "spr_id p = i" "spr_version p = sb_version row" "spr_draft p = Some d"
    "reads_draft P (sb_draftCiphertext row) d" "plain_profile p"
  shows "editor_inv P u i (reloaded p e, w)" "editor_inv P u i (open_editor p, w)"
proof -
  have "row_known P u i p (w_db w)" using assms by (auto simp: row_known_def)
  then show "editor_inv P u i (reloaded p e, w)" "editor_inv P u i (open_editor p, w)"
    using assms reloaded_screen [OF assms(6,4)]
    by (auto simp: editor_inv_def screen_ok_def calls_ok_def) (simp_all add: reloaded_def settle_def open_editor_def)
qed

text \<open>What the answers leave of the editor.\<close>

lemma saved_fields:
  "ev_profile (saved p e) = p" "\<not> ev_dirty (saved p e)" "ev_preview (saved p e) = ev_preview e"
  "screen_draft (saved p e) = screen_draft e" "busy e \<Longrightarrow> ev_preview e = None \<Longrightarrow> calls_ok (saved p e)"
  by (auto simp: saved_def settle_def Let_def screen_draft_def calls_ok_def)

lemma previewed_fields:
  "ev_profile (previewed pv e) = ev_profile e" "ev_dirty (previewed pv e) = ev_dirty e" "ev_preview (previewed pv e) = Some pv"
  "screen_draft (previewed pv e) = screen_draft e" "calls_ok (previewed pv e)"
  by (simp_all add: previewed_def settle_def screen_draft_def calls_ok_def)

lemma published_fields:
  "ev_profile (published p e) = p" "ev_dirty (published p e) = ev_dirty e" "ev_preview (published p e) = None"
  "screen_draft (published p e) = screen_draft e" "calls_ok (published p e)"
  by (simp_all add: published_def settle_def screen_draft_def calls_ok_def)

lemma known_draft:
  assumes "editor_inv P u i (e, w)" "\<not> ev_dirty e" "own_subscription u i (w_db w) = Some row"
    "sb_version row = spr_version (ev_profile e)" "reads_draft P (sb_draftCiphertext row) d"
  shows "d = screen_draft e"
  using assms reads_draft_unique by (fastforce simp: editor_inv_def screen_ok_def row_known_def)

lemma inv_saved:
  assumes inv: "editor_inv P (du_id (pr_user pr)) i (e, w)" and ok: "gcm_ok P" "random_ok P" and call: "ev_call e = Some AwaitSave"
    and json: "json_reads_back P (screen_draft e)"
    and run: "rpc_saveSubscriptionDraft P (Some pr) (save_request e) w = (Inr a, v)"
  shows "editor_inv P (du_id (pr_user pr)) i (saved (the (savedDraft_profile a)) e, v)"
proof (rule rpc_save_saves [OF run ok])
  fix p row' assume p: "savedDraft_profile a = Some p" "spr_id p = spr_id (ev_profile e)"
    "own_subscription (du_id (pr_user pr)) (spr_id (ev_profile e)) (w_db v) = Some row'" "sb_version row' = spr_version p"
    "json_reads_back P (screen_draft e) \<Longrightarrow> spr_draft p = Some (screen_draft e) \<and> reads_draft P (sb_draftCiphertext row') (screen_draft e)"
  have i: "spr_id (ev_profile e) = i" and e: "busy e" "ev_preview e = None"
    using inv call by (auto simp: editor_inv_def screen_ok_def calls_ok_def)
  have "row_known P (du_id (pr_user pr)) i p (w_db v)" using p i json by (auto simp: row_known_def)
  then show ?thesis using p i json e by (simp add: editor_inv_def screen_ok_def saved_fields)
qed

lemma inv_previewed:
  assumes inv: "editor_inv P (du_id (pr_user pr)) i (e, w)" and call: "ev_call e = Some (AwaitPreview n)"
    and run: "rpc_previewSubscriptionProfile P (Some pr) (preview_request e n) w = (Inr pv, v)"
  shows "editor_inv P (du_id (pr_user pr)) i (previewed pv e, v)"
proof (rule rpc_preview_shows [OF run])
  fix row d assume row: "own_subscription (du_id (pr_user pr)) (spr_id (ev_profile e)) (w_db w) = Some row" "sb_version row = n"
    "reads_draft P (sb_draftCiphertext row) d" "shown P d pv" "subscriptions (w_db v) = subscriptions (w_db w)"
    "\<not> spent (spr_id (ev_profile e)) (previewedProfile_previewId pv) (w_db v)"
  have e: "spr_id (ev_profile e) = i" "\<not> ev_dirty e" "n = spr_version (ev_profile e)"
    using inv call by (auto simp: editor_inv_def calls_ok_def screen_ok_def)
  have "d = screen_draft e" using known_draft [OF inv e(2), of row d] row e by simp
  then show ?thesis
    using inv row e row_known_same [OF row(5)] by (simp add: editor_inv_def screen_ok_def previewed_fields)
qed

lemma inv_published:
  assumes inv: "editor_inv P (du_id (pr_user pr)) i (e, w)" and pv: "ev_preview e = Some pv"
    and run: "rpc_publishSubscriptionProfile P (Some pr) (publish_request e pv) w = (Inr a, v)"
  shows "editor_inv P (du_id (pr_user pr)) i (published (the (publishedProfile_profile a)) e, v)"
    and "\<exists>row c. own_subscription (du_id (pr_user pr)) i (w_db v) = Some row \<and> sb_publishedCiphertext row = Some c \<and>
      reads_draft P c (screen_draft e)"
proof -
  have e: "spr_id (ev_profile e) = i" "\<not> ev_dirty e" "\<not> spent (spr_id (ev_profile e)) (previewedProfile_previewId pv) (w_db w)"
    using inv pv by (auto simp: editor_inv_def screen_ok_def)
  obtain p row row' d where p: "publishedProfile_profile a = Some p"
    and row: "own_subscription (du_id (pr_user pr)) (spr_id (ev_profile e)) (w_db w) = Some row" "sb_version row = spr_version (ev_profile e)"
    and row': "own_subscription (du_id (pr_user pr)) (spr_id (ev_profile e)) (w_db v) = Some row'" "sb_version row' = spr_version (ev_profile e) + 1"
      "sb_draftCiphertext row' = sb_draftCiphertext row" "sb_publishedCiphertext row' = Some (sb_draftCiphertext row)"
    and fields: "spr_id p = spr_id (ev_profile e)" "spr_version p = spr_version (ev_profile e) + 1" "spr_draft p = Some d"
    and d: "reads_draft P (sb_draftCiphertext row) d"
    by (rule rpc_publish_publishes [OF run e(3)])
  have same: "d = screen_draft e" using known_draft [OF inv e(2), of row d] row d e(1) by simp
  have "row_known P (du_id (pr_user pr)) i p (w_db v)" using row' fields d e(1) by (auto simp: row_known_def)
  then show "editor_inv P (du_id (pr_user pr)) i (published (the (publishedProfile_profile a)) e, v)"
    using p fields e same by (simp add: editor_inv_def screen_ok_def published_fields)
  show "\<exists>row c. own_subscription (du_id (pr_user pr)) i (w_db v) = Some row \<and> sb_publishedCiphertext row = Some c \<and>
      reads_draft P c (screen_draft e)"
    using row' d e(1) same by auto
qed

lemma inv_loaded:
  assumes i: "spr_id (ev_profile e) = i" and plain: "served_plain P (Some pr) e w"
    and run: "rpc_getSubscriptionProfile P (Some pr) \<lparr>getProfile_id = i\<rparr> w = (Inr a, v)"
  shows "editor_inv P (du_id (pr_user pr)) i (reloaded (the (gotProfile_profile a)) e, v)"
proof (rule rpc_get_gets [OF run])
  fix p row d assume p: "gotProfile_profile a = Some p" "v = w" "own_subscription (du_id (pr_user pr)) i (w_db w) = Some row"
    "spr_id p = i" "spr_version p = sb_version row" "spr_draft p = Some d" "reads_draft P (sb_draftCiphertext row) d"
  have "plain_profile p" using plain run p(1) by (simp add: served_plain_def i)
  from loaded_inv(1) [OF p(3-7) this] show ?thesis using p(1,2) by simp
qed

lemma inv_serve:
  assumes inv: "editor_inv P (du_id (pr_user pr)) i (e, w)" and ok: "gcm_ok P" "random_ok P" and call: "ev_call e = Some c"
    and json: "c = AwaitSave \<Longrightarrow> json_reads_back P (screen_draft e)" and plain: "c = AwaitProfile \<Longrightarrow> served_plain P (Some pr) e w"
  shows "editor_inv P (du_id (pr_user pr)) i (serve_call P (Some pr) e w)"
proof -
  have failed: "editor_inv P (du_id (pr_user pr)) i (call_failed (Some err) e, snd (serve_call P (Some pr) e w))" for err
    using inv_failed [OF inv _ serve_row_known [OF inv ok]] serve_quiet call by blast
  have i: "spr_id (ev_profile e) = i" using inv by (simp add: editor_inv_def screen_ok_def)
  show ?thesis
  proof (cases c)
    case AwaitSave
    with failed call inv_saved [OF inv ok] json show ?thesis
      by (cases "rpc_saveSubscriptionDraft P (Some pr) (save_request e) w") (simp add: serve_call_def answered_def split: sum.splits)
  next
    case (AwaitPreview n)
    with failed call inv_previewed [OF inv] show ?thesis
      by (cases "rpc_previewSubscriptionProfile P (Some pr) (preview_request e n) w") (simp add: serve_call_def answered_def split: sum.splits)
  next
    case AwaitPublish
    then obtain pv where "ev_preview e = Some pv" using inv call by (auto simp: editor_inv_def calls_ok_def)
    with AwaitPublish failed call inv_published(1) [OF inv] show ?thesis
      by (cases "rpc_publishSubscriptionProfile P (Some pr) (publish_request e pv) w") (simp add: serve_call_def answered_def split: sum.splits)
  next
    case AwaitFile
    then show ?thesis using inv call by (simp add: serve_call_def)
  next
    case AwaitProfile
    with failed call inv_loaded [OF i] plain i show ?thesis
      by (cases "rpc_getSubscriptionProfile P (Some pr) \<lparr>getProfile_id = i\<rparr> w") (simp add: serve_call_def answered_def split: sum.splits)
  qed
qed

section \<open>Every run\<close>

lemma inv_others:
  assumes "editor_inv P (du_id (pr_user pr)) i (e, w)" "others_ok (Some pr) e w v"
  shows "editor_inv P (du_id (pr_user pr)) i (e, v)"
  using assms row_known_progress by (fastforce simp: editor_inv_def screen_ok_def others_ok_def)

lemma inv_view:
  assumes "editor_inv P u i (e, w)"
  shows "editor_inv P u i (e\<lparr>ev_reloadOpen := b\<rparr>, w)" "editor_inv P u i (e\<lparr>ev_expiredPreviewId := k\<rparr>, w)"
    "\<not> busy e \<Longrightarrow> editor_inv P u i (e\<lparr>ev_preview := None\<rparr>, w)"
  using assms
  by (auto simp: editor_inv_def screen_ok_def screen_draft_def) (auto simp: calls_ok_def split: option.splits editor_call.splits)

lemma inv_step:
  assumes "editor_step P (Some pr) s t" and inv: "editor_inv P (du_id (pr_user pr)) i s" and ok: "gcm_ok P" "random_ok P"
  shows "editor_inv P (du_id (pr_user pr)) i t"
  using assms(1) inv
proof (cases rule: editor_step.cases)
  case (Serve e c w)
  with inv_serve [OF _ ok] inv show ?thesis by blast
next
  case (Lost e c w)
  then show ?thesis using inv inv_failed [of P _ i e w w] by (auto simp: editor_inv_def)
next
  case (LostAnswer e c w)
  then show ?thesis using inv inv_failed [OF _ _ serve_row_known [OF _ ok]] serve_quiet by blast
next
  case (Others e w v)
  then show ?thesis using inv inv_others by blast
qed (use inv in \<open>simp_all add: inv_edit inv_start inv_imported inv_view\<close>)

lemma inv_run:
  assumes "(editor_step P (Some pr))\<^sup>*\<^sup>* s t" "editor_inv P (du_id (pr_user pr)) i s" "gcm_ok P" "random_ok P"
  shows "editor_inv P (du_id (pr_user pr)) i t"
  using assms by (induction rule: rtranclp_induct) (blast intro: inv_step)+


text \<open>An editor that is opened, and asks for a preview of the draft that it has loaded.\<close>

lemma press_loads:
  assumes "du_id (pr_user pr) = ''u1''"
  shows "\<exists>a p. rpc_getSubscriptionProfile press (Some pr) \<lparr>getProfile_id = ''s1''\<rparr> (press_world g) = (Inr a, press_world g) \<and>
    gotProfile_profile a = Some p \<and> spr_id p = ''s1'' \<and> spr_version p = 1 \<and> plain_profile p"
proof -
  have row: "own_subscription ''u1'' ''s1'' (w_db (press_world g)) = Some press_row"
    by (simp add: own_subscription_def press_world_def press_row_def new_subscription_row_def)
  obtain p where p: "profile_dto_of press True press_row (press_world g) = (Inr p, press_world g)" "pd_id p = ''s1''" "pd_version p = 1"
      "pd_draft p = Some sample_draft"
    using press_describes [OF press_snapshot, of press_row g] by (auto simp: press_row_def new_subscription_row_def)
  have "plain_profile (profile_message p)"
    by (simp add: plain_profile_def profile_message_fields p sample_draft_def plain_binding_def plain_binding_texts_def plain_value_def
        trim_def is_space_def)
  with p row show ?thesis
    by (simp add: rpc_getSubscriptionProfile_def getSubscriptionProfile_def panelCall_def requirePrincipal_def assms profile_get_def
        subscription_row_of_def bind_def profile_message_fields)
qed

lemma press_previews:
  assumes "du_id (pr_user pr) = ''u1''" and "spr_id (ev_profile e) = ''s1''"
  shows "\<exists>pv v. rpc_previewSubscriptionProfile press (Some pr) (preview_request e 1) (press_world g) = (Inr pv, v)"
proof -
  obtain r where r: "renderSubscription press (draft_json sample_draft) sample_snapshot w = (Inr r, w)" for w :: world
    using sample_renders [OF press_parses(1)] pure_agrees [OF pure_render] by metis
  have row: "own_subscription ''u1'' ''s1'' (w_db (press_world g)) = Some press_row" "sb_version press_row = 1"
    "sb_draftCiphertext press_row = sample_sealed 0 ''draft''"
    by (simp_all add: own_subscription_def press_world_def press_row_def new_subscription_row_def)
  have json: "read_json press (sample_sealed 0 ''draft'') w = (Inr (draft_json sample_draft), w)" for w :: world
    by (simp add: read_json_def press_decrypts press_parses bind_run)
  have parse: "parse_draft (draft_json sample_draft) w = (Inr sample_draft, w)" for w :: world
    by (rule sample_parses [OF press_parses(1)]) (simp add: sample_template_def sample_groups_def enter_value_def)
  have "w_draws (press_world g) = 0" by (simp add: press_world_def empty_world_def)
  then have i: "newId press (press_world g) = (Inr ''id0'', (press_world g)\<lparr>w_draws := 1\<rparr>)"
    by (simp add: newId_run) (simp add: press_def sample_def sample_uuid_def, code_simp)
  have "subscriptionPreviews (w_db (press_world g)) = [\<lparr>sp_id = ''p1'', sp_subscriptionId = ''s1'', sp_version = 1,
       sp_digest = g, sp_expiresAt = 1704100001000, sp_published = False\<rparr>]" by (simp add: press_world_def)
  then have "\<exists>pp v. profile_preview press ''u1'' ''s1'' 1 (press_world g) = (Inr pp, v)"
    by (simp add: profile_preview_def bind_def subscription_row_of_def row checkVersion_def json parse press_snapshot r i Let_def
        transaction_def insert_profile_preview_def has_row_code delete_where_def)
  then show ?thesis
    by (auto simp: rpc_previewSubscriptionProfile_def for_caller_def panelCall_def requirePrincipal_def assms bind_def preview_request_def)
qed

definition press_reader :: principal where
  "press_reader = \<lparr>pr_user = userDto sample_subscriber, pr_authentication = BySession, pr_sessionHash = Some ''token'',
     pr_recentAuthentication = True\<rparr>"


end
