(* ===== verification/Spec2Isabelle.thy ===== *)
theory Spec2Isabelle
  imports Machine_Props Policy_Props Metering_Props Hub_Props Usage_Props Identity_Props Panel_Services Panel_Machines Machine_Service Account_Services
    Render_Props Effect_Props Gate_Props Query_Props Subscription_Props Client_Usage_Props Client_Editor_Props
begin

text \<open>
  The panel of the proxy manager.
\<close>

end
